(* ===== verification/Ena_Prelude.thy ===== *)
theory Ena_Prelude
  imports Main "HOL-Library.Word"
begin

text \<open>
  Shared groundwork of the development: the machine types, results that carry the abort of the
  device process, the byte-level layout of little-endian structures, and the generic facts on
  words, lists and power-of-two rings that the component theories use.
\<close>

unbundle bit_operations_syntax

named_theorems ena_codec \<open>structure encoders and decoders, unfolded to their fields\<close>
named_theorems ena_const \<open>constants of the ABI headers\<close>
named_theorems norm_simps \<open>operations that leave the configuration part of the device state alone\<close>

section \<open>Machine types\<close>

type_synonym u8 = "8 word"
type_synonym u16 = "16 word"
type_synonym u32 = "32 word"
type_synonym u64 = "64 word"
type_synonym byte = "8 word"

section \<open>Results\<close>

text \<open>Sequencing of computations of type \<open>'e + 'a\<close>: the first \<open>Inl\<close> ends the run.\<close>

definition bindR :: "'e + 'a \<Rightarrow> ('a \<Rightarrow> 'e + 'b) \<Rightarrow> 'e + 'b" where
  "bindR m f = (case m of Inl e \<Rightarrow> Inl e | Inr x \<Rightarrow> f x)"

lemma bindR_simps [simp]:
  "bindR (Inl e) f = Inl e"
  "bindR (Inr x) f = f x"
  by (simp_all add: bindR_def)

lemma bindR_eq_Inr: "bindR m f = Inr y \<longleftrightarrow> (\<exists>x. m = Inr x \<and> f x = Inr y)"
  by (cases m) auto

lemma bindR_eq_Inl: "bindR m f = Inl e \<longleftrightarrow> m = Inl e \<or> (\<exists>x. m = Inr x \<and> f x = Inl e)"
  by (cases m) auto

lemma bindR_assoc: "bindR (bindR m f) g = bindR m (\<lambda>x. bindR (f x) g)"
  by (cases m) auto

lemma bindR_cong [fundef_cong]:
  "m = m' \<Longrightarrow> (\<And>x. m' = Inr x \<Longrightarrow> f x = g x) \<Longrightarrow> bindR m f = bindR m' g"
  by (cases m') auto

section \<open>Little-endian integers in byte lists\<close>

definition le16 :: "u16 \<Rightarrow> byte list" where
  "le16 v = [ucast v, ucast (drop_bit 8 v)]"

definition le32 :: "u32 \<Rightarrow> byte list" where
  "le32 v = [ucast v, ucast (drop_bit 8 v), ucast (drop_bit 16 v), ucast (drop_bit 24 v)]"

definition be16 :: "u16 \<Rightarrow> byte list" where
  "be16 v = rev (le16 v)"

definition be32 :: "u32 \<Rightarrow> byte list" where
  "be32 v = rev (le32 v)"

definition get8 :: "byte list \<Rightarrow> u8" where
  "get8 bs = bs ! 0"

definition get_le16 :: "byte list \<Rightarrow> u16" where
  "get_le16 bs = ucast (bs ! 0) OR push_bit 8 (ucast (bs ! 1))"

definition get_le32 :: "byte list \<Rightarrow> u32" where
  "get_le32 bs = ucast (bs ! 0) OR push_bit 8 (ucast (bs ! 1)) OR
     push_bit 16 (ucast (bs ! 2)) OR push_bit 24 (ucast (bs ! 3))"

lemma length_le [simp]:
  "length (le16 v) = 2" "length (le32 w) = 4" "length (be16 v) = 2" "length (be32 w) = 4"
  by (simp_all add: le16_def le32_def be16_def be32_def)

lemma get8_Cons [simp]: "get8 (b # r) = b"
  by (simp add: get8_def)

lemma split16: "ucast (ucast v :: 8 word) OR push_bit 8 (ucast (ucast (drop_bit 8 v) :: 8 word)) = (v :: u16)"
  by (rule bit_word_eqI) (auto simp: bit_simps)

lemma split32:
  "ucast (ucast v :: 8 word) OR push_bit 8 (ucast (ucast (drop_bit 8 v) :: 8 word)) OR
   push_bit 16 (ucast (ucast (drop_bit 16 v) :: 8 word)) OR
   push_bit 24 (ucast (ucast (drop_bit 24 v) :: 8 word)) = (v :: u32)"
proof (rule bit_word_eqI)
  fix n assume "n < LENGTH(32)"
  then consider "n < 8" | "8 \<le> n \<and> n < 16" | "16 \<le> n \<and> n < 24" | "24 \<le> n \<and> n < 32"
    by force
  then show "bit ((ucast (ucast v :: 8 word) :: u32) OR push_bit 8 (ucast (ucast (drop_bit 8 v) :: 8 word)) OR
      push_bit 16 (ucast (ucast (drop_bit 16 v) :: 8 word)) OR
      push_bit 24 (ucast (ucast (drop_bit 24 v) :: 8 word))) n = bit v n"
    by cases (auto simp: bit_simps)
qed

lemma get_le16_Cons [simp]: "get_le16 (ucast v # ucast (drop_bit 8 v) # r) = v"
  by (simp add: get_le16_def split16)

lemma get_le32_Cons [simp]:
  "get_le32 (ucast v # ucast (drop_bit 8 v) # ucast (drop_bit 16 v) # ucast (drop_bit 24 v) # r) = v"
  by (simp add: get_le32_def split32 numeral_2_eq_2 numeral_3_eq_3)

lemma get_le16_append [simp]: "get_le16 (le16 v @ r) = v"
  by (simp add: le16_def)

lemma get_le32_append [simp]: "get_le32 (le32 v @ r) = v"
  by (simp add: le32_def)

section \<open>Structures in byte buffers\<close>

text \<open>A store into a C buffer at a byte offset; the buffer keeps its size when the bytes fit.\<close>

definition put_bytes :: "nat \<Rightarrow> byte list \<Rightarrow> byte list \<Rightarrow> byte list" where
  "put_bytes off xs bs = take off bs @ xs @ drop (off + length xs) bs"

lemma length_put_bytes [simp]:
  "off + length xs \<le> length bs \<Longrightarrow> length (put_bytes off xs bs) = length bs"
  by (simp add: put_bytes_def)

lemma drop_put_bytes [simp]:
  "off \<le> length bs \<Longrightarrow> drop off (put_bytes off xs bs) = xs @ drop (off + length xs) bs"
  by (simp add: put_bytes_def)

lemma take_put_bytes [simp]: "n \<le> off \<Longrightarrow> n \<le> length bs \<Longrightarrow> take n (put_bytes off xs bs) = take n bs"
  by (simp add: put_bytes_def min_def)

lemma drop_put_bytes_beyond:
  "off \<le> length bs \<Longrightarrow> off + length xs \<le> n \<Longrightarrow> drop n (put_bytes off xs bs) = drop n bs"
  by (simp add: put_bytes_def)

text \<open>
  The contract of a structure layout: values in \<open>wf\<close> are written as exactly \<open>size\<close> bytes and
  read back unchanged, whatever follows them in the buffer.
\<close>

locale struct_layout =
  fixes enc :: "'a \<Rightarrow> byte list"
    and dec :: "byte list \<Rightarrow> 'a"
    and size :: nat
    and wf :: "'a \<Rightarrow> bool"
  assumes enc_size: "wf x \<Longrightarrow> length (enc x) = size"
    and dec_enc: "wf x \<Longrightarrow> dec (enc x @ r) = x"
begin

lemma load_store:
  assumes "wf x" and "off + size \<le> length bs"
  shows "dec (drop off (put_bytes off (enc x) bs)) = x"
  using assms by (simp add: dec_enc)

lemma load_buffer: "wf x \<Longrightarrow> dec (enc x) = x"
  using dec_enc [of x "[]"] by simp

lemma enc_inj: "wf x \<Longrightarrow> wf y \<Longrightarrow> enc x = enc y \<Longrightarrow> x = y"
  by (metis load_buffer)

lemma store_keeps_size:
  "wf x \<Longrightarrow> off + size \<le> length bs \<Longrightarrow> length (put_bytes off (enc x) bs) = length bs"
  by (simp add: enc_size)

end

text \<open>Arrays of little-endian integers, read back element by element.\<close>

definition get_arr32 :: "nat \<Rightarrow> byte list \<Rightarrow> u32 list" where
  "get_arr32 n bs = map (\<lambda>i. get_le32 (drop (4 * i) bs)) [0..<n]"

lemma get_arr32_enc: "get_arr32 (length ks) (concat (map le32 ks) @ r) = ks"
proof (induction ks arbitrary: r)
  case Nil
  then show ?case by (simp add: get_arr32_def)
next
  case (Cons k ks)
  have "get_arr32 (length (k # ks)) (concat (map le32 (k # ks)) @ r) =
      k # map (\<lambda>i. get_le32 (drop (4 * Suc i) (le32 k @ concat (map le32 ks) @ r))) [0..<length ks]"
    by (simp add: get_arr32_def upt_conv_Cons map_Suc_upt [symmetric] o_def del: upt_Suc)
  also have "\<dots> = k # get_arr32 (length ks) (concat (map le32 ks) @ r)"
    by (simp add: get_arr32_def)
  finally show ?case using Cons.IH by simp
qed

lemma get_arr32_enc_eq: "length ks = n \<Longrightarrow> get_arr32 n (concat (map le32 ks) @ r) = ks"
  using get_arr32_enc [of ks r] by simp

lemma length_get_arr32 [simp]: "length (get_arr32 n bs) = n"
  by (simp add: get_arr32_def)

lemma length_concat_le32 [simp]: "length (concat (map le32 ks)) = 4 * length ks"
  by (induction ks) auto

text \<open>Arrays of 4-byte entries that hold a 16-bit value and 16 reserved bits.\<close>

definition pair16 :: "u16 \<Rightarrow> byte list" where
  "pair16 v = le16 v @ le16 0"

definition get_arr_pair16 :: "nat \<Rightarrow> byte list \<Rightarrow> u16 list" where
  "get_arr_pair16 n bs = map (\<lambda>i. get_le16 (drop (4 * i) bs)) [0..<n]"

lemma length_pair16 [simp]: "length (pair16 v) = 4"
  by (simp add: pair16_def)

lemma get_arr_pair16_enc: "length vs = n \<Longrightarrow> get_arr_pair16 n (concat (map pair16 vs) @ r) = vs"
proof (induction vs arbitrary: n r)
  case Nil
  then show ?case by (simp add: get_arr_pair16_def)
next
  case (Cons v vs)
  have "get_arr_pair16 (Suc (length vs)) (pair16 v @ concat (map pair16 vs) @ r) =
      v # map (\<lambda>i. get_le16 (drop (4 * Suc i) (pair16 v @ concat (map pair16 vs) @ r))) [0..<length vs]"
    by (simp add: get_arr_pair16_def upt_conv_Cons map_Suc_upt [symmetric] o_def pair16_def del: upt_Suc)
  also have "\<dots> = v # get_arr_pair16 (length vs) (concat (map pair16 vs) @ r)"
    by (simp add: get_arr_pair16_def)
  finally show ?case using Cons by auto
qed

lemma length_get_arr_pair16 [simp]: "length (get_arr_pair16 n bs) = n"
  by (simp add: get_arr_pair16_def)

lemma length_concat_pair16 [simp]: "length (concat (map pair16 vs)) = 4 * length vs"
  by (induction vs) auto

section \<open>Lists as arrays\<close>

lemma map_update_same: "f x = f (xs ! i) \<Longrightarrow> map f (xs[i := x]) = map f xs"
  by (cases "i < length xs") (simp_all add: map_update list_update_same_conv list_update_beyond)

lemma map_eq_nth: "map f xs = map f ys \<Longrightarrow> i < length xs \<Longrightarrow> f (xs ! i) = f (ys ! i)"
  by (metis length_map nth_map)

lemma all_update:
  "(\<And>j. j < length xs \<Longrightarrow> P (xs ! j)) \<Longrightarrow> P x \<Longrightarrow> j < length (xs[i := x]) \<Longrightarrow> P (xs[i := x] ! j)"
  by (cases "i = j") auto

section \<open>Power-of-two rings with a phase bit\<close>

lemma unat_and_pow2_mask:
  fixes w :: "'a::len word"
  assumes "k \<le> LENGTH('a)"
  shows "unat (w AND (2 ^ k - 1)) = unat w mod 2 ^ k"
proof -
  have "w AND (2 ^ k - 1) = take_bit k w"
    by (simp add: take_bit_eq_mask mask_eq_exp_minus_1)
  then have "unat (w AND (2 ^ k - 1)) = take_bit k (unat w)"
    using assms by (simp only: unsigned_take_bit_eq)
  then show ?thesis
    by (simp only: take_bit_eq_mod)
qed

lemma unat_pow2:
  assumes "k < LENGTH('a)"
  shows "unat (2 ^ k :: 'a::len word) = 2 ^ k"
proof -
  have "unat (of_nat (2 ^ k) :: 'a word) = 2 ^ k"
    using assms by (subst unat_of_nat) (simp add: power_strict_increasing)
  then show ?thesis by simp
qed

lemma unat_of_nat_small: "n < 2 ^ LENGTH('a) \<Longrightarrow> unat (of_nat n :: 'a::len word) = n"
  by (simp add: unat_of_nat)

lemma of_nat_inj_small:
  "m < 2 ^ LENGTH('a) \<Longrightarrow> n < 2 ^ LENGTH('a) \<Longrightarrow> (of_nat m :: 'a::len word) = of_nat n \<Longrightarrow> m = n"
  by (metis unat_of_nat_small)

lemma mod_pow2_of_nat16: "k \<le> 16 \<Longrightarrow> unat (of_nat n :: u16) mod 2 ^ k = n mod 2 ^ k"
proof -
  assume "k \<le> 16"
  then have "(2 :: nat) ^ k dvd 2 ^ 16" by (rule le_imp_power_dvd)
  then have "n mod 2 ^ 16 mod 2 ^ k = n mod 2 ^ k" by (rule mod_mod_cancel)
  then show ?thesis by (simp add: unat_of_nat)
qed

lemma div_Suc_ring:
  "0 < d \<Longrightarrow> Suc n div d = (if Suc n mod d = 0 then Suc (n div d) else n div d)"
  by (simp add: div_Suc)

text \<open>The entries still in the ring after \<open>n\<close> pushes are the last \<open>d\<close> ones.\<close>

lemma ring_slot_unique:
  assumes "m < m'" and "m' < m + d"
  shows "m' mod d \<noteq> m mod (d :: nat)"
proof
  assume "m' mod d = m mod d"
  then have "d dvd m' - m"
    using assms(1) mod_eq_dvd_iff_nat [of m m' d] by (simp add: eq_commute)
  with assms show False
    by (auto dest: dvd_imp_le)
qed

text \<open>
  The contract of a ring that publishes its entries with a phase bit: a 16-bit producer index that
  wraps, a power-of-two depth, and a phase that flips whenever the slot index returns to 0. The
  abstract ring is the number \<open>n\<close> of entries ever pushed.
\<close>

locale phase_ring =
  fixes tail :: "'q \<Rightarrow> u16"
    and phase :: "'q \<Rightarrow> bool"
    and depth :: "'q \<Rightarrow> nat"
    and slot :: "'q \<Rightarrow> nat"
    and push :: "'q \<Rightarrow> 'q"
    and inv :: "'q \<Rightarrow> bool"
  assumes depth_pow2: "inv q \<Longrightarrow> \<exists>k \<le> 15. depth q = 2 ^ k"
    and slot_eq: "inv q \<Longrightarrow> slot q = unat (tail q) mod depth q"
    and tail_push: "inv q \<Longrightarrow> tail (push q) = tail q + 1"
    and phase_push: "inv q \<Longrightarrow>
          phase (push q) = (if unat (tail q + 1) mod depth q = 0 then \<not> phase q else phase q)"
    and depth_push: "inv q \<Longrightarrow> depth (push q) = depth q"
    and inv_push: "inv q \<Longrightarrow> inv (push q)"
begin

definition counts :: "nat \<Rightarrow> 'q \<Rightarrow> bool" where
  "counts n q \<longleftrightarrow> inv q \<and> tail q = of_nat n \<and> phase q = even (n div depth q)"

lemma depth_pos: "inv q \<Longrightarrow> 0 < depth q"
  using depth_pow2 by force

lemma tail_mod_depth: "counts n q \<Longrightarrow> unat (tail q) mod depth q = n mod depth q"
  using depth_pow2 [of q] by (auto simp: counts_def mod_pow2_of_nat16)

lemma counts_slot: "counts n q \<Longrightarrow> slot q = n mod depth q"
  using tail_mod_depth [of n q] by (simp add: counts_def slot_eq)

lemma counts_push:
  assumes "counts n q"
  shows "counts (Suc n) (push q)"
proof -
  from assms have inv: "inv q" and t: "tail q = of_nat n" and p: "phase q = even (n div depth q)"
    by (auto simp: counts_def)
  obtain k where k: "k \<le> 15" "depth q = 2 ^ k"
    using depth_pow2 [OF inv] by blast
  have "unat (tail q + 1) mod depth q = Suc n mod depth q"
    using k mod_pow2_of_nat16 [of k "Suc n"] by (simp add: t add.commute)
  then have "phase (push q) = even (Suc n div depth q)"
    using phase_push [OF inv] p div_Suc_ring [OF depth_pos [OF inv], of n] by simp
  then show ?thesis
    by (simp add: counts_def inv_push inv t tail_push depth_push)
qed

lemma counts_pushes: "counts n q \<Longrightarrow> counts (n + j) ((push ^^ j) q)"
  by (induction j) (auto intro: counts_push)

text \<open>The 16-bit index forgets whole turns of 65536 entries, and the phase with it.\<close>

lemma counts_wrap:
  assumes "counts n q"
  shows "counts (n mod 2 ^ 16) q"
proof -
  obtain k where k: "k \<le> 15" "depth q = 2 ^ k"
    using assms depth_pow2 by (auto simp: counts_def)
  have "bit (take_bit 16 n) k = bit n k"
    using k(1) by (simp add: bit_simps)
  then have "even (n mod 2 ^ 16 div 2 ^ k) = even (n div 2 ^ k)"
    by (simp only: bit_iff_odd take_bit_eq_mod) blast
  moreover have "(of_nat (n mod 2 ^ 16) :: u16) = of_nat n"
    by (simp only: word_unat_eq_iff unat_of_nat len_num1) simp
  ultimately show ?thesis using assms k(2) by (simp add: counts_def)
qed

lemma counts_tail: "counts n q \<Longrightarrow> counts (unat (tail q)) q"
  using counts_wrap [of n q] by (simp add: counts_def unat_of_nat)

lemma depth_pushes: "counts n q \<Longrightarrow> depth ((push ^^ j) q) = depth q"
proof (induction j)
  case (Suc j)
  then show ?case
    using counts_pushes [of n q j] by (simp add: counts_def depth_push)
qed simp

text \<open>
  What the consumer relies on: the \<open>j\<close>-th entry pushed from here on lands in slot
  \<open>(n + j) mod depth\<close> with the phase of its lap, so two entries that share a slot and are one lap
  apart carry opposite phases.
\<close>

lemma phase_of_lap: "counts n q \<Longrightarrow> phase q = even (n div depth q)"
  by (simp add: counts_def)

lemma lap_flips_phase:
  assumes "counts n q" and "counts m q'" and "depth q' = depth q" and "m = n + depth q"
  shows "slot q' = slot q \<and> phase q' = (\<not> phase q)"
proof -
  have "0 < depth q" using assms(1) by (simp add: counts_def depth_pos)
  then have "(n + depth q) div depth q = Suc (n div depth q)"
    by (simp add: div_add_self2)
  then show ?thesis
    using assms by (simp add: counts_slot phase_of_lap)
qed

end

end
