(* ===== verification/Ena_Bits.thy ===== *)
theory Ena_Bits
  imports Ena_Prelude
begin

text \<open>
  The bit-field macros of \<open>src/hw/ena_defs/ena_defs.h\<close> and the contract of the accessor pairs
  that the ABI headers define for every bit field: a getter masks and shifts, a setter ORs the
  shifted value in and never clears what was there.
\<close>

section \<open>Masks\<close>

definition BIT :: "nat \<Rightarrow> 'a::len word" where
  "BIT n = push_bit n 1"

text \<open>\<open>MAKE_64BIT_MASK(l, h - l + 1)\<close>, cut to the width of the field it is applied to.\<close>

definition GENMASK :: "nat \<Rightarrow> nat \<Rightarrow> 'a::len word" where
  "GENMASK h l = push_bit l (mask (h - l + 1))"

lemma bit_BIT [simp]: "bit (BIT n :: 'a::len word) m \<longleftrightarrow> m = n \<and> n < LENGTH('a)"
  by (auto simp: BIT_def bit_simps)

lemma bit_GENMASK:
  "l \<le> h \<Longrightarrow> bit (GENMASK h l :: 'a::len word) m \<longleftrightarrow> l \<le> m \<and> m \<le> h \<and> m < LENGTH('a)"
  by (auto simp: GENMASK_def bit_simps)

lemma BIT_eq_GENMASK: "BIT n = GENMASK n n"
  by (simp add: BIT_def GENMASK_def mask_Suc_0)

lemma and_BIT_eq_0: "x AND BIT n = 0 \<longleftrightarrow> \<not> bit (x :: 'a::len word) n"
proof
  assume "x AND BIT n = 0"
  then have "\<not> bit (x AND BIT n) n" by simp
  then show "\<not> bit x n" by (auto simp: bit_simps dest: bit_imp_le_length)
next
  assume "\<not> bit x n"
  then show "x AND BIT n = 0" by (intro bit_word_eqI) (auto simp: bit_simps)
qed

text \<open>A masked and shifted field is a cut of the shifted word.\<close>

lemma field_cut:
  "l \<le> h \<Longrightarrow> drop_bit l ((x :: 'a::len word) AND GENMASK h l) = take_bit (Suc h - l) (drop_bit l x)"
  by (rule bit_word_eqI) (auto simp: bit_simps bit_GENMASK dest: bit_imp_le_length)

section \<open>Accessor pairs\<close>

locale bitfield =
  fixes get :: "'s \<Rightarrow> 'a::len word"
    and set :: "'s \<Rightarrow> 'a word \<Rightarrow> 's"
    and holder :: "'s \<Rightarrow> 'a word"
    and h l :: nat
  assumes range: "l \<le> h" "h < LENGTH('a)"
    and get_eq: "get p = drop_bit l (holder p AND GENMASK h l)"
    and set_eq: "holder (set p v) = holder p OR (push_bit l v AND GENMASK h l)"
begin

lemma get_cut: "get p = take_bit (Suc h - l) (drop_bit l (holder p))"
  by (simp only: get_eq field_cut range)

lemma get_set: "get (set p v) = get p OR take_bit (Suc h - l) v"
  using range by (intro bit_word_eqI) (auto simp: get_cut set_eq bit_simps bit_GENMASK)

lemma get_set_clear: "get p = 0 \<Longrightarrow> get (set p v) = take_bit (Suc h - l) v"
  by (simp add: get_set)

lemma get_set_fits: "get p = 0 \<Longrightarrow> unat v < 2 ^ (Suc h - l) \<Longrightarrow> get (set p v) = v"
proof -
  assume "get p = 0" and "unat v < 2 ^ (Suc h - l)"
  then have "take_bit (Suc h - l) (unat v) = unat v"
    by (simp add: take_bit_nat_eq_self)
  then have "take_bit (Suc h - l) v = v"
    by (simp add: word_unat_eq_iff unsigned_take_bit_eq)
  with \<open>get p = 0\<close> show ?thesis by (simp add: get_set)
qed

lemma get_bound: "unat (get p) < 2 ^ (Suc h - l)"
  by (simp add: get_cut unsigned_take_bit_eq)

lemma bit_holder_set:
  "bit (holder (set p v)) n \<longleftrightarrow> bit (holder p) n \<or> l \<le> n \<and> n \<le> h \<and> bit v (n - l)"
  using range by (auto simp: set_eq bit_simps bit_GENMASK dest: bit_imp_le_length)

end

text \<open>Two fields of the same word that do not overlap do not disturb each other.\<close>

locale disjoint_bitfields =
  f: bitfield get1 set1 holder h1 l1 + g: bitfield get2 set2 holder h2 l2
  for get1 set1 holder h1 l1 get2 set2 h2 l2 +
  assumes apart: "h1 < l2 \<or> h2 < l1"
begin

lemma get2_set1: "get2 (set1 p v) = get2 p"
  using apart f.range g.range
  by (intro bit_word_eqI) (auto simp: g.get_cut f.set_eq bit_simps bit_GENMASK)

lemma get1_set2: "get1 (set2 p v) = get1 p"
  using apart f.range g.range
  by (intro bit_word_eqI) (auto simp: f.get_cut g.set_eq bit_simps bit_GENMASK)

end

end
