(* ===== verification/Ena_Admin_Defs.thy ===== *)
theory Ena_Admin_Defs
  imports Ena_Bits
begin

text \<open>
  The admin ABI of \<open>src/hw/ena_defs/ena_admin_defs.h\<close> and \<open>ena_common_defs.h\<close>: command, response
  and event structures as records with their byte layout, the enumerators the device compares
  against, the bit-field masks and the accessor pairs. Structures of features the device does not
  implement are in \<open>Ena_Abi_Ext\<close>.
\<close>

section \<open>Enumerators\<close>

definition ENA_ADMIN_CREATE_SQ :: u8 where [ena_const]: "ENA_ADMIN_CREATE_SQ = 1"
definition ENA_ADMIN_DESTROY_SQ :: u8 where [ena_const]: "ENA_ADMIN_DESTROY_SQ = 2"
definition ENA_ADMIN_CREATE_CQ :: u8 where [ena_const]: "ENA_ADMIN_CREATE_CQ = 3"
definition ENA_ADMIN_DESTROY_CQ :: u8 where [ena_const]: "ENA_ADMIN_DESTROY_CQ = 4"
definition ENA_ADMIN_GET_FEATURE :: u8 where [ena_const]: "ENA_ADMIN_GET_FEATURE = 8"
definition ENA_ADMIN_SET_FEATURE :: u8 where [ena_const]: "ENA_ADMIN_SET_FEATURE = 9"
definition ENA_ADMIN_GET_STATS :: u8 where [ena_const]: "ENA_ADMIN_GET_STATS = 11"

definition ENA_ADMIN_DEVICE_ATTRIBUTES :: u8 where [ena_const]: "ENA_ADMIN_DEVICE_ATTRIBUTES = 1"
definition ENA_ADMIN_MAX_QUEUES_NUM :: u8 where [ena_const]: "ENA_ADMIN_MAX_QUEUES_NUM = 2"
definition ENA_ADMIN_HW_HINTS :: u8 where [ena_const]: "ENA_ADMIN_HW_HINTS = 3"
definition ENA_ADMIN_LLQ :: u8 where [ena_const]: "ENA_ADMIN_LLQ = 4"
definition ENA_ADMIN_EXTRA_PROPERTIES_STRINGS :: u8 where [ena_const]: "ENA_ADMIN_EXTRA_PROPERTIES_STRINGS = 5"
definition ENA_ADMIN_EXTRA_PROPERTIES_FLAGS :: u8 where [ena_const]: "ENA_ADMIN_EXTRA_PROPERTIES_FLAGS = 6"
definition ENA_ADMIN_MAX_QUEUES_EXT :: u8 where [ena_const]: "ENA_ADMIN_MAX_QUEUES_EXT = 7"
definition ENA_ADMIN_FRAG_BYPASS :: u8 where [ena_const]: "ENA_ADMIN_FRAG_BYPASS = 8"
definition ENA_ADMIN_RSS_HASH_FUNCTION :: u8 where [ena_const]: "ENA_ADMIN_RSS_HASH_FUNCTION = 10"
definition ENA_ADMIN_STATELESS_OFFLOAD_CONFIG :: u8 where [ena_const]: "ENA_ADMIN_STATELESS_OFFLOAD_CONFIG = 11"
definition ENA_ADMIN_RSS_INDIRECTION_TABLE_CONFIG :: u8 where [ena_const]: "ENA_ADMIN_RSS_INDIRECTION_TABLE_CONFIG = 12"
definition ENA_ADMIN_MTU :: u8 where [ena_const]: "ENA_ADMIN_MTU = 14"
definition ENA_ADMIN_RSS_HASH_INPUT :: u8 where [ena_const]: "ENA_ADMIN_RSS_HASH_INPUT = 18"
definition ENA_ADMIN_INTERRUPT_MODERATION :: u8 where [ena_const]: "ENA_ADMIN_INTERRUPT_MODERATION = 20"
definition ENA_ADMIN_AENQ_CONFIG :: u8 where [ena_const]: "ENA_ADMIN_AENQ_CONFIG = 26"
definition ENA_ADMIN_LINK_CONFIG :: u8 where [ena_const]: "ENA_ADMIN_LINK_CONFIG = 27"
definition ENA_ADMIN_HOST_ATTR_CONFIG :: u8 where [ena_const]: "ENA_ADMIN_HOST_ATTR_CONFIG = 28"
definition ENA_ADMIN_PHC_CONFIG :: u8 where [ena_const]: "ENA_ADMIN_PHC_CONFIG = 29"
definition ENA_ADMIN_HW_TIMESTAMP :: u8 where [ena_const]: "ENA_ADMIN_HW_TIMESTAMP = 31"
definition ENA_ADMIN_FEATURES_OPCODE_NUM :: u8 where [ena_const]: "ENA_ADMIN_FEATURES_OPCODE_NUM = 32"

definition ENA_ADMIN_LLQ_FEATURE_VERSION_0_LEGACY :: u8 where [ena_const]: "ENA_ADMIN_LLQ_FEATURE_VERSION_0_LEGACY = 0"
definition ENA_ADMIN_LLQ_FEATURE_VERSION_1 :: u8 where [ena_const]: "ENA_ADMIN_LLQ_FEATURE_VERSION_1 = 1"

definition ENA_ADMIN_PLACEMENT_POLICY_HOST :: u8 where [ena_const]: "ENA_ADMIN_PLACEMENT_POLICY_HOST = 1"
definition ENA_ADMIN_PLACEMENT_POLICY_DEV :: u8 where [ena_const]: "ENA_ADMIN_PLACEMENT_POLICY_DEV = 3"

definition ENA_ADMIN_LINK_SPEED_1G :: u32 where [ena_const]: "ENA_ADMIN_LINK_SPEED_1G = 0x1"
definition ENA_ADMIN_LINK_SPEED_2_HALF_G :: u32 where [ena_const]: "ENA_ADMIN_LINK_SPEED_2_HALF_G = 0x2"
definition ENA_ADMIN_LINK_SPEED_5G :: u32 where [ena_const]: "ENA_ADMIN_LINK_SPEED_5G = 0x4"
definition ENA_ADMIN_LINK_SPEED_10G :: u32 where [ena_const]: "ENA_ADMIN_LINK_SPEED_10G = 0x8"
definition ENA_ADMIN_LINK_SPEED_25G :: u32 where [ena_const]: "ENA_ADMIN_LINK_SPEED_25G = 0x10"
definition ENA_ADMIN_LINK_SPEED_40G :: u32 where [ena_const]: "ENA_ADMIN_LINK_SPEED_40G = 0x20"
definition ENA_ADMIN_LINK_SPEED_50G :: u32 where [ena_const]: "ENA_ADMIN_LINK_SPEED_50G = 0x40"
definition ENA_ADMIN_LINK_SPEED_100G :: u32 where [ena_const]: "ENA_ADMIN_LINK_SPEED_100G = 0x80"
definition ENA_ADMIN_LINK_SPEED_200G :: u32 where [ena_const]: "ENA_ADMIN_LINK_SPEED_200G = 0x100"
definition ENA_ADMIN_LINK_SPEED_400G :: u32 where [ena_const]: "ENA_ADMIN_LINK_SPEED_400G = 0x200"

definition ENA_ADMIN_COMPLETION_POLICY_DESC :: u8 where [ena_const]: "ENA_ADMIN_COMPLETION_POLICY_DESC = 0"
definition ENA_ADMIN_COMPLETION_POLICY_DESC_ON_DEMAND :: u8 where [ena_const]: "ENA_ADMIN_COMPLETION_POLICY_DESC_ON_DEMAND = 1"
definition ENA_ADMIN_COMPLETION_POLICY_HEAD_ON_DEMAND :: u8 where [ena_const]: "ENA_ADMIN_COMPLETION_POLICY_HEAD_ON_DEMAND = 2"
definition ENA_ADMIN_COMPLETION_POLICY_HEAD :: u8 where [ena_const]: "ENA_ADMIN_COMPLETION_POLICY_HEAD = 3"

definition ENA_ADMIN_GET_STATS_TYPE_BASIC :: u8 where [ena_const]: "ENA_ADMIN_GET_STATS_TYPE_BASIC = 0"
definition ENA_ADMIN_GET_STATS_TYPE_EXTENDED :: u8 where [ena_const]: "ENA_ADMIN_GET_STATS_TYPE_EXTENDED = 1"
definition ENA_ADMIN_GET_STATS_TYPE_ENI :: u8 where [ena_const]: "ENA_ADMIN_GET_STATS_TYPE_ENI = 2"
definition ENA_ADMIN_GET_STATS_TYPE_ENA_SRD :: u8 where [ena_const]: "ENA_ADMIN_GET_STATS_TYPE_ENA_SRD = 3"
definition ENA_ADMIN_GET_STATS_TYPE_CUSTOMER_METRICS :: u8 where [ena_const]: "ENA_ADMIN_GET_STATS_TYPE_CUSTOMER_METRICS = 4"

definition ENA_ADMIN_SQ_DIRECTION_TX :: u8 where [ena_const]: "ENA_ADMIN_SQ_DIRECTION_TX = 1"
definition ENA_ADMIN_SQ_DIRECTION_RX :: u8 where [ena_const]: "ENA_ADMIN_SQ_DIRECTION_RX = 2"

definition ENA_ADMIN_INLINE_HEADER :: u16 where [ena_const]: "ENA_ADMIN_INLINE_HEADER = 1"
definition ENA_ADMIN_HEADER_RING :: u16 where [ena_const]: "ENA_ADMIN_HEADER_RING = 2"

definition ENA_ADMIN_LIST_ENTRY_SIZE_128B :: u16 where [ena_const]: "ENA_ADMIN_LIST_ENTRY_SIZE_128B = 1"
definition ENA_ADMIN_LIST_ENTRY_SIZE_192B :: u16 where [ena_const]: "ENA_ADMIN_LIST_ENTRY_SIZE_192B = 2"
definition ENA_ADMIN_LIST_ENTRY_SIZE_256B :: u16 where [ena_const]: "ENA_ADMIN_LIST_ENTRY_SIZE_256B = 4"

definition ENA_ADMIN_LLQ_NUM_DESCS_BEFORE_HEADER_0 :: u16 where [ena_const]: "ENA_ADMIN_LLQ_NUM_DESCS_BEFORE_HEADER_0 = 0"
definition ENA_ADMIN_LLQ_NUM_DESCS_BEFORE_HEADER_1 :: u16 where [ena_const]: "ENA_ADMIN_LLQ_NUM_DESCS_BEFORE_HEADER_1 = 1"
definition ENA_ADMIN_LLQ_NUM_DESCS_BEFORE_HEADER_2 :: u16 where [ena_const]: "ENA_ADMIN_LLQ_NUM_DESCS_BEFORE_HEADER_2 = 2"
definition ENA_ADMIN_LLQ_NUM_DESCS_BEFORE_HEADER_4 :: u16 where [ena_const]: "ENA_ADMIN_LLQ_NUM_DESCS_BEFORE_HEADER_4 = 4"
definition ENA_ADMIN_LLQ_NUM_DESCS_BEFORE_HEADER_8 :: u16 where [ena_const]: "ENA_ADMIN_LLQ_NUM_DESCS_BEFORE_HEADER_8 = 8"

definition ENA_ADMIN_SINGLE_DESC_PER_ENTRY :: u16 where [ena_const]: "ENA_ADMIN_SINGLE_DESC_PER_ENTRY = 1"
definition ENA_ADMIN_MULTIPLE_DESCS_PER_ENTRY :: u16 where [ena_const]: "ENA_ADMIN_MULTIPLE_DESCS_PER_ENTRY = 2"

definition ENA_ADMIN_DISABLE_META_CACHING :: nat where [ena_const]: "ENA_ADMIN_DISABLE_META_CACHING = 0"
definition ENA_ADMIN_LIMIT_TX_BURST :: nat where [ena_const]: "ENA_ADMIN_LIMIT_TX_BURST = 1"

definition ENA_ADMIN_TOEPLITZ :: nat where [ena_const]: "ENA_ADMIN_TOEPLITZ = 1"
definition ENA_ADMIN_CRC32 :: nat where [ena_const]: "ENA_ADMIN_CRC32 = 2"

definition ENA_ADMIN_RSS_TCP4 :: nat where [ena_const]: "ENA_ADMIN_RSS_TCP4 = 0"
definition ENA_ADMIN_RSS_UDP4 :: nat where [ena_const]: "ENA_ADMIN_RSS_UDP4 = 1"
definition ENA_ADMIN_RSS_TCP6 :: nat where [ena_const]: "ENA_ADMIN_RSS_TCP6 = 2"
definition ENA_ADMIN_RSS_UDP6 :: nat where [ena_const]: "ENA_ADMIN_RSS_UDP6 = 3"
definition ENA_ADMIN_RSS_IP4 :: nat where [ena_const]: "ENA_ADMIN_RSS_IP4 = 4"
definition ENA_ADMIN_RSS_IP6 :: nat where [ena_const]: "ENA_ADMIN_RSS_IP6 = 5"
definition ENA_ADMIN_RSS_IP4_FRAG :: nat where [ena_const]: "ENA_ADMIN_RSS_IP4_FRAG = 6"
definition ENA_ADMIN_RSS_NOT_IP :: nat where [ena_const]: "ENA_ADMIN_RSS_NOT_IP = 7"
definition ENA_ADMIN_RSS_TCP6_EX :: nat where [ena_const]: "ENA_ADMIN_RSS_TCP6_EX = 8"
definition ENA_ADMIN_RSS_IP6_EX :: nat where [ena_const]: "ENA_ADMIN_RSS_IP6_EX = 9"
definition ENA_ADMIN_RSS_PROTO_NUM :: nat where [ena_const]: "ENA_ADMIN_RSS_PROTO_NUM = 16"

definition ENA_ADMIN_RSS_L2_DA :: u16 where [ena_const]: "ENA_ADMIN_RSS_L2_DA = BIT 0"
definition ENA_ADMIN_RSS_L2_SA :: u16 where [ena_const]: "ENA_ADMIN_RSS_L2_SA = BIT 1"
definition ENA_ADMIN_RSS_L3_DA :: u16 where [ena_const]: "ENA_ADMIN_RSS_L3_DA = BIT 2"
definition ENA_ADMIN_RSS_L3_SA :: u16 where [ena_const]: "ENA_ADMIN_RSS_L3_SA = BIT 3"
definition ENA_ADMIN_RSS_L4_DP :: u16 where [ena_const]: "ENA_ADMIN_RSS_L4_DP = BIT 4"
definition ENA_ADMIN_RSS_L4_SP :: u16 where [ena_const]: "ENA_ADMIN_RSS_L4_SP = BIT 5"

definition ENA_ADMIN_LINK_CHANGE :: u16 where [ena_const]: "ENA_ADMIN_LINK_CHANGE = 0"
definition ENA_ADMIN_FATAL_ERROR :: u16 where [ena_const]: "ENA_ADMIN_FATAL_ERROR = 1"
definition ENA_ADMIN_WARNING :: u16 where [ena_const]: "ENA_ADMIN_WARNING = 2"
definition ENA_ADMIN_NOTIFICATION :: u16 where [ena_const]: "ENA_ADMIN_NOTIFICATION = 3"
definition ENA_ADMIN_KEEP_ALIVE :: u16 where [ena_const]: "ENA_ADMIN_KEEP_ALIVE = 4"
definition ENA_ADMIN_REFRESH_CAPABILITIES :: u16 where [ena_const]: "ENA_ADMIN_REFRESH_CAPABILITIES = 5"
definition ENA_ADMIN_CONF_NOTIFICATIONS :: u16 where [ena_const]: "ENA_ADMIN_CONF_NOTIFICATIONS = 6"
definition ENA_ADMIN_DEVICE_REQUEST_RESET :: u16 where [ena_const]: "ENA_ADMIN_DEVICE_REQUEST_RESET = 7"
definition ENA_ADMIN_AENQ_GROUPS_NUM :: u16 where [ena_const]: "ENA_ADMIN_AENQ_GROUPS_NUM = 8"

definition ENA_ADMIN_RSS_KEY_PARTS :: nat where [ena_const]: "ENA_ADMIN_RSS_KEY_PARTS = 10"

text \<open>The status of a completed command; handlers return it, the completion carries its code.\<close>

datatype ena_admin_aq_completion_status =
    ENA_ADMIN_SUCCESS
  | ENA_ADMIN_RESOURCE_ALLOCATION_FAILURE
  | ENA_ADMIN_BAD_OPCODE
  | ENA_ADMIN_UNSUPPORTED_OPCODE
  | ENA_ADMIN_MALFORMED_REQUEST
  | ENA_ADMIN_ILLEGAL_PARAMETER
  | ENA_ADMIN_UNKNOWN_ERROR
  | ENA_ADMIN_RESOURCE_BUSY

fun status_code :: "ena_admin_aq_completion_status \<Rightarrow> u8" where
  "status_code ENA_ADMIN_SUCCESS = 0"
| "status_code ENA_ADMIN_RESOURCE_ALLOCATION_FAILURE = 1"
| "status_code ENA_ADMIN_BAD_OPCODE = 2"
| "status_code ENA_ADMIN_UNSUPPORTED_OPCODE = 3"
| "status_code ENA_ADMIN_MALFORMED_REQUEST = 4"
| "status_code ENA_ADMIN_ILLEGAL_PARAMETER = 5"
| "status_code ENA_ADMIN_UNKNOWN_ERROR = 6"
| "status_code ENA_ADMIN_RESOURCE_BUSY = 7"

lemma status_code_inj: "status_code a = status_code b \<longleftrightarrow> a = b"
  by (cases a; cases b) simp_all

section \<open>Structure layouts\<close>

subsection \<open>Common parts\<close>

record ena_common_mem_addr =
  mem_addr_mem_addr_low :: u32
  mem_addr_mem_addr_high :: u16
  mem_addr_reserved16 :: u16

definition enc_ena_common_mem_addr :: "ena_common_mem_addr \<Rightarrow> byte list" where [ena_codec]:
  "enc_ena_common_mem_addr x =
     le32 (mem_addr_mem_addr_low x) @
     le16 (mem_addr_mem_addr_high x) @
     le16 (mem_addr_reserved16 x)"

definition dec_ena_common_mem_addr :: "byte list \<Rightarrow> ena_common_mem_addr" where [ena_codec]:
  "dec_ena_common_mem_addr bs = \<lparr>
     mem_addr_mem_addr_low = get_le32 (bs),
     mem_addr_mem_addr_high = get_le16 (drop 4 bs),
     mem_addr_reserved16 = get_le16 (drop 6 bs)\<rparr>"

interpretation mem_addr: struct_layout enc_ena_common_mem_addr dec_ena_common_mem_addr 8 "\<lambda>_. True"
  by unfold_locales (simp_all add: ena_codec le16_def le32_def)

record ena_admin_aq_common_desc =
  aq_common_desc_command_id :: u16
  aq_common_desc_opcode :: u8
  aq_common_desc_flags :: u8

definition enc_ena_admin_aq_common_desc :: "ena_admin_aq_common_desc \<Rightarrow> byte list" where [ena_codec]:
  "enc_ena_admin_aq_common_desc x =
     le16 (aq_common_desc_command_id x) @
     [aq_common_desc_opcode x] @
     [aq_common_desc_flags x]"

definition dec_ena_admin_aq_common_desc :: "byte list \<Rightarrow> ena_admin_aq_common_desc" where [ena_codec]:
  "dec_ena_admin_aq_common_desc bs = \<lparr>
     aq_common_desc_command_id = get_le16 (bs),
     aq_common_desc_opcode = get8 (drop 2 bs),
     aq_common_desc_flags = get8 (drop 3 bs)\<rparr>"

interpretation aq_common_desc: struct_layout enc_ena_admin_aq_common_desc dec_ena_admin_aq_common_desc 4 "\<lambda>_. True"
  by unfold_locales (simp_all add: ena_codec le16_def le32_def)

record ena_admin_ctrl_buff_info =
  ctrl_buff_info_length :: u32
  ctrl_buff_info_address :: ena_common_mem_addr

definition enc_ena_admin_ctrl_buff_info :: "ena_admin_ctrl_buff_info \<Rightarrow> byte list" where [ena_codec]:
  "enc_ena_admin_ctrl_buff_info x =
     le32 (ctrl_buff_info_length x) @
     enc_ena_common_mem_addr (ctrl_buff_info_address x)"

definition dec_ena_admin_ctrl_buff_info :: "byte list \<Rightarrow> ena_admin_ctrl_buff_info" where [ena_codec]:
  "dec_ena_admin_ctrl_buff_info bs = \<lparr>
     ctrl_buff_info_length = get_le32 (bs),
     ctrl_buff_info_address = dec_ena_common_mem_addr (drop 4 bs)\<rparr>"

interpretation ctrl_buff_info: struct_layout enc_ena_admin_ctrl_buff_info dec_ena_admin_ctrl_buff_info 12 "\<lambda>_. True"
  by unfold_locales (simp_all add: ena_codec le16_def le32_def)

record ena_admin_sq =
  admin_sq_sq_idx :: u16
  admin_sq_sq_identity :: u8
  admin_sq_reserved1 :: u8

definition enc_ena_admin_sq :: "ena_admin_sq \<Rightarrow> byte list" where [ena_codec]:
  "enc_ena_admin_sq x =
     le16 (admin_sq_sq_idx x) @
     [admin_sq_sq_identity x] @
     [admin_sq_reserved1 x]"

definition dec_ena_admin_sq :: "byte list \<Rightarrow> ena_admin_sq" where [ena_codec]:
  "dec_ena_admin_sq bs = \<lparr>
     admin_sq_sq_idx = get_le16 (bs),
     admin_sq_sq_identity = get8 (drop 2 bs),
     admin_sq_reserved1 = get8 (drop 3 bs)\<rparr>"

interpretation admin_sq: struct_layout enc_ena_admin_sq dec_ena_admin_sq 4 "\<lambda>_. True"
  by unfold_locales (simp_all add: ena_codec le16_def le32_def)

record ena_admin_acq_common_desc =
  acq_common_desc_command :: u16
  acq_common_desc_status :: u8
  acq_common_desc_flags :: u8
  acq_common_desc_extended_status :: u16
  acq_common_desc_sq_head_indx :: u16

definition enc_ena_admin_acq_common_desc :: "ena_admin_acq_common_desc \<Rightarrow> byte list" where [ena_codec]:
  "enc_ena_admin_acq_common_desc x =
     le16 (acq_common_desc_command x) @
     [acq_common_desc_status x] @
     [acq_common_desc_flags x] @
     le16 (acq_common_desc_extended_status x) @
     le16 (acq_common_desc_sq_head_indx x)"

definition dec_ena_admin_acq_common_desc :: "byte list \<Rightarrow> ena_admin_acq_common_desc" where [ena_codec]:
  "dec_ena_admin_acq_common_desc bs = \<lparr>
     acq_common_desc_command = get_le16 (bs),
     acq_common_desc_status = get8 (drop 2 bs),
     acq_common_desc_flags = get8 (drop 3 bs),
     acq_common_desc_extended_status = get_le16 (drop 4 bs),
     acq_common_desc_sq_head_indx = get_le16 (drop 6 bs)\<rparr>"

interpretation acq_common_desc: struct_layout enc_ena_admin_acq_common_desc dec_ena_admin_acq_common_desc 8 "\<lambda>_. True"
  by unfold_locales (simp_all add: ena_codec le16_def le32_def)

record ena_admin_get_set_feature_common_desc =
  feat_common_flags :: u8
  feat_common_feature_id :: u8
  feat_common_feature_version :: u8
  feat_common_reserved8 :: u8

definition enc_ena_admin_get_set_feature_common_desc :: "ena_admin_get_set_feature_common_desc \<Rightarrow> byte list" where [ena_codec]:
  "enc_ena_admin_get_set_feature_common_desc x =
     [feat_common_flags x] @
     [feat_common_feature_id x] @
     [feat_common_feature_version x] @
     [feat_common_reserved8 x]"

definition dec_ena_admin_get_set_feature_common_desc :: "byte list \<Rightarrow> ena_admin_get_set_feature_common_desc" where [ena_codec]:
  "dec_ena_admin_get_set_feature_common_desc bs = \<lparr>
     feat_common_flags = get8 (bs),
     feat_common_feature_id = get8 (drop 1 bs),
     feat_common_feature_version = get8 (drop 2 bs),
     feat_common_reserved8 = get8 (drop 3 bs)\<rparr>"

interpretation feat_common: struct_layout enc_ena_admin_get_set_feature_common_desc dec_ena_admin_get_set_feature_common_desc 4 "\<lambda>_. True"
  by unfold_locales (simp_all add: ena_codec le16_def le32_def)

subsection \<open>Queue commands and their responses\<close>

record ena_admin_aq_create_sq_cmd =
  create_sq_cmd_aq_common_descriptor :: ena_admin_aq_common_desc
  create_sq_cmd_sq_identity :: u8
  create_sq_cmd_reserved8_w1 :: u8
  create_sq_cmd_sq_caps_2 :: u8
  create_sq_cmd_sq_caps_3 :: u8
  create_sq_cmd_cq_idx :: u16
  create_sq_cmd_sq_depth :: u16
  create_sq_cmd_sq_ba :: ena_common_mem_addr
  create_sq_cmd_sq_head_writeback :: ena_common_mem_addr
  create_sq_cmd_reserved0_w7 :: u32
  create_sq_cmd_reserved0_w8 :: u32

definition enc_ena_admin_aq_create_sq_cmd :: "ena_admin_aq_create_sq_cmd \<Rightarrow> byte list" where [ena_codec]:
  "enc_ena_admin_aq_create_sq_cmd x =
     enc_ena_admin_aq_common_desc (create_sq_cmd_aq_common_descriptor x) @
     [create_sq_cmd_sq_identity x] @
     [create_sq_cmd_reserved8_w1 x] @
     [create_sq_cmd_sq_caps_2 x] @
     [create_sq_cmd_sq_caps_3 x] @
     le16 (create_sq_cmd_cq_idx x) @
     le16 (create_sq_cmd_sq_depth x) @
     enc_ena_common_mem_addr (create_sq_cmd_sq_ba x) @
     enc_ena_common_mem_addr (create_sq_cmd_sq_head_writeback x) @
     le32 (create_sq_cmd_reserved0_w7 x) @
     le32 (create_sq_cmd_reserved0_w8 x)"

definition dec_ena_admin_aq_create_sq_cmd :: "byte list \<Rightarrow> ena_admin_aq_create_sq_cmd" where [ena_codec]:
  "dec_ena_admin_aq_create_sq_cmd bs = \<lparr>
     create_sq_cmd_aq_common_descriptor = dec_ena_admin_aq_common_desc (bs),
     create_sq_cmd_sq_identity = get8 (drop 4 bs),
     create_sq_cmd_reserved8_w1 = get8 (drop 5 bs),
     create_sq_cmd_sq_caps_2 = get8 (drop 6 bs),
     create_sq_cmd_sq_caps_3 = get8 (drop 7 bs),
     create_sq_cmd_cq_idx = get_le16 (drop 8 bs),
     create_sq_cmd_sq_depth = get_le16 (drop 10 bs),
     create_sq_cmd_sq_ba = dec_ena_common_mem_addr (drop 12 bs),
     create_sq_cmd_sq_head_writeback = dec_ena_common_mem_addr (drop 20 bs),
     create_sq_cmd_reserved0_w7 = get_le32 (drop 28 bs),
     create_sq_cmd_reserved0_w8 = get_le32 (drop 32 bs)\<rparr>"

interpretation create_sq_cmd: struct_layout enc_ena_admin_aq_create_sq_cmd dec_ena_admin_aq_create_sq_cmd 36 "\<lambda>_. True"
  by unfold_locales (simp_all add: ena_codec le16_def le32_def)

record ena_admin_acq_create_sq_resp_desc =
  create_sq_resp_acq_common_desc :: ena_admin_acq_common_desc
  create_sq_resp_sq_idx :: u16
  create_sq_resp_reserved :: u16
  create_sq_resp_sq_doorbell_offset :: u32
  create_sq_resp_llq_descriptors_offset :: u32
  create_sq_resp_llq_headers_offset :: u32

definition enc_ena_admin_acq_create_sq_resp_desc :: "ena_admin_acq_create_sq_resp_desc \<Rightarrow> byte list" where [ena_codec]:
  "enc_ena_admin_acq_create_sq_resp_desc x =
     enc_ena_admin_acq_common_desc (create_sq_resp_acq_common_desc x) @
     le16 (create_sq_resp_sq_idx x) @
     le16 (create_sq_resp_reserved x) @
     le32 (create_sq_resp_sq_doorbell_offset x) @
     le32 (create_sq_resp_llq_descriptors_offset x) @
     le32 (create_sq_resp_llq_headers_offset x)"

definition dec_ena_admin_acq_create_sq_resp_desc :: "byte list \<Rightarrow> ena_admin_acq_create_sq_resp_desc" where [ena_codec]:
  "dec_ena_admin_acq_create_sq_resp_desc bs = \<lparr>
     create_sq_resp_acq_common_desc = dec_ena_admin_acq_common_desc (bs),
     create_sq_resp_sq_idx = get_le16 (drop 8 bs),
     create_sq_resp_reserved = get_le16 (drop 10 bs),
     create_sq_resp_sq_doorbell_offset = get_le32 (drop 12 bs),
     create_sq_resp_llq_descriptors_offset = get_le32 (drop 16 bs),
     create_sq_resp_llq_headers_offset = get_le32 (drop 20 bs)\<rparr>"

interpretation create_sq_resp: struct_layout enc_ena_admin_acq_create_sq_resp_desc dec_ena_admin_acq_create_sq_resp_desc 24 "\<lambda>_. True"
  by unfold_locales (simp_all add: ena_codec le16_def le32_def)

record ena_admin_aq_destroy_sq_cmd =
  destroy_sq_cmd_aq_common_descriptor :: ena_admin_aq_common_desc
  destroy_sq_cmd_sq :: ena_admin_sq

definition enc_ena_admin_aq_destroy_sq_cmd :: "ena_admin_aq_destroy_sq_cmd \<Rightarrow> byte list" where [ena_codec]:
  "enc_ena_admin_aq_destroy_sq_cmd x =
     enc_ena_admin_aq_common_desc (destroy_sq_cmd_aq_common_descriptor x) @
     enc_ena_admin_sq (destroy_sq_cmd_sq x)"

definition dec_ena_admin_aq_destroy_sq_cmd :: "byte list \<Rightarrow> ena_admin_aq_destroy_sq_cmd" where [ena_codec]:
  "dec_ena_admin_aq_destroy_sq_cmd bs = \<lparr>
     destroy_sq_cmd_aq_common_descriptor = dec_ena_admin_aq_common_desc (bs),
     destroy_sq_cmd_sq = dec_ena_admin_sq (drop 4 bs)\<rparr>"

interpretation destroy_sq_cmd: struct_layout enc_ena_admin_aq_destroy_sq_cmd dec_ena_admin_aq_destroy_sq_cmd 8 "\<lambda>_. True"
  by unfold_locales (simp_all add: ena_codec le16_def le32_def)

record ena_admin_aq_create_cq_cmd =
  create_cq_cmd_aq_common_descriptor :: ena_admin_aq_common_desc
  create_cq_cmd_cq_caps_1 :: u8
  create_cq_cmd_cq_caps_2 :: u8
  create_cq_cmd_cq_depth :: u16
  create_cq_cmd_msix_vector :: u32
  create_cq_cmd_cq_ba :: ena_common_mem_addr

definition enc_ena_admin_aq_create_cq_cmd :: "ena_admin_aq_create_cq_cmd \<Rightarrow> byte list" where [ena_codec]:
  "enc_ena_admin_aq_create_cq_cmd x =
     enc_ena_admin_aq_common_desc (create_cq_cmd_aq_common_descriptor x) @
     [create_cq_cmd_cq_caps_1 x] @
     [create_cq_cmd_cq_caps_2 x] @
     le16 (create_cq_cmd_cq_depth x) @
     le32 (create_cq_cmd_msix_vector x) @
     enc_ena_common_mem_addr (create_cq_cmd_cq_ba x)"

definition dec_ena_admin_aq_create_cq_cmd :: "byte list \<Rightarrow> ena_admin_aq_create_cq_cmd" where [ena_codec]:
  "dec_ena_admin_aq_create_cq_cmd bs = \<lparr>
     create_cq_cmd_aq_common_descriptor = dec_ena_admin_aq_common_desc (bs),
     create_cq_cmd_cq_caps_1 = get8 (drop 4 bs),
     create_cq_cmd_cq_caps_2 = get8 (drop 5 bs),
     create_cq_cmd_cq_depth = get_le16 (drop 6 bs),
     create_cq_cmd_msix_vector = get_le32 (drop 8 bs),
     create_cq_cmd_cq_ba = dec_ena_common_mem_addr (drop 12 bs)\<rparr>"

interpretation create_cq_cmd: struct_layout enc_ena_admin_aq_create_cq_cmd dec_ena_admin_aq_create_cq_cmd 20 "\<lambda>_. True"
  by unfold_locales (simp_all add: ena_codec le16_def le32_def)

record ena_admin_acq_create_cq_resp_desc =
  create_cq_resp_acq_common_desc :: ena_admin_acq_common_desc
  create_cq_resp_cq_idx :: u16
  create_cq_resp_cq_actual_depth :: u16
  create_cq_resp_numa_node_register_offset :: u32
  create_cq_resp_cq_head_db_register_offset :: u32
  create_cq_resp_cq_interrupt_unmask_register_offset :: u32

definition enc_ena_admin_acq_create_cq_resp_desc :: "ena_admin_acq_create_cq_resp_desc \<Rightarrow> byte list" where [ena_codec]:
  "enc_ena_admin_acq_create_cq_resp_desc x =
     enc_ena_admin_acq_common_desc (create_cq_resp_acq_common_desc x) @
     le16 (create_cq_resp_cq_idx x) @
     le16 (create_cq_resp_cq_actual_depth x) @
     le32 (create_cq_resp_numa_node_register_offset x) @
     le32 (create_cq_resp_cq_head_db_register_offset x) @
     le32 (create_cq_resp_cq_interrupt_unmask_register_offset x)"

definition dec_ena_admin_acq_create_cq_resp_desc :: "byte list \<Rightarrow> ena_admin_acq_create_cq_resp_desc" where [ena_codec]:
  "dec_ena_admin_acq_create_cq_resp_desc bs = \<lparr>
     create_cq_resp_acq_common_desc = dec_ena_admin_acq_common_desc (bs),
     create_cq_resp_cq_idx = get_le16 (drop 8 bs),
     create_cq_resp_cq_actual_depth = get_le16 (drop 10 bs),
     create_cq_resp_numa_node_register_offset = get_le32 (drop 12 bs),
     create_cq_resp_cq_head_db_register_offset = get_le32 (drop 16 bs),
     create_cq_resp_cq_interrupt_unmask_register_offset = get_le32 (drop 20 bs)\<rparr>"

interpretation create_cq_resp: struct_layout enc_ena_admin_acq_create_cq_resp_desc dec_ena_admin_acq_create_cq_resp_desc 24 "\<lambda>_. True"
  by unfold_locales (simp_all add: ena_codec le16_def le32_def)

record ena_admin_aq_destroy_cq_cmd =
  destroy_cq_cmd_aq_common_descriptor :: ena_admin_aq_common_desc
  destroy_cq_cmd_cq_idx :: u16
  destroy_cq_cmd_reserved1 :: u16

definition enc_ena_admin_aq_destroy_cq_cmd :: "ena_admin_aq_destroy_cq_cmd \<Rightarrow> byte list" where [ena_codec]:
  "enc_ena_admin_aq_destroy_cq_cmd x =
     enc_ena_admin_aq_common_desc (destroy_cq_cmd_aq_common_descriptor x) @
     le16 (destroy_cq_cmd_cq_idx x) @
     le16 (destroy_cq_cmd_reserved1 x)"

definition dec_ena_admin_aq_destroy_cq_cmd :: "byte list \<Rightarrow> ena_admin_aq_destroy_cq_cmd" where [ena_codec]:
  "dec_ena_admin_aq_destroy_cq_cmd bs = \<lparr>
     destroy_cq_cmd_aq_common_descriptor = dec_ena_admin_aq_common_desc (bs),
     destroy_cq_cmd_cq_idx = get_le16 (drop 4 bs),
     destroy_cq_cmd_reserved1 = get_le16 (drop 6 bs)\<rparr>"

interpretation destroy_cq_cmd: struct_layout enc_ena_admin_aq_destroy_cq_cmd dec_ena_admin_aq_destroy_cq_cmd 8 "\<lambda>_. True"
  by unfold_locales (simp_all add: ena_codec le16_def le32_def)

subsection \<open>Statistics\<close>

text \<open>The 64-bit \<open>requested_metrics\<close> is kept as its two little-endian halves; basic statistics ignore it.\<close>

record ena_admin_aq_get_stats_cmd =
  get_stats_cmd_aq_common_descriptor :: ena_admin_aq_common_desc
  get_stats_cmd_control_buffer :: ena_admin_ctrl_buff_info
  get_stats_cmd_type :: u8
  get_stats_cmd_scope :: u8
  get_stats_cmd_reserved3 :: u16
  get_stats_cmd_queue_idx :: u16
  get_stats_cmd_device_id :: u16
  get_stats_cmd_requested_metrics_lo :: u32
  get_stats_cmd_requested_metrics_hi :: u32

definition enc_ena_admin_aq_get_stats_cmd :: "ena_admin_aq_get_stats_cmd \<Rightarrow> byte list" where [ena_codec]:
  "enc_ena_admin_aq_get_stats_cmd x =
     enc_ena_admin_aq_common_desc (get_stats_cmd_aq_common_descriptor x) @
     enc_ena_admin_ctrl_buff_info (get_stats_cmd_control_buffer x) @
     [get_stats_cmd_type x] @
     [get_stats_cmd_scope x] @
     le16 (get_stats_cmd_reserved3 x) @
     le16 (get_stats_cmd_queue_idx x) @
     le16 (get_stats_cmd_device_id x) @
     le32 (get_stats_cmd_requested_metrics_lo x) @
     le32 (get_stats_cmd_requested_metrics_hi x)"

definition dec_ena_admin_aq_get_stats_cmd :: "byte list \<Rightarrow> ena_admin_aq_get_stats_cmd" where [ena_codec]:
  "dec_ena_admin_aq_get_stats_cmd bs = \<lparr>
     get_stats_cmd_aq_common_descriptor = dec_ena_admin_aq_common_desc (bs),
     get_stats_cmd_control_buffer = dec_ena_admin_ctrl_buff_info (drop 4 bs),
     get_stats_cmd_type = get8 (drop 16 bs),
     get_stats_cmd_scope = get8 (drop 17 bs),
     get_stats_cmd_reserved3 = get_le16 (drop 18 bs),
     get_stats_cmd_queue_idx = get_le16 (drop 20 bs),
     get_stats_cmd_device_id = get_le16 (drop 22 bs),
     get_stats_cmd_requested_metrics_lo = get_le32 (drop 24 bs),
     get_stats_cmd_requested_metrics_hi = get_le32 (drop 28 bs)\<rparr>"

interpretation get_stats_cmd: struct_layout enc_ena_admin_aq_get_stats_cmd dec_ena_admin_aq_get_stats_cmd 32 "\<lambda>_. True"
  by unfold_locales (simp_all add: ena_codec le16_def le32_def)

record ena_admin_basic_stats =
  basic_stats_tx_bytes_low :: u32
  basic_stats_tx_bytes_high :: u32
  basic_stats_tx_pkts_low :: u32
  basic_stats_tx_pkts_high :: u32
  basic_stats_rx_bytes_low :: u32
  basic_stats_rx_bytes_high :: u32
  basic_stats_rx_pkts_low :: u32
  basic_stats_rx_pkts_high :: u32
  basic_stats_rx_drops_low :: u32
  basic_stats_rx_drops_high :: u32
  basic_stats_tx_drops_low :: u32
  basic_stats_tx_drops_high :: u32
  basic_stats_rx_overruns_low :: u32
  basic_stats_rx_overruns_high :: u32

definition enc_ena_admin_basic_stats :: "ena_admin_basic_stats \<Rightarrow> byte list" where [ena_codec]:
  "enc_ena_admin_basic_stats x =
     le32 (basic_stats_tx_bytes_low x) @
     le32 (basic_stats_tx_bytes_high x) @
     le32 (basic_stats_tx_pkts_low x) @
     le32 (basic_stats_tx_pkts_high x) @
     le32 (basic_stats_rx_bytes_low x) @
     le32 (basic_stats_rx_bytes_high x) @
     le32 (basic_stats_rx_pkts_low x) @
     le32 (basic_stats_rx_pkts_high x) @
     le32 (basic_stats_rx_drops_low x) @
     le32 (basic_stats_rx_drops_high x) @
     le32 (basic_stats_tx_drops_low x) @
     le32 (basic_stats_tx_drops_high x) @
     le32 (basic_stats_rx_overruns_low x) @
     le32 (basic_stats_rx_overruns_high x)"

definition dec_ena_admin_basic_stats :: "byte list \<Rightarrow> ena_admin_basic_stats" where [ena_codec]:
  "dec_ena_admin_basic_stats bs = \<lparr>
     basic_stats_tx_bytes_low = get_le32 (bs),
     basic_stats_tx_bytes_high = get_le32 (drop 4 bs),
     basic_stats_tx_pkts_low = get_le32 (drop 8 bs),
     basic_stats_tx_pkts_high = get_le32 (drop 12 bs),
     basic_stats_rx_bytes_low = get_le32 (drop 16 bs),
     basic_stats_rx_bytes_high = get_le32 (drop 20 bs),
     basic_stats_rx_pkts_low = get_le32 (drop 24 bs),
     basic_stats_rx_pkts_high = get_le32 (drop 28 bs),
     basic_stats_rx_drops_low = get_le32 (drop 32 bs),
     basic_stats_rx_drops_high = get_le32 (drop 36 bs),
     basic_stats_tx_drops_low = get_le32 (drop 40 bs),
     basic_stats_tx_drops_high = get_le32 (drop 44 bs),
     basic_stats_rx_overruns_low = get_le32 (drop 48 bs),
     basic_stats_rx_overruns_high = get_le32 (drop 52 bs)\<rparr>"

interpretation basic_stats: struct_layout enc_ena_admin_basic_stats dec_ena_admin_basic_stats 56 "\<lambda>_. True"
  by unfold_locales (simp_all add: ena_codec le16_def le32_def)

subsection \<open>Feature descriptors\<close>

record ena_admin_device_attr_feature_desc =
  dev_attr_impl_id :: u32
  dev_attr_device_version :: u32
  dev_attr_supported_features :: u32
  dev_attr_capabilities :: u32
  dev_attr_phys_addr_width :: u32
  dev_attr_virt_addr_width :: u32
  dev_attr_mac_addr :: "byte list"
  dev_attr_reserved7 :: "byte list"
  dev_attr_max_mtu :: u32

definition enc_ena_admin_device_attr_feature_desc :: "ena_admin_device_attr_feature_desc \<Rightarrow> byte list" where [ena_codec]:
  "enc_ena_admin_device_attr_feature_desc x =
     le32 (dev_attr_impl_id x) @
     le32 (dev_attr_device_version x) @
     le32 (dev_attr_supported_features x) @
     le32 (dev_attr_capabilities x) @
     le32 (dev_attr_phys_addr_width x) @
     le32 (dev_attr_virt_addr_width x) @
     dev_attr_mac_addr x @
     dev_attr_reserved7 x @
     le32 (dev_attr_max_mtu x)"

definition dec_ena_admin_device_attr_feature_desc :: "byte list \<Rightarrow> ena_admin_device_attr_feature_desc" where [ena_codec]:
  "dec_ena_admin_device_attr_feature_desc bs = \<lparr>
     dev_attr_impl_id = get_le32 (bs),
     dev_attr_device_version = get_le32 (drop 4 bs),
     dev_attr_supported_features = get_le32 (drop 8 bs),
     dev_attr_capabilities = get_le32 (drop 12 bs),
     dev_attr_phys_addr_width = get_le32 (drop 16 bs),
     dev_attr_virt_addr_width = get_le32 (drop 20 bs),
     dev_attr_mac_addr = take 6 (drop 24 bs),
     dev_attr_reserved7 = take 2 (drop 30 bs),
     dev_attr_max_mtu = get_le32 (drop 32 bs)\<rparr>"

definition wf_ena_admin_device_attr_feature_desc :: "ena_admin_device_attr_feature_desc \<Rightarrow> bool" where [ena_codec]:
  "wf_ena_admin_device_attr_feature_desc x \<longleftrightarrow> length (dev_attr_mac_addr x) = 6 \<and>
     length (dev_attr_reserved7 x) = 2"

interpretation dev_attr: struct_layout enc_ena_admin_device_attr_feature_desc dec_ena_admin_device_attr_feature_desc 36 wf_ena_admin_device_attr_feature_desc
  by unfold_locales (auto simp: ena_codec le16_def le32_def get_arr32_enc_eq)

text \<open>\<open>accel_mode\<close> is the union \<open>ena_admin_accel_mode_req\<close>, eight bytes of which the device fills the \<open>get\<close> view.\<close>

record ena_admin_accel_mode_get =
  accel_get_supported_flags :: u16
  accel_get_max_tx_burst_size :: u16

definition enc_ena_admin_accel_mode_get :: "ena_admin_accel_mode_get \<Rightarrow> byte list" where [ena_codec]:
  "enc_ena_admin_accel_mode_get x =
     le16 (accel_get_supported_flags x) @
     le16 (accel_get_max_tx_burst_size x)"

definition dec_ena_admin_accel_mode_get :: "byte list \<Rightarrow> ena_admin_accel_mode_get" where [ena_codec]:
  "dec_ena_admin_accel_mode_get bs = \<lparr>
     accel_get_supported_flags = get_le16 (bs),
     accel_get_max_tx_burst_size = get_le16 (drop 2 bs)\<rparr>"

interpretation accel_get: struct_layout enc_ena_admin_accel_mode_get dec_ena_admin_accel_mode_get 4 "\<lambda>_. True"
  by unfold_locales (simp_all add: ena_codec le16_def le32_def)

record ena_admin_feature_llq_desc =
  llq_desc_max_llq_num :: u32
  llq_desc_max_llq_depth :: u32
  llq_desc_header_location_ctrl_supported :: u16
  llq_desc_header_location_ctrl_enabled :: u16
  llq_desc_entry_size_ctrl_supported :: u16
  llq_desc_entry_size_ctrl_enabled :: u16
  llq_desc_desc_num_before_header_supported :: u16
  llq_desc_desc_num_before_header_enabled :: u16
  llq_desc_descriptors_stride_ctrl_supported :: u16
  llq_desc_descriptors_stride_ctrl_enabled :: u16
  llq_desc_feature_version :: u8
  llq_desc_entry_size_recommended :: u8
  llq_desc_max_wide_llq_depth :: u16
  llq_desc_accel_mode_get :: ena_admin_accel_mode_get
  llq_desc_accel_mode_raw1 :: u32

definition enc_ena_admin_feature_llq_desc :: "ena_admin_feature_llq_desc \<Rightarrow> byte list" where [ena_codec]:
  "enc_ena_admin_feature_llq_desc x =
     le32 (llq_desc_max_llq_num x) @
     le32 (llq_desc_max_llq_depth x) @
     le16 (llq_desc_header_location_ctrl_supported x) @
     le16 (llq_desc_header_location_ctrl_enabled x) @
     le16 (llq_desc_entry_size_ctrl_supported x) @
     le16 (llq_desc_entry_size_ctrl_enabled x) @
     le16 (llq_desc_desc_num_before_header_supported x) @
     le16 (llq_desc_desc_num_before_header_enabled x) @
     le16 (llq_desc_descriptors_stride_ctrl_supported x) @
     le16 (llq_desc_descriptors_stride_ctrl_enabled x) @
     [llq_desc_feature_version x] @
     [llq_desc_entry_size_recommended x] @
     le16 (llq_desc_max_wide_llq_depth x) @
     enc_ena_admin_accel_mode_get (llq_desc_accel_mode_get x) @
     le32 (llq_desc_accel_mode_raw1 x)"

definition dec_ena_admin_feature_llq_desc :: "byte list \<Rightarrow> ena_admin_feature_llq_desc" where [ena_codec]:
  "dec_ena_admin_feature_llq_desc bs = \<lparr>
     llq_desc_max_llq_num = get_le32 (bs),
     llq_desc_max_llq_depth = get_le32 (drop 4 bs),
     llq_desc_header_location_ctrl_supported = get_le16 (drop 8 bs),
     llq_desc_header_location_ctrl_enabled = get_le16 (drop 10 bs),
     llq_desc_entry_size_ctrl_supported = get_le16 (drop 12 bs),
     llq_desc_entry_size_ctrl_enabled = get_le16 (drop 14 bs),
     llq_desc_desc_num_before_header_supported = get_le16 (drop 16 bs),
     llq_desc_desc_num_before_header_enabled = get_le16 (drop 18 bs),
     llq_desc_descriptors_stride_ctrl_supported = get_le16 (drop 20 bs),
     llq_desc_descriptors_stride_ctrl_enabled = get_le16 (drop 22 bs),
     llq_desc_feature_version = get8 (drop 24 bs),
     llq_desc_entry_size_recommended = get8 (drop 25 bs),
     llq_desc_max_wide_llq_depth = get_le16 (drop 26 bs),
     llq_desc_accel_mode_get = dec_ena_admin_accel_mode_get (drop 28 bs),
     llq_desc_accel_mode_raw1 = get_le32 (drop 32 bs)\<rparr>"

interpretation llq_desc: struct_layout enc_ena_admin_feature_llq_desc dec_ena_admin_feature_llq_desc 36 "\<lambda>_. True"
  by unfold_locales (simp_all add: ena_codec le16_def le32_def)

record ena_admin_queue_ext_feature_fields =
  queue_ext_fields_max_tx_sq_num :: u32
  queue_ext_fields_max_tx_cq_num :: u32
  queue_ext_fields_max_rx_sq_num :: u32
  queue_ext_fields_max_rx_cq_num :: u32
  queue_ext_fields_max_tx_sq_depth :: u32
  queue_ext_fields_max_tx_cq_depth :: u32
  queue_ext_fields_max_rx_sq_depth :: u32
  queue_ext_fields_max_rx_cq_depth :: u32
  queue_ext_fields_max_tx_header_size :: u32
  queue_ext_fields_max_per_packet_tx_descs :: u16
  queue_ext_fields_max_per_packet_rx_descs :: u16

definition enc_ena_admin_queue_ext_feature_fields :: "ena_admin_queue_ext_feature_fields \<Rightarrow> byte list" where [ena_codec]:
  "enc_ena_admin_queue_ext_feature_fields x =
     le32 (queue_ext_fields_max_tx_sq_num x) @
     le32 (queue_ext_fields_max_tx_cq_num x) @
     le32 (queue_ext_fields_max_rx_sq_num x) @
     le32 (queue_ext_fields_max_rx_cq_num x) @
     le32 (queue_ext_fields_max_tx_sq_depth x) @
     le32 (queue_ext_fields_max_tx_cq_depth x) @
     le32 (queue_ext_fields_max_rx_sq_depth x) @
     le32 (queue_ext_fields_max_rx_cq_depth x) @
     le32 (queue_ext_fields_max_tx_header_size x) @
     le16 (queue_ext_fields_max_per_packet_tx_descs x) @
     le16 (queue_ext_fields_max_per_packet_rx_descs x)"

definition dec_ena_admin_queue_ext_feature_fields :: "byte list \<Rightarrow> ena_admin_queue_ext_feature_fields" where [ena_codec]:
  "dec_ena_admin_queue_ext_feature_fields bs = \<lparr>
     queue_ext_fields_max_tx_sq_num = get_le32 (bs),
     queue_ext_fields_max_tx_cq_num = get_le32 (drop 4 bs),
     queue_ext_fields_max_rx_sq_num = get_le32 (drop 8 bs),
     queue_ext_fields_max_rx_cq_num = get_le32 (drop 12 bs),
     queue_ext_fields_max_tx_sq_depth = get_le32 (drop 16 bs),
     queue_ext_fields_max_tx_cq_depth = get_le32 (drop 20 bs),
     queue_ext_fields_max_rx_sq_depth = get_le32 (drop 24 bs),
     queue_ext_fields_max_rx_cq_depth = get_le32 (drop 28 bs),
     queue_ext_fields_max_tx_header_size = get_le32 (drop 32 bs),
     queue_ext_fields_max_per_packet_tx_descs = get_le16 (drop 36 bs),
     queue_ext_fields_max_per_packet_rx_descs = get_le16 (drop 38 bs)\<rparr>"

interpretation queue_ext_fields: struct_layout enc_ena_admin_queue_ext_feature_fields dec_ena_admin_queue_ext_feature_fields 40 "\<lambda>_. True"
  by unfold_locales (simp_all add: ena_codec le16_def le32_def)

record ena_admin_queue_feature_desc =
  queue_feature_max_sq_num :: u32
  queue_feature_max_sq_depth :: u32
  queue_feature_max_cq_num :: u32
  queue_feature_max_cq_depth :: u32
  queue_feature_max_legacy_llq_num :: u32
  queue_feature_max_legacy_llq_depth :: u32
  queue_feature_max_header_size :: u32
  queue_feature_max_packet_tx_descs :: u16
  queue_feature_max_packet_rx_descs :: u16

definition enc_ena_admin_queue_feature_desc :: "ena_admin_queue_feature_desc \<Rightarrow> byte list" where [ena_codec]:
  "enc_ena_admin_queue_feature_desc x =
     le32 (queue_feature_max_sq_num x) @
     le32 (queue_feature_max_sq_depth x) @
     le32 (queue_feature_max_cq_num x) @
     le32 (queue_feature_max_cq_depth x) @
     le32 (queue_feature_max_legacy_llq_num x) @
     le32 (queue_feature_max_legacy_llq_depth x) @
     le32 (queue_feature_max_header_size x) @
     le16 (queue_feature_max_packet_tx_descs x) @
     le16 (queue_feature_max_packet_rx_descs x)"

definition dec_ena_admin_queue_feature_desc :: "byte list \<Rightarrow> ena_admin_queue_feature_desc" where [ena_codec]:
  "dec_ena_admin_queue_feature_desc bs = \<lparr>
     queue_feature_max_sq_num = get_le32 (bs),
     queue_feature_max_sq_depth = get_le32 (drop 4 bs),
     queue_feature_max_cq_num = get_le32 (drop 8 bs),
     queue_feature_max_cq_depth = get_le32 (drop 12 bs),
     queue_feature_max_legacy_llq_num = get_le32 (drop 16 bs),
     queue_feature_max_legacy_llq_depth = get_le32 (drop 20 bs),
     queue_feature_max_header_size = get_le32 (drop 24 bs),
     queue_feature_max_packet_tx_descs = get_le16 (drop 28 bs),
     queue_feature_max_packet_rx_descs = get_le16 (drop 30 bs)\<rparr>"

interpretation queue_feature: struct_layout enc_ena_admin_queue_feature_desc dec_ena_admin_queue_feature_desc 32 "\<lambda>_. True"
  by unfold_locales (simp_all add: ena_codec le16_def le32_def)

record ena_admin_queue_ext_feature_desc =
  queue_ext_desc_version :: u8
  queue_ext_desc_reserved1 :: "byte list"
  queue_ext_desc_max_queue_ext :: ena_admin_queue_ext_feature_fields

definition enc_ena_admin_queue_ext_feature_desc :: "ena_admin_queue_ext_feature_desc \<Rightarrow> byte list" where [ena_codec]:
  "enc_ena_admin_queue_ext_feature_desc x =
     [queue_ext_desc_version x] @
     queue_ext_desc_reserved1 x @
     enc_ena_admin_queue_ext_feature_fields (queue_ext_desc_max_queue_ext x)"

definition dec_ena_admin_queue_ext_feature_desc :: "byte list \<Rightarrow> ena_admin_queue_ext_feature_desc" where [ena_codec]:
  "dec_ena_admin_queue_ext_feature_desc bs = \<lparr>
     queue_ext_desc_version = get8 (bs),
     queue_ext_desc_reserved1 = take 3 (drop 1 bs),
     queue_ext_desc_max_queue_ext = dec_ena_admin_queue_ext_feature_fields (drop 4 bs)\<rparr>"

definition wf_ena_admin_queue_ext_feature_desc :: "ena_admin_queue_ext_feature_desc \<Rightarrow> bool" where [ena_codec]:
  "wf_ena_admin_queue_ext_feature_desc x \<longleftrightarrow> length (queue_ext_desc_reserved1 x) = 3"

interpretation queue_ext_desc: struct_layout enc_ena_admin_queue_ext_feature_desc dec_ena_admin_queue_ext_feature_desc 44 wf_ena_admin_queue_ext_feature_desc
  by unfold_locales (auto simp: ena_codec le16_def le32_def get_arr32_enc_eq)

record ena_admin_set_feature_mtu_desc =
  mtu_desc_mtu :: u32

definition enc_ena_admin_set_feature_mtu_desc :: "ena_admin_set_feature_mtu_desc \<Rightarrow> byte list" where [ena_codec]:
  "enc_ena_admin_set_feature_mtu_desc x =
     le32 (mtu_desc_mtu x)"

definition dec_ena_admin_set_feature_mtu_desc :: "byte list \<Rightarrow> ena_admin_set_feature_mtu_desc" where [ena_codec]:
  "dec_ena_admin_set_feature_mtu_desc bs = \<lparr>
     mtu_desc_mtu = get_le32 (bs)\<rparr>"

interpretation mtu_desc: struct_layout enc_ena_admin_set_feature_mtu_desc dec_ena_admin_set_feature_mtu_desc 4 "\<lambda>_. True"
  by unfold_locales (simp_all add: ena_codec le16_def le32_def)

record ena_admin_set_feature_host_attr_desc =
  host_attr_os_info_ba :: ena_common_mem_addr
  host_attr_debug_ba :: ena_common_mem_addr
  host_attr_debug_area_size :: u32

definition enc_ena_admin_set_feature_host_attr_desc :: "ena_admin_set_feature_host_attr_desc \<Rightarrow> byte list" where [ena_codec]:
  "enc_ena_admin_set_feature_host_attr_desc x =
     enc_ena_common_mem_addr (host_attr_os_info_ba x) @
     enc_ena_common_mem_addr (host_attr_debug_ba x) @
     le32 (host_attr_debug_area_size x)"

definition dec_ena_admin_set_feature_host_attr_desc :: "byte list \<Rightarrow> ena_admin_set_feature_host_attr_desc" where [ena_codec]:
  "dec_ena_admin_set_feature_host_attr_desc bs = \<lparr>
     host_attr_os_info_ba = dec_ena_common_mem_addr (bs),
     host_attr_debug_ba = dec_ena_common_mem_addr (drop 8 bs),
     host_attr_debug_area_size = get_le32 (drop 16 bs)\<rparr>"

interpretation host_attr: struct_layout enc_ena_admin_set_feature_host_attr_desc dec_ena_admin_set_feature_host_attr_desc 20 "\<lambda>_. True"
  by unfold_locales (simp_all add: ena_codec le16_def le32_def)

record ena_admin_feature_intr_moder_desc =
  intr_moder_intr_delay_resolution :: u16
  intr_moder_reserved :: u16

definition enc_ena_admin_feature_intr_moder_desc :: "ena_admin_feature_intr_moder_desc \<Rightarrow> byte list" where [ena_codec]:
  "enc_ena_admin_feature_intr_moder_desc x =
     le16 (intr_moder_intr_delay_resolution x) @
     le16 (intr_moder_reserved x)"

definition dec_ena_admin_feature_intr_moder_desc :: "byte list \<Rightarrow> ena_admin_feature_intr_moder_desc" where [ena_codec]:
  "dec_ena_admin_feature_intr_moder_desc bs = \<lparr>
     intr_moder_intr_delay_resolution = get_le16 (bs),
     intr_moder_reserved = get_le16 (drop 2 bs)\<rparr>"

interpretation intr_moder: struct_layout enc_ena_admin_feature_intr_moder_desc dec_ena_admin_feature_intr_moder_desc 4 "\<lambda>_. True"
  by unfold_locales (simp_all add: ena_codec le16_def le32_def)

record ena_admin_get_feature_link_desc =
  link_desc_speed :: u32
  link_desc_supported :: u32
  link_desc_flags :: u32

definition enc_ena_admin_get_feature_link_desc :: "ena_admin_get_feature_link_desc \<Rightarrow> byte list" where [ena_codec]:
  "enc_ena_admin_get_feature_link_desc x =
     le32 (link_desc_speed x) @
     le32 (link_desc_supported x) @
     le32 (link_desc_flags x)"

definition dec_ena_admin_get_feature_link_desc :: "byte list \<Rightarrow> ena_admin_get_feature_link_desc" where [ena_codec]:
  "dec_ena_admin_get_feature_link_desc bs = \<lparr>
     link_desc_speed = get_le32 (bs),
     link_desc_supported = get_le32 (drop 4 bs),
     link_desc_flags = get_le32 (drop 8 bs)\<rparr>"

interpretation link_desc: struct_layout enc_ena_admin_get_feature_link_desc dec_ena_admin_get_feature_link_desc 12 "\<lambda>_. True"
  by unfold_locales (simp_all add: ena_codec le16_def le32_def)

record ena_admin_feature_aenq_desc =
  aenq_desc_supported_groups :: u32
  aenq_desc_enabled_groups :: u32

definition enc_ena_admin_feature_aenq_desc :: "ena_admin_feature_aenq_desc \<Rightarrow> byte list" where [ena_codec]:
  "enc_ena_admin_feature_aenq_desc x =
     le32 (aenq_desc_supported_groups x) @
     le32 (aenq_desc_enabled_groups x)"

definition dec_ena_admin_feature_aenq_desc :: "byte list \<Rightarrow> ena_admin_feature_aenq_desc" where [ena_codec]:
  "dec_ena_admin_feature_aenq_desc bs = \<lparr>
     aenq_desc_supported_groups = get_le32 (bs),
     aenq_desc_enabled_groups = get_le32 (drop 4 bs)\<rparr>"

interpretation aenq_desc: struct_layout enc_ena_admin_feature_aenq_desc dec_ena_admin_feature_aenq_desc 8 "\<lambda>_. True"
  by unfold_locales (simp_all add: ena_codec le16_def le32_def)

record ena_admin_feature_offload_desc =
  offload_desc_tx :: u32
  offload_desc_rx_supported :: u32
  offload_desc_rx_enabled :: u32

definition enc_ena_admin_feature_offload_desc :: "ena_admin_feature_offload_desc \<Rightarrow> byte list" where [ena_codec]:
  "enc_ena_admin_feature_offload_desc x =
     le32 (offload_desc_tx x) @
     le32 (offload_desc_rx_supported x) @
     le32 (offload_desc_rx_enabled x)"

definition dec_ena_admin_feature_offload_desc :: "byte list \<Rightarrow> ena_admin_feature_offload_desc" where [ena_codec]:
  "dec_ena_admin_feature_offload_desc bs = \<lparr>
     offload_desc_tx = get_le32 (bs),
     offload_desc_rx_supported = get_le32 (drop 4 bs),
     offload_desc_rx_enabled = get_le32 (drop 8 bs)\<rparr>"

interpretation offload_desc: struct_layout enc_ena_admin_feature_offload_desc dec_ena_admin_feature_offload_desc 12 "\<lambda>_. True"
  by unfold_locales (simp_all add: ena_codec le16_def le32_def)

record ena_admin_feature_rss_flow_hash_control =
  hash_key_key_parts :: u32
  hash_key_reserved :: u32
  hash_key_key :: "u32 list"

definition enc_ena_admin_feature_rss_flow_hash_control :: "ena_admin_feature_rss_flow_hash_control \<Rightarrow> byte list" where [ena_codec]:
  "enc_ena_admin_feature_rss_flow_hash_control x =
     le32 (hash_key_key_parts x) @
     le32 (hash_key_reserved x) @
     concat (map le32 (hash_key_key x))"

definition dec_ena_admin_feature_rss_flow_hash_control :: "byte list \<Rightarrow> ena_admin_feature_rss_flow_hash_control" where [ena_codec]:
  "dec_ena_admin_feature_rss_flow_hash_control bs = \<lparr>
     hash_key_key_parts = get_le32 (bs),
     hash_key_reserved = get_le32 (drop 4 bs),
     hash_key_key = get_arr32 10 (drop 8 bs)\<rparr>"

definition wf_ena_admin_feature_rss_flow_hash_control :: "ena_admin_feature_rss_flow_hash_control \<Rightarrow> bool" where [ena_codec]:
  "wf_ena_admin_feature_rss_flow_hash_control x \<longleftrightarrow> length (hash_key_key x) = 10"

interpretation hash_key: struct_layout enc_ena_admin_feature_rss_flow_hash_control dec_ena_admin_feature_rss_flow_hash_control 48 wf_ena_admin_feature_rss_flow_hash_control
  by unfold_locales (auto simp: ena_codec le16_def le32_def get_arr32_enc_eq)

record ena_admin_feature_rss_flow_hash_function =
  hash_function_supported_func :: u32
  hash_function_selected_func :: u32
  hash_function_init_val :: u32

definition enc_ena_admin_feature_rss_flow_hash_function :: "ena_admin_feature_rss_flow_hash_function \<Rightarrow> byte list" where [ena_codec]:
  "enc_ena_admin_feature_rss_flow_hash_function x =
     le32 (hash_function_supported_func x) @
     le32 (hash_function_selected_func x) @
     le32 (hash_function_init_val x)"

definition dec_ena_admin_feature_rss_flow_hash_function :: "byte list \<Rightarrow> ena_admin_feature_rss_flow_hash_function" where [ena_codec]:
  "dec_ena_admin_feature_rss_flow_hash_function bs = \<lparr>
     hash_function_supported_func = get_le32 (bs),
     hash_function_selected_func = get_le32 (drop 4 bs),
     hash_function_init_val = get_le32 (drop 8 bs)\<rparr>"

interpretation hash_function: struct_layout enc_ena_admin_feature_rss_flow_hash_function dec_ena_admin_feature_rss_flow_hash_function 12 "\<lambda>_. True"
  by unfold_locales (simp_all add: ena_codec le16_def le32_def)

record ena_admin_feature_rss_flow_hash_input =
  hash_input_supported_input_sort :: u16
  hash_input_enabled_input_sort :: u16

definition enc_ena_admin_feature_rss_flow_hash_input :: "ena_admin_feature_rss_flow_hash_input \<Rightarrow> byte list" where [ena_codec]:
  "enc_ena_admin_feature_rss_flow_hash_input x =
     le16 (hash_input_supported_input_sort x) @
     le16 (hash_input_enabled_input_sort x)"

definition dec_ena_admin_feature_rss_flow_hash_input :: "byte list \<Rightarrow> ena_admin_feature_rss_flow_hash_input" where [ena_codec]:
  "dec_ena_admin_feature_rss_flow_hash_input bs = \<lparr>
     hash_input_supported_input_sort = get_le16 (bs),
     hash_input_enabled_input_sort = get_le16 (drop 2 bs)\<rparr>"

interpretation hash_input: struct_layout enc_ena_admin_feature_rss_flow_hash_input dec_ena_admin_feature_rss_flow_hash_input 4 "\<lambda>_. True"
  by unfold_locales (simp_all add: ena_codec le16_def le32_def)

record ena_admin_host_info =
  host_info_os_type :: u32
  host_info_os_dist_str :: "byte list"
  host_info_os_dist :: u32
  host_info_kernel_ver_str :: "byte list"
  host_info_kernel_ver :: u32
  host_info_driver_version :: u32
  host_info_supported_network_features :: "u32 list"
  host_info_ena_spec_version :: u16
  host_info_bdf :: u16
  host_info_num_cpus :: u16
  host_info_reserved :: u16
  host_info_driver_supported_features :: u32

definition enc_ena_admin_host_info :: "ena_admin_host_info \<Rightarrow> byte list" where [ena_codec]:
  "enc_ena_admin_host_info x =
     le32 (host_info_os_type x) @
     host_info_os_dist_str x @
     le32 (host_info_os_dist x) @
     host_info_kernel_ver_str x @
     le32 (host_info_kernel_ver x) @
     le32 (host_info_driver_version x) @
     concat (map le32 (host_info_supported_network_features x)) @
     le16 (host_info_ena_spec_version x) @
     le16 (host_info_bdf x) @
     le16 (host_info_num_cpus x) @
     le16 (host_info_reserved x) @
     le32 (host_info_driver_supported_features x)"

definition dec_ena_admin_host_info :: "byte list \<Rightarrow> ena_admin_host_info" where [ena_codec]:
  "dec_ena_admin_host_info bs = \<lparr>
     host_info_os_type = get_le32 (bs),
     host_info_os_dist_str = take 128 (drop 4 bs),
     host_info_os_dist = get_le32 (drop 132 bs),
     host_info_kernel_ver_str = take 32 (drop 136 bs),
     host_info_kernel_ver = get_le32 (drop 168 bs),
     host_info_driver_version = get_le32 (drop 172 bs),
     host_info_supported_network_features = get_arr32 2 (drop 176 bs),
     host_info_ena_spec_version = get_le16 (drop 184 bs),
     host_info_bdf = get_le16 (drop 186 bs),
     host_info_num_cpus = get_le16 (drop 188 bs),
     host_info_reserved = get_le16 (drop 190 bs),
     host_info_driver_supported_features = get_le32 (drop 192 bs)\<rparr>"

definition wf_ena_admin_host_info :: "ena_admin_host_info \<Rightarrow> bool" where [ena_codec]:
  "wf_ena_admin_host_info x \<longleftrightarrow> length (host_info_os_dist_str x) = 128 \<and>
     length (host_info_kernel_ver_str x) = 32 \<and>
     length (host_info_supported_network_features x) = 2"

interpretation host_info: struct_layout enc_ena_admin_host_info dec_ena_admin_host_info 196 wf_ena_admin_host_info
  by unfold_locales (auto simp: ena_codec le16_def le32_def get_arr32_enc_eq)

record ena_admin_rss_ind_table_entry =
  ind_entry_cq_idx :: u16
  ind_entry_reserved :: u16

definition enc_ena_admin_rss_ind_table_entry :: "ena_admin_rss_ind_table_entry \<Rightarrow> byte list" where [ena_codec]:
  "enc_ena_admin_rss_ind_table_entry x =
     le16 (ind_entry_cq_idx x) @
     le16 (ind_entry_reserved x)"

definition dec_ena_admin_rss_ind_table_entry :: "byte list \<Rightarrow> ena_admin_rss_ind_table_entry" where [ena_codec]:
  "dec_ena_admin_rss_ind_table_entry bs = \<lparr>
     ind_entry_cq_idx = get_le16 (bs),
     ind_entry_reserved = get_le16 (drop 2 bs)\<rparr>"

interpretation ind_entry: struct_layout enc_ena_admin_rss_ind_table_entry dec_ena_admin_rss_ind_table_entry 4 "\<lambda>_. True"
  by unfold_locales (simp_all add: ena_codec le16_def le32_def)

record ena_admin_feature_rss_ind_table =
  ind_table_min_size :: u16
  ind_table_max_size :: u16
  ind_table_size :: u16
  ind_table_flags :: u8
  ind_table_reserved :: u8
  ind_table_inline_index :: u32
  ind_table_inline_entry :: ena_admin_rss_ind_table_entry

definition enc_ena_admin_feature_rss_ind_table :: "ena_admin_feature_rss_ind_table \<Rightarrow> byte list" where [ena_codec]:
  "enc_ena_admin_feature_rss_ind_table x =
     le16 (ind_table_min_size x) @
     le16 (ind_table_max_size x) @
     le16 (ind_table_size x) @
     [ind_table_flags x] @
     [ind_table_reserved x] @
     le32 (ind_table_inline_index x) @
     enc_ena_admin_rss_ind_table_entry (ind_table_inline_entry x)"

definition dec_ena_admin_feature_rss_ind_table :: "byte list \<Rightarrow> ena_admin_feature_rss_ind_table" where [ena_codec]:
  "dec_ena_admin_feature_rss_ind_table bs = \<lparr>
     ind_table_min_size = get_le16 (bs),
     ind_table_max_size = get_le16 (drop 2 bs),
     ind_table_size = get_le16 (drop 4 bs),
     ind_table_flags = get8 (drop 6 bs),
     ind_table_reserved = get8 (drop 7 bs),
     ind_table_inline_index = get_le32 (drop 8 bs),
     ind_table_inline_entry = dec_ena_admin_rss_ind_table_entry (drop 12 bs)\<rparr>"

interpretation ind_table: struct_layout enc_ena_admin_feature_rss_ind_table dec_ena_admin_feature_rss_ind_table 16 "\<lambda>_. True"
  by unfold_locales (simp_all add: ena_codec le16_def le32_def)

text \<open>
  \<open>ena_admin_feature_rss_hash_control\<close>: four arrays of \<open>ena_admin_proto_input\<close>, of which the last
  two are reserved. The record keeps the \<open>fields\<close> members of the first two.
\<close>

record ena_admin_feature_rss_hash_control =
  hash_ctrl_supported_fields :: "u16 list"
  hash_ctrl_selected_fields :: "u16 list"

definition enc_ena_admin_feature_rss_hash_control :: "ena_admin_feature_rss_hash_control \<Rightarrow> byte list" where
  "enc_ena_admin_feature_rss_hash_control x =
     concat (map pair16 (hash_ctrl_supported_fields x)) @
     concat (map pair16 (hash_ctrl_selected_fields x)) @ replicate 128 0"

definition dec_ena_admin_feature_rss_hash_control :: "byte list \<Rightarrow> ena_admin_feature_rss_hash_control" where
  "dec_ena_admin_feature_rss_hash_control bs = \<lparr>
     hash_ctrl_supported_fields = get_arr_pair16 16 bs,
     hash_ctrl_selected_fields = get_arr_pair16 16 (drop 64 bs)\<rparr>"

definition wf_ena_admin_feature_rss_hash_control :: "ena_admin_feature_rss_hash_control \<Rightarrow> bool" where
  "wf_ena_admin_feature_rss_hash_control x \<longleftrightarrow>
     length (hash_ctrl_supported_fields x) = 16 \<and> length (hash_ctrl_selected_fields x) = 16"

interpretation hash_ctrl: struct_layout
  enc_ena_admin_feature_rss_hash_control dec_ena_admin_feature_rss_hash_control 256
  wf_ena_admin_feature_rss_hash_control
  by unfold_locales
    (auto simp: enc_ena_admin_feature_rss_hash_control_def dec_ena_admin_feature_rss_hash_control_def
      wf_ena_admin_feature_rss_hash_control_def get_arr_pair16_enc)

text \<open>
  GET\_FEATURE and SET\_FEATURE commands share their first 20 bytes; the union that follows in
  \<open>ena_admin_set_feat_cmd\<close> is decoded from offset 20 by the feature's own decoder.
\<close>

record ena_admin_get_feat_cmd =
  feat_cmd_aq_common_descriptor :: ena_admin_aq_common_desc
  feat_cmd_control_buffer :: ena_admin_ctrl_buff_info
  feat_cmd_feat_common :: ena_admin_get_set_feature_common_desc
  feat_cmd_raw :: "u32 list"

definition enc_ena_admin_get_feat_cmd :: "ena_admin_get_feat_cmd \<Rightarrow> byte list" where [ena_codec]:
  "enc_ena_admin_get_feat_cmd x =
     enc_ena_admin_aq_common_desc (feat_cmd_aq_common_descriptor x) @
     enc_ena_admin_ctrl_buff_info (feat_cmd_control_buffer x) @
     enc_ena_admin_get_set_feature_common_desc (feat_cmd_feat_common x) @
     concat (map le32 (feat_cmd_raw x))"

definition dec_ena_admin_get_feat_cmd :: "byte list \<Rightarrow> ena_admin_get_feat_cmd" where [ena_codec]:
  "dec_ena_admin_get_feat_cmd bs = \<lparr>
     feat_cmd_aq_common_descriptor = dec_ena_admin_aq_common_desc (bs),
     feat_cmd_control_buffer = dec_ena_admin_ctrl_buff_info (drop 4 bs),
     feat_cmd_feat_common = dec_ena_admin_get_set_feature_common_desc (drop 16 bs),
     feat_cmd_raw = get_arr32 11 (drop 20 bs)\<rparr>"

definition wf_ena_admin_get_feat_cmd :: "ena_admin_get_feat_cmd \<Rightarrow> bool" where [ena_codec]:
  "wf_ena_admin_get_feat_cmd x \<longleftrightarrow> length (feat_cmd_raw x) = 11"

interpretation feat_cmd: struct_layout enc_ena_admin_get_feat_cmd dec_ena_admin_get_feat_cmd 64 wf_ena_admin_get_feat_cmd
  by unfold_locales (auto simp: ena_codec le16_def le32_def get_arr32_enc_eq)

subsection \<open>Events and readless register access\<close>

record ena_admin_aenq_common_desc =
  aenq_common_group :: u16
  aenq_common_syndrome :: u16
  aenq_common_flags :: u8
  aenq_common_reserved1 :: "byte list"
  aenq_common_timestamp_low :: u32
  aenq_common_timestamp_high :: u32

definition enc_ena_admin_aenq_common_desc :: "ena_admin_aenq_common_desc \<Rightarrow> byte list" where [ena_codec]:
  "enc_ena_admin_aenq_common_desc x =
     le16 (aenq_common_group x) @
     le16 (aenq_common_syndrome x) @
     [aenq_common_flags x] @
     aenq_common_reserved1 x @
     le32 (aenq_common_timestamp_low x) @
     le32 (aenq_common_timestamp_high x)"

definition dec_ena_admin_aenq_common_desc :: "byte list \<Rightarrow> ena_admin_aenq_common_desc" where [ena_codec]:
  "dec_ena_admin_aenq_common_desc bs = \<lparr>
     aenq_common_group = get_le16 (bs),
     aenq_common_syndrome = get_le16 (drop 2 bs),
     aenq_common_flags = get8 (drop 4 bs),
     aenq_common_reserved1 = take 3 (drop 5 bs),
     aenq_common_timestamp_low = get_le32 (drop 8 bs),
     aenq_common_timestamp_high = get_le32 (drop 12 bs)\<rparr>"

definition wf_ena_admin_aenq_common_desc :: "ena_admin_aenq_common_desc \<Rightarrow> bool" where [ena_codec]:
  "wf_ena_admin_aenq_common_desc x \<longleftrightarrow> length (aenq_common_reserved1 x) = 3"

interpretation aenq_common: struct_layout enc_ena_admin_aenq_common_desc dec_ena_admin_aenq_common_desc 16 wf_ena_admin_aenq_common_desc
  by unfold_locales (auto simp: ena_codec le16_def le32_def get_arr32_enc_eq)

record ena_admin_aenq_entry =
  aenq_entry_aenq_common_desc :: ena_admin_aenq_common_desc
  aenq_entry_inline_data_w4 :: "byte list"

definition enc_ena_admin_aenq_entry :: "ena_admin_aenq_entry \<Rightarrow> byte list" where [ena_codec]:
  "enc_ena_admin_aenq_entry x =
     enc_ena_admin_aenq_common_desc (aenq_entry_aenq_common_desc x) @
     aenq_entry_inline_data_w4 x"

definition dec_ena_admin_aenq_entry :: "byte list \<Rightarrow> ena_admin_aenq_entry" where [ena_codec]:
  "dec_ena_admin_aenq_entry bs = \<lparr>
     aenq_entry_aenq_common_desc = dec_ena_admin_aenq_common_desc (bs),
     aenq_entry_inline_data_w4 = take 48 (drop 16 bs)\<rparr>"

definition wf_ena_admin_aenq_entry :: "ena_admin_aenq_entry \<Rightarrow> bool" where [ena_codec]:
  "wf_ena_admin_aenq_entry x \<longleftrightarrow> wf_ena_admin_aenq_common_desc (aenq_entry_aenq_common_desc x) \<and>
     length (aenq_entry_inline_data_w4 x) = 48"

interpretation aenq_entry: struct_layout enc_ena_admin_aenq_entry dec_ena_admin_aenq_entry 64 wf_ena_admin_aenq_entry
  by unfold_locales (auto simp: ena_codec le16_def le32_def get_arr32_enc_eq)

record ena_admin_aenq_link_change_desc =
  link_change_aenq_common_desc :: ena_admin_aenq_common_desc
  link_change_flags :: u32

definition enc_ena_admin_aenq_link_change_desc :: "ena_admin_aenq_link_change_desc \<Rightarrow> byte list" where [ena_codec]:
  "enc_ena_admin_aenq_link_change_desc x =
     enc_ena_admin_aenq_common_desc (link_change_aenq_common_desc x) @
     le32 (link_change_flags x)"

definition dec_ena_admin_aenq_link_change_desc :: "byte list \<Rightarrow> ena_admin_aenq_link_change_desc" where [ena_codec]:
  "dec_ena_admin_aenq_link_change_desc bs = \<lparr>
     link_change_aenq_common_desc = dec_ena_admin_aenq_common_desc (bs),
     link_change_flags = get_le32 (drop 16 bs)\<rparr>"

definition wf_ena_admin_aenq_link_change_desc :: "ena_admin_aenq_link_change_desc \<Rightarrow> bool" where [ena_codec]:
  "wf_ena_admin_aenq_link_change_desc x \<longleftrightarrow> wf_ena_admin_aenq_common_desc (link_change_aenq_common_desc x)"

interpretation link_change: struct_layout enc_ena_admin_aenq_link_change_desc dec_ena_admin_aenq_link_change_desc 20 wf_ena_admin_aenq_link_change_desc
  by unfold_locales (auto simp: ena_codec le16_def le32_def get_arr32_enc_eq)

record ena_admin_aenq_keep_alive_desc =
  keep_alive_aenq_common_desc :: ena_admin_aenq_common_desc
  keep_alive_rx_drops_low :: u32
  keep_alive_rx_drops_high :: u32
  keep_alive_tx_drops_low :: u32
  keep_alive_tx_drops_high :: u32
  keep_alive_rx_overruns_low :: u32
  keep_alive_rx_overruns_high :: u32

definition enc_ena_admin_aenq_keep_alive_desc :: "ena_admin_aenq_keep_alive_desc \<Rightarrow> byte list" where [ena_codec]:
  "enc_ena_admin_aenq_keep_alive_desc x =
     enc_ena_admin_aenq_common_desc (keep_alive_aenq_common_desc x) @
     le32 (keep_alive_rx_drops_low x) @
     le32 (keep_alive_rx_drops_high x) @
     le32 (keep_alive_tx_drops_low x) @
     le32 (keep_alive_tx_drops_high x) @
     le32 (keep_alive_rx_overruns_low x) @
     le32 (keep_alive_rx_overruns_high x)"

definition dec_ena_admin_aenq_keep_alive_desc :: "byte list \<Rightarrow> ena_admin_aenq_keep_alive_desc" where [ena_codec]:
  "dec_ena_admin_aenq_keep_alive_desc bs = \<lparr>
     keep_alive_aenq_common_desc = dec_ena_admin_aenq_common_desc (bs),
     keep_alive_rx_drops_low = get_le32 (drop 16 bs),
     keep_alive_rx_drops_high = get_le32 (drop 20 bs),
     keep_alive_tx_drops_low = get_le32 (drop 24 bs),
     keep_alive_tx_drops_high = get_le32 (drop 28 bs),
     keep_alive_rx_overruns_low = get_le32 (drop 32 bs),
     keep_alive_rx_overruns_high = get_le32 (drop 36 bs)\<rparr>"

definition wf_ena_admin_aenq_keep_alive_desc :: "ena_admin_aenq_keep_alive_desc \<Rightarrow> bool" where [ena_codec]:
  "wf_ena_admin_aenq_keep_alive_desc x \<longleftrightarrow> wf_ena_admin_aenq_common_desc (keep_alive_aenq_common_desc x)"

interpretation keep_alive: struct_layout enc_ena_admin_aenq_keep_alive_desc dec_ena_admin_aenq_keep_alive_desc 40 wf_ena_admin_aenq_keep_alive_desc
  by unfold_locales (auto simp: ena_codec le16_def le32_def get_arr32_enc_eq)

record ena_admin_ena_mmio_req_read_less_resp =
  readless_resp_req_id :: u16
  readless_resp_reg_off :: u16
  readless_resp_reg_val :: u32

definition enc_ena_admin_ena_mmio_req_read_less_resp :: "ena_admin_ena_mmio_req_read_less_resp \<Rightarrow> byte list" where [ena_codec]:
  "enc_ena_admin_ena_mmio_req_read_less_resp x =
     le16 (readless_resp_req_id x) @
     le16 (readless_resp_reg_off x) @
     le32 (readless_resp_reg_val x)"

definition dec_ena_admin_ena_mmio_req_read_less_resp :: "byte list \<Rightarrow> ena_admin_ena_mmio_req_read_less_resp" where [ena_codec]:
  "dec_ena_admin_ena_mmio_req_read_less_resp bs = \<lparr>
     readless_resp_req_id = get_le16 (bs),
     readless_resp_reg_off = get_le16 (drop 2 bs),
     readless_resp_reg_val = get_le32 (drop 4 bs)\<rparr>"

interpretation readless_resp: struct_layout enc_ena_admin_ena_mmio_req_read_less_resp dec_ena_admin_ena_mmio_req_read_less_resp 8 "\<lambda>_. True"
  by unfold_locales (simp_all add: ena_codec le16_def le32_def)

section \<open>Masks and shifts\<close>

definition ENA_ADMIN_AQ_COMMON_DESC_COMMAND_ID_MASK :: u16 where [ena_const]: "ENA_ADMIN_AQ_COMMON_DESC_COMMAND_ID_MASK = GENMASK 11 0"
definition ENA_ADMIN_AQ_COMMON_DESC_PHASE_MASK :: u8 where [ena_const]: "ENA_ADMIN_AQ_COMMON_DESC_PHASE_MASK = BIT 0"
definition ENA_ADMIN_AQ_COMMON_DESC_CTRL_DATA_SHIFT :: nat where [ena_const]: "ENA_ADMIN_AQ_COMMON_DESC_CTRL_DATA_SHIFT = 1"
definition ENA_ADMIN_AQ_COMMON_DESC_CTRL_DATA_MASK :: u8 where [ena_const]: "ENA_ADMIN_AQ_COMMON_DESC_CTRL_DATA_MASK = BIT 1"
definition ENA_ADMIN_AQ_COMMON_DESC_CTRL_DATA_INDIRECT_SHIFT :: nat where [ena_const]: "ENA_ADMIN_AQ_COMMON_DESC_CTRL_DATA_INDIRECT_SHIFT = 2"
definition ENA_ADMIN_AQ_COMMON_DESC_CTRL_DATA_INDIRECT_MASK :: u8 where [ena_const]: "ENA_ADMIN_AQ_COMMON_DESC_CTRL_DATA_INDIRECT_MASK = BIT 2"
definition ENA_ADMIN_SQ_SQ_DIRECTION_SHIFT :: nat where [ena_const]: "ENA_ADMIN_SQ_SQ_DIRECTION_SHIFT = 5"
definition ENA_ADMIN_SQ_SQ_DIRECTION_MASK :: u8 where [ena_const]: "ENA_ADMIN_SQ_SQ_DIRECTION_MASK = GENMASK 7 5"
definition ENA_ADMIN_ACQ_COMMON_DESC_COMMAND_ID_MASK :: u16 where [ena_const]: "ENA_ADMIN_ACQ_COMMON_DESC_COMMAND_ID_MASK = GENMASK 11 0"
definition ENA_ADMIN_ACQ_COMMON_DESC_PHASE_MASK :: u8 where [ena_const]: "ENA_ADMIN_ACQ_COMMON_DESC_PHASE_MASK = BIT 0"
definition ENA_ADMIN_AQ_CREATE_SQ_CMD_SQ_DIRECTION_SHIFT :: nat where [ena_const]: "ENA_ADMIN_AQ_CREATE_SQ_CMD_SQ_DIRECTION_SHIFT = 5"
definition ENA_ADMIN_AQ_CREATE_SQ_CMD_SQ_DIRECTION_MASK :: u8 where [ena_const]: "ENA_ADMIN_AQ_CREATE_SQ_CMD_SQ_DIRECTION_MASK = GENMASK 7 5"
definition ENA_ADMIN_AQ_CREATE_SQ_CMD_PLACEMENT_POLICY_MASK :: u8 where [ena_const]: "ENA_ADMIN_AQ_CREATE_SQ_CMD_PLACEMENT_POLICY_MASK = GENMASK 3 0"
definition ENA_ADMIN_AQ_CREATE_SQ_CMD_COMPLETION_POLICY_SHIFT :: nat where [ena_const]: "ENA_ADMIN_AQ_CREATE_SQ_CMD_COMPLETION_POLICY_SHIFT = 4"
definition ENA_ADMIN_AQ_CREATE_SQ_CMD_COMPLETION_POLICY_MASK :: u8 where [ena_const]: "ENA_ADMIN_AQ_CREATE_SQ_CMD_COMPLETION_POLICY_MASK = GENMASK 6 4"
definition ENA_ADMIN_AQ_CREATE_SQ_CMD_IS_PHYSICALLY_CONTIGUOUS_MASK :: u8 where [ena_const]: "ENA_ADMIN_AQ_CREATE_SQ_CMD_IS_PHYSICALLY_CONTIGUOUS_MASK = BIT 0"
definition ENA_ADMIN_AQ_CREATE_CQ_CMD_INTERRUPT_MODE_ENABLED_SHIFT :: nat where [ena_const]: "ENA_ADMIN_AQ_CREATE_CQ_CMD_INTERRUPT_MODE_ENABLED_SHIFT = 5"
definition ENA_ADMIN_AQ_CREATE_CQ_CMD_INTERRUPT_MODE_ENABLED_MASK :: u8 where [ena_const]: "ENA_ADMIN_AQ_CREATE_CQ_CMD_INTERRUPT_MODE_ENABLED_MASK = BIT 5"
definition ENA_ADMIN_AQ_CREATE_CQ_CMD_CQ_ENTRY_SIZE_WORDS_MASK :: u8 where [ena_const]: "ENA_ADMIN_AQ_CREATE_CQ_CMD_CQ_ENTRY_SIZE_WORDS_MASK = GENMASK 4 0"
definition ENA_ADMIN_GET_SET_FEATURE_COMMON_DESC_SELECT_MASK :: u8 where [ena_const]: "ENA_ADMIN_GET_SET_FEATURE_COMMON_DESC_SELECT_MASK = GENMASK 1 0"
definition ENA_ADMIN_GET_FEATURE_LINK_DESC_AUTONEG_MASK :: u32 where [ena_const]: "ENA_ADMIN_GET_FEATURE_LINK_DESC_AUTONEG_MASK = BIT 0"
definition ENA_ADMIN_GET_FEATURE_LINK_DESC_DUPLEX_SHIFT :: nat where [ena_const]: "ENA_ADMIN_GET_FEATURE_LINK_DESC_DUPLEX_SHIFT = 1"
definition ENA_ADMIN_GET_FEATURE_LINK_DESC_DUPLEX_MASK :: u32 where [ena_const]: "ENA_ADMIN_GET_FEATURE_LINK_DESC_DUPLEX_MASK = BIT 1"
definition ENA_ADMIN_FEATURE_OFFLOAD_DESC_TX_L3_CSUM_IPV4_MASK :: u32 where [ena_const]: "ENA_ADMIN_FEATURE_OFFLOAD_DESC_TX_L3_CSUM_IPV4_MASK = BIT 0"
definition ENA_ADMIN_FEATURE_OFFLOAD_DESC_TX_L4_IPV4_CSUM_PART_SHIFT :: nat where [ena_const]: "ENA_ADMIN_FEATURE_OFFLOAD_DESC_TX_L4_IPV4_CSUM_PART_SHIFT = 1"
definition ENA_ADMIN_FEATURE_OFFLOAD_DESC_TX_L4_IPV4_CSUM_PART_MASK :: u32 where [ena_const]: "ENA_ADMIN_FEATURE_OFFLOAD_DESC_TX_L4_IPV4_CSUM_PART_MASK = BIT 1"
definition ENA_ADMIN_FEATURE_OFFLOAD_DESC_TX_L4_IPV4_CSUM_FULL_SHIFT :: nat where [ena_const]: "ENA_ADMIN_FEATURE_OFFLOAD_DESC_TX_L4_IPV4_CSUM_FULL_SHIFT = 2"
definition ENA_ADMIN_FEATURE_OFFLOAD_DESC_TX_L4_IPV4_CSUM_FULL_MASK :: u32 where [ena_const]: "ENA_ADMIN_FEATURE_OFFLOAD_DESC_TX_L4_IPV4_CSUM_FULL_MASK = BIT 2"
definition ENA_ADMIN_FEATURE_OFFLOAD_DESC_TX_L4_IPV6_CSUM_PART_SHIFT :: nat where [ena_const]: "ENA_ADMIN_FEATURE_OFFLOAD_DESC_TX_L4_IPV6_CSUM_PART_SHIFT = 3"
definition ENA_ADMIN_FEATURE_OFFLOAD_DESC_TX_L4_IPV6_CSUM_PART_MASK :: u32 where [ena_const]: "ENA_ADMIN_FEATURE_OFFLOAD_DESC_TX_L4_IPV6_CSUM_PART_MASK = BIT 3"
definition ENA_ADMIN_FEATURE_OFFLOAD_DESC_TX_L4_IPV6_CSUM_FULL_SHIFT :: nat where [ena_const]: "ENA_ADMIN_FEATURE_OFFLOAD_DESC_TX_L4_IPV6_CSUM_FULL_SHIFT = 4"
definition ENA_ADMIN_FEATURE_OFFLOAD_DESC_TX_L4_IPV6_CSUM_FULL_MASK :: u32 where [ena_const]: "ENA_ADMIN_FEATURE_OFFLOAD_DESC_TX_L4_IPV6_CSUM_FULL_MASK = BIT 4"
definition ENA_ADMIN_FEATURE_OFFLOAD_DESC_TSO_IPV4_SHIFT :: nat where [ena_const]: "ENA_ADMIN_FEATURE_OFFLOAD_DESC_TSO_IPV4_SHIFT = 5"
definition ENA_ADMIN_FEATURE_OFFLOAD_DESC_TSO_IPV4_MASK :: u32 where [ena_const]: "ENA_ADMIN_FEATURE_OFFLOAD_DESC_TSO_IPV4_MASK = BIT 5"
definition ENA_ADMIN_FEATURE_OFFLOAD_DESC_TSO_IPV6_SHIFT :: nat where [ena_const]: "ENA_ADMIN_FEATURE_OFFLOAD_DESC_TSO_IPV6_SHIFT = 6"
definition ENA_ADMIN_FEATURE_OFFLOAD_DESC_TSO_IPV6_MASK :: u32 where [ena_const]: "ENA_ADMIN_FEATURE_OFFLOAD_DESC_TSO_IPV6_MASK = BIT 6"
definition ENA_ADMIN_FEATURE_OFFLOAD_DESC_TSO_ECN_SHIFT :: nat where [ena_const]: "ENA_ADMIN_FEATURE_OFFLOAD_DESC_TSO_ECN_SHIFT = 7"
definition ENA_ADMIN_FEATURE_OFFLOAD_DESC_TSO_ECN_MASK :: u32 where [ena_const]: "ENA_ADMIN_FEATURE_OFFLOAD_DESC_TSO_ECN_MASK = BIT 7"
definition ENA_ADMIN_FEATURE_OFFLOAD_DESC_RX_L3_CSUM_IPV4_MASK :: u32 where [ena_const]: "ENA_ADMIN_FEATURE_OFFLOAD_DESC_RX_L3_CSUM_IPV4_MASK = BIT 0"
definition ENA_ADMIN_FEATURE_OFFLOAD_DESC_RX_L4_IPV4_CSUM_SHIFT :: nat where [ena_const]: "ENA_ADMIN_FEATURE_OFFLOAD_DESC_RX_L4_IPV4_CSUM_SHIFT = 1"
definition ENA_ADMIN_FEATURE_OFFLOAD_DESC_RX_L4_IPV4_CSUM_MASK :: u32 where [ena_const]: "ENA_ADMIN_FEATURE_OFFLOAD_DESC_RX_L4_IPV4_CSUM_MASK = BIT 1"
definition ENA_ADMIN_FEATURE_OFFLOAD_DESC_RX_L4_IPV6_CSUM_SHIFT :: nat where [ena_const]: "ENA_ADMIN_FEATURE_OFFLOAD_DESC_RX_L4_IPV6_CSUM_SHIFT = 2"
definition ENA_ADMIN_FEATURE_OFFLOAD_DESC_RX_L4_IPV6_CSUM_MASK :: u32 where [ena_const]: "ENA_ADMIN_FEATURE_OFFLOAD_DESC_RX_L4_IPV6_CSUM_MASK = BIT 2"
definition ENA_ADMIN_FEATURE_OFFLOAD_DESC_RX_HASH_SHIFT :: nat where [ena_const]: "ENA_ADMIN_FEATURE_OFFLOAD_DESC_RX_HASH_SHIFT = 3"
definition ENA_ADMIN_FEATURE_OFFLOAD_DESC_RX_HASH_MASK :: u32 where [ena_const]: "ENA_ADMIN_FEATURE_OFFLOAD_DESC_RX_HASH_MASK = BIT 3"
definition ENA_ADMIN_FEATURE_RSS_FLOW_HASH_FUNCTION_FUNCS_MASK :: u32 where [ena_const]: "ENA_ADMIN_FEATURE_RSS_FLOW_HASH_FUNCTION_FUNCS_MASK = GENMASK 7 0"
definition ENA_ADMIN_FEATURE_RSS_FLOW_HASH_FUNCTION_SELECTED_FUNC_MASK :: u32 where [ena_const]: "ENA_ADMIN_FEATURE_RSS_FLOW_HASH_FUNCTION_SELECTED_FUNC_MASK = GENMASK 7 0"
definition ENA_ADMIN_FEATURE_RSS_FLOW_HASH_INPUT_L3_SORT_SHIFT :: nat where [ena_const]: "ENA_ADMIN_FEATURE_RSS_FLOW_HASH_INPUT_L3_SORT_SHIFT = 1"
definition ENA_ADMIN_FEATURE_RSS_FLOW_HASH_INPUT_L3_SORT_MASK :: u16 where [ena_const]: "ENA_ADMIN_FEATURE_RSS_FLOW_HASH_INPUT_L3_SORT_MASK = BIT 1"
definition ENA_ADMIN_FEATURE_RSS_FLOW_HASH_INPUT_L4_SORT_SHIFT :: nat where [ena_const]: "ENA_ADMIN_FEATURE_RSS_FLOW_HASH_INPUT_L4_SORT_SHIFT = 2"
definition ENA_ADMIN_FEATURE_RSS_FLOW_HASH_INPUT_L4_SORT_MASK :: u16 where [ena_const]: "ENA_ADMIN_FEATURE_RSS_FLOW_HASH_INPUT_L4_SORT_MASK = BIT 2"
definition ENA_ADMIN_FEATURE_RSS_FLOW_HASH_INPUT_ENABLE_L3_SORT_SHIFT :: nat where [ena_const]: "ENA_ADMIN_FEATURE_RSS_FLOW_HASH_INPUT_ENABLE_L3_SORT_SHIFT = 1"
definition ENA_ADMIN_FEATURE_RSS_FLOW_HASH_INPUT_ENABLE_L3_SORT_MASK :: u16 where [ena_const]: "ENA_ADMIN_FEATURE_RSS_FLOW_HASH_INPUT_ENABLE_L3_SORT_MASK = BIT 1"
definition ENA_ADMIN_FEATURE_RSS_FLOW_HASH_INPUT_ENABLE_L4_SORT_SHIFT :: nat where [ena_const]: "ENA_ADMIN_FEATURE_RSS_FLOW_HASH_INPUT_ENABLE_L4_SORT_SHIFT = 2"
definition ENA_ADMIN_FEATURE_RSS_FLOW_HASH_INPUT_ENABLE_L4_SORT_MASK :: u16 where [ena_const]: "ENA_ADMIN_FEATURE_RSS_FLOW_HASH_INPUT_ENABLE_L4_SORT_MASK = BIT 2"
definition ENA_ADMIN_HOST_INFO_MAJOR_MASK :: u32 where [ena_const]: "ENA_ADMIN_HOST_INFO_MAJOR_MASK = GENMASK 7 0"
definition ENA_ADMIN_HOST_INFO_MINOR_SHIFT :: nat where [ena_const]: "ENA_ADMIN_HOST_INFO_MINOR_SHIFT = 8"
definition ENA_ADMIN_HOST_INFO_MINOR_MASK :: u32 where [ena_const]: "ENA_ADMIN_HOST_INFO_MINOR_MASK = GENMASK 15 8"
definition ENA_ADMIN_HOST_INFO_SUB_MINOR_SHIFT :: nat where [ena_const]: "ENA_ADMIN_HOST_INFO_SUB_MINOR_SHIFT = 16"
definition ENA_ADMIN_HOST_INFO_SUB_MINOR_MASK :: u32 where [ena_const]: "ENA_ADMIN_HOST_INFO_SUB_MINOR_MASK = GENMASK 23 16"
definition ENA_ADMIN_HOST_INFO_MODULE_TYPE_SHIFT :: nat where [ena_const]: "ENA_ADMIN_HOST_INFO_MODULE_TYPE_SHIFT = 24"
definition ENA_ADMIN_HOST_INFO_MODULE_TYPE_MASK :: u32 where [ena_const]: "ENA_ADMIN_HOST_INFO_MODULE_TYPE_MASK = GENMASK 31 24"
definition ENA_ADMIN_HOST_INFO_FUNCTION_MASK :: u16 where [ena_const]: "ENA_ADMIN_HOST_INFO_FUNCTION_MASK = GENMASK 2 0"
definition ENA_ADMIN_HOST_INFO_DEVICE_SHIFT :: nat where [ena_const]: "ENA_ADMIN_HOST_INFO_DEVICE_SHIFT = 3"
definition ENA_ADMIN_HOST_INFO_DEVICE_MASK :: u16 where [ena_const]: "ENA_ADMIN_HOST_INFO_DEVICE_MASK = GENMASK 7 3"
definition ENA_ADMIN_HOST_INFO_BUS_SHIFT :: nat where [ena_const]: "ENA_ADMIN_HOST_INFO_BUS_SHIFT = 8"
definition ENA_ADMIN_HOST_INFO_BUS_MASK :: u16 where [ena_const]: "ENA_ADMIN_HOST_INFO_BUS_MASK = GENMASK 15 8"
definition ENA_ADMIN_HOST_INFO_RX_OFFSET_SHIFT :: nat where [ena_const]: "ENA_ADMIN_HOST_INFO_RX_OFFSET_SHIFT = 1"
definition ENA_ADMIN_HOST_INFO_RX_OFFSET_MASK :: u32 where [ena_const]: "ENA_ADMIN_HOST_INFO_RX_OFFSET_MASK = BIT 1"
definition ENA_ADMIN_HOST_INFO_INTERRUPT_MODERATION_SHIFT :: nat where [ena_const]: "ENA_ADMIN_HOST_INFO_INTERRUPT_MODERATION_SHIFT = 2"
definition ENA_ADMIN_HOST_INFO_INTERRUPT_MODERATION_MASK :: u32 where [ena_const]: "ENA_ADMIN_HOST_INFO_INTERRUPT_MODERATION_MASK = BIT 2"
definition ENA_ADMIN_HOST_INFO_RX_BUF_MIRRORING_SHIFT :: nat where [ena_const]: "ENA_ADMIN_HOST_INFO_RX_BUF_MIRRORING_SHIFT = 3"
definition ENA_ADMIN_HOST_INFO_RX_BUF_MIRRORING_MASK :: u32 where [ena_const]: "ENA_ADMIN_HOST_INFO_RX_BUF_MIRRORING_MASK = BIT 3"
definition ENA_ADMIN_HOST_INFO_RSS_CONFIGURABLE_FUNCTION_KEY_SHIFT :: nat where [ena_const]: "ENA_ADMIN_HOST_INFO_RSS_CONFIGURABLE_FUNCTION_KEY_SHIFT = 4"
definition ENA_ADMIN_HOST_INFO_RSS_CONFIGURABLE_FUNCTION_KEY_MASK :: u32 where [ena_const]: "ENA_ADMIN_HOST_INFO_RSS_CONFIGURABLE_FUNCTION_KEY_MASK = BIT 4"
definition ENA_ADMIN_HOST_INFO_RX_PAGE_REUSE_SHIFT :: nat where [ena_const]: "ENA_ADMIN_HOST_INFO_RX_PAGE_REUSE_SHIFT = 6"
definition ENA_ADMIN_HOST_INFO_RX_PAGE_REUSE_MASK :: u32 where [ena_const]: "ENA_ADMIN_HOST_INFO_RX_PAGE_REUSE_MASK = BIT 6"
definition ENA_ADMIN_HOST_INFO_TX_IPV6_CSUM_OFFLOAD_SHIFT :: nat where [ena_const]: "ENA_ADMIN_HOST_INFO_TX_IPV6_CSUM_OFFLOAD_SHIFT = 7"
definition ENA_ADMIN_HOST_INFO_TX_IPV6_CSUM_OFFLOAD_MASK :: u32 where [ena_const]: "ENA_ADMIN_HOST_INFO_TX_IPV6_CSUM_OFFLOAD_MASK = BIT 7"
definition ENA_ADMIN_HOST_INFO_PHC_SHIFT :: nat where [ena_const]: "ENA_ADMIN_HOST_INFO_PHC_SHIFT = 8"
definition ENA_ADMIN_HOST_INFO_PHC_MASK :: u32 where [ena_const]: "ENA_ADMIN_HOST_INFO_PHC_MASK = BIT 8"
definition ENA_ADMIN_FEATURE_RSS_IND_TABLE_ONE_ENTRY_UPDATE_MASK :: u8 where [ena_const]: "ENA_ADMIN_FEATURE_RSS_IND_TABLE_ONE_ENTRY_UPDATE_MASK = BIT 0"
definition ENA_ADMIN_AENQ_COMMON_DESC_PHASE_MASK :: u8 where [ena_const]: "ENA_ADMIN_AENQ_COMMON_DESC_PHASE_MASK = BIT 0"
definition ENA_ADMIN_AENQ_LINK_CHANGE_DESC_LINK_STATUS_MASK :: u32 where [ena_const]: "ENA_ADMIN_AENQ_LINK_CHANGE_DESC_LINK_STATUS_MASK = BIT 0"

section \<open>Bit-field accessors\<close>

definition get_ena_admin_aq_common_desc_command_id :: "ena_admin_aq_common_desc \<Rightarrow> u16" where
  "get_ena_admin_aq_common_desc_command_id p = aq_common_desc_command_id p AND ENA_ADMIN_AQ_COMMON_DESC_COMMAND_ID_MASK"

definition set_ena_admin_aq_common_desc_command_id :: "ena_admin_aq_common_desc \<Rightarrow> u16 \<Rightarrow> ena_admin_aq_common_desc" where
  "set_ena_admin_aq_common_desc_command_id p v = p\<lparr>aq_common_desc_command_id := aq_common_desc_command_id p OR (v AND ENA_ADMIN_AQ_COMMON_DESC_COMMAND_ID_MASK)\<rparr>"

interpretation bf_ena_admin_aq_common_desc_command_id: bitfield get_ena_admin_aq_common_desc_command_id set_ena_admin_aq_common_desc_command_id aq_common_desc_command_id 11 0
  by unfold_locales
    (simp_all add: get_ena_admin_aq_common_desc_command_id_def set_ena_admin_aq_common_desc_command_id_def ena_const BIT_eq_GENMASK)

definition get_ena_admin_aq_common_desc_phase :: "ena_admin_aq_common_desc \<Rightarrow> u8" where
  "get_ena_admin_aq_common_desc_phase p = aq_common_desc_flags p AND ENA_ADMIN_AQ_COMMON_DESC_PHASE_MASK"

definition set_ena_admin_aq_common_desc_phase :: "ena_admin_aq_common_desc \<Rightarrow> u8 \<Rightarrow> ena_admin_aq_common_desc" where
  "set_ena_admin_aq_common_desc_phase p v = p\<lparr>aq_common_desc_flags := aq_common_desc_flags p OR (v AND ENA_ADMIN_AQ_COMMON_DESC_PHASE_MASK)\<rparr>"

interpretation bf_ena_admin_aq_common_desc_phase: bitfield get_ena_admin_aq_common_desc_phase set_ena_admin_aq_common_desc_phase aq_common_desc_flags 0 0
  by unfold_locales
    (simp_all add: get_ena_admin_aq_common_desc_phase_def set_ena_admin_aq_common_desc_phase_def ena_const BIT_eq_GENMASK)

definition get_ena_admin_aq_common_desc_ctrl_data :: "ena_admin_aq_common_desc \<Rightarrow> u8" where
  "get_ena_admin_aq_common_desc_ctrl_data p = drop_bit ENA_ADMIN_AQ_COMMON_DESC_CTRL_DATA_SHIFT (aq_common_desc_flags p AND ENA_ADMIN_AQ_COMMON_DESC_CTRL_DATA_MASK)"

definition set_ena_admin_aq_common_desc_ctrl_data :: "ena_admin_aq_common_desc \<Rightarrow> u8 \<Rightarrow> ena_admin_aq_common_desc" where
  "set_ena_admin_aq_common_desc_ctrl_data p v = p\<lparr>aq_common_desc_flags := aq_common_desc_flags p OR (push_bit ENA_ADMIN_AQ_COMMON_DESC_CTRL_DATA_SHIFT v AND ENA_ADMIN_AQ_COMMON_DESC_CTRL_DATA_MASK)\<rparr>"

interpretation bf_ena_admin_aq_common_desc_ctrl_data: bitfield get_ena_admin_aq_common_desc_ctrl_data set_ena_admin_aq_common_desc_ctrl_data aq_common_desc_flags 1 1
  by unfold_locales
    (simp_all add: get_ena_admin_aq_common_desc_ctrl_data_def set_ena_admin_aq_common_desc_ctrl_data_def ena_const BIT_eq_GENMASK)

definition get_ena_admin_aq_common_desc_ctrl_data_indirect :: "ena_admin_aq_common_desc \<Rightarrow> u8" where
  "get_ena_admin_aq_common_desc_ctrl_data_indirect p = drop_bit ENA_ADMIN_AQ_COMMON_DESC_CTRL_DATA_INDIRECT_SHIFT (aq_common_desc_flags p AND ENA_ADMIN_AQ_COMMON_DESC_CTRL_DATA_INDIRECT_MASK)"

definition set_ena_admin_aq_common_desc_ctrl_data_indirect :: "ena_admin_aq_common_desc \<Rightarrow> u8 \<Rightarrow> ena_admin_aq_common_desc" where
  "set_ena_admin_aq_common_desc_ctrl_data_indirect p v = p\<lparr>aq_common_desc_flags := aq_common_desc_flags p OR (push_bit ENA_ADMIN_AQ_COMMON_DESC_CTRL_DATA_INDIRECT_SHIFT v AND ENA_ADMIN_AQ_COMMON_DESC_CTRL_DATA_INDIRECT_MASK)\<rparr>"

interpretation bf_ena_admin_aq_common_desc_ctrl_data_indirect: bitfield get_ena_admin_aq_common_desc_ctrl_data_indirect set_ena_admin_aq_common_desc_ctrl_data_indirect aq_common_desc_flags 2 2
  by unfold_locales
    (simp_all add: get_ena_admin_aq_common_desc_ctrl_data_indirect_def set_ena_admin_aq_common_desc_ctrl_data_indirect_def ena_const BIT_eq_GENMASK)

definition get_ena_admin_sq_sq_direction :: "ena_admin_sq \<Rightarrow> u8" where
  "get_ena_admin_sq_sq_direction p = drop_bit ENA_ADMIN_SQ_SQ_DIRECTION_SHIFT (admin_sq_sq_identity p AND ENA_ADMIN_SQ_SQ_DIRECTION_MASK)"

definition set_ena_admin_sq_sq_direction :: "ena_admin_sq \<Rightarrow> u8 \<Rightarrow> ena_admin_sq" where
  "set_ena_admin_sq_sq_direction p v = p\<lparr>admin_sq_sq_identity := admin_sq_sq_identity p OR (push_bit ENA_ADMIN_SQ_SQ_DIRECTION_SHIFT v AND ENA_ADMIN_SQ_SQ_DIRECTION_MASK)\<rparr>"

interpretation bf_ena_admin_sq_sq_direction: bitfield get_ena_admin_sq_sq_direction set_ena_admin_sq_sq_direction admin_sq_sq_identity 7 5
  by unfold_locales
    (simp_all add: get_ena_admin_sq_sq_direction_def set_ena_admin_sq_sq_direction_def ena_const BIT_eq_GENMASK)

definition get_ena_admin_acq_common_desc_command_id :: "ena_admin_acq_common_desc \<Rightarrow> u16" where
  "get_ena_admin_acq_common_desc_command_id p = acq_common_desc_command p AND ENA_ADMIN_ACQ_COMMON_DESC_COMMAND_ID_MASK"

definition set_ena_admin_acq_common_desc_command_id :: "ena_admin_acq_common_desc \<Rightarrow> u16 \<Rightarrow> ena_admin_acq_common_desc" where
  "set_ena_admin_acq_common_desc_command_id p v = p\<lparr>acq_common_desc_command := acq_common_desc_command p OR (v AND ENA_ADMIN_ACQ_COMMON_DESC_COMMAND_ID_MASK)\<rparr>"

interpretation bf_ena_admin_acq_common_desc_command_id: bitfield get_ena_admin_acq_common_desc_command_id set_ena_admin_acq_common_desc_command_id acq_common_desc_command 11 0
  by unfold_locales
    (simp_all add: get_ena_admin_acq_common_desc_command_id_def set_ena_admin_acq_common_desc_command_id_def ena_const BIT_eq_GENMASK)

definition get_ena_admin_acq_common_desc_phase :: "ena_admin_acq_common_desc \<Rightarrow> u8" where
  "get_ena_admin_acq_common_desc_phase p = acq_common_desc_flags p AND ENA_ADMIN_ACQ_COMMON_DESC_PHASE_MASK"

definition set_ena_admin_acq_common_desc_phase :: "ena_admin_acq_common_desc \<Rightarrow> u8 \<Rightarrow> ena_admin_acq_common_desc" where
  "set_ena_admin_acq_common_desc_phase p v = p\<lparr>acq_common_desc_flags := acq_common_desc_flags p OR (v AND ENA_ADMIN_ACQ_COMMON_DESC_PHASE_MASK)\<rparr>"

interpretation bf_ena_admin_acq_common_desc_phase: bitfield get_ena_admin_acq_common_desc_phase set_ena_admin_acq_common_desc_phase acq_common_desc_flags 0 0
  by unfold_locales
    (simp_all add: get_ena_admin_acq_common_desc_phase_def set_ena_admin_acq_common_desc_phase_def ena_const BIT_eq_GENMASK)

definition get_ena_admin_aq_create_sq_cmd_sq_direction :: "ena_admin_aq_create_sq_cmd \<Rightarrow> u8" where
  "get_ena_admin_aq_create_sq_cmd_sq_direction p = drop_bit ENA_ADMIN_AQ_CREATE_SQ_CMD_SQ_DIRECTION_SHIFT (create_sq_cmd_sq_identity p AND ENA_ADMIN_AQ_CREATE_SQ_CMD_SQ_DIRECTION_MASK)"

definition set_ena_admin_aq_create_sq_cmd_sq_direction :: "ena_admin_aq_create_sq_cmd \<Rightarrow> u8 \<Rightarrow> ena_admin_aq_create_sq_cmd" where
  "set_ena_admin_aq_create_sq_cmd_sq_direction p v = p\<lparr>create_sq_cmd_sq_identity := create_sq_cmd_sq_identity p OR (push_bit ENA_ADMIN_AQ_CREATE_SQ_CMD_SQ_DIRECTION_SHIFT v AND ENA_ADMIN_AQ_CREATE_SQ_CMD_SQ_DIRECTION_MASK)\<rparr>"

interpretation bf_ena_admin_aq_create_sq_cmd_sq_direction: bitfield get_ena_admin_aq_create_sq_cmd_sq_direction set_ena_admin_aq_create_sq_cmd_sq_direction create_sq_cmd_sq_identity 7 5
  by unfold_locales
    (simp_all add: get_ena_admin_aq_create_sq_cmd_sq_direction_def set_ena_admin_aq_create_sq_cmd_sq_direction_def ena_const BIT_eq_GENMASK)

definition get_ena_admin_aq_create_sq_cmd_placement_policy :: "ena_admin_aq_create_sq_cmd \<Rightarrow> u8" where
  "get_ena_admin_aq_create_sq_cmd_placement_policy p = create_sq_cmd_sq_caps_2 p AND ENA_ADMIN_AQ_CREATE_SQ_CMD_PLACEMENT_POLICY_MASK"

definition set_ena_admin_aq_create_sq_cmd_placement_policy :: "ena_admin_aq_create_sq_cmd \<Rightarrow> u8 \<Rightarrow> ena_admin_aq_create_sq_cmd" where
  "set_ena_admin_aq_create_sq_cmd_placement_policy p v = p\<lparr>create_sq_cmd_sq_caps_2 := create_sq_cmd_sq_caps_2 p OR (v AND ENA_ADMIN_AQ_CREATE_SQ_CMD_PLACEMENT_POLICY_MASK)\<rparr>"

interpretation bf_ena_admin_aq_create_sq_cmd_placement_policy: bitfield get_ena_admin_aq_create_sq_cmd_placement_policy set_ena_admin_aq_create_sq_cmd_placement_policy create_sq_cmd_sq_caps_2 3 0
  by unfold_locales
    (simp_all add: get_ena_admin_aq_create_sq_cmd_placement_policy_def set_ena_admin_aq_create_sq_cmd_placement_policy_def ena_const BIT_eq_GENMASK)

definition get_ena_admin_aq_create_sq_cmd_completion_policy :: "ena_admin_aq_create_sq_cmd \<Rightarrow> u8" where
  "get_ena_admin_aq_create_sq_cmd_completion_policy p = drop_bit ENA_ADMIN_AQ_CREATE_SQ_CMD_COMPLETION_POLICY_SHIFT (create_sq_cmd_sq_caps_2 p AND ENA_ADMIN_AQ_CREATE_SQ_CMD_COMPLETION_POLICY_MASK)"

definition set_ena_admin_aq_create_sq_cmd_completion_policy :: "ena_admin_aq_create_sq_cmd \<Rightarrow> u8 \<Rightarrow> ena_admin_aq_create_sq_cmd" where
  "set_ena_admin_aq_create_sq_cmd_completion_policy p v = p\<lparr>create_sq_cmd_sq_caps_2 := create_sq_cmd_sq_caps_2 p OR (push_bit ENA_ADMIN_AQ_CREATE_SQ_CMD_COMPLETION_POLICY_SHIFT v AND ENA_ADMIN_AQ_CREATE_SQ_CMD_COMPLETION_POLICY_MASK)\<rparr>"

interpretation bf_ena_admin_aq_create_sq_cmd_completion_policy: bitfield get_ena_admin_aq_create_sq_cmd_completion_policy set_ena_admin_aq_create_sq_cmd_completion_policy create_sq_cmd_sq_caps_2 6 4
  by unfold_locales
    (simp_all add: get_ena_admin_aq_create_sq_cmd_completion_policy_def set_ena_admin_aq_create_sq_cmd_completion_policy_def ena_const BIT_eq_GENMASK)

definition get_ena_admin_aq_create_sq_cmd_is_physically_contiguous :: "ena_admin_aq_create_sq_cmd \<Rightarrow> u8" where
  "get_ena_admin_aq_create_sq_cmd_is_physically_contiguous p = create_sq_cmd_sq_caps_3 p AND ENA_ADMIN_AQ_CREATE_SQ_CMD_IS_PHYSICALLY_CONTIGUOUS_MASK"

definition set_ena_admin_aq_create_sq_cmd_is_physically_contiguous :: "ena_admin_aq_create_sq_cmd \<Rightarrow> u8 \<Rightarrow> ena_admin_aq_create_sq_cmd" where
  "set_ena_admin_aq_create_sq_cmd_is_physically_contiguous p v = p\<lparr>create_sq_cmd_sq_caps_3 := create_sq_cmd_sq_caps_3 p OR (v AND ENA_ADMIN_AQ_CREATE_SQ_CMD_IS_PHYSICALLY_CONTIGUOUS_MASK)\<rparr>"

interpretation bf_ena_admin_aq_create_sq_cmd_is_physically_contiguous: bitfield get_ena_admin_aq_create_sq_cmd_is_physically_contiguous set_ena_admin_aq_create_sq_cmd_is_physically_contiguous create_sq_cmd_sq_caps_3 0 0
  by unfold_locales
    (simp_all add: get_ena_admin_aq_create_sq_cmd_is_physically_contiguous_def set_ena_admin_aq_create_sq_cmd_is_physically_contiguous_def ena_const BIT_eq_GENMASK)

definition get_ena_admin_aq_create_cq_cmd_interrupt_mode_enabled :: "ena_admin_aq_create_cq_cmd \<Rightarrow> u8" where
  "get_ena_admin_aq_create_cq_cmd_interrupt_mode_enabled p = drop_bit ENA_ADMIN_AQ_CREATE_CQ_CMD_INTERRUPT_MODE_ENABLED_SHIFT (create_cq_cmd_cq_caps_1 p AND ENA_ADMIN_AQ_CREATE_CQ_CMD_INTERRUPT_MODE_ENABLED_MASK)"

definition set_ena_admin_aq_create_cq_cmd_interrupt_mode_enabled :: "ena_admin_aq_create_cq_cmd \<Rightarrow> u8 \<Rightarrow> ena_admin_aq_create_cq_cmd" where
  "set_ena_admin_aq_create_cq_cmd_interrupt_mode_enabled p v = p\<lparr>create_cq_cmd_cq_caps_1 := create_cq_cmd_cq_caps_1 p OR (push_bit ENA_ADMIN_AQ_CREATE_CQ_CMD_INTERRUPT_MODE_ENABLED_SHIFT v AND ENA_ADMIN_AQ_CREATE_CQ_CMD_INTERRUPT_MODE_ENABLED_MASK)\<rparr>"

interpretation bf_ena_admin_aq_create_cq_cmd_interrupt_mode_enabled: bitfield get_ena_admin_aq_create_cq_cmd_interrupt_mode_enabled set_ena_admin_aq_create_cq_cmd_interrupt_mode_enabled create_cq_cmd_cq_caps_1 5 5
  by unfold_locales
    (simp_all add: get_ena_admin_aq_create_cq_cmd_interrupt_mode_enabled_def set_ena_admin_aq_create_cq_cmd_interrupt_mode_enabled_def ena_const BIT_eq_GENMASK)

definition get_ena_admin_aq_create_cq_cmd_cq_entry_size_words :: "ena_admin_aq_create_cq_cmd \<Rightarrow> u8" where
  "get_ena_admin_aq_create_cq_cmd_cq_entry_size_words p = create_cq_cmd_cq_caps_2 p AND ENA_ADMIN_AQ_CREATE_CQ_CMD_CQ_ENTRY_SIZE_WORDS_MASK"

definition set_ena_admin_aq_create_cq_cmd_cq_entry_size_words :: "ena_admin_aq_create_cq_cmd \<Rightarrow> u8 \<Rightarrow> ena_admin_aq_create_cq_cmd" where
  "set_ena_admin_aq_create_cq_cmd_cq_entry_size_words p v = p\<lparr>create_cq_cmd_cq_caps_2 := create_cq_cmd_cq_caps_2 p OR (v AND ENA_ADMIN_AQ_CREATE_CQ_CMD_CQ_ENTRY_SIZE_WORDS_MASK)\<rparr>"

interpretation bf_ena_admin_aq_create_cq_cmd_cq_entry_size_words: bitfield get_ena_admin_aq_create_cq_cmd_cq_entry_size_words set_ena_admin_aq_create_cq_cmd_cq_entry_size_words create_cq_cmd_cq_caps_2 4 0
  by unfold_locales
    (simp_all add: get_ena_admin_aq_create_cq_cmd_cq_entry_size_words_def set_ena_admin_aq_create_cq_cmd_cq_entry_size_words_def ena_const BIT_eq_GENMASK)

definition get_ena_admin_get_set_feature_common_desc_select :: "ena_admin_get_set_feature_common_desc \<Rightarrow> u8" where
  "get_ena_admin_get_set_feature_common_desc_select p = feat_common_flags p AND ENA_ADMIN_GET_SET_FEATURE_COMMON_DESC_SELECT_MASK"

definition set_ena_admin_get_set_feature_common_desc_select :: "ena_admin_get_set_feature_common_desc \<Rightarrow> u8 \<Rightarrow> ena_admin_get_set_feature_common_desc" where
  "set_ena_admin_get_set_feature_common_desc_select p v = p\<lparr>feat_common_flags := feat_common_flags p OR (v AND ENA_ADMIN_GET_SET_FEATURE_COMMON_DESC_SELECT_MASK)\<rparr>"

interpretation bf_ena_admin_get_set_feature_common_desc_select: bitfield get_ena_admin_get_set_feature_common_desc_select set_ena_admin_get_set_feature_common_desc_select feat_common_flags 1 0
  by unfold_locales
    (simp_all add: get_ena_admin_get_set_feature_common_desc_select_def set_ena_admin_get_set_feature_common_desc_select_def ena_const BIT_eq_GENMASK)

definition get_ena_admin_get_feature_link_desc_autoneg :: "ena_admin_get_feature_link_desc \<Rightarrow> u32" where
  "get_ena_admin_get_feature_link_desc_autoneg p = link_desc_flags p AND ENA_ADMIN_GET_FEATURE_LINK_DESC_AUTONEG_MASK"

definition set_ena_admin_get_feature_link_desc_autoneg :: "ena_admin_get_feature_link_desc \<Rightarrow> u32 \<Rightarrow> ena_admin_get_feature_link_desc" where
  "set_ena_admin_get_feature_link_desc_autoneg p v = p\<lparr>link_desc_flags := link_desc_flags p OR (v AND ENA_ADMIN_GET_FEATURE_LINK_DESC_AUTONEG_MASK)\<rparr>"

interpretation bf_ena_admin_get_feature_link_desc_autoneg: bitfield get_ena_admin_get_feature_link_desc_autoneg set_ena_admin_get_feature_link_desc_autoneg link_desc_flags 0 0
  by unfold_locales
    (simp_all add: get_ena_admin_get_feature_link_desc_autoneg_def set_ena_admin_get_feature_link_desc_autoneg_def ena_const BIT_eq_GENMASK)

definition get_ena_admin_get_feature_link_desc_duplex :: "ena_admin_get_feature_link_desc \<Rightarrow> u32" where
  "get_ena_admin_get_feature_link_desc_duplex p = drop_bit ENA_ADMIN_GET_FEATURE_LINK_DESC_DUPLEX_SHIFT (link_desc_flags p AND ENA_ADMIN_GET_FEATURE_LINK_DESC_DUPLEX_MASK)"

definition set_ena_admin_get_feature_link_desc_duplex :: "ena_admin_get_feature_link_desc \<Rightarrow> u32 \<Rightarrow> ena_admin_get_feature_link_desc" where
  "set_ena_admin_get_feature_link_desc_duplex p v = p\<lparr>link_desc_flags := link_desc_flags p OR (push_bit ENA_ADMIN_GET_FEATURE_LINK_DESC_DUPLEX_SHIFT v AND ENA_ADMIN_GET_FEATURE_LINK_DESC_DUPLEX_MASK)\<rparr>"

interpretation bf_ena_admin_get_feature_link_desc_duplex: bitfield get_ena_admin_get_feature_link_desc_duplex set_ena_admin_get_feature_link_desc_duplex link_desc_flags 1 1
  by unfold_locales
    (simp_all add: get_ena_admin_get_feature_link_desc_duplex_def set_ena_admin_get_feature_link_desc_duplex_def ena_const BIT_eq_GENMASK)

definition get_ena_admin_feature_offload_desc_TX_L3_csum_ipv4 :: "ena_admin_feature_offload_desc \<Rightarrow> u32" where
  "get_ena_admin_feature_offload_desc_TX_L3_csum_ipv4 p = offload_desc_tx p AND ENA_ADMIN_FEATURE_OFFLOAD_DESC_TX_L3_CSUM_IPV4_MASK"

definition set_ena_admin_feature_offload_desc_TX_L3_csum_ipv4 :: "ena_admin_feature_offload_desc \<Rightarrow> u32 \<Rightarrow> ena_admin_feature_offload_desc" where
  "set_ena_admin_feature_offload_desc_TX_L3_csum_ipv4 p v = p\<lparr>offload_desc_tx := offload_desc_tx p OR (v AND ENA_ADMIN_FEATURE_OFFLOAD_DESC_TX_L3_CSUM_IPV4_MASK)\<rparr>"

interpretation bf_ena_admin_feature_offload_desc_TX_L3_csum_ipv4: bitfield get_ena_admin_feature_offload_desc_TX_L3_csum_ipv4 set_ena_admin_feature_offload_desc_TX_L3_csum_ipv4 offload_desc_tx 0 0
  by unfold_locales
    (simp_all add: get_ena_admin_feature_offload_desc_TX_L3_csum_ipv4_def set_ena_admin_feature_offload_desc_TX_L3_csum_ipv4_def ena_const BIT_eq_GENMASK)

definition get_ena_admin_feature_offload_desc_TX_L4_ipv4_csum_part :: "ena_admin_feature_offload_desc \<Rightarrow> u32" where
  "get_ena_admin_feature_offload_desc_TX_L4_ipv4_csum_part p = drop_bit ENA_ADMIN_FEATURE_OFFLOAD_DESC_TX_L4_IPV4_CSUM_PART_SHIFT (offload_desc_tx p AND ENA_ADMIN_FEATURE_OFFLOAD_DESC_TX_L4_IPV4_CSUM_PART_MASK)"

definition set_ena_admin_feature_offload_desc_TX_L4_ipv4_csum_part :: "ena_admin_feature_offload_desc \<Rightarrow> u32 \<Rightarrow> ena_admin_feature_offload_desc" where
  "set_ena_admin_feature_offload_desc_TX_L4_ipv4_csum_part p v = p\<lparr>offload_desc_tx := offload_desc_tx p OR (push_bit ENA_ADMIN_FEATURE_OFFLOAD_DESC_TX_L4_IPV4_CSUM_PART_SHIFT v AND ENA_ADMIN_FEATURE_OFFLOAD_DESC_TX_L4_IPV4_CSUM_PART_MASK)\<rparr>"

interpretation bf_ena_admin_feature_offload_desc_TX_L4_ipv4_csum_part: bitfield get_ena_admin_feature_offload_desc_TX_L4_ipv4_csum_part set_ena_admin_feature_offload_desc_TX_L4_ipv4_csum_part offload_desc_tx 1 1
  by unfold_locales
    (simp_all add: get_ena_admin_feature_offload_desc_TX_L4_ipv4_csum_part_def set_ena_admin_feature_offload_desc_TX_L4_ipv4_csum_part_def ena_const BIT_eq_GENMASK)

definition get_ena_admin_feature_offload_desc_TX_L4_ipv4_csum_full :: "ena_admin_feature_offload_desc \<Rightarrow> u32" where
  "get_ena_admin_feature_offload_desc_TX_L4_ipv4_csum_full p = drop_bit ENA_ADMIN_FEATURE_OFFLOAD_DESC_TX_L4_IPV4_CSUM_FULL_SHIFT (offload_desc_tx p AND ENA_ADMIN_FEATURE_OFFLOAD_DESC_TX_L4_IPV4_CSUM_FULL_MASK)"

definition set_ena_admin_feature_offload_desc_TX_L4_ipv4_csum_full :: "ena_admin_feature_offload_desc \<Rightarrow> u32 \<Rightarrow> ena_admin_feature_offload_desc" where
  "set_ena_admin_feature_offload_desc_TX_L4_ipv4_csum_full p v = p\<lparr>offload_desc_tx := offload_desc_tx p OR (push_bit ENA_ADMIN_FEATURE_OFFLOAD_DESC_TX_L4_IPV4_CSUM_FULL_SHIFT v AND ENA_ADMIN_FEATURE_OFFLOAD_DESC_TX_L4_IPV4_CSUM_FULL_MASK)\<rparr>"

interpretation bf_ena_admin_feature_offload_desc_TX_L4_ipv4_csum_full: bitfield get_ena_admin_feature_offload_desc_TX_L4_ipv4_csum_full set_ena_admin_feature_offload_desc_TX_L4_ipv4_csum_full offload_desc_tx 2 2
  by unfold_locales
    (simp_all add: get_ena_admin_feature_offload_desc_TX_L4_ipv4_csum_full_def set_ena_admin_feature_offload_desc_TX_L4_ipv4_csum_full_def ena_const BIT_eq_GENMASK)

definition get_ena_admin_feature_offload_desc_TX_L4_ipv6_csum_part :: "ena_admin_feature_offload_desc \<Rightarrow> u32" where
  "get_ena_admin_feature_offload_desc_TX_L4_ipv6_csum_part p = drop_bit ENA_ADMIN_FEATURE_OFFLOAD_DESC_TX_L4_IPV6_CSUM_PART_SHIFT (offload_desc_tx p AND ENA_ADMIN_FEATURE_OFFLOAD_DESC_TX_L4_IPV6_CSUM_PART_MASK)"

definition set_ena_admin_feature_offload_desc_TX_L4_ipv6_csum_part :: "ena_admin_feature_offload_desc \<Rightarrow> u32 \<Rightarrow> ena_admin_feature_offload_desc" where
  "set_ena_admin_feature_offload_desc_TX_L4_ipv6_csum_part p v = p\<lparr>offload_desc_tx := offload_desc_tx p OR (push_bit ENA_ADMIN_FEATURE_OFFLOAD_DESC_TX_L4_IPV6_CSUM_PART_SHIFT v AND ENA_ADMIN_FEATURE_OFFLOAD_DESC_TX_L4_IPV6_CSUM_PART_MASK)\<rparr>"

interpretation bf_ena_admin_feature_offload_desc_TX_L4_ipv6_csum_part: bitfield get_ena_admin_feature_offload_desc_TX_L4_ipv6_csum_part set_ena_admin_feature_offload_desc_TX_L4_ipv6_csum_part offload_desc_tx 3 3
  by unfold_locales
    (simp_all add: get_ena_admin_feature_offload_desc_TX_L4_ipv6_csum_part_def set_ena_admin_feature_offload_desc_TX_L4_ipv6_csum_part_def ena_const BIT_eq_GENMASK)

definition get_ena_admin_feature_offload_desc_TX_L4_ipv6_csum_full :: "ena_admin_feature_offload_desc \<Rightarrow> u32" where
  "get_ena_admin_feature_offload_desc_TX_L4_ipv6_csum_full p = drop_bit ENA_ADMIN_FEATURE_OFFLOAD_DESC_TX_L4_IPV6_CSUM_FULL_SHIFT (offload_desc_tx p AND ENA_ADMIN_FEATURE_OFFLOAD_DESC_TX_L4_IPV6_CSUM_FULL_MASK)"

definition set_ena_admin_feature_offload_desc_TX_L4_ipv6_csum_full :: "ena_admin_feature_offload_desc \<Rightarrow> u32 \<Rightarrow> ena_admin_feature_offload_desc" where
  "set_ena_admin_feature_offload_desc_TX_L4_ipv6_csum_full p v = p\<lparr>offload_desc_tx := offload_desc_tx p OR (push_bit ENA_ADMIN_FEATURE_OFFLOAD_DESC_TX_L4_IPV6_CSUM_FULL_SHIFT v AND ENA_ADMIN_FEATURE_OFFLOAD_DESC_TX_L4_IPV6_CSUM_FULL_MASK)\<rparr>"

interpretation bf_ena_admin_feature_offload_desc_TX_L4_ipv6_csum_full: bitfield get_ena_admin_feature_offload_desc_TX_L4_ipv6_csum_full set_ena_admin_feature_offload_desc_TX_L4_ipv6_csum_full offload_desc_tx 4 4
  by unfold_locales
    (simp_all add: get_ena_admin_feature_offload_desc_TX_L4_ipv6_csum_full_def set_ena_admin_feature_offload_desc_TX_L4_ipv6_csum_full_def ena_const BIT_eq_GENMASK)

definition get_ena_admin_feature_offload_desc_tso_ipv4 :: "ena_admin_feature_offload_desc \<Rightarrow> u32" where
  "get_ena_admin_feature_offload_desc_tso_ipv4 p = drop_bit ENA_ADMIN_FEATURE_OFFLOAD_DESC_TSO_IPV4_SHIFT (offload_desc_tx p AND ENA_ADMIN_FEATURE_OFFLOAD_DESC_TSO_IPV4_MASK)"

definition set_ena_admin_feature_offload_desc_tso_ipv4 :: "ena_admin_feature_offload_desc \<Rightarrow> u32 \<Rightarrow> ena_admin_feature_offload_desc" where
  "set_ena_admin_feature_offload_desc_tso_ipv4 p v = p\<lparr>offload_desc_tx := offload_desc_tx p OR (push_bit ENA_ADMIN_FEATURE_OFFLOAD_DESC_TSO_IPV4_SHIFT v AND ENA_ADMIN_FEATURE_OFFLOAD_DESC_TSO_IPV4_MASK)\<rparr>"

interpretation bf_ena_admin_feature_offload_desc_tso_ipv4: bitfield get_ena_admin_feature_offload_desc_tso_ipv4 set_ena_admin_feature_offload_desc_tso_ipv4 offload_desc_tx 5 5
  by unfold_locales
    (simp_all add: get_ena_admin_feature_offload_desc_tso_ipv4_def set_ena_admin_feature_offload_desc_tso_ipv4_def ena_const BIT_eq_GENMASK)

definition get_ena_admin_feature_offload_desc_tso_ipv6 :: "ena_admin_feature_offload_desc \<Rightarrow> u32" where
  "get_ena_admin_feature_offload_desc_tso_ipv6 p = drop_bit ENA_ADMIN_FEATURE_OFFLOAD_DESC_TSO_IPV6_SHIFT (offload_desc_tx p AND ENA_ADMIN_FEATURE_OFFLOAD_DESC_TSO_IPV6_MASK)"

definition set_ena_admin_feature_offload_desc_tso_ipv6 :: "ena_admin_feature_offload_desc \<Rightarrow> u32 \<Rightarrow> ena_admin_feature_offload_desc" where
  "set_ena_admin_feature_offload_desc_tso_ipv6 p v = p\<lparr>offload_desc_tx := offload_desc_tx p OR (push_bit ENA_ADMIN_FEATURE_OFFLOAD_DESC_TSO_IPV6_SHIFT v AND ENA_ADMIN_FEATURE_OFFLOAD_DESC_TSO_IPV6_MASK)\<rparr>"

interpretation bf_ena_admin_feature_offload_desc_tso_ipv6: bitfield get_ena_admin_feature_offload_desc_tso_ipv6 set_ena_admin_feature_offload_desc_tso_ipv6 offload_desc_tx 6 6
  by unfold_locales
    (simp_all add: get_ena_admin_feature_offload_desc_tso_ipv6_def set_ena_admin_feature_offload_desc_tso_ipv6_def ena_const BIT_eq_GENMASK)

definition get_ena_admin_feature_offload_desc_tso_ecn :: "ena_admin_feature_offload_desc \<Rightarrow> u32" where
  "get_ena_admin_feature_offload_desc_tso_ecn p = drop_bit ENA_ADMIN_FEATURE_OFFLOAD_DESC_TSO_ECN_SHIFT (offload_desc_tx p AND ENA_ADMIN_FEATURE_OFFLOAD_DESC_TSO_ECN_MASK)"

definition set_ena_admin_feature_offload_desc_tso_ecn :: "ena_admin_feature_offload_desc \<Rightarrow> u32 \<Rightarrow> ena_admin_feature_offload_desc" where
  "set_ena_admin_feature_offload_desc_tso_ecn p v = p\<lparr>offload_desc_tx := offload_desc_tx p OR (push_bit ENA_ADMIN_FEATURE_OFFLOAD_DESC_TSO_ECN_SHIFT v AND ENA_ADMIN_FEATURE_OFFLOAD_DESC_TSO_ECN_MASK)\<rparr>"

interpretation bf_ena_admin_feature_offload_desc_tso_ecn: bitfield get_ena_admin_feature_offload_desc_tso_ecn set_ena_admin_feature_offload_desc_tso_ecn offload_desc_tx 7 7
  by unfold_locales
    (simp_all add: get_ena_admin_feature_offload_desc_tso_ecn_def set_ena_admin_feature_offload_desc_tso_ecn_def ena_const BIT_eq_GENMASK)

definition get_ena_admin_feature_offload_desc_RX_L3_csum_ipv4 :: "ena_admin_feature_offload_desc \<Rightarrow> u32" where
  "get_ena_admin_feature_offload_desc_RX_L3_csum_ipv4 p = offload_desc_rx_supported p AND ENA_ADMIN_FEATURE_OFFLOAD_DESC_RX_L3_CSUM_IPV4_MASK"

definition set_ena_admin_feature_offload_desc_RX_L3_csum_ipv4 :: "ena_admin_feature_offload_desc \<Rightarrow> u32 \<Rightarrow> ena_admin_feature_offload_desc" where
  "set_ena_admin_feature_offload_desc_RX_L3_csum_ipv4 p v = p\<lparr>offload_desc_rx_supported := offload_desc_rx_supported p OR (v AND ENA_ADMIN_FEATURE_OFFLOAD_DESC_RX_L3_CSUM_IPV4_MASK)\<rparr>"

interpretation bf_ena_admin_feature_offload_desc_RX_L3_csum_ipv4: bitfield get_ena_admin_feature_offload_desc_RX_L3_csum_ipv4 set_ena_admin_feature_offload_desc_RX_L3_csum_ipv4 offload_desc_rx_supported 0 0
  by unfold_locales
    (simp_all add: get_ena_admin_feature_offload_desc_RX_L3_csum_ipv4_def set_ena_admin_feature_offload_desc_RX_L3_csum_ipv4_def ena_const BIT_eq_GENMASK)

definition get_ena_admin_feature_offload_desc_RX_L4_ipv4_csum :: "ena_admin_feature_offload_desc \<Rightarrow> u32" where
  "get_ena_admin_feature_offload_desc_RX_L4_ipv4_csum p = drop_bit ENA_ADMIN_FEATURE_OFFLOAD_DESC_RX_L4_IPV4_CSUM_SHIFT (offload_desc_rx_supported p AND ENA_ADMIN_FEATURE_OFFLOAD_DESC_RX_L4_IPV4_CSUM_MASK)"

definition set_ena_admin_feature_offload_desc_RX_L4_ipv4_csum :: "ena_admin_feature_offload_desc \<Rightarrow> u32 \<Rightarrow> ena_admin_feature_offload_desc" where
  "set_ena_admin_feature_offload_desc_RX_L4_ipv4_csum p v = p\<lparr>offload_desc_rx_supported := offload_desc_rx_supported p OR (push_bit ENA_ADMIN_FEATURE_OFFLOAD_DESC_RX_L4_IPV4_CSUM_SHIFT v AND ENA_ADMIN_FEATURE_OFFLOAD_DESC_RX_L4_IPV4_CSUM_MASK)\<rparr>"

interpretation bf_ena_admin_feature_offload_desc_RX_L4_ipv4_csum: bitfield get_ena_admin_feature_offload_desc_RX_L4_ipv4_csum set_ena_admin_feature_offload_desc_RX_L4_ipv4_csum offload_desc_rx_supported 1 1
  by unfold_locales
    (simp_all add: get_ena_admin_feature_offload_desc_RX_L4_ipv4_csum_def set_ena_admin_feature_offload_desc_RX_L4_ipv4_csum_def ena_const BIT_eq_GENMASK)

definition get_ena_admin_feature_offload_desc_RX_L4_ipv6_csum :: "ena_admin_feature_offload_desc \<Rightarrow> u32" where
  "get_ena_admin_feature_offload_desc_RX_L4_ipv6_csum p = drop_bit ENA_ADMIN_FEATURE_OFFLOAD_DESC_RX_L4_IPV6_CSUM_SHIFT (offload_desc_rx_supported p AND ENA_ADMIN_FEATURE_OFFLOAD_DESC_RX_L4_IPV6_CSUM_MASK)"

definition set_ena_admin_feature_offload_desc_RX_L4_ipv6_csum :: "ena_admin_feature_offload_desc \<Rightarrow> u32 \<Rightarrow> ena_admin_feature_offload_desc" where
  "set_ena_admin_feature_offload_desc_RX_L4_ipv6_csum p v = p\<lparr>offload_desc_rx_supported := offload_desc_rx_supported p OR (push_bit ENA_ADMIN_FEATURE_OFFLOAD_DESC_RX_L4_IPV6_CSUM_SHIFT v AND ENA_ADMIN_FEATURE_OFFLOAD_DESC_RX_L4_IPV6_CSUM_MASK)\<rparr>"

interpretation bf_ena_admin_feature_offload_desc_RX_L4_ipv6_csum: bitfield get_ena_admin_feature_offload_desc_RX_L4_ipv6_csum set_ena_admin_feature_offload_desc_RX_L4_ipv6_csum offload_desc_rx_supported 2 2
  by unfold_locales
    (simp_all add: get_ena_admin_feature_offload_desc_RX_L4_ipv6_csum_def set_ena_admin_feature_offload_desc_RX_L4_ipv6_csum_def ena_const BIT_eq_GENMASK)

definition get_ena_admin_feature_offload_desc_RX_hash :: "ena_admin_feature_offload_desc \<Rightarrow> u32" where
  "get_ena_admin_feature_offload_desc_RX_hash p = drop_bit ENA_ADMIN_FEATURE_OFFLOAD_DESC_RX_HASH_SHIFT (offload_desc_rx_supported p AND ENA_ADMIN_FEATURE_OFFLOAD_DESC_RX_HASH_MASK)"

definition set_ena_admin_feature_offload_desc_RX_hash :: "ena_admin_feature_offload_desc \<Rightarrow> u32 \<Rightarrow> ena_admin_feature_offload_desc" where
  "set_ena_admin_feature_offload_desc_RX_hash p v = p\<lparr>offload_desc_rx_supported := offload_desc_rx_supported p OR (push_bit ENA_ADMIN_FEATURE_OFFLOAD_DESC_RX_HASH_SHIFT v AND ENA_ADMIN_FEATURE_OFFLOAD_DESC_RX_HASH_MASK)\<rparr>"

interpretation bf_ena_admin_feature_offload_desc_RX_hash: bitfield get_ena_admin_feature_offload_desc_RX_hash set_ena_admin_feature_offload_desc_RX_hash offload_desc_rx_supported 3 3
  by unfold_locales
    (simp_all add: get_ena_admin_feature_offload_desc_RX_hash_def set_ena_admin_feature_offload_desc_RX_hash_def ena_const BIT_eq_GENMASK)

definition get_ena_admin_feature_rss_flow_hash_function_funcs :: "ena_admin_feature_rss_flow_hash_function \<Rightarrow> u32" where
  "get_ena_admin_feature_rss_flow_hash_function_funcs p = hash_function_supported_func p AND ENA_ADMIN_FEATURE_RSS_FLOW_HASH_FUNCTION_FUNCS_MASK"

definition set_ena_admin_feature_rss_flow_hash_function_funcs :: "ena_admin_feature_rss_flow_hash_function \<Rightarrow> u32 \<Rightarrow> ena_admin_feature_rss_flow_hash_function" where
  "set_ena_admin_feature_rss_flow_hash_function_funcs p v = p\<lparr>hash_function_supported_func := hash_function_supported_func p OR (v AND ENA_ADMIN_FEATURE_RSS_FLOW_HASH_FUNCTION_FUNCS_MASK)\<rparr>"

interpretation bf_ena_admin_feature_rss_flow_hash_function_funcs: bitfield get_ena_admin_feature_rss_flow_hash_function_funcs set_ena_admin_feature_rss_flow_hash_function_funcs hash_function_supported_func 7 0
  by unfold_locales
    (simp_all add: get_ena_admin_feature_rss_flow_hash_function_funcs_def set_ena_admin_feature_rss_flow_hash_function_funcs_def ena_const BIT_eq_GENMASK)

definition get_ena_admin_feature_rss_flow_hash_function_selected_func :: "ena_admin_feature_rss_flow_hash_function \<Rightarrow> u32" where
  "get_ena_admin_feature_rss_flow_hash_function_selected_func p = hash_function_selected_func p AND ENA_ADMIN_FEATURE_RSS_FLOW_HASH_FUNCTION_SELECTED_FUNC_MASK"

definition set_ena_admin_feature_rss_flow_hash_function_selected_func :: "ena_admin_feature_rss_flow_hash_function \<Rightarrow> u32 \<Rightarrow> ena_admin_feature_rss_flow_hash_function" where
  "set_ena_admin_feature_rss_flow_hash_function_selected_func p v = p\<lparr>hash_function_selected_func := hash_function_selected_func p OR (v AND ENA_ADMIN_FEATURE_RSS_FLOW_HASH_FUNCTION_SELECTED_FUNC_MASK)\<rparr>"

interpretation bf_ena_admin_feature_rss_flow_hash_function_selected_func: bitfield get_ena_admin_feature_rss_flow_hash_function_selected_func set_ena_admin_feature_rss_flow_hash_function_selected_func hash_function_selected_func 7 0
  by unfold_locales
    (simp_all add: get_ena_admin_feature_rss_flow_hash_function_selected_func_def set_ena_admin_feature_rss_flow_hash_function_selected_func_def ena_const BIT_eq_GENMASK)

definition get_ena_admin_feature_rss_flow_hash_input_L3_sort :: "ena_admin_feature_rss_flow_hash_input \<Rightarrow> u16" where
  "get_ena_admin_feature_rss_flow_hash_input_L3_sort p = drop_bit ENA_ADMIN_FEATURE_RSS_FLOW_HASH_INPUT_L3_SORT_SHIFT (hash_input_supported_input_sort p AND ENA_ADMIN_FEATURE_RSS_FLOW_HASH_INPUT_L3_SORT_MASK)"

definition set_ena_admin_feature_rss_flow_hash_input_L3_sort :: "ena_admin_feature_rss_flow_hash_input \<Rightarrow> u16 \<Rightarrow> ena_admin_feature_rss_flow_hash_input" where
  "set_ena_admin_feature_rss_flow_hash_input_L3_sort p v = p\<lparr>hash_input_supported_input_sort := hash_input_supported_input_sort p OR (push_bit ENA_ADMIN_FEATURE_RSS_FLOW_HASH_INPUT_L3_SORT_SHIFT v AND ENA_ADMIN_FEATURE_RSS_FLOW_HASH_INPUT_L3_SORT_MASK)\<rparr>"

interpretation bf_ena_admin_feature_rss_flow_hash_input_L3_sort: bitfield get_ena_admin_feature_rss_flow_hash_input_L3_sort set_ena_admin_feature_rss_flow_hash_input_L3_sort hash_input_supported_input_sort 1 1
  by unfold_locales
    (simp_all add: get_ena_admin_feature_rss_flow_hash_input_L3_sort_def set_ena_admin_feature_rss_flow_hash_input_L3_sort_def ena_const BIT_eq_GENMASK)

definition get_ena_admin_feature_rss_flow_hash_input_L4_sort :: "ena_admin_feature_rss_flow_hash_input \<Rightarrow> u16" where
  "get_ena_admin_feature_rss_flow_hash_input_L4_sort p = drop_bit ENA_ADMIN_FEATURE_RSS_FLOW_HASH_INPUT_L4_SORT_SHIFT (hash_input_supported_input_sort p AND ENA_ADMIN_FEATURE_RSS_FLOW_HASH_INPUT_L4_SORT_MASK)"

definition set_ena_admin_feature_rss_flow_hash_input_L4_sort :: "ena_admin_feature_rss_flow_hash_input \<Rightarrow> u16 \<Rightarrow> ena_admin_feature_rss_flow_hash_input" where
  "set_ena_admin_feature_rss_flow_hash_input_L4_sort p v = p\<lparr>hash_input_supported_input_sort := hash_input_supported_input_sort p OR (push_bit ENA_ADMIN_FEATURE_RSS_FLOW_HASH_INPUT_L4_SORT_SHIFT v AND ENA_ADMIN_FEATURE_RSS_FLOW_HASH_INPUT_L4_SORT_MASK)\<rparr>"

interpretation bf_ena_admin_feature_rss_flow_hash_input_L4_sort: bitfield get_ena_admin_feature_rss_flow_hash_input_L4_sort set_ena_admin_feature_rss_flow_hash_input_L4_sort hash_input_supported_input_sort 2 2
  by unfold_locales
    (simp_all add: get_ena_admin_feature_rss_flow_hash_input_L4_sort_def set_ena_admin_feature_rss_flow_hash_input_L4_sort_def ena_const BIT_eq_GENMASK)

definition get_ena_admin_feature_rss_flow_hash_input_enable_L3_sort :: "ena_admin_feature_rss_flow_hash_input \<Rightarrow> u16" where
  "get_ena_admin_feature_rss_flow_hash_input_enable_L3_sort p = drop_bit ENA_ADMIN_FEATURE_RSS_FLOW_HASH_INPUT_ENABLE_L3_SORT_SHIFT (hash_input_enabled_input_sort p AND ENA_ADMIN_FEATURE_RSS_FLOW_HASH_INPUT_ENABLE_L3_SORT_MASK)"

definition set_ena_admin_feature_rss_flow_hash_input_enable_L3_sort :: "ena_admin_feature_rss_flow_hash_input \<Rightarrow> u16 \<Rightarrow> ena_admin_feature_rss_flow_hash_input" where
  "set_ena_admin_feature_rss_flow_hash_input_enable_L3_sort p v = p\<lparr>hash_input_enabled_input_sort := hash_input_enabled_input_sort p OR (push_bit ENA_ADMIN_FEATURE_RSS_FLOW_HASH_INPUT_ENABLE_L3_SORT_SHIFT v AND ENA_ADMIN_FEATURE_RSS_FLOW_HASH_INPUT_ENABLE_L3_SORT_MASK)\<rparr>"

interpretation bf_ena_admin_feature_rss_flow_hash_input_enable_L3_sort: bitfield get_ena_admin_feature_rss_flow_hash_input_enable_L3_sort set_ena_admin_feature_rss_flow_hash_input_enable_L3_sort hash_input_enabled_input_sort 1 1
  by unfold_locales
    (simp_all add: get_ena_admin_feature_rss_flow_hash_input_enable_L3_sort_def set_ena_admin_feature_rss_flow_hash_input_enable_L3_sort_def ena_const BIT_eq_GENMASK)

definition get_ena_admin_feature_rss_flow_hash_input_enable_L4_sort :: "ena_admin_feature_rss_flow_hash_input \<Rightarrow> u16" where
  "get_ena_admin_feature_rss_flow_hash_input_enable_L4_sort p = drop_bit ENA_ADMIN_FEATURE_RSS_FLOW_HASH_INPUT_ENABLE_L4_SORT_SHIFT (hash_input_enabled_input_sort p AND ENA_ADMIN_FEATURE_RSS_FLOW_HASH_INPUT_ENABLE_L4_SORT_MASK)"

definition set_ena_admin_feature_rss_flow_hash_input_enable_L4_sort :: "ena_admin_feature_rss_flow_hash_input \<Rightarrow> u16 \<Rightarrow> ena_admin_feature_rss_flow_hash_input" where
  "set_ena_admin_feature_rss_flow_hash_input_enable_L4_sort p v = p\<lparr>hash_input_enabled_input_sort := hash_input_enabled_input_sort p OR (push_bit ENA_ADMIN_FEATURE_RSS_FLOW_HASH_INPUT_ENABLE_L4_SORT_SHIFT v AND ENA_ADMIN_FEATURE_RSS_FLOW_HASH_INPUT_ENABLE_L4_SORT_MASK)\<rparr>"

interpretation bf_ena_admin_feature_rss_flow_hash_input_enable_L4_sort: bitfield get_ena_admin_feature_rss_flow_hash_input_enable_L4_sort set_ena_admin_feature_rss_flow_hash_input_enable_L4_sort hash_input_enabled_input_sort 2 2
  by unfold_locales
    (simp_all add: get_ena_admin_feature_rss_flow_hash_input_enable_L4_sort_def set_ena_admin_feature_rss_flow_hash_input_enable_L4_sort_def ena_const BIT_eq_GENMASK)

definition get_ena_admin_host_info_major :: "ena_admin_host_info \<Rightarrow> u32" where
  "get_ena_admin_host_info_major p = host_info_driver_version p AND ENA_ADMIN_HOST_INFO_MAJOR_MASK"

definition set_ena_admin_host_info_major :: "ena_admin_host_info \<Rightarrow> u32 \<Rightarrow> ena_admin_host_info" where
  "set_ena_admin_host_info_major p v = p\<lparr>host_info_driver_version := host_info_driver_version p OR (v AND ENA_ADMIN_HOST_INFO_MAJOR_MASK)\<rparr>"

interpretation bf_ena_admin_host_info_major: bitfield get_ena_admin_host_info_major set_ena_admin_host_info_major host_info_driver_version 7 0
  by unfold_locales
    (simp_all add: get_ena_admin_host_info_major_def set_ena_admin_host_info_major_def ena_const BIT_eq_GENMASK)

definition get_ena_admin_host_info_minor :: "ena_admin_host_info \<Rightarrow> u32" where
  "get_ena_admin_host_info_minor p = drop_bit ENA_ADMIN_HOST_INFO_MINOR_SHIFT (host_info_driver_version p AND ENA_ADMIN_HOST_INFO_MINOR_MASK)"

definition set_ena_admin_host_info_minor :: "ena_admin_host_info \<Rightarrow> u32 \<Rightarrow> ena_admin_host_info" where
  "set_ena_admin_host_info_minor p v = p\<lparr>host_info_driver_version := host_info_driver_version p OR (push_bit ENA_ADMIN_HOST_INFO_MINOR_SHIFT v AND ENA_ADMIN_HOST_INFO_MINOR_MASK)\<rparr>"

interpretation bf_ena_admin_host_info_minor: bitfield get_ena_admin_host_info_minor set_ena_admin_host_info_minor host_info_driver_version 15 8
  by unfold_locales
    (simp_all add: get_ena_admin_host_info_minor_def set_ena_admin_host_info_minor_def ena_const BIT_eq_GENMASK)

definition get_ena_admin_host_info_sub_minor :: "ena_admin_host_info \<Rightarrow> u32" where
  "get_ena_admin_host_info_sub_minor p = drop_bit ENA_ADMIN_HOST_INFO_SUB_MINOR_SHIFT (host_info_driver_version p AND ENA_ADMIN_HOST_INFO_SUB_MINOR_MASK)"

definition set_ena_admin_host_info_sub_minor :: "ena_admin_host_info \<Rightarrow> u32 \<Rightarrow> ena_admin_host_info" where
  "set_ena_admin_host_info_sub_minor p v = p\<lparr>host_info_driver_version := host_info_driver_version p OR (push_bit ENA_ADMIN_HOST_INFO_SUB_MINOR_SHIFT v AND ENA_ADMIN_HOST_INFO_SUB_MINOR_MASK)\<rparr>"

interpretation bf_ena_admin_host_info_sub_minor: bitfield get_ena_admin_host_info_sub_minor set_ena_admin_host_info_sub_minor host_info_driver_version 23 16
  by unfold_locales
    (simp_all add: get_ena_admin_host_info_sub_minor_def set_ena_admin_host_info_sub_minor_def ena_const BIT_eq_GENMASK)

definition get_ena_admin_host_info_module_type :: "ena_admin_host_info \<Rightarrow> u32" where
  "get_ena_admin_host_info_module_type p = drop_bit ENA_ADMIN_HOST_INFO_MODULE_TYPE_SHIFT (host_info_driver_version p AND ENA_ADMIN_HOST_INFO_MODULE_TYPE_MASK)"

definition set_ena_admin_host_info_module_type :: "ena_admin_host_info \<Rightarrow> u32 \<Rightarrow> ena_admin_host_info" where
  "set_ena_admin_host_info_module_type p v = p\<lparr>host_info_driver_version := host_info_driver_version p OR (push_bit ENA_ADMIN_HOST_INFO_MODULE_TYPE_SHIFT v AND ENA_ADMIN_HOST_INFO_MODULE_TYPE_MASK)\<rparr>"

interpretation bf_ena_admin_host_info_module_type: bitfield get_ena_admin_host_info_module_type set_ena_admin_host_info_module_type host_info_driver_version 31 24
  by unfold_locales
    (simp_all add: get_ena_admin_host_info_module_type_def set_ena_admin_host_info_module_type_def ena_const BIT_eq_GENMASK)

definition get_ena_admin_host_info_function :: "ena_admin_host_info \<Rightarrow> u16" where
  "get_ena_admin_host_info_function p = host_info_bdf p AND ENA_ADMIN_HOST_INFO_FUNCTION_MASK"

definition set_ena_admin_host_info_function :: "ena_admin_host_info \<Rightarrow> u16 \<Rightarrow> ena_admin_host_info" where
  "set_ena_admin_host_info_function p v = p\<lparr>host_info_bdf := host_info_bdf p OR (v AND ENA_ADMIN_HOST_INFO_FUNCTION_MASK)\<rparr>"

interpretation bf_ena_admin_host_info_function: bitfield get_ena_admin_host_info_function set_ena_admin_host_info_function host_info_bdf 2 0
  by unfold_locales
    (simp_all add: get_ena_admin_host_info_function_def set_ena_admin_host_info_function_def ena_const BIT_eq_GENMASK)

definition get_ena_admin_host_info_device :: "ena_admin_host_info \<Rightarrow> u16" where
  "get_ena_admin_host_info_device p = drop_bit ENA_ADMIN_HOST_INFO_DEVICE_SHIFT (host_info_bdf p AND ENA_ADMIN_HOST_INFO_DEVICE_MASK)"

definition set_ena_admin_host_info_device :: "ena_admin_host_info \<Rightarrow> u16 \<Rightarrow> ena_admin_host_info" where
  "set_ena_admin_host_info_device p v = p\<lparr>host_info_bdf := host_info_bdf p OR (push_bit ENA_ADMIN_HOST_INFO_DEVICE_SHIFT v AND ENA_ADMIN_HOST_INFO_DEVICE_MASK)\<rparr>"

interpretation bf_ena_admin_host_info_device: bitfield get_ena_admin_host_info_device set_ena_admin_host_info_device host_info_bdf 7 3
  by unfold_locales
    (simp_all add: get_ena_admin_host_info_device_def set_ena_admin_host_info_device_def ena_const BIT_eq_GENMASK)

definition get_ena_admin_host_info_bus :: "ena_admin_host_info \<Rightarrow> u16" where
  "get_ena_admin_host_info_bus p = drop_bit ENA_ADMIN_HOST_INFO_BUS_SHIFT (host_info_bdf p AND ENA_ADMIN_HOST_INFO_BUS_MASK)"

definition set_ena_admin_host_info_bus :: "ena_admin_host_info \<Rightarrow> u16 \<Rightarrow> ena_admin_host_info" where
  "set_ena_admin_host_info_bus p v = p\<lparr>host_info_bdf := host_info_bdf p OR (push_bit ENA_ADMIN_HOST_INFO_BUS_SHIFT v AND ENA_ADMIN_HOST_INFO_BUS_MASK)\<rparr>"

interpretation bf_ena_admin_host_info_bus: bitfield get_ena_admin_host_info_bus set_ena_admin_host_info_bus host_info_bdf 15 8
  by unfold_locales
    (simp_all add: get_ena_admin_host_info_bus_def set_ena_admin_host_info_bus_def ena_const BIT_eq_GENMASK)

definition get_ena_admin_host_info_rx_offset :: "ena_admin_host_info \<Rightarrow> u32" where
  "get_ena_admin_host_info_rx_offset p = drop_bit ENA_ADMIN_HOST_INFO_RX_OFFSET_SHIFT (host_info_driver_supported_features p AND ENA_ADMIN_HOST_INFO_RX_OFFSET_MASK)"

definition set_ena_admin_host_info_rx_offset :: "ena_admin_host_info \<Rightarrow> u32 \<Rightarrow> ena_admin_host_info" where
  "set_ena_admin_host_info_rx_offset p v = p\<lparr>host_info_driver_supported_features := host_info_driver_supported_features p OR (push_bit ENA_ADMIN_HOST_INFO_RX_OFFSET_SHIFT v AND ENA_ADMIN_HOST_INFO_RX_OFFSET_MASK)\<rparr>"

interpretation bf_ena_admin_host_info_rx_offset: bitfield get_ena_admin_host_info_rx_offset set_ena_admin_host_info_rx_offset host_info_driver_supported_features 1 1
  by unfold_locales
    (simp_all add: get_ena_admin_host_info_rx_offset_def set_ena_admin_host_info_rx_offset_def ena_const BIT_eq_GENMASK)

definition get_ena_admin_host_info_interrupt_moderation :: "ena_admin_host_info \<Rightarrow> u32" where
  "get_ena_admin_host_info_interrupt_moderation p = drop_bit ENA_ADMIN_HOST_INFO_INTERRUPT_MODERATION_SHIFT (host_info_driver_supported_features p AND ENA_ADMIN_HOST_INFO_INTERRUPT_MODERATION_MASK)"

definition set_ena_admin_host_info_interrupt_moderation :: "ena_admin_host_info \<Rightarrow> u32 \<Rightarrow> ena_admin_host_info" where
  "set_ena_admin_host_info_interrupt_moderation p v = p\<lparr>host_info_driver_supported_features := host_info_driver_supported_features p OR (push_bit ENA_ADMIN_HOST_INFO_INTERRUPT_MODERATION_SHIFT v AND ENA_ADMIN_HOST_INFO_INTERRUPT_MODERATION_MASK)\<rparr>"

interpretation bf_ena_admin_host_info_interrupt_moderation: bitfield get_ena_admin_host_info_interrupt_moderation set_ena_admin_host_info_interrupt_moderation host_info_driver_supported_features 2 2
  by unfold_locales
    (simp_all add: get_ena_admin_host_info_interrupt_moderation_def set_ena_admin_host_info_interrupt_moderation_def ena_const BIT_eq_GENMASK)

definition get_ena_admin_host_info_rx_buf_mirroring :: "ena_admin_host_info \<Rightarrow> u32" where
  "get_ena_admin_host_info_rx_buf_mirroring p = drop_bit ENA_ADMIN_HOST_INFO_RX_BUF_MIRRORING_SHIFT (host_info_driver_supported_features p AND ENA_ADMIN_HOST_INFO_RX_BUF_MIRRORING_MASK)"

definition set_ena_admin_host_info_rx_buf_mirroring :: "ena_admin_host_info \<Rightarrow> u32 \<Rightarrow> ena_admin_host_info" where
  "set_ena_admin_host_info_rx_buf_mirroring p v = p\<lparr>host_info_driver_supported_features := host_info_driver_supported_features p OR (push_bit ENA_ADMIN_HOST_INFO_RX_BUF_MIRRORING_SHIFT v AND ENA_ADMIN_HOST_INFO_RX_BUF_MIRRORING_MASK)\<rparr>"

interpretation bf_ena_admin_host_info_rx_buf_mirroring: bitfield get_ena_admin_host_info_rx_buf_mirroring set_ena_admin_host_info_rx_buf_mirroring host_info_driver_supported_features 3 3
  by unfold_locales
    (simp_all add: get_ena_admin_host_info_rx_buf_mirroring_def set_ena_admin_host_info_rx_buf_mirroring_def ena_const BIT_eq_GENMASK)

definition get_ena_admin_host_info_rss_configurable_function_key :: "ena_admin_host_info \<Rightarrow> u32" where
  "get_ena_admin_host_info_rss_configurable_function_key p = drop_bit ENA_ADMIN_HOST_INFO_RSS_CONFIGURABLE_FUNCTION_KEY_SHIFT (host_info_driver_supported_features p AND ENA_ADMIN_HOST_INFO_RSS_CONFIGURABLE_FUNCTION_KEY_MASK)"

definition set_ena_admin_host_info_rss_configurable_function_key :: "ena_admin_host_info \<Rightarrow> u32 \<Rightarrow> ena_admin_host_info" where
  "set_ena_admin_host_info_rss_configurable_function_key p v = p\<lparr>host_info_driver_supported_features := host_info_driver_supported_features p OR (push_bit ENA_ADMIN_HOST_INFO_RSS_CONFIGURABLE_FUNCTION_KEY_SHIFT v AND ENA_ADMIN_HOST_INFO_RSS_CONFIGURABLE_FUNCTION_KEY_MASK)\<rparr>"

interpretation bf_ena_admin_host_info_rss_configurable_function_key: bitfield get_ena_admin_host_info_rss_configurable_function_key set_ena_admin_host_info_rss_configurable_function_key host_info_driver_supported_features 4 4
  by unfold_locales
    (simp_all add: get_ena_admin_host_info_rss_configurable_function_key_def set_ena_admin_host_info_rss_configurable_function_key_def ena_const BIT_eq_GENMASK)

definition get_ena_admin_host_info_rx_page_reuse :: "ena_admin_host_info \<Rightarrow> u32" where
  "get_ena_admin_host_info_rx_page_reuse p = drop_bit ENA_ADMIN_HOST_INFO_RX_PAGE_REUSE_SHIFT (host_info_driver_supported_features p AND ENA_ADMIN_HOST_INFO_RX_PAGE_REUSE_MASK)"

definition set_ena_admin_host_info_rx_page_reuse :: "ena_admin_host_info \<Rightarrow> u32 \<Rightarrow> ena_admin_host_info" where
  "set_ena_admin_host_info_rx_page_reuse p v = p\<lparr>host_info_driver_supported_features := host_info_driver_supported_features p OR (push_bit ENA_ADMIN_HOST_INFO_RX_PAGE_REUSE_SHIFT v AND ENA_ADMIN_HOST_INFO_RX_PAGE_REUSE_MASK)\<rparr>"

interpretation bf_ena_admin_host_info_rx_page_reuse: bitfield get_ena_admin_host_info_rx_page_reuse set_ena_admin_host_info_rx_page_reuse host_info_driver_supported_features 6 6
  by unfold_locales
    (simp_all add: get_ena_admin_host_info_rx_page_reuse_def set_ena_admin_host_info_rx_page_reuse_def ena_const BIT_eq_GENMASK)

definition get_ena_admin_host_info_tx_ipv6_csum_offload :: "ena_admin_host_info \<Rightarrow> u32" where
  "get_ena_admin_host_info_tx_ipv6_csum_offload p = drop_bit ENA_ADMIN_HOST_INFO_TX_IPV6_CSUM_OFFLOAD_SHIFT (host_info_driver_supported_features p AND ENA_ADMIN_HOST_INFO_TX_IPV6_CSUM_OFFLOAD_MASK)"

definition set_ena_admin_host_info_tx_ipv6_csum_offload :: "ena_admin_host_info \<Rightarrow> u32 \<Rightarrow> ena_admin_host_info" where
  "set_ena_admin_host_info_tx_ipv6_csum_offload p v = p\<lparr>host_info_driver_supported_features := host_info_driver_supported_features p OR (push_bit ENA_ADMIN_HOST_INFO_TX_IPV6_CSUM_OFFLOAD_SHIFT v AND ENA_ADMIN_HOST_INFO_TX_IPV6_CSUM_OFFLOAD_MASK)\<rparr>"

interpretation bf_ena_admin_host_info_tx_ipv6_csum_offload: bitfield get_ena_admin_host_info_tx_ipv6_csum_offload set_ena_admin_host_info_tx_ipv6_csum_offload host_info_driver_supported_features 7 7
  by unfold_locales
    (simp_all add: get_ena_admin_host_info_tx_ipv6_csum_offload_def set_ena_admin_host_info_tx_ipv6_csum_offload_def ena_const BIT_eq_GENMASK)

definition get_ena_admin_feature_rss_ind_table_one_entry_update :: "ena_admin_feature_rss_ind_table \<Rightarrow> u8" where
  "get_ena_admin_feature_rss_ind_table_one_entry_update p = ind_table_flags p AND ENA_ADMIN_FEATURE_RSS_IND_TABLE_ONE_ENTRY_UPDATE_MASK"

definition set_ena_admin_feature_rss_ind_table_one_entry_update :: "ena_admin_feature_rss_ind_table \<Rightarrow> u8 \<Rightarrow> ena_admin_feature_rss_ind_table" where
  "set_ena_admin_feature_rss_ind_table_one_entry_update p v = p\<lparr>ind_table_flags := ind_table_flags p OR (v AND ENA_ADMIN_FEATURE_RSS_IND_TABLE_ONE_ENTRY_UPDATE_MASK)\<rparr>"

interpretation bf_ena_admin_feature_rss_ind_table_one_entry_update: bitfield get_ena_admin_feature_rss_ind_table_one_entry_update set_ena_admin_feature_rss_ind_table_one_entry_update ind_table_flags 0 0
  by unfold_locales
    (simp_all add: get_ena_admin_feature_rss_ind_table_one_entry_update_def set_ena_admin_feature_rss_ind_table_one_entry_update_def ena_const BIT_eq_GENMASK)

definition get_ena_admin_host_info_phc :: "ena_admin_host_info \<Rightarrow> u32" where
  "get_ena_admin_host_info_phc p = drop_bit ENA_ADMIN_HOST_INFO_PHC_SHIFT (host_info_driver_supported_features p AND ENA_ADMIN_HOST_INFO_PHC_MASK)"

definition set_ena_admin_host_info_phc :: "ena_admin_host_info \<Rightarrow> u32 \<Rightarrow> ena_admin_host_info" where
  "set_ena_admin_host_info_phc p v = p\<lparr>host_info_driver_supported_features := host_info_driver_supported_features p OR (push_bit ENA_ADMIN_HOST_INFO_PHC_SHIFT v AND ENA_ADMIN_HOST_INFO_PHC_MASK)\<rparr>"

interpretation bf_ena_admin_host_info_phc: bitfield get_ena_admin_host_info_phc set_ena_admin_host_info_phc host_info_driver_supported_features 8 8
  by unfold_locales
    (simp_all add: get_ena_admin_host_info_phc_def set_ena_admin_host_info_phc_def ena_const BIT_eq_GENMASK)

definition get_ena_admin_aenq_common_desc_phase :: "ena_admin_aenq_common_desc \<Rightarrow> u8" where
  "get_ena_admin_aenq_common_desc_phase p = aenq_common_flags p AND ENA_ADMIN_AENQ_COMMON_DESC_PHASE_MASK"

definition set_ena_admin_aenq_common_desc_phase :: "ena_admin_aenq_common_desc \<Rightarrow> u8 \<Rightarrow> ena_admin_aenq_common_desc" where
  "set_ena_admin_aenq_common_desc_phase p v = p\<lparr>aenq_common_flags := aenq_common_flags p OR (v AND ENA_ADMIN_AENQ_COMMON_DESC_PHASE_MASK)\<rparr>"

interpretation bf_ena_admin_aenq_common_desc_phase: bitfield get_ena_admin_aenq_common_desc_phase set_ena_admin_aenq_common_desc_phase aenq_common_flags 0 0
  by unfold_locales
    (simp_all add: get_ena_admin_aenq_common_desc_phase_def set_ena_admin_aenq_common_desc_phase_def ena_const BIT_eq_GENMASK)

definition get_ena_admin_aenq_link_change_desc_link_status :: "ena_admin_aenq_link_change_desc \<Rightarrow> u32" where
  "get_ena_admin_aenq_link_change_desc_link_status p = link_change_flags p AND ENA_ADMIN_AENQ_LINK_CHANGE_DESC_LINK_STATUS_MASK"

definition set_ena_admin_aenq_link_change_desc_link_status :: "ena_admin_aenq_link_change_desc \<Rightarrow> u32 \<Rightarrow> ena_admin_aenq_link_change_desc" where
  "set_ena_admin_aenq_link_change_desc_link_status p v = p\<lparr>link_change_flags := link_change_flags p OR (v AND ENA_ADMIN_AENQ_LINK_CHANGE_DESC_LINK_STATUS_MASK)\<rparr>"

interpretation bf_ena_admin_aenq_link_change_desc_link_status: bitfield get_ena_admin_aenq_link_change_desc_link_status set_ena_admin_aenq_link_change_desc_link_status link_change_flags 0 0
  by unfold_locales
    (simp_all add: get_ena_admin_aenq_link_change_desc_link_status_def set_ena_admin_aenq_link_change_desc_link_status_def ena_const BIT_eq_GENMASK)

end
