(* ===== verification/Ena_Eth_Io.thy ===== *)
theory Ena_Eth_Io
  imports Ena_Bits
begin

text \<open>
  The datapath ABI of \<open>src/hw/ena_defs/ena_eth_io_defs.h\<close>: descriptors and completion
  descriptors as records with their byte layout, the bit-field masks, and the accessor pair of
  every bit field. Each layout is a \<open>struct_layout\<close> and each accessor pair a \<open>bitfield\<close>.
\<close>

section \<open>Protocol indices\<close>

definition ENA_ETH_IO_L3_PROTO_UNKNOWN :: u32 where [ena_const]: "ENA_ETH_IO_L3_PROTO_UNKNOWN = 0"
definition ENA_ETH_IO_L3_PROTO_IPV4 :: u32 where [ena_const]: "ENA_ETH_IO_L3_PROTO_IPV4 = 8"
definition ENA_ETH_IO_L3_PROTO_IPV6 :: u32 where [ena_const]: "ENA_ETH_IO_L3_PROTO_IPV6 = 11"
definition ENA_ETH_IO_L3_PROTO_FCOE :: u32 where [ena_const]: "ENA_ETH_IO_L3_PROTO_FCOE = 21"
definition ENA_ETH_IO_L3_PROTO_ROCE :: u32 where [ena_const]: "ENA_ETH_IO_L3_PROTO_ROCE = 22"

definition ENA_ETH_IO_L4_PROTO_UNKNOWN :: u32 where [ena_const]: "ENA_ETH_IO_L4_PROTO_UNKNOWN = 0"
definition ENA_ETH_IO_L4_PROTO_TCP :: u32 where [ena_const]: "ENA_ETH_IO_L4_PROTO_TCP = 12"
definition ENA_ETH_IO_L4_PROTO_UDP :: u32 where [ena_const]: "ENA_ETH_IO_L4_PROTO_UDP = 13"
definition ENA_ETH_IO_L4_PROTO_ROUTEABLE_ROCE :: u32 where [ena_const]: "ENA_ETH_IO_L4_PROTO_ROUTEABLE_ROCE = 23"

section \<open>Descriptor layouts\<close>

record ena_eth_io_tx_desc =
  tx_desc_len_ctrl :: u32
  tx_desc_meta_ctrl :: u32
  tx_desc_buff_addr_lo :: u32
  tx_desc_buff_addr_hi_hdr_sz :: u32

definition enc_ena_eth_io_tx_desc :: "ena_eth_io_tx_desc \<Rightarrow> byte list" where [ena_codec]:
  "enc_ena_eth_io_tx_desc x =
     le32 (tx_desc_len_ctrl x) @
     le32 (tx_desc_meta_ctrl x) @
     le32 (tx_desc_buff_addr_lo x) @
     le32 (tx_desc_buff_addr_hi_hdr_sz x)"

definition dec_ena_eth_io_tx_desc :: "byte list \<Rightarrow> ena_eth_io_tx_desc" where [ena_codec]:
  "dec_ena_eth_io_tx_desc bs = \<lparr>
     tx_desc_len_ctrl = get_le32 (bs),
     tx_desc_meta_ctrl = get_le32 (drop 4 bs),
     tx_desc_buff_addr_lo = get_le32 (drop 8 bs),
     tx_desc_buff_addr_hi_hdr_sz = get_le32 (drop 12 bs)\<rparr>"

interpretation tx_desc: struct_layout enc_ena_eth_io_tx_desc dec_ena_eth_io_tx_desc 16 "\<lambda>_. True"
  by unfold_locales (simp_all add: ena_codec le16_def le32_def)

record ena_eth_io_tx_meta_desc =
  tx_meta_desc_len_ctrl :: u32
  tx_meta_desc_word1 :: u32
  tx_meta_desc_word2 :: u32
  tx_meta_desc_reserved :: u32

definition enc_ena_eth_io_tx_meta_desc :: "ena_eth_io_tx_meta_desc \<Rightarrow> byte list" where [ena_codec]:
  "enc_ena_eth_io_tx_meta_desc x =
     le32 (tx_meta_desc_len_ctrl x) @
     le32 (tx_meta_desc_word1 x) @
     le32 (tx_meta_desc_word2 x) @
     le32 (tx_meta_desc_reserved x)"

definition dec_ena_eth_io_tx_meta_desc :: "byte list \<Rightarrow> ena_eth_io_tx_meta_desc" where [ena_codec]:
  "dec_ena_eth_io_tx_meta_desc bs = \<lparr>
     tx_meta_desc_len_ctrl = get_le32 (bs),
     tx_meta_desc_word1 = get_le32 (drop 4 bs),
     tx_meta_desc_word2 = get_le32 (drop 8 bs),
     tx_meta_desc_reserved = get_le32 (drop 12 bs)\<rparr>"

interpretation tx_meta_desc: struct_layout enc_ena_eth_io_tx_meta_desc dec_ena_eth_io_tx_meta_desc 16 "\<lambda>_. True"
  by unfold_locales (simp_all add: ena_codec le16_def le32_def)

record ena_eth_io_tx_cdesc =
  tx_cdesc_req_id :: u16
  tx_cdesc_status :: u8
  tx_cdesc_flags :: u8
  tx_cdesc_sub_qid :: u16
  tx_cdesc_sq_head_idx :: u16

definition enc_ena_eth_io_tx_cdesc :: "ena_eth_io_tx_cdesc \<Rightarrow> byte list" where [ena_codec]:
  "enc_ena_eth_io_tx_cdesc x =
     le16 (tx_cdesc_req_id x) @
     [tx_cdesc_status x] @
     [tx_cdesc_flags x] @
     le16 (tx_cdesc_sub_qid x) @
     le16 (tx_cdesc_sq_head_idx x)"

definition dec_ena_eth_io_tx_cdesc :: "byte list \<Rightarrow> ena_eth_io_tx_cdesc" where [ena_codec]:
  "dec_ena_eth_io_tx_cdesc bs = \<lparr>
     tx_cdesc_req_id = get_le16 (bs),
     tx_cdesc_status = get8 (drop 2 bs),
     tx_cdesc_flags = get8 (drop 3 bs),
     tx_cdesc_sub_qid = get_le16 (drop 4 bs),
     tx_cdesc_sq_head_idx = get_le16 (drop 6 bs)\<rparr>"

interpretation tx_cdesc: struct_layout enc_ena_eth_io_tx_cdesc dec_ena_eth_io_tx_cdesc 8 "\<lambda>_. True"
  by unfold_locales (simp_all add: ena_codec le16_def le32_def)

record ena_eth_io_rx_desc =
  rx_desc_length :: u16
  rx_desc_reserved2 :: u8
  rx_desc_ctrl :: u8
  rx_desc_req_id :: u16
  rx_desc_reserved6 :: u16
  rx_desc_buff_addr_lo :: u32
  rx_desc_buff_addr_hi :: u16
  rx_desc_reserved16_w3 :: u16

definition enc_ena_eth_io_rx_desc :: "ena_eth_io_rx_desc \<Rightarrow> byte list" where [ena_codec]:
  "enc_ena_eth_io_rx_desc x =
     le16 (rx_desc_length x) @
     [rx_desc_reserved2 x] @
     [rx_desc_ctrl x] @
     le16 (rx_desc_req_id x) @
     le16 (rx_desc_reserved6 x) @
     le32 (rx_desc_buff_addr_lo x) @
     le16 (rx_desc_buff_addr_hi x) @
     le16 (rx_desc_reserved16_w3 x)"

definition dec_ena_eth_io_rx_desc :: "byte list \<Rightarrow> ena_eth_io_rx_desc" where [ena_codec]:
  "dec_ena_eth_io_rx_desc bs = \<lparr>
     rx_desc_length = get_le16 (bs),
     rx_desc_reserved2 = get8 (drop 2 bs),
     rx_desc_ctrl = get8 (drop 3 bs),
     rx_desc_req_id = get_le16 (drop 4 bs),
     rx_desc_reserved6 = get_le16 (drop 6 bs),
     rx_desc_buff_addr_lo = get_le32 (drop 8 bs),
     rx_desc_buff_addr_hi = get_le16 (drop 12 bs),
     rx_desc_reserved16_w3 = get_le16 (drop 14 bs)\<rparr>"

interpretation rx_desc: struct_layout enc_ena_eth_io_rx_desc dec_ena_eth_io_rx_desc 16 "\<lambda>_. True"
  by unfold_locales (simp_all add: ena_codec le16_def le32_def)

record ena_eth_io_rx_cdesc_base =
  rx_cdesc_base_status :: u32
  rx_cdesc_base_length :: u16
  rx_cdesc_base_req_id :: u16
  rx_cdesc_base_hash :: u32
  rx_cdesc_base_sub_qid :: u16
  rx_cdesc_base_offset :: u8
  rx_cdesc_base_reserved :: u8

definition enc_ena_eth_io_rx_cdesc_base :: "ena_eth_io_rx_cdesc_base \<Rightarrow> byte list" where [ena_codec]:
  "enc_ena_eth_io_rx_cdesc_base x =
     le32 (rx_cdesc_base_status x) @
     le16 (rx_cdesc_base_length x) @
     le16 (rx_cdesc_base_req_id x) @
     le32 (rx_cdesc_base_hash x) @
     le16 (rx_cdesc_base_sub_qid x) @
     [rx_cdesc_base_offset x] @
     [rx_cdesc_base_reserved x]"

definition dec_ena_eth_io_rx_cdesc_base :: "byte list \<Rightarrow> ena_eth_io_rx_cdesc_base" where [ena_codec]:
  "dec_ena_eth_io_rx_cdesc_base bs = \<lparr>
     rx_cdesc_base_status = get_le32 (bs),
     rx_cdesc_base_length = get_le16 (drop 4 bs),
     rx_cdesc_base_req_id = get_le16 (drop 6 bs),
     rx_cdesc_base_hash = get_le32 (drop 8 bs),
     rx_cdesc_base_sub_qid = get_le16 (drop 12 bs),
     rx_cdesc_base_offset = get8 (drop 14 bs),
     rx_cdesc_base_reserved = get8 (drop 15 bs)\<rparr>"

interpretation rx_cdesc_base: struct_layout enc_ena_eth_io_rx_cdesc_base dec_ena_eth_io_rx_cdesc_base 16 "\<lambda>_. True"
  by unfold_locales (simp_all add: ena_codec le16_def le32_def)

record ena_eth_io_rx_cdesc_ext =
  rx_cdesc_ext_base :: ena_eth_io_rx_cdesc_base
  rx_cdesc_ext_buff_addr_lo :: u32
  rx_cdesc_ext_buff_addr_hi :: u16
  rx_cdesc_ext_reserved16 :: u16
  rx_cdesc_ext_timestamp_low :: u32
  rx_cdesc_ext_timestamp_high :: u32

definition enc_ena_eth_io_rx_cdesc_ext :: "ena_eth_io_rx_cdesc_ext \<Rightarrow> byte list" where [ena_codec]:
  "enc_ena_eth_io_rx_cdesc_ext x =
     enc_ena_eth_io_rx_cdesc_base (rx_cdesc_ext_base x) @
     le32 (rx_cdesc_ext_buff_addr_lo x) @
     le16 (rx_cdesc_ext_buff_addr_hi x) @
     le16 (rx_cdesc_ext_reserved16 x) @
     le32 (rx_cdesc_ext_timestamp_low x) @
     le32 (rx_cdesc_ext_timestamp_high x)"

definition dec_ena_eth_io_rx_cdesc_ext :: "byte list \<Rightarrow> ena_eth_io_rx_cdesc_ext" where [ena_codec]:
  "dec_ena_eth_io_rx_cdesc_ext bs = \<lparr>
     rx_cdesc_ext_base = dec_ena_eth_io_rx_cdesc_base (bs),
     rx_cdesc_ext_buff_addr_lo = get_le32 (drop 16 bs),
     rx_cdesc_ext_buff_addr_hi = get_le16 (drop 20 bs),
     rx_cdesc_ext_reserved16 = get_le16 (drop 22 bs),
     rx_cdesc_ext_timestamp_low = get_le32 (drop 24 bs),
     rx_cdesc_ext_timestamp_high = get_le32 (drop 28 bs)\<rparr>"

interpretation rx_cdesc_ext: struct_layout enc_ena_eth_io_rx_cdesc_ext dec_ena_eth_io_rx_cdesc_ext 32 "\<lambda>_. True"
  by unfold_locales (simp_all add: ena_codec le16_def le32_def)

record ena_eth_io_intr_reg =
  intr_reg_intr_control :: u32

definition enc_ena_eth_io_intr_reg :: "ena_eth_io_intr_reg \<Rightarrow> byte list" where [ena_codec]:
  "enc_ena_eth_io_intr_reg x =
     le32 (intr_reg_intr_control x)"

definition dec_ena_eth_io_intr_reg :: "byte list \<Rightarrow> ena_eth_io_intr_reg" where [ena_codec]:
  "dec_ena_eth_io_intr_reg bs = \<lparr>
     intr_reg_intr_control = get_le32 (bs)\<rparr>"

interpretation intr_reg: struct_layout enc_ena_eth_io_intr_reg dec_ena_eth_io_intr_reg 4 "\<lambda>_. True"
  by unfold_locales (simp_all add: ena_codec le16_def le32_def)

record ena_eth_io_numa_node_cfg_reg =
  numa_node_cfg_reg_numa_cfg :: u32

definition enc_ena_eth_io_numa_node_cfg_reg :: "ena_eth_io_numa_node_cfg_reg \<Rightarrow> byte list" where [ena_codec]:
  "enc_ena_eth_io_numa_node_cfg_reg x =
     le32 (numa_node_cfg_reg_numa_cfg x)"

definition dec_ena_eth_io_numa_node_cfg_reg :: "byte list \<Rightarrow> ena_eth_io_numa_node_cfg_reg" where [ena_codec]:
  "dec_ena_eth_io_numa_node_cfg_reg bs = \<lparr>
     numa_node_cfg_reg_numa_cfg = get_le32 (bs)\<rparr>"

interpretation numa_node_cfg_reg: struct_layout enc_ena_eth_io_numa_node_cfg_reg dec_ena_eth_io_numa_node_cfg_reg 4 "\<lambda>_. True"
  by unfold_locales (simp_all add: ena_codec le16_def le32_def)

section \<open>Masks and shifts\<close>

definition ENA_ETH_IO_TX_DESC_LENGTH_MASK :: u32 where [ena_const]: "ENA_ETH_IO_TX_DESC_LENGTH_MASK = GENMASK 15 0"
definition ENA_ETH_IO_TX_DESC_REQ_ID_HI_SHIFT :: nat where [ena_const]: "ENA_ETH_IO_TX_DESC_REQ_ID_HI_SHIFT = 16"
definition ENA_ETH_IO_TX_DESC_REQ_ID_HI_MASK :: u32 where [ena_const]: "ENA_ETH_IO_TX_DESC_REQ_ID_HI_MASK = GENMASK 21 16"
definition ENA_ETH_IO_TX_DESC_META_DESC_SHIFT :: nat where [ena_const]: "ENA_ETH_IO_TX_DESC_META_DESC_SHIFT = 23"
definition ENA_ETH_IO_TX_DESC_META_DESC_MASK :: u32 where [ena_const]: "ENA_ETH_IO_TX_DESC_META_DESC_MASK = BIT 23"
definition ENA_ETH_IO_TX_DESC_PHASE_SHIFT :: nat where [ena_const]: "ENA_ETH_IO_TX_DESC_PHASE_SHIFT = 24"
definition ENA_ETH_IO_TX_DESC_PHASE_MASK :: u32 where [ena_const]: "ENA_ETH_IO_TX_DESC_PHASE_MASK = BIT 24"
definition ENA_ETH_IO_TX_DESC_FIRST_SHIFT :: nat where [ena_const]: "ENA_ETH_IO_TX_DESC_FIRST_SHIFT = 26"
definition ENA_ETH_IO_TX_DESC_FIRST_MASK :: u32 where [ena_const]: "ENA_ETH_IO_TX_DESC_FIRST_MASK = BIT 26"
definition ENA_ETH_IO_TX_DESC_LAST_SHIFT :: nat where [ena_const]: "ENA_ETH_IO_TX_DESC_LAST_SHIFT = 27"
definition ENA_ETH_IO_TX_DESC_LAST_MASK :: u32 where [ena_const]: "ENA_ETH_IO_TX_DESC_LAST_MASK = BIT 27"
definition ENA_ETH_IO_TX_DESC_COMP_REQ_SHIFT :: nat where [ena_const]: "ENA_ETH_IO_TX_DESC_COMP_REQ_SHIFT = 28"
definition ENA_ETH_IO_TX_DESC_COMP_REQ_MASK :: u32 where [ena_const]: "ENA_ETH_IO_TX_DESC_COMP_REQ_MASK = BIT 28"
definition ENA_ETH_IO_TX_DESC_L3_PROTO_IDX_MASK :: u32 where [ena_const]: "ENA_ETH_IO_TX_DESC_L3_PROTO_IDX_MASK = GENMASK 3 0"
definition ENA_ETH_IO_TX_DESC_DF_SHIFT :: nat where [ena_const]: "ENA_ETH_IO_TX_DESC_DF_SHIFT = 4"
definition ENA_ETH_IO_TX_DESC_DF_MASK :: u32 where [ena_const]: "ENA_ETH_IO_TX_DESC_DF_MASK = BIT 4"
definition ENA_ETH_IO_TX_DESC_TSO_EN_SHIFT :: nat where [ena_const]: "ENA_ETH_IO_TX_DESC_TSO_EN_SHIFT = 7"
definition ENA_ETH_IO_TX_DESC_TSO_EN_MASK :: u32 where [ena_const]: "ENA_ETH_IO_TX_DESC_TSO_EN_MASK = BIT 7"
definition ENA_ETH_IO_TX_DESC_L4_PROTO_IDX_SHIFT :: nat where [ena_const]: "ENA_ETH_IO_TX_DESC_L4_PROTO_IDX_SHIFT = 8"
definition ENA_ETH_IO_TX_DESC_L4_PROTO_IDX_MASK :: u32 where [ena_const]: "ENA_ETH_IO_TX_DESC_L4_PROTO_IDX_MASK = GENMASK 12 8"
definition ENA_ETH_IO_TX_DESC_L3_CSUM_EN_SHIFT :: nat where [ena_const]: "ENA_ETH_IO_TX_DESC_L3_CSUM_EN_SHIFT = 13"
definition ENA_ETH_IO_TX_DESC_L3_CSUM_EN_MASK :: u32 where [ena_const]: "ENA_ETH_IO_TX_DESC_L3_CSUM_EN_MASK = BIT 13"
definition ENA_ETH_IO_TX_DESC_L4_CSUM_EN_SHIFT :: nat where [ena_const]: "ENA_ETH_IO_TX_DESC_L4_CSUM_EN_SHIFT = 14"
definition ENA_ETH_IO_TX_DESC_L4_CSUM_EN_MASK :: u32 where [ena_const]: "ENA_ETH_IO_TX_DESC_L4_CSUM_EN_MASK = BIT 14"
definition ENA_ETH_IO_TX_DESC_ETHERNET_FCS_DIS_SHIFT :: nat where [ena_const]: "ENA_ETH_IO_TX_DESC_ETHERNET_FCS_DIS_SHIFT = 15"
definition ENA_ETH_IO_TX_DESC_ETHERNET_FCS_DIS_MASK :: u32 where [ena_const]: "ENA_ETH_IO_TX_DESC_ETHERNET_FCS_DIS_MASK = BIT 15"
definition ENA_ETH_IO_TX_DESC_L4_CSUM_PARTIAL_SHIFT :: nat where [ena_const]: "ENA_ETH_IO_TX_DESC_L4_CSUM_PARTIAL_SHIFT = 17"
definition ENA_ETH_IO_TX_DESC_L4_CSUM_PARTIAL_MASK :: u32 where [ena_const]: "ENA_ETH_IO_TX_DESC_L4_CSUM_PARTIAL_MASK = BIT 17"
definition ENA_ETH_IO_TX_DESC_REQ_ID_LO_SHIFT :: nat where [ena_const]: "ENA_ETH_IO_TX_DESC_REQ_ID_LO_SHIFT = 22"
definition ENA_ETH_IO_TX_DESC_REQ_ID_LO_MASK :: u32 where [ena_const]: "ENA_ETH_IO_TX_DESC_REQ_ID_LO_MASK = GENMASK 31 22"
definition ENA_ETH_IO_TX_DESC_ADDR_HI_MASK :: u32 where [ena_const]: "ENA_ETH_IO_TX_DESC_ADDR_HI_MASK = GENMASK 15 0"
definition ENA_ETH_IO_TX_DESC_HEADER_LENGTH_SHIFT :: nat where [ena_const]: "ENA_ETH_IO_TX_DESC_HEADER_LENGTH_SHIFT = 24"
definition ENA_ETH_IO_TX_DESC_HEADER_LENGTH_MASK :: u32 where [ena_const]: "ENA_ETH_IO_TX_DESC_HEADER_LENGTH_MASK = GENMASK 31 24"
definition ENA_ETH_IO_TX_META_DESC_REQ_ID_LO_MASK :: u32 where [ena_const]: "ENA_ETH_IO_TX_META_DESC_REQ_ID_LO_MASK = GENMASK 9 0"
definition ENA_ETH_IO_TX_META_DESC_EXT_VALID_SHIFT :: nat where [ena_const]: "ENA_ETH_IO_TX_META_DESC_EXT_VALID_SHIFT = 14"
definition ENA_ETH_IO_TX_META_DESC_EXT_VALID_MASK :: u32 where [ena_const]: "ENA_ETH_IO_TX_META_DESC_EXT_VALID_MASK = BIT 14"
definition ENA_ETH_IO_TX_META_DESC_MSS_HI_SHIFT :: nat where [ena_const]: "ENA_ETH_IO_TX_META_DESC_MSS_HI_SHIFT = 16"
definition ENA_ETH_IO_TX_META_DESC_MSS_HI_MASK :: u32 where [ena_const]: "ENA_ETH_IO_TX_META_DESC_MSS_HI_MASK = GENMASK 19 16"
definition ENA_ETH_IO_TX_META_DESC_ETH_META_TYPE_SHIFT :: nat where [ena_const]: "ENA_ETH_IO_TX_META_DESC_ETH_META_TYPE_SHIFT = 20"
definition ENA_ETH_IO_TX_META_DESC_ETH_META_TYPE_MASK :: u32 where [ena_const]: "ENA_ETH_IO_TX_META_DESC_ETH_META_TYPE_MASK = BIT 20"
definition ENA_ETH_IO_TX_META_DESC_META_STORE_SHIFT :: nat where [ena_const]: "ENA_ETH_IO_TX_META_DESC_META_STORE_SHIFT = 21"
definition ENA_ETH_IO_TX_META_DESC_META_STORE_MASK :: u32 where [ena_const]: "ENA_ETH_IO_TX_META_DESC_META_STORE_MASK = BIT 21"
definition ENA_ETH_IO_TX_META_DESC_META_DESC_SHIFT :: nat where [ena_const]: "ENA_ETH_IO_TX_META_DESC_META_DESC_SHIFT = 23"
definition ENA_ETH_IO_TX_META_DESC_META_DESC_MASK :: u32 where [ena_const]: "ENA_ETH_IO_TX_META_DESC_META_DESC_MASK = BIT 23"
definition ENA_ETH_IO_TX_META_DESC_PHASE_SHIFT :: nat where [ena_const]: "ENA_ETH_IO_TX_META_DESC_PHASE_SHIFT = 24"
definition ENA_ETH_IO_TX_META_DESC_PHASE_MASK :: u32 where [ena_const]: "ENA_ETH_IO_TX_META_DESC_PHASE_MASK = BIT 24"
definition ENA_ETH_IO_TX_META_DESC_FIRST_SHIFT :: nat where [ena_const]: "ENA_ETH_IO_TX_META_DESC_FIRST_SHIFT = 26"
definition ENA_ETH_IO_TX_META_DESC_FIRST_MASK :: u32 where [ena_const]: "ENA_ETH_IO_TX_META_DESC_FIRST_MASK = BIT 26"
definition ENA_ETH_IO_TX_META_DESC_LAST_SHIFT :: nat where [ena_const]: "ENA_ETH_IO_TX_META_DESC_LAST_SHIFT = 27"
definition ENA_ETH_IO_TX_META_DESC_LAST_MASK :: u32 where [ena_const]: "ENA_ETH_IO_TX_META_DESC_LAST_MASK = BIT 27"
definition ENA_ETH_IO_TX_META_DESC_COMP_REQ_SHIFT :: nat where [ena_const]: "ENA_ETH_IO_TX_META_DESC_COMP_REQ_SHIFT = 28"
definition ENA_ETH_IO_TX_META_DESC_COMP_REQ_MASK :: u32 where [ena_const]: "ENA_ETH_IO_TX_META_DESC_COMP_REQ_MASK = BIT 28"
definition ENA_ETH_IO_TX_META_DESC_REQ_ID_HI_MASK :: u32 where [ena_const]: "ENA_ETH_IO_TX_META_DESC_REQ_ID_HI_MASK = GENMASK 5 0"
definition ENA_ETH_IO_TX_META_DESC_L3_HDR_LEN_MASK :: u32 where [ena_const]: "ENA_ETH_IO_TX_META_DESC_L3_HDR_LEN_MASK = GENMASK 7 0"
definition ENA_ETH_IO_TX_META_DESC_L3_HDR_OFF_SHIFT :: nat where [ena_const]: "ENA_ETH_IO_TX_META_DESC_L3_HDR_OFF_SHIFT = 8"
definition ENA_ETH_IO_TX_META_DESC_L3_HDR_OFF_MASK :: u32 where [ena_const]: "ENA_ETH_IO_TX_META_DESC_L3_HDR_OFF_MASK = GENMASK 15 8"
definition ENA_ETH_IO_TX_META_DESC_L4_HDR_LEN_IN_WORDS_SHIFT :: nat where [ena_const]: "ENA_ETH_IO_TX_META_DESC_L4_HDR_LEN_IN_WORDS_SHIFT = 16"
definition ENA_ETH_IO_TX_META_DESC_L4_HDR_LEN_IN_WORDS_MASK :: u32 where [ena_const]: "ENA_ETH_IO_TX_META_DESC_L4_HDR_LEN_IN_WORDS_MASK = GENMASK 21 16"
definition ENA_ETH_IO_TX_META_DESC_MSS_LO_SHIFT :: nat where [ena_const]: "ENA_ETH_IO_TX_META_DESC_MSS_LO_SHIFT = 22"
definition ENA_ETH_IO_TX_META_DESC_MSS_LO_MASK :: u32 where [ena_const]: "ENA_ETH_IO_TX_META_DESC_MSS_LO_MASK = GENMASK 31 22"
definition ENA_ETH_IO_TX_CDESC_PHASE_MASK :: u8 where [ena_const]: "ENA_ETH_IO_TX_CDESC_PHASE_MASK = BIT 0"
definition ENA_ETH_IO_TX_CDESC_MBZ6_SHIFT :: nat where [ena_const]: "ENA_ETH_IO_TX_CDESC_MBZ6_SHIFT = 6"
definition ENA_ETH_IO_TX_CDESC_MBZ6_MASK :: u8 where [ena_const]: "ENA_ETH_IO_TX_CDESC_MBZ6_MASK = GENMASK 7 6"
definition ENA_ETH_IO_RX_DESC_PHASE_MASK :: u8 where [ena_const]: "ENA_ETH_IO_RX_DESC_PHASE_MASK = BIT 0"
definition ENA_ETH_IO_RX_DESC_FIRST_SHIFT :: nat where [ena_const]: "ENA_ETH_IO_RX_DESC_FIRST_SHIFT = 2"
definition ENA_ETH_IO_RX_DESC_FIRST_MASK :: u8 where [ena_const]: "ENA_ETH_IO_RX_DESC_FIRST_MASK = BIT 2"
definition ENA_ETH_IO_RX_DESC_LAST_SHIFT :: nat where [ena_const]: "ENA_ETH_IO_RX_DESC_LAST_SHIFT = 3"
definition ENA_ETH_IO_RX_DESC_LAST_MASK :: u8 where [ena_const]: "ENA_ETH_IO_RX_DESC_LAST_MASK = BIT 3"
definition ENA_ETH_IO_RX_DESC_COMP_REQ_SHIFT :: nat where [ena_const]: "ENA_ETH_IO_RX_DESC_COMP_REQ_SHIFT = 4"
definition ENA_ETH_IO_RX_DESC_COMP_REQ_MASK :: u8 where [ena_const]: "ENA_ETH_IO_RX_DESC_COMP_REQ_MASK = BIT 4"
definition ENA_ETH_IO_RX_CDESC_BASE_L3_PROTO_IDX_MASK :: u32 where [ena_const]: "ENA_ETH_IO_RX_CDESC_BASE_L3_PROTO_IDX_MASK = GENMASK 4 0"
definition ENA_ETH_IO_RX_CDESC_BASE_SRC_VLAN_CNT_SHIFT :: nat where [ena_const]: "ENA_ETH_IO_RX_CDESC_BASE_SRC_VLAN_CNT_SHIFT = 5"
definition ENA_ETH_IO_RX_CDESC_BASE_SRC_VLAN_CNT_MASK :: u32 where [ena_const]: "ENA_ETH_IO_RX_CDESC_BASE_SRC_VLAN_CNT_MASK = GENMASK 6 5"
definition ENA_ETH_IO_RX_CDESC_BASE_MBZ7_SHIFT :: nat where [ena_const]: "ENA_ETH_IO_RX_CDESC_BASE_MBZ7_SHIFT = 7"
definition ENA_ETH_IO_RX_CDESC_BASE_MBZ7_MASK :: u32 where [ena_const]: "ENA_ETH_IO_RX_CDESC_BASE_MBZ7_MASK = BIT 7"
definition ENA_ETH_IO_RX_CDESC_BASE_L4_PROTO_IDX_SHIFT :: nat where [ena_const]: "ENA_ETH_IO_RX_CDESC_BASE_L4_PROTO_IDX_SHIFT = 8"
definition ENA_ETH_IO_RX_CDESC_BASE_L4_PROTO_IDX_MASK :: u32 where [ena_const]: "ENA_ETH_IO_RX_CDESC_BASE_L4_PROTO_IDX_MASK = GENMASK 12 8"
definition ENA_ETH_IO_RX_CDESC_BASE_L3_CSUM_ERR_SHIFT :: nat where [ena_const]: "ENA_ETH_IO_RX_CDESC_BASE_L3_CSUM_ERR_SHIFT = 13"
definition ENA_ETH_IO_RX_CDESC_BASE_L3_CSUM_ERR_MASK :: u32 where [ena_const]: "ENA_ETH_IO_RX_CDESC_BASE_L3_CSUM_ERR_MASK = BIT 13"
definition ENA_ETH_IO_RX_CDESC_BASE_L4_CSUM_ERR_SHIFT :: nat where [ena_const]: "ENA_ETH_IO_RX_CDESC_BASE_L4_CSUM_ERR_SHIFT = 14"
definition ENA_ETH_IO_RX_CDESC_BASE_L4_CSUM_ERR_MASK :: u32 where [ena_const]: "ENA_ETH_IO_RX_CDESC_BASE_L4_CSUM_ERR_MASK = BIT 14"
definition ENA_ETH_IO_RX_CDESC_BASE_IPV4_FRAG_SHIFT :: nat where [ena_const]: "ENA_ETH_IO_RX_CDESC_BASE_IPV4_FRAG_SHIFT = 15"
definition ENA_ETH_IO_RX_CDESC_BASE_IPV4_FRAG_MASK :: u32 where [ena_const]: "ENA_ETH_IO_RX_CDESC_BASE_IPV4_FRAG_MASK = BIT 15"
definition ENA_ETH_IO_RX_CDESC_BASE_L4_CSUM_CHECKED_SHIFT :: nat where [ena_const]: "ENA_ETH_IO_RX_CDESC_BASE_L4_CSUM_CHECKED_SHIFT = 16"
definition ENA_ETH_IO_RX_CDESC_BASE_L4_CSUM_CHECKED_MASK :: u32 where [ena_const]: "ENA_ETH_IO_RX_CDESC_BASE_L4_CSUM_CHECKED_MASK = BIT 16"
definition ENA_ETH_IO_RX_CDESC_BASE_MBZ17_SHIFT :: nat where [ena_const]: "ENA_ETH_IO_RX_CDESC_BASE_MBZ17_SHIFT = 17"
definition ENA_ETH_IO_RX_CDESC_BASE_MBZ17_MASK :: u32 where [ena_const]: "ENA_ETH_IO_RX_CDESC_BASE_MBZ17_MASK = BIT 17"
definition ENA_ETH_IO_RX_CDESC_BASE_PHASE_SHIFT :: nat where [ena_const]: "ENA_ETH_IO_RX_CDESC_BASE_PHASE_SHIFT = 24"
definition ENA_ETH_IO_RX_CDESC_BASE_PHASE_MASK :: u32 where [ena_const]: "ENA_ETH_IO_RX_CDESC_BASE_PHASE_MASK = BIT 24"
definition ENA_ETH_IO_RX_CDESC_BASE_L3_CSUM2_SHIFT :: nat where [ena_const]: "ENA_ETH_IO_RX_CDESC_BASE_L3_CSUM2_SHIFT = 25"
definition ENA_ETH_IO_RX_CDESC_BASE_L3_CSUM2_MASK :: u32 where [ena_const]: "ENA_ETH_IO_RX_CDESC_BASE_L3_CSUM2_MASK = BIT 25"
definition ENA_ETH_IO_RX_CDESC_BASE_FIRST_SHIFT :: nat where [ena_const]: "ENA_ETH_IO_RX_CDESC_BASE_FIRST_SHIFT = 26"
definition ENA_ETH_IO_RX_CDESC_BASE_FIRST_MASK :: u32 where [ena_const]: "ENA_ETH_IO_RX_CDESC_BASE_FIRST_MASK = BIT 26"
definition ENA_ETH_IO_RX_CDESC_BASE_LAST_SHIFT :: nat where [ena_const]: "ENA_ETH_IO_RX_CDESC_BASE_LAST_SHIFT = 27"
definition ENA_ETH_IO_RX_CDESC_BASE_LAST_MASK :: u32 where [ena_const]: "ENA_ETH_IO_RX_CDESC_BASE_LAST_MASK = BIT 27"
definition ENA_ETH_IO_RX_CDESC_BASE_BUFFER_SHIFT :: nat where [ena_const]: "ENA_ETH_IO_RX_CDESC_BASE_BUFFER_SHIFT = 30"
definition ENA_ETH_IO_RX_CDESC_BASE_BUFFER_MASK :: u32 where [ena_const]: "ENA_ETH_IO_RX_CDESC_BASE_BUFFER_MASK = BIT 30"
definition ENA_ETH_IO_INTR_REG_RX_INTR_DELAY_MASK :: u32 where [ena_const]: "ENA_ETH_IO_INTR_REG_RX_INTR_DELAY_MASK = GENMASK 14 0"
definition ENA_ETH_IO_INTR_REG_TX_INTR_DELAY_SHIFT :: nat where [ena_const]: "ENA_ETH_IO_INTR_REG_TX_INTR_DELAY_SHIFT = 15"
definition ENA_ETH_IO_INTR_REG_TX_INTR_DELAY_MASK :: u32 where [ena_const]: "ENA_ETH_IO_INTR_REG_TX_INTR_DELAY_MASK = GENMASK 29 15"
definition ENA_ETH_IO_INTR_REG_INTR_UNMASK_SHIFT :: nat where [ena_const]: "ENA_ETH_IO_INTR_REG_INTR_UNMASK_SHIFT = 30"
definition ENA_ETH_IO_INTR_REG_INTR_UNMASK_MASK :: u32 where [ena_const]: "ENA_ETH_IO_INTR_REG_INTR_UNMASK_MASK = BIT 30"
definition ENA_ETH_IO_INTR_REG_NO_MODERATION_UPDATE_SHIFT :: nat where [ena_const]: "ENA_ETH_IO_INTR_REG_NO_MODERATION_UPDATE_SHIFT = 31"
definition ENA_ETH_IO_INTR_REG_NO_MODERATION_UPDATE_MASK :: u32 where [ena_const]: "ENA_ETH_IO_INTR_REG_NO_MODERATION_UPDATE_MASK = BIT 31"
definition ENA_ETH_IO_NUMA_NODE_CFG_REG_NUMA_MASK :: u32 where [ena_const]: "ENA_ETH_IO_NUMA_NODE_CFG_REG_NUMA_MASK = GENMASK 7 0"
definition ENA_ETH_IO_NUMA_NODE_CFG_REG_ENABLED_SHIFT :: nat where [ena_const]: "ENA_ETH_IO_NUMA_NODE_CFG_REG_ENABLED_SHIFT = 31"
definition ENA_ETH_IO_NUMA_NODE_CFG_REG_ENABLED_MASK :: u32 where [ena_const]: "ENA_ETH_IO_NUMA_NODE_CFG_REG_ENABLED_MASK = BIT 31"

section \<open>Bit-field accessors\<close>

definition get_ena_eth_io_tx_desc_length :: "ena_eth_io_tx_desc \<Rightarrow> u32" where
  "get_ena_eth_io_tx_desc_length p = tx_desc_len_ctrl p AND ENA_ETH_IO_TX_DESC_LENGTH_MASK"

definition set_ena_eth_io_tx_desc_length :: "ena_eth_io_tx_desc \<Rightarrow> u32 \<Rightarrow> ena_eth_io_tx_desc" where
  "set_ena_eth_io_tx_desc_length p v = p\<lparr>tx_desc_len_ctrl := tx_desc_len_ctrl p OR (v AND ENA_ETH_IO_TX_DESC_LENGTH_MASK)\<rparr>"

interpretation bf_ena_eth_io_tx_desc_length: bitfield get_ena_eth_io_tx_desc_length set_ena_eth_io_tx_desc_length tx_desc_len_ctrl 15 0
  by unfold_locales
    (simp_all add: get_ena_eth_io_tx_desc_length_def set_ena_eth_io_tx_desc_length_def ena_const BIT_eq_GENMASK)

definition get_ena_eth_io_tx_desc_req_id_hi :: "ena_eth_io_tx_desc \<Rightarrow> u32" where
  "get_ena_eth_io_tx_desc_req_id_hi p = drop_bit ENA_ETH_IO_TX_DESC_REQ_ID_HI_SHIFT (tx_desc_len_ctrl p AND ENA_ETH_IO_TX_DESC_REQ_ID_HI_MASK)"

definition set_ena_eth_io_tx_desc_req_id_hi :: "ena_eth_io_tx_desc \<Rightarrow> u32 \<Rightarrow> ena_eth_io_tx_desc" where
  "set_ena_eth_io_tx_desc_req_id_hi p v = p\<lparr>tx_desc_len_ctrl := tx_desc_len_ctrl p OR (push_bit ENA_ETH_IO_TX_DESC_REQ_ID_HI_SHIFT v AND ENA_ETH_IO_TX_DESC_REQ_ID_HI_MASK)\<rparr>"

interpretation bf_ena_eth_io_tx_desc_req_id_hi: bitfield get_ena_eth_io_tx_desc_req_id_hi set_ena_eth_io_tx_desc_req_id_hi tx_desc_len_ctrl 21 16
  by unfold_locales
    (simp_all add: get_ena_eth_io_tx_desc_req_id_hi_def set_ena_eth_io_tx_desc_req_id_hi_def ena_const BIT_eq_GENMASK)

definition get_ena_eth_io_tx_desc_meta_desc :: "ena_eth_io_tx_desc \<Rightarrow> u32" where
  "get_ena_eth_io_tx_desc_meta_desc p = drop_bit ENA_ETH_IO_TX_DESC_META_DESC_SHIFT (tx_desc_len_ctrl p AND ENA_ETH_IO_TX_DESC_META_DESC_MASK)"

definition set_ena_eth_io_tx_desc_meta_desc :: "ena_eth_io_tx_desc \<Rightarrow> u32 \<Rightarrow> ena_eth_io_tx_desc" where
  "set_ena_eth_io_tx_desc_meta_desc p v = p\<lparr>tx_desc_len_ctrl := tx_desc_len_ctrl p OR (push_bit ENA_ETH_IO_TX_DESC_META_DESC_SHIFT v AND ENA_ETH_IO_TX_DESC_META_DESC_MASK)\<rparr>"

interpretation bf_ena_eth_io_tx_desc_meta_desc: bitfield get_ena_eth_io_tx_desc_meta_desc set_ena_eth_io_tx_desc_meta_desc tx_desc_len_ctrl 23 23
  by unfold_locales
    (simp_all add: get_ena_eth_io_tx_desc_meta_desc_def set_ena_eth_io_tx_desc_meta_desc_def ena_const BIT_eq_GENMASK)

definition get_ena_eth_io_tx_desc_phase :: "ena_eth_io_tx_desc \<Rightarrow> u32" where
  "get_ena_eth_io_tx_desc_phase p = drop_bit ENA_ETH_IO_TX_DESC_PHASE_SHIFT (tx_desc_len_ctrl p AND ENA_ETH_IO_TX_DESC_PHASE_MASK)"

definition set_ena_eth_io_tx_desc_phase :: "ena_eth_io_tx_desc \<Rightarrow> u32 \<Rightarrow> ena_eth_io_tx_desc" where
  "set_ena_eth_io_tx_desc_phase p v = p\<lparr>tx_desc_len_ctrl := tx_desc_len_ctrl p OR (push_bit ENA_ETH_IO_TX_DESC_PHASE_SHIFT v AND ENA_ETH_IO_TX_DESC_PHASE_MASK)\<rparr>"

interpretation bf_ena_eth_io_tx_desc_phase: bitfield get_ena_eth_io_tx_desc_phase set_ena_eth_io_tx_desc_phase tx_desc_len_ctrl 24 24
  by unfold_locales
    (simp_all add: get_ena_eth_io_tx_desc_phase_def set_ena_eth_io_tx_desc_phase_def ena_const BIT_eq_GENMASK)

definition get_ena_eth_io_tx_desc_first :: "ena_eth_io_tx_desc \<Rightarrow> u32" where
  "get_ena_eth_io_tx_desc_first p = drop_bit ENA_ETH_IO_TX_DESC_FIRST_SHIFT (tx_desc_len_ctrl p AND ENA_ETH_IO_TX_DESC_FIRST_MASK)"

definition set_ena_eth_io_tx_desc_first :: "ena_eth_io_tx_desc \<Rightarrow> u32 \<Rightarrow> ena_eth_io_tx_desc" where
  "set_ena_eth_io_tx_desc_first p v = p\<lparr>tx_desc_len_ctrl := tx_desc_len_ctrl p OR (push_bit ENA_ETH_IO_TX_DESC_FIRST_SHIFT v AND ENA_ETH_IO_TX_DESC_FIRST_MASK)\<rparr>"

interpretation bf_ena_eth_io_tx_desc_first: bitfield get_ena_eth_io_tx_desc_first set_ena_eth_io_tx_desc_first tx_desc_len_ctrl 26 26
  by unfold_locales
    (simp_all add: get_ena_eth_io_tx_desc_first_def set_ena_eth_io_tx_desc_first_def ena_const BIT_eq_GENMASK)

definition get_ena_eth_io_tx_desc_last :: "ena_eth_io_tx_desc \<Rightarrow> u32" where
  "get_ena_eth_io_tx_desc_last p = drop_bit ENA_ETH_IO_TX_DESC_LAST_SHIFT (tx_desc_len_ctrl p AND ENA_ETH_IO_TX_DESC_LAST_MASK)"

definition set_ena_eth_io_tx_desc_last :: "ena_eth_io_tx_desc \<Rightarrow> u32 \<Rightarrow> ena_eth_io_tx_desc" where
  "set_ena_eth_io_tx_desc_last p v = p\<lparr>tx_desc_len_ctrl := tx_desc_len_ctrl p OR (push_bit ENA_ETH_IO_TX_DESC_LAST_SHIFT v AND ENA_ETH_IO_TX_DESC_LAST_MASK)\<rparr>"

interpretation bf_ena_eth_io_tx_desc_last: bitfield get_ena_eth_io_tx_desc_last set_ena_eth_io_tx_desc_last tx_desc_len_ctrl 27 27
  by unfold_locales
    (simp_all add: get_ena_eth_io_tx_desc_last_def set_ena_eth_io_tx_desc_last_def ena_const BIT_eq_GENMASK)

definition get_ena_eth_io_tx_desc_comp_req :: "ena_eth_io_tx_desc \<Rightarrow> u32" where
  "get_ena_eth_io_tx_desc_comp_req p = drop_bit ENA_ETH_IO_TX_DESC_COMP_REQ_SHIFT (tx_desc_len_ctrl p AND ENA_ETH_IO_TX_DESC_COMP_REQ_MASK)"

definition set_ena_eth_io_tx_desc_comp_req :: "ena_eth_io_tx_desc \<Rightarrow> u32 \<Rightarrow> ena_eth_io_tx_desc" where
  "set_ena_eth_io_tx_desc_comp_req p v = p\<lparr>tx_desc_len_ctrl := tx_desc_len_ctrl p OR (push_bit ENA_ETH_IO_TX_DESC_COMP_REQ_SHIFT v AND ENA_ETH_IO_TX_DESC_COMP_REQ_MASK)\<rparr>"

interpretation bf_ena_eth_io_tx_desc_comp_req: bitfield get_ena_eth_io_tx_desc_comp_req set_ena_eth_io_tx_desc_comp_req tx_desc_len_ctrl 28 28
  by unfold_locales
    (simp_all add: get_ena_eth_io_tx_desc_comp_req_def set_ena_eth_io_tx_desc_comp_req_def ena_const BIT_eq_GENMASK)

definition get_ena_eth_io_tx_desc_l3_proto_idx :: "ena_eth_io_tx_desc \<Rightarrow> u32" where
  "get_ena_eth_io_tx_desc_l3_proto_idx p = tx_desc_meta_ctrl p AND ENA_ETH_IO_TX_DESC_L3_PROTO_IDX_MASK"

definition set_ena_eth_io_tx_desc_l3_proto_idx :: "ena_eth_io_tx_desc \<Rightarrow> u32 \<Rightarrow> ena_eth_io_tx_desc" where
  "set_ena_eth_io_tx_desc_l3_proto_idx p v = p\<lparr>tx_desc_meta_ctrl := tx_desc_meta_ctrl p OR (v AND ENA_ETH_IO_TX_DESC_L3_PROTO_IDX_MASK)\<rparr>"

interpretation bf_ena_eth_io_tx_desc_l3_proto_idx: bitfield get_ena_eth_io_tx_desc_l3_proto_idx set_ena_eth_io_tx_desc_l3_proto_idx tx_desc_meta_ctrl 3 0
  by unfold_locales
    (simp_all add: get_ena_eth_io_tx_desc_l3_proto_idx_def set_ena_eth_io_tx_desc_l3_proto_idx_def ena_const BIT_eq_GENMASK)

definition get_ena_eth_io_tx_desc_DF :: "ena_eth_io_tx_desc \<Rightarrow> u32" where
  "get_ena_eth_io_tx_desc_DF p = drop_bit ENA_ETH_IO_TX_DESC_DF_SHIFT (tx_desc_meta_ctrl p AND ENA_ETH_IO_TX_DESC_DF_MASK)"

definition set_ena_eth_io_tx_desc_DF :: "ena_eth_io_tx_desc \<Rightarrow> u32 \<Rightarrow> ena_eth_io_tx_desc" where
  "set_ena_eth_io_tx_desc_DF p v = p\<lparr>tx_desc_meta_ctrl := tx_desc_meta_ctrl p OR (push_bit ENA_ETH_IO_TX_DESC_DF_SHIFT v AND ENA_ETH_IO_TX_DESC_DF_MASK)\<rparr>"

interpretation bf_ena_eth_io_tx_desc_DF: bitfield get_ena_eth_io_tx_desc_DF set_ena_eth_io_tx_desc_DF tx_desc_meta_ctrl 4 4
  by unfold_locales
    (simp_all add: get_ena_eth_io_tx_desc_DF_def set_ena_eth_io_tx_desc_DF_def ena_const BIT_eq_GENMASK)

definition get_ena_eth_io_tx_desc_tso_en :: "ena_eth_io_tx_desc \<Rightarrow> u32" where
  "get_ena_eth_io_tx_desc_tso_en p = drop_bit ENA_ETH_IO_TX_DESC_TSO_EN_SHIFT (tx_desc_meta_ctrl p AND ENA_ETH_IO_TX_DESC_TSO_EN_MASK)"

definition set_ena_eth_io_tx_desc_tso_en :: "ena_eth_io_tx_desc \<Rightarrow> u32 \<Rightarrow> ena_eth_io_tx_desc" where
  "set_ena_eth_io_tx_desc_tso_en p v = p\<lparr>tx_desc_meta_ctrl := tx_desc_meta_ctrl p OR (push_bit ENA_ETH_IO_TX_DESC_TSO_EN_SHIFT v AND ENA_ETH_IO_TX_DESC_TSO_EN_MASK)\<rparr>"

interpretation bf_ena_eth_io_tx_desc_tso_en: bitfield get_ena_eth_io_tx_desc_tso_en set_ena_eth_io_tx_desc_tso_en tx_desc_meta_ctrl 7 7
  by unfold_locales
    (simp_all add: get_ena_eth_io_tx_desc_tso_en_def set_ena_eth_io_tx_desc_tso_en_def ena_const BIT_eq_GENMASK)

definition get_ena_eth_io_tx_desc_l4_proto_idx :: "ena_eth_io_tx_desc \<Rightarrow> u32" where
  "get_ena_eth_io_tx_desc_l4_proto_idx p = drop_bit ENA_ETH_IO_TX_DESC_L4_PROTO_IDX_SHIFT (tx_desc_meta_ctrl p AND ENA_ETH_IO_TX_DESC_L4_PROTO_IDX_MASK)"

definition set_ena_eth_io_tx_desc_l4_proto_idx :: "ena_eth_io_tx_desc \<Rightarrow> u32 \<Rightarrow> ena_eth_io_tx_desc" where
  "set_ena_eth_io_tx_desc_l4_proto_idx p v = p\<lparr>tx_desc_meta_ctrl := tx_desc_meta_ctrl p OR (push_bit ENA_ETH_IO_TX_DESC_L4_PROTO_IDX_SHIFT v AND ENA_ETH_IO_TX_DESC_L4_PROTO_IDX_MASK)\<rparr>"

interpretation bf_ena_eth_io_tx_desc_l4_proto_idx: bitfield get_ena_eth_io_tx_desc_l4_proto_idx set_ena_eth_io_tx_desc_l4_proto_idx tx_desc_meta_ctrl 12 8
  by unfold_locales
    (simp_all add: get_ena_eth_io_tx_desc_l4_proto_idx_def set_ena_eth_io_tx_desc_l4_proto_idx_def ena_const BIT_eq_GENMASK)

definition get_ena_eth_io_tx_desc_l3_csum_en :: "ena_eth_io_tx_desc \<Rightarrow> u32" where
  "get_ena_eth_io_tx_desc_l3_csum_en p = drop_bit ENA_ETH_IO_TX_DESC_L3_CSUM_EN_SHIFT (tx_desc_meta_ctrl p AND ENA_ETH_IO_TX_DESC_L3_CSUM_EN_MASK)"

definition set_ena_eth_io_tx_desc_l3_csum_en :: "ena_eth_io_tx_desc \<Rightarrow> u32 \<Rightarrow> ena_eth_io_tx_desc" where
  "set_ena_eth_io_tx_desc_l3_csum_en p v = p\<lparr>tx_desc_meta_ctrl := tx_desc_meta_ctrl p OR (push_bit ENA_ETH_IO_TX_DESC_L3_CSUM_EN_SHIFT v AND ENA_ETH_IO_TX_DESC_L3_CSUM_EN_MASK)\<rparr>"

interpretation bf_ena_eth_io_tx_desc_l3_csum_en: bitfield get_ena_eth_io_tx_desc_l3_csum_en set_ena_eth_io_tx_desc_l3_csum_en tx_desc_meta_ctrl 13 13
  by unfold_locales
    (simp_all add: get_ena_eth_io_tx_desc_l3_csum_en_def set_ena_eth_io_tx_desc_l3_csum_en_def ena_const BIT_eq_GENMASK)

definition get_ena_eth_io_tx_desc_l4_csum_en :: "ena_eth_io_tx_desc \<Rightarrow> u32" where
  "get_ena_eth_io_tx_desc_l4_csum_en p = drop_bit ENA_ETH_IO_TX_DESC_L4_CSUM_EN_SHIFT (tx_desc_meta_ctrl p AND ENA_ETH_IO_TX_DESC_L4_CSUM_EN_MASK)"

definition set_ena_eth_io_tx_desc_l4_csum_en :: "ena_eth_io_tx_desc \<Rightarrow> u32 \<Rightarrow> ena_eth_io_tx_desc" where
  "set_ena_eth_io_tx_desc_l4_csum_en p v = p\<lparr>tx_desc_meta_ctrl := tx_desc_meta_ctrl p OR (push_bit ENA_ETH_IO_TX_DESC_L4_CSUM_EN_SHIFT v AND ENA_ETH_IO_TX_DESC_L4_CSUM_EN_MASK)\<rparr>"

interpretation bf_ena_eth_io_tx_desc_l4_csum_en: bitfield get_ena_eth_io_tx_desc_l4_csum_en set_ena_eth_io_tx_desc_l4_csum_en tx_desc_meta_ctrl 14 14
  by unfold_locales
    (simp_all add: get_ena_eth_io_tx_desc_l4_csum_en_def set_ena_eth_io_tx_desc_l4_csum_en_def ena_const BIT_eq_GENMASK)

definition get_ena_eth_io_tx_desc_ethernet_fcs_dis :: "ena_eth_io_tx_desc \<Rightarrow> u32" where
  "get_ena_eth_io_tx_desc_ethernet_fcs_dis p = drop_bit ENA_ETH_IO_TX_DESC_ETHERNET_FCS_DIS_SHIFT (tx_desc_meta_ctrl p AND ENA_ETH_IO_TX_DESC_ETHERNET_FCS_DIS_MASK)"

definition set_ena_eth_io_tx_desc_ethernet_fcs_dis :: "ena_eth_io_tx_desc \<Rightarrow> u32 \<Rightarrow> ena_eth_io_tx_desc" where
  "set_ena_eth_io_tx_desc_ethernet_fcs_dis p v = p\<lparr>tx_desc_meta_ctrl := tx_desc_meta_ctrl p OR (push_bit ENA_ETH_IO_TX_DESC_ETHERNET_FCS_DIS_SHIFT v AND ENA_ETH_IO_TX_DESC_ETHERNET_FCS_DIS_MASK)\<rparr>"

interpretation bf_ena_eth_io_tx_desc_ethernet_fcs_dis: bitfield get_ena_eth_io_tx_desc_ethernet_fcs_dis set_ena_eth_io_tx_desc_ethernet_fcs_dis tx_desc_meta_ctrl 15 15
  by unfold_locales
    (simp_all add: get_ena_eth_io_tx_desc_ethernet_fcs_dis_def set_ena_eth_io_tx_desc_ethernet_fcs_dis_def ena_const BIT_eq_GENMASK)

definition get_ena_eth_io_tx_desc_l4_csum_partial :: "ena_eth_io_tx_desc \<Rightarrow> u32" where
  "get_ena_eth_io_tx_desc_l4_csum_partial p = drop_bit ENA_ETH_IO_TX_DESC_L4_CSUM_PARTIAL_SHIFT (tx_desc_meta_ctrl p AND ENA_ETH_IO_TX_DESC_L4_CSUM_PARTIAL_MASK)"

definition set_ena_eth_io_tx_desc_l4_csum_partial :: "ena_eth_io_tx_desc \<Rightarrow> u32 \<Rightarrow> ena_eth_io_tx_desc" where
  "set_ena_eth_io_tx_desc_l4_csum_partial p v = p\<lparr>tx_desc_meta_ctrl := tx_desc_meta_ctrl p OR (push_bit ENA_ETH_IO_TX_DESC_L4_CSUM_PARTIAL_SHIFT v AND ENA_ETH_IO_TX_DESC_L4_CSUM_PARTIAL_MASK)\<rparr>"

interpretation bf_ena_eth_io_tx_desc_l4_csum_partial: bitfield get_ena_eth_io_tx_desc_l4_csum_partial set_ena_eth_io_tx_desc_l4_csum_partial tx_desc_meta_ctrl 17 17
  by unfold_locales
    (simp_all add: get_ena_eth_io_tx_desc_l4_csum_partial_def set_ena_eth_io_tx_desc_l4_csum_partial_def ena_const BIT_eq_GENMASK)

definition get_ena_eth_io_tx_desc_req_id_lo :: "ena_eth_io_tx_desc \<Rightarrow> u32" where
  "get_ena_eth_io_tx_desc_req_id_lo p = drop_bit ENA_ETH_IO_TX_DESC_REQ_ID_LO_SHIFT (tx_desc_meta_ctrl p AND ENA_ETH_IO_TX_DESC_REQ_ID_LO_MASK)"

definition set_ena_eth_io_tx_desc_req_id_lo :: "ena_eth_io_tx_desc \<Rightarrow> u32 \<Rightarrow> ena_eth_io_tx_desc" where
  "set_ena_eth_io_tx_desc_req_id_lo p v = p\<lparr>tx_desc_meta_ctrl := tx_desc_meta_ctrl p OR (push_bit ENA_ETH_IO_TX_DESC_REQ_ID_LO_SHIFT v AND ENA_ETH_IO_TX_DESC_REQ_ID_LO_MASK)\<rparr>"

interpretation bf_ena_eth_io_tx_desc_req_id_lo: bitfield get_ena_eth_io_tx_desc_req_id_lo set_ena_eth_io_tx_desc_req_id_lo tx_desc_meta_ctrl 31 22
  by unfold_locales
    (simp_all add: get_ena_eth_io_tx_desc_req_id_lo_def set_ena_eth_io_tx_desc_req_id_lo_def ena_const BIT_eq_GENMASK)

definition get_ena_eth_io_tx_desc_addr_hi :: "ena_eth_io_tx_desc \<Rightarrow> u32" where
  "get_ena_eth_io_tx_desc_addr_hi p = tx_desc_buff_addr_hi_hdr_sz p AND ENA_ETH_IO_TX_DESC_ADDR_HI_MASK"

definition set_ena_eth_io_tx_desc_addr_hi :: "ena_eth_io_tx_desc \<Rightarrow> u32 \<Rightarrow> ena_eth_io_tx_desc" where
  "set_ena_eth_io_tx_desc_addr_hi p v = p\<lparr>tx_desc_buff_addr_hi_hdr_sz := tx_desc_buff_addr_hi_hdr_sz p OR (v AND ENA_ETH_IO_TX_DESC_ADDR_HI_MASK)\<rparr>"

interpretation bf_ena_eth_io_tx_desc_addr_hi: bitfield get_ena_eth_io_tx_desc_addr_hi set_ena_eth_io_tx_desc_addr_hi tx_desc_buff_addr_hi_hdr_sz 15 0
  by unfold_locales
    (simp_all add: get_ena_eth_io_tx_desc_addr_hi_def set_ena_eth_io_tx_desc_addr_hi_def ena_const BIT_eq_GENMASK)

definition get_ena_eth_io_tx_desc_header_length :: "ena_eth_io_tx_desc \<Rightarrow> u32" where
  "get_ena_eth_io_tx_desc_header_length p = drop_bit ENA_ETH_IO_TX_DESC_HEADER_LENGTH_SHIFT (tx_desc_buff_addr_hi_hdr_sz p AND ENA_ETH_IO_TX_DESC_HEADER_LENGTH_MASK)"

definition set_ena_eth_io_tx_desc_header_length :: "ena_eth_io_tx_desc \<Rightarrow> u32 \<Rightarrow> ena_eth_io_tx_desc" where
  "set_ena_eth_io_tx_desc_header_length p v = p\<lparr>tx_desc_buff_addr_hi_hdr_sz := tx_desc_buff_addr_hi_hdr_sz p OR (push_bit ENA_ETH_IO_TX_DESC_HEADER_LENGTH_SHIFT v AND ENA_ETH_IO_TX_DESC_HEADER_LENGTH_MASK)\<rparr>"

interpretation bf_ena_eth_io_tx_desc_header_length: bitfield get_ena_eth_io_tx_desc_header_length set_ena_eth_io_tx_desc_header_length tx_desc_buff_addr_hi_hdr_sz 31 24
  by unfold_locales
    (simp_all add: get_ena_eth_io_tx_desc_header_length_def set_ena_eth_io_tx_desc_header_length_def ena_const BIT_eq_GENMASK)

definition get_ena_eth_io_tx_meta_desc_req_id_lo :: "ena_eth_io_tx_meta_desc \<Rightarrow> u32" where
  "get_ena_eth_io_tx_meta_desc_req_id_lo p = tx_meta_desc_len_ctrl p AND ENA_ETH_IO_TX_META_DESC_REQ_ID_LO_MASK"

definition set_ena_eth_io_tx_meta_desc_req_id_lo :: "ena_eth_io_tx_meta_desc \<Rightarrow> u32 \<Rightarrow> ena_eth_io_tx_meta_desc" where
  "set_ena_eth_io_tx_meta_desc_req_id_lo p v = p\<lparr>tx_meta_desc_len_ctrl := tx_meta_desc_len_ctrl p OR (v AND ENA_ETH_IO_TX_META_DESC_REQ_ID_LO_MASK)\<rparr>"

interpretation bf_ena_eth_io_tx_meta_desc_req_id_lo: bitfield get_ena_eth_io_tx_meta_desc_req_id_lo set_ena_eth_io_tx_meta_desc_req_id_lo tx_meta_desc_len_ctrl 9 0
  by unfold_locales
    (simp_all add: get_ena_eth_io_tx_meta_desc_req_id_lo_def set_ena_eth_io_tx_meta_desc_req_id_lo_def ena_const BIT_eq_GENMASK)

definition get_ena_eth_io_tx_meta_desc_ext_valid :: "ena_eth_io_tx_meta_desc \<Rightarrow> u32" where
  "get_ena_eth_io_tx_meta_desc_ext_valid p = drop_bit ENA_ETH_IO_TX_META_DESC_EXT_VALID_SHIFT (tx_meta_desc_len_ctrl p AND ENA_ETH_IO_TX_META_DESC_EXT_VALID_MASK)"

definition set_ena_eth_io_tx_meta_desc_ext_valid :: "ena_eth_io_tx_meta_desc \<Rightarrow> u32 \<Rightarrow> ena_eth_io_tx_meta_desc" where
  "set_ena_eth_io_tx_meta_desc_ext_valid p v = p\<lparr>tx_meta_desc_len_ctrl := tx_meta_desc_len_ctrl p OR (push_bit ENA_ETH_IO_TX_META_DESC_EXT_VALID_SHIFT v AND ENA_ETH_IO_TX_META_DESC_EXT_VALID_MASK)\<rparr>"

interpretation bf_ena_eth_io_tx_meta_desc_ext_valid: bitfield get_ena_eth_io_tx_meta_desc_ext_valid set_ena_eth_io_tx_meta_desc_ext_valid tx_meta_desc_len_ctrl 14 14
  by unfold_locales
    (simp_all add: get_ena_eth_io_tx_meta_desc_ext_valid_def set_ena_eth_io_tx_meta_desc_ext_valid_def ena_const BIT_eq_GENMASK)

definition get_ena_eth_io_tx_meta_desc_mss_hi :: "ena_eth_io_tx_meta_desc \<Rightarrow> u32" where
  "get_ena_eth_io_tx_meta_desc_mss_hi p = drop_bit ENA_ETH_IO_TX_META_DESC_MSS_HI_SHIFT (tx_meta_desc_len_ctrl p AND ENA_ETH_IO_TX_META_DESC_MSS_HI_MASK)"

definition set_ena_eth_io_tx_meta_desc_mss_hi :: "ena_eth_io_tx_meta_desc \<Rightarrow> u32 \<Rightarrow> ena_eth_io_tx_meta_desc" where
  "set_ena_eth_io_tx_meta_desc_mss_hi p v = p\<lparr>tx_meta_desc_len_ctrl := tx_meta_desc_len_ctrl p OR (push_bit ENA_ETH_IO_TX_META_DESC_MSS_HI_SHIFT v AND ENA_ETH_IO_TX_META_DESC_MSS_HI_MASK)\<rparr>"

interpretation bf_ena_eth_io_tx_meta_desc_mss_hi: bitfield get_ena_eth_io_tx_meta_desc_mss_hi set_ena_eth_io_tx_meta_desc_mss_hi tx_meta_desc_len_ctrl 19 16
  by unfold_locales
    (simp_all add: get_ena_eth_io_tx_meta_desc_mss_hi_def set_ena_eth_io_tx_meta_desc_mss_hi_def ena_const BIT_eq_GENMASK)

definition get_ena_eth_io_tx_meta_desc_eth_meta_type :: "ena_eth_io_tx_meta_desc \<Rightarrow> u32" where
  "get_ena_eth_io_tx_meta_desc_eth_meta_type p = drop_bit ENA_ETH_IO_TX_META_DESC_ETH_META_TYPE_SHIFT (tx_meta_desc_len_ctrl p AND ENA_ETH_IO_TX_META_DESC_ETH_META_TYPE_MASK)"

definition set_ena_eth_io_tx_meta_desc_eth_meta_type :: "ena_eth_io_tx_meta_desc \<Rightarrow> u32 \<Rightarrow> ena_eth_io_tx_meta_desc" where
  "set_ena_eth_io_tx_meta_desc_eth_meta_type p v = p\<lparr>tx_meta_desc_len_ctrl := tx_meta_desc_len_ctrl p OR (push_bit ENA_ETH_IO_TX_META_DESC_ETH_META_TYPE_SHIFT v AND ENA_ETH_IO_TX_META_DESC_ETH_META_TYPE_MASK)\<rparr>"

interpretation bf_ena_eth_io_tx_meta_desc_eth_meta_type: bitfield get_ena_eth_io_tx_meta_desc_eth_meta_type set_ena_eth_io_tx_meta_desc_eth_meta_type tx_meta_desc_len_ctrl 20 20
  by unfold_locales
    (simp_all add: get_ena_eth_io_tx_meta_desc_eth_meta_type_def set_ena_eth_io_tx_meta_desc_eth_meta_type_def ena_const BIT_eq_GENMASK)

definition get_ena_eth_io_tx_meta_desc_meta_store :: "ena_eth_io_tx_meta_desc \<Rightarrow> u32" where
  "get_ena_eth_io_tx_meta_desc_meta_store p = drop_bit ENA_ETH_IO_TX_META_DESC_META_STORE_SHIFT (tx_meta_desc_len_ctrl p AND ENA_ETH_IO_TX_META_DESC_META_STORE_MASK)"

definition set_ena_eth_io_tx_meta_desc_meta_store :: "ena_eth_io_tx_meta_desc \<Rightarrow> u32 \<Rightarrow> ena_eth_io_tx_meta_desc" where
  "set_ena_eth_io_tx_meta_desc_meta_store p v = p\<lparr>tx_meta_desc_len_ctrl := tx_meta_desc_len_ctrl p OR (push_bit ENA_ETH_IO_TX_META_DESC_META_STORE_SHIFT v AND ENA_ETH_IO_TX_META_DESC_META_STORE_MASK)\<rparr>"

interpretation bf_ena_eth_io_tx_meta_desc_meta_store: bitfield get_ena_eth_io_tx_meta_desc_meta_store set_ena_eth_io_tx_meta_desc_meta_store tx_meta_desc_len_ctrl 21 21
  by unfold_locales
    (simp_all add: get_ena_eth_io_tx_meta_desc_meta_store_def set_ena_eth_io_tx_meta_desc_meta_store_def ena_const BIT_eq_GENMASK)

definition get_ena_eth_io_tx_meta_desc_meta_desc :: "ena_eth_io_tx_meta_desc \<Rightarrow> u32" where
  "get_ena_eth_io_tx_meta_desc_meta_desc p = drop_bit ENA_ETH_IO_TX_META_DESC_META_DESC_SHIFT (tx_meta_desc_len_ctrl p AND ENA_ETH_IO_TX_META_DESC_META_DESC_MASK)"

definition set_ena_eth_io_tx_meta_desc_meta_desc :: "ena_eth_io_tx_meta_desc \<Rightarrow> u32 \<Rightarrow> ena_eth_io_tx_meta_desc" where
  "set_ena_eth_io_tx_meta_desc_meta_desc p v = p\<lparr>tx_meta_desc_len_ctrl := tx_meta_desc_len_ctrl p OR (push_bit ENA_ETH_IO_TX_META_DESC_META_DESC_SHIFT v AND ENA_ETH_IO_TX_META_DESC_META_DESC_MASK)\<rparr>"

interpretation bf_ena_eth_io_tx_meta_desc_meta_desc: bitfield get_ena_eth_io_tx_meta_desc_meta_desc set_ena_eth_io_tx_meta_desc_meta_desc tx_meta_desc_len_ctrl 23 23
  by unfold_locales
    (simp_all add: get_ena_eth_io_tx_meta_desc_meta_desc_def set_ena_eth_io_tx_meta_desc_meta_desc_def ena_const BIT_eq_GENMASK)

definition get_ena_eth_io_tx_meta_desc_phase :: "ena_eth_io_tx_meta_desc \<Rightarrow> u32" where
  "get_ena_eth_io_tx_meta_desc_phase p = drop_bit ENA_ETH_IO_TX_META_DESC_PHASE_SHIFT (tx_meta_desc_len_ctrl p AND ENA_ETH_IO_TX_META_DESC_PHASE_MASK)"

definition set_ena_eth_io_tx_meta_desc_phase :: "ena_eth_io_tx_meta_desc \<Rightarrow> u32 \<Rightarrow> ena_eth_io_tx_meta_desc" where
  "set_ena_eth_io_tx_meta_desc_phase p v = p\<lparr>tx_meta_desc_len_ctrl := tx_meta_desc_len_ctrl p OR (push_bit ENA_ETH_IO_TX_META_DESC_PHASE_SHIFT v AND ENA_ETH_IO_TX_META_DESC_PHASE_MASK)\<rparr>"

interpretation bf_ena_eth_io_tx_meta_desc_phase: bitfield get_ena_eth_io_tx_meta_desc_phase set_ena_eth_io_tx_meta_desc_phase tx_meta_desc_len_ctrl 24 24
  by unfold_locales
    (simp_all add: get_ena_eth_io_tx_meta_desc_phase_def set_ena_eth_io_tx_meta_desc_phase_def ena_const BIT_eq_GENMASK)

definition get_ena_eth_io_tx_meta_desc_first :: "ena_eth_io_tx_meta_desc \<Rightarrow> u32" where
  "get_ena_eth_io_tx_meta_desc_first p = drop_bit ENA_ETH_IO_TX_META_DESC_FIRST_SHIFT (tx_meta_desc_len_ctrl p AND ENA_ETH_IO_TX_META_DESC_FIRST_MASK)"

definition set_ena_eth_io_tx_meta_desc_first :: "ena_eth_io_tx_meta_desc \<Rightarrow> u32 \<Rightarrow> ena_eth_io_tx_meta_desc" where
  "set_ena_eth_io_tx_meta_desc_first p v = p\<lparr>tx_meta_desc_len_ctrl := tx_meta_desc_len_ctrl p OR (push_bit ENA_ETH_IO_TX_META_DESC_FIRST_SHIFT v AND ENA_ETH_IO_TX_META_DESC_FIRST_MASK)\<rparr>"

interpretation bf_ena_eth_io_tx_meta_desc_first: bitfield get_ena_eth_io_tx_meta_desc_first set_ena_eth_io_tx_meta_desc_first tx_meta_desc_len_ctrl 26 26
  by unfold_locales
    (simp_all add: get_ena_eth_io_tx_meta_desc_first_def set_ena_eth_io_tx_meta_desc_first_def ena_const BIT_eq_GENMASK)

definition get_ena_eth_io_tx_meta_desc_last :: "ena_eth_io_tx_meta_desc \<Rightarrow> u32" where
  "get_ena_eth_io_tx_meta_desc_last p = drop_bit ENA_ETH_IO_TX_META_DESC_LAST_SHIFT (tx_meta_desc_len_ctrl p AND ENA_ETH_IO_TX_META_DESC_LAST_MASK)"

definition set_ena_eth_io_tx_meta_desc_last :: "ena_eth_io_tx_meta_desc \<Rightarrow> u32 \<Rightarrow> ena_eth_io_tx_meta_desc" where
  "set_ena_eth_io_tx_meta_desc_last p v = p\<lparr>tx_meta_desc_len_ctrl := tx_meta_desc_len_ctrl p OR (push_bit ENA_ETH_IO_TX_META_DESC_LAST_SHIFT v AND ENA_ETH_IO_TX_META_DESC_LAST_MASK)\<rparr>"

interpretation bf_ena_eth_io_tx_meta_desc_last: bitfield get_ena_eth_io_tx_meta_desc_last set_ena_eth_io_tx_meta_desc_last tx_meta_desc_len_ctrl 27 27
  by unfold_locales
    (simp_all add: get_ena_eth_io_tx_meta_desc_last_def set_ena_eth_io_tx_meta_desc_last_def ena_const BIT_eq_GENMASK)

definition get_ena_eth_io_tx_meta_desc_comp_req :: "ena_eth_io_tx_meta_desc \<Rightarrow> u32" where
  "get_ena_eth_io_tx_meta_desc_comp_req p = drop_bit ENA_ETH_IO_TX_META_DESC_COMP_REQ_SHIFT (tx_meta_desc_len_ctrl p AND ENA_ETH_IO_TX_META_DESC_COMP_REQ_MASK)"

definition set_ena_eth_io_tx_meta_desc_comp_req :: "ena_eth_io_tx_meta_desc \<Rightarrow> u32 \<Rightarrow> ena_eth_io_tx_meta_desc" where
  "set_ena_eth_io_tx_meta_desc_comp_req p v = p\<lparr>tx_meta_desc_len_ctrl := tx_meta_desc_len_ctrl p OR (push_bit ENA_ETH_IO_TX_META_DESC_COMP_REQ_SHIFT v AND ENA_ETH_IO_TX_META_DESC_COMP_REQ_MASK)\<rparr>"

interpretation bf_ena_eth_io_tx_meta_desc_comp_req: bitfield get_ena_eth_io_tx_meta_desc_comp_req set_ena_eth_io_tx_meta_desc_comp_req tx_meta_desc_len_ctrl 28 28
  by unfold_locales
    (simp_all add: get_ena_eth_io_tx_meta_desc_comp_req_def set_ena_eth_io_tx_meta_desc_comp_req_def ena_const BIT_eq_GENMASK)

definition get_ena_eth_io_tx_meta_desc_req_id_hi :: "ena_eth_io_tx_meta_desc \<Rightarrow> u32" where
  "get_ena_eth_io_tx_meta_desc_req_id_hi p = tx_meta_desc_word1 p AND ENA_ETH_IO_TX_META_DESC_REQ_ID_HI_MASK"

definition set_ena_eth_io_tx_meta_desc_req_id_hi :: "ena_eth_io_tx_meta_desc \<Rightarrow> u32 \<Rightarrow> ena_eth_io_tx_meta_desc" where
  "set_ena_eth_io_tx_meta_desc_req_id_hi p v = p\<lparr>tx_meta_desc_word1 := tx_meta_desc_word1 p OR (v AND ENA_ETH_IO_TX_META_DESC_REQ_ID_HI_MASK)\<rparr>"

interpretation bf_ena_eth_io_tx_meta_desc_req_id_hi: bitfield get_ena_eth_io_tx_meta_desc_req_id_hi set_ena_eth_io_tx_meta_desc_req_id_hi tx_meta_desc_word1 5 0
  by unfold_locales
    (simp_all add: get_ena_eth_io_tx_meta_desc_req_id_hi_def set_ena_eth_io_tx_meta_desc_req_id_hi_def ena_const BIT_eq_GENMASK)

definition get_ena_eth_io_tx_meta_desc_l3_hdr_len :: "ena_eth_io_tx_meta_desc \<Rightarrow> u32" where
  "get_ena_eth_io_tx_meta_desc_l3_hdr_len p = tx_meta_desc_word2 p AND ENA_ETH_IO_TX_META_DESC_L3_HDR_LEN_MASK"

definition set_ena_eth_io_tx_meta_desc_l3_hdr_len :: "ena_eth_io_tx_meta_desc \<Rightarrow> u32 \<Rightarrow> ena_eth_io_tx_meta_desc" where
  "set_ena_eth_io_tx_meta_desc_l3_hdr_len p v = p\<lparr>tx_meta_desc_word2 := tx_meta_desc_word2 p OR (v AND ENA_ETH_IO_TX_META_DESC_L3_HDR_LEN_MASK)\<rparr>"

interpretation bf_ena_eth_io_tx_meta_desc_l3_hdr_len: bitfield get_ena_eth_io_tx_meta_desc_l3_hdr_len set_ena_eth_io_tx_meta_desc_l3_hdr_len tx_meta_desc_word2 7 0
  by unfold_locales
    (simp_all add: get_ena_eth_io_tx_meta_desc_l3_hdr_len_def set_ena_eth_io_tx_meta_desc_l3_hdr_len_def ena_const BIT_eq_GENMASK)

definition get_ena_eth_io_tx_meta_desc_l3_hdr_off :: "ena_eth_io_tx_meta_desc \<Rightarrow> u32" where
  "get_ena_eth_io_tx_meta_desc_l3_hdr_off p = drop_bit ENA_ETH_IO_TX_META_DESC_L3_HDR_OFF_SHIFT (tx_meta_desc_word2 p AND ENA_ETH_IO_TX_META_DESC_L3_HDR_OFF_MASK)"

definition set_ena_eth_io_tx_meta_desc_l3_hdr_off :: "ena_eth_io_tx_meta_desc \<Rightarrow> u32 \<Rightarrow> ena_eth_io_tx_meta_desc" where
  "set_ena_eth_io_tx_meta_desc_l3_hdr_off p v = p\<lparr>tx_meta_desc_word2 := tx_meta_desc_word2 p OR (push_bit ENA_ETH_IO_TX_META_DESC_L3_HDR_OFF_SHIFT v AND ENA_ETH_IO_TX_META_DESC_L3_HDR_OFF_MASK)\<rparr>"

interpretation bf_ena_eth_io_tx_meta_desc_l3_hdr_off: bitfield get_ena_eth_io_tx_meta_desc_l3_hdr_off set_ena_eth_io_tx_meta_desc_l3_hdr_off tx_meta_desc_word2 15 8
  by unfold_locales
    (simp_all add: get_ena_eth_io_tx_meta_desc_l3_hdr_off_def set_ena_eth_io_tx_meta_desc_l3_hdr_off_def ena_const BIT_eq_GENMASK)

definition get_ena_eth_io_tx_meta_desc_l4_hdr_len_in_words :: "ena_eth_io_tx_meta_desc \<Rightarrow> u32" where
  "get_ena_eth_io_tx_meta_desc_l4_hdr_len_in_words p = drop_bit ENA_ETH_IO_TX_META_DESC_L4_HDR_LEN_IN_WORDS_SHIFT (tx_meta_desc_word2 p AND ENA_ETH_IO_TX_META_DESC_L4_HDR_LEN_IN_WORDS_MASK)"

definition set_ena_eth_io_tx_meta_desc_l4_hdr_len_in_words :: "ena_eth_io_tx_meta_desc \<Rightarrow> u32 \<Rightarrow> ena_eth_io_tx_meta_desc" where
  "set_ena_eth_io_tx_meta_desc_l4_hdr_len_in_words p v = p\<lparr>tx_meta_desc_word2 := tx_meta_desc_word2 p OR (push_bit ENA_ETH_IO_TX_META_DESC_L4_HDR_LEN_IN_WORDS_SHIFT v AND ENA_ETH_IO_TX_META_DESC_L4_HDR_LEN_IN_WORDS_MASK)\<rparr>"

interpretation bf_ena_eth_io_tx_meta_desc_l4_hdr_len_in_words: bitfield get_ena_eth_io_tx_meta_desc_l4_hdr_len_in_words set_ena_eth_io_tx_meta_desc_l4_hdr_len_in_words tx_meta_desc_word2 21 16
  by unfold_locales
    (simp_all add: get_ena_eth_io_tx_meta_desc_l4_hdr_len_in_words_def set_ena_eth_io_tx_meta_desc_l4_hdr_len_in_words_def ena_const BIT_eq_GENMASK)

definition get_ena_eth_io_tx_meta_desc_mss_lo :: "ena_eth_io_tx_meta_desc \<Rightarrow> u32" where
  "get_ena_eth_io_tx_meta_desc_mss_lo p = drop_bit ENA_ETH_IO_TX_META_DESC_MSS_LO_SHIFT (tx_meta_desc_word2 p AND ENA_ETH_IO_TX_META_DESC_MSS_LO_MASK)"

definition set_ena_eth_io_tx_meta_desc_mss_lo :: "ena_eth_io_tx_meta_desc \<Rightarrow> u32 \<Rightarrow> ena_eth_io_tx_meta_desc" where
  "set_ena_eth_io_tx_meta_desc_mss_lo p v = p\<lparr>tx_meta_desc_word2 := tx_meta_desc_word2 p OR (push_bit ENA_ETH_IO_TX_META_DESC_MSS_LO_SHIFT v AND ENA_ETH_IO_TX_META_DESC_MSS_LO_MASK)\<rparr>"

interpretation bf_ena_eth_io_tx_meta_desc_mss_lo: bitfield get_ena_eth_io_tx_meta_desc_mss_lo set_ena_eth_io_tx_meta_desc_mss_lo tx_meta_desc_word2 31 22
  by unfold_locales
    (simp_all add: get_ena_eth_io_tx_meta_desc_mss_lo_def set_ena_eth_io_tx_meta_desc_mss_lo_def ena_const BIT_eq_GENMASK)

definition get_ena_eth_io_tx_cdesc_phase :: "ena_eth_io_tx_cdesc \<Rightarrow> u8" where
  "get_ena_eth_io_tx_cdesc_phase p = tx_cdesc_flags p AND ENA_ETH_IO_TX_CDESC_PHASE_MASK"

definition set_ena_eth_io_tx_cdesc_phase :: "ena_eth_io_tx_cdesc \<Rightarrow> u8 \<Rightarrow> ena_eth_io_tx_cdesc" where
  "set_ena_eth_io_tx_cdesc_phase p v = p\<lparr>tx_cdesc_flags := tx_cdesc_flags p OR (v AND ENA_ETH_IO_TX_CDESC_PHASE_MASK)\<rparr>"

interpretation bf_ena_eth_io_tx_cdesc_phase: bitfield get_ena_eth_io_tx_cdesc_phase set_ena_eth_io_tx_cdesc_phase tx_cdesc_flags 0 0
  by unfold_locales
    (simp_all add: get_ena_eth_io_tx_cdesc_phase_def set_ena_eth_io_tx_cdesc_phase_def ena_const BIT_eq_GENMASK)

definition get_ena_eth_io_tx_cdesc_mbz6 :: "ena_eth_io_tx_cdesc \<Rightarrow> u8" where
  "get_ena_eth_io_tx_cdesc_mbz6 p = drop_bit ENA_ETH_IO_TX_CDESC_MBZ6_SHIFT (tx_cdesc_flags p AND ENA_ETH_IO_TX_CDESC_MBZ6_MASK)"

definition set_ena_eth_io_tx_cdesc_mbz6 :: "ena_eth_io_tx_cdesc \<Rightarrow> u8 \<Rightarrow> ena_eth_io_tx_cdesc" where
  "set_ena_eth_io_tx_cdesc_mbz6 p v = p\<lparr>tx_cdesc_flags := tx_cdesc_flags p OR (push_bit ENA_ETH_IO_TX_CDESC_MBZ6_SHIFT v AND ENA_ETH_IO_TX_CDESC_MBZ6_MASK)\<rparr>"

interpretation bf_ena_eth_io_tx_cdesc_mbz6: bitfield get_ena_eth_io_tx_cdesc_mbz6 set_ena_eth_io_tx_cdesc_mbz6 tx_cdesc_flags 7 6
  by unfold_locales
    (simp_all add: get_ena_eth_io_tx_cdesc_mbz6_def set_ena_eth_io_tx_cdesc_mbz6_def ena_const BIT_eq_GENMASK)

definition get_ena_eth_io_rx_desc_phase :: "ena_eth_io_rx_desc \<Rightarrow> u8" where
  "get_ena_eth_io_rx_desc_phase p = rx_desc_ctrl p AND ENA_ETH_IO_RX_DESC_PHASE_MASK"

definition set_ena_eth_io_rx_desc_phase :: "ena_eth_io_rx_desc \<Rightarrow> u8 \<Rightarrow> ena_eth_io_rx_desc" where
  "set_ena_eth_io_rx_desc_phase p v = p\<lparr>rx_desc_ctrl := rx_desc_ctrl p OR (v AND ENA_ETH_IO_RX_DESC_PHASE_MASK)\<rparr>"

interpretation bf_ena_eth_io_rx_desc_phase: bitfield get_ena_eth_io_rx_desc_phase set_ena_eth_io_rx_desc_phase rx_desc_ctrl 0 0
  by unfold_locales
    (simp_all add: get_ena_eth_io_rx_desc_phase_def set_ena_eth_io_rx_desc_phase_def ena_const BIT_eq_GENMASK)

definition get_ena_eth_io_rx_desc_first :: "ena_eth_io_rx_desc \<Rightarrow> u8" where
  "get_ena_eth_io_rx_desc_first p = drop_bit ENA_ETH_IO_RX_DESC_FIRST_SHIFT (rx_desc_ctrl p AND ENA_ETH_IO_RX_DESC_FIRST_MASK)"

definition set_ena_eth_io_rx_desc_first :: "ena_eth_io_rx_desc \<Rightarrow> u8 \<Rightarrow> ena_eth_io_rx_desc" where
  "set_ena_eth_io_rx_desc_first p v = p\<lparr>rx_desc_ctrl := rx_desc_ctrl p OR (push_bit ENA_ETH_IO_RX_DESC_FIRST_SHIFT v AND ENA_ETH_IO_RX_DESC_FIRST_MASK)\<rparr>"

interpretation bf_ena_eth_io_rx_desc_first: bitfield get_ena_eth_io_rx_desc_first set_ena_eth_io_rx_desc_first rx_desc_ctrl 2 2
  by unfold_locales
    (simp_all add: get_ena_eth_io_rx_desc_first_def set_ena_eth_io_rx_desc_first_def ena_const BIT_eq_GENMASK)

definition get_ena_eth_io_rx_desc_last :: "ena_eth_io_rx_desc \<Rightarrow> u8" where
  "get_ena_eth_io_rx_desc_last p = drop_bit ENA_ETH_IO_RX_DESC_LAST_SHIFT (rx_desc_ctrl p AND ENA_ETH_IO_RX_DESC_LAST_MASK)"

definition set_ena_eth_io_rx_desc_last :: "ena_eth_io_rx_desc \<Rightarrow> u8 \<Rightarrow> ena_eth_io_rx_desc" where
  "set_ena_eth_io_rx_desc_last p v = p\<lparr>rx_desc_ctrl := rx_desc_ctrl p OR (push_bit ENA_ETH_IO_RX_DESC_LAST_SHIFT v AND ENA_ETH_IO_RX_DESC_LAST_MASK)\<rparr>"

interpretation bf_ena_eth_io_rx_desc_last: bitfield get_ena_eth_io_rx_desc_last set_ena_eth_io_rx_desc_last rx_desc_ctrl 3 3
  by unfold_locales
    (simp_all add: get_ena_eth_io_rx_desc_last_def set_ena_eth_io_rx_desc_last_def ena_const BIT_eq_GENMASK)

definition get_ena_eth_io_rx_desc_comp_req :: "ena_eth_io_rx_desc \<Rightarrow> u8" where
  "get_ena_eth_io_rx_desc_comp_req p = drop_bit ENA_ETH_IO_RX_DESC_COMP_REQ_SHIFT (rx_desc_ctrl p AND ENA_ETH_IO_RX_DESC_COMP_REQ_MASK)"

definition set_ena_eth_io_rx_desc_comp_req :: "ena_eth_io_rx_desc \<Rightarrow> u8 \<Rightarrow> ena_eth_io_rx_desc" where
  "set_ena_eth_io_rx_desc_comp_req p v = p\<lparr>rx_desc_ctrl := rx_desc_ctrl p OR (push_bit ENA_ETH_IO_RX_DESC_COMP_REQ_SHIFT v AND ENA_ETH_IO_RX_DESC_COMP_REQ_MASK)\<rparr>"

interpretation bf_ena_eth_io_rx_desc_comp_req: bitfield get_ena_eth_io_rx_desc_comp_req set_ena_eth_io_rx_desc_comp_req rx_desc_ctrl 4 4
  by unfold_locales
    (simp_all add: get_ena_eth_io_rx_desc_comp_req_def set_ena_eth_io_rx_desc_comp_req_def ena_const BIT_eq_GENMASK)

definition get_ena_eth_io_rx_cdesc_base_l3_proto_idx :: "ena_eth_io_rx_cdesc_base \<Rightarrow> u32" where
  "get_ena_eth_io_rx_cdesc_base_l3_proto_idx p = rx_cdesc_base_status p AND ENA_ETH_IO_RX_CDESC_BASE_L3_PROTO_IDX_MASK"

definition set_ena_eth_io_rx_cdesc_base_l3_proto_idx :: "ena_eth_io_rx_cdesc_base \<Rightarrow> u32 \<Rightarrow> ena_eth_io_rx_cdesc_base" where
  "set_ena_eth_io_rx_cdesc_base_l3_proto_idx p v = p\<lparr>rx_cdesc_base_status := rx_cdesc_base_status p OR (v AND ENA_ETH_IO_RX_CDESC_BASE_L3_PROTO_IDX_MASK)\<rparr>"

interpretation bf_ena_eth_io_rx_cdesc_base_l3_proto_idx: bitfield get_ena_eth_io_rx_cdesc_base_l3_proto_idx set_ena_eth_io_rx_cdesc_base_l3_proto_idx rx_cdesc_base_status 4 0
  by unfold_locales
    (simp_all add: get_ena_eth_io_rx_cdesc_base_l3_proto_idx_def set_ena_eth_io_rx_cdesc_base_l3_proto_idx_def ena_const BIT_eq_GENMASK)

definition get_ena_eth_io_rx_cdesc_base_src_vlan_cnt :: "ena_eth_io_rx_cdesc_base \<Rightarrow> u32" where
  "get_ena_eth_io_rx_cdesc_base_src_vlan_cnt p = drop_bit ENA_ETH_IO_RX_CDESC_BASE_SRC_VLAN_CNT_SHIFT (rx_cdesc_base_status p AND ENA_ETH_IO_RX_CDESC_BASE_SRC_VLAN_CNT_MASK)"

definition set_ena_eth_io_rx_cdesc_base_src_vlan_cnt :: "ena_eth_io_rx_cdesc_base \<Rightarrow> u32 \<Rightarrow> ena_eth_io_rx_cdesc_base" where
  "set_ena_eth_io_rx_cdesc_base_src_vlan_cnt p v = p\<lparr>rx_cdesc_base_status := rx_cdesc_base_status p OR (push_bit ENA_ETH_IO_RX_CDESC_BASE_SRC_VLAN_CNT_SHIFT v AND ENA_ETH_IO_RX_CDESC_BASE_SRC_VLAN_CNT_MASK)\<rparr>"

interpretation bf_ena_eth_io_rx_cdesc_base_src_vlan_cnt: bitfield get_ena_eth_io_rx_cdesc_base_src_vlan_cnt set_ena_eth_io_rx_cdesc_base_src_vlan_cnt rx_cdesc_base_status 6 5
  by unfold_locales
    (simp_all add: get_ena_eth_io_rx_cdesc_base_src_vlan_cnt_def set_ena_eth_io_rx_cdesc_base_src_vlan_cnt_def ena_const BIT_eq_GENMASK)

definition get_ena_eth_io_rx_cdesc_base_mbz7 :: "ena_eth_io_rx_cdesc_base \<Rightarrow> u32" where
  "get_ena_eth_io_rx_cdesc_base_mbz7 p = drop_bit ENA_ETH_IO_RX_CDESC_BASE_MBZ7_SHIFT (rx_cdesc_base_status p AND ENA_ETH_IO_RX_CDESC_BASE_MBZ7_MASK)"

definition set_ena_eth_io_rx_cdesc_base_mbz7 :: "ena_eth_io_rx_cdesc_base \<Rightarrow> u32 \<Rightarrow> ena_eth_io_rx_cdesc_base" where
  "set_ena_eth_io_rx_cdesc_base_mbz7 p v = p\<lparr>rx_cdesc_base_status := rx_cdesc_base_status p OR (push_bit ENA_ETH_IO_RX_CDESC_BASE_MBZ7_SHIFT v AND ENA_ETH_IO_RX_CDESC_BASE_MBZ7_MASK)\<rparr>"

interpretation bf_ena_eth_io_rx_cdesc_base_mbz7: bitfield get_ena_eth_io_rx_cdesc_base_mbz7 set_ena_eth_io_rx_cdesc_base_mbz7 rx_cdesc_base_status 7 7
  by unfold_locales
    (simp_all add: get_ena_eth_io_rx_cdesc_base_mbz7_def set_ena_eth_io_rx_cdesc_base_mbz7_def ena_const BIT_eq_GENMASK)

definition get_ena_eth_io_rx_cdesc_base_l4_proto_idx :: "ena_eth_io_rx_cdesc_base \<Rightarrow> u32" where
  "get_ena_eth_io_rx_cdesc_base_l4_proto_idx p = drop_bit ENA_ETH_IO_RX_CDESC_BASE_L4_PROTO_IDX_SHIFT (rx_cdesc_base_status p AND ENA_ETH_IO_RX_CDESC_BASE_L4_PROTO_IDX_MASK)"

definition set_ena_eth_io_rx_cdesc_base_l4_proto_idx :: "ena_eth_io_rx_cdesc_base \<Rightarrow> u32 \<Rightarrow> ena_eth_io_rx_cdesc_base" where
  "set_ena_eth_io_rx_cdesc_base_l4_proto_idx p v = p\<lparr>rx_cdesc_base_status := rx_cdesc_base_status p OR (push_bit ENA_ETH_IO_RX_CDESC_BASE_L4_PROTO_IDX_SHIFT v AND ENA_ETH_IO_RX_CDESC_BASE_L4_PROTO_IDX_MASK)\<rparr>"

interpretation bf_ena_eth_io_rx_cdesc_base_l4_proto_idx: bitfield get_ena_eth_io_rx_cdesc_base_l4_proto_idx set_ena_eth_io_rx_cdesc_base_l4_proto_idx rx_cdesc_base_status 12 8
  by unfold_locales
    (simp_all add: get_ena_eth_io_rx_cdesc_base_l4_proto_idx_def set_ena_eth_io_rx_cdesc_base_l4_proto_idx_def ena_const BIT_eq_GENMASK)

definition get_ena_eth_io_rx_cdesc_base_l3_csum_err :: "ena_eth_io_rx_cdesc_base \<Rightarrow> u32" where
  "get_ena_eth_io_rx_cdesc_base_l3_csum_err p = drop_bit ENA_ETH_IO_RX_CDESC_BASE_L3_CSUM_ERR_SHIFT (rx_cdesc_base_status p AND ENA_ETH_IO_RX_CDESC_BASE_L3_CSUM_ERR_MASK)"

definition set_ena_eth_io_rx_cdesc_base_l3_csum_err :: "ena_eth_io_rx_cdesc_base \<Rightarrow> u32 \<Rightarrow> ena_eth_io_rx_cdesc_base" where
  "set_ena_eth_io_rx_cdesc_base_l3_csum_err p v = p\<lparr>rx_cdesc_base_status := rx_cdesc_base_status p OR (push_bit ENA_ETH_IO_RX_CDESC_BASE_L3_CSUM_ERR_SHIFT v AND ENA_ETH_IO_RX_CDESC_BASE_L3_CSUM_ERR_MASK)\<rparr>"

interpretation bf_ena_eth_io_rx_cdesc_base_l3_csum_err: bitfield get_ena_eth_io_rx_cdesc_base_l3_csum_err set_ena_eth_io_rx_cdesc_base_l3_csum_err rx_cdesc_base_status 13 13
  by unfold_locales
    (simp_all add: get_ena_eth_io_rx_cdesc_base_l3_csum_err_def set_ena_eth_io_rx_cdesc_base_l3_csum_err_def ena_const BIT_eq_GENMASK)

definition get_ena_eth_io_rx_cdesc_base_l4_csum_err :: "ena_eth_io_rx_cdesc_base \<Rightarrow> u32" where
  "get_ena_eth_io_rx_cdesc_base_l4_csum_err p = drop_bit ENA_ETH_IO_RX_CDESC_BASE_L4_CSUM_ERR_SHIFT (rx_cdesc_base_status p AND ENA_ETH_IO_RX_CDESC_BASE_L4_CSUM_ERR_MASK)"

definition set_ena_eth_io_rx_cdesc_base_l4_csum_err :: "ena_eth_io_rx_cdesc_base \<Rightarrow> u32 \<Rightarrow> ena_eth_io_rx_cdesc_base" where
  "set_ena_eth_io_rx_cdesc_base_l4_csum_err p v = p\<lparr>rx_cdesc_base_status := rx_cdesc_base_status p OR (push_bit ENA_ETH_IO_RX_CDESC_BASE_L4_CSUM_ERR_SHIFT v AND ENA_ETH_IO_RX_CDESC_BASE_L4_CSUM_ERR_MASK)\<rparr>"

interpretation bf_ena_eth_io_rx_cdesc_base_l4_csum_err: bitfield get_ena_eth_io_rx_cdesc_base_l4_csum_err set_ena_eth_io_rx_cdesc_base_l4_csum_err rx_cdesc_base_status 14 14
  by unfold_locales
    (simp_all add: get_ena_eth_io_rx_cdesc_base_l4_csum_err_def set_ena_eth_io_rx_cdesc_base_l4_csum_err_def ena_const BIT_eq_GENMASK)

definition get_ena_eth_io_rx_cdesc_base_ipv4_frag :: "ena_eth_io_rx_cdesc_base \<Rightarrow> u32" where
  "get_ena_eth_io_rx_cdesc_base_ipv4_frag p = drop_bit ENA_ETH_IO_RX_CDESC_BASE_IPV4_FRAG_SHIFT (rx_cdesc_base_status p AND ENA_ETH_IO_RX_CDESC_BASE_IPV4_FRAG_MASK)"

definition set_ena_eth_io_rx_cdesc_base_ipv4_frag :: "ena_eth_io_rx_cdesc_base \<Rightarrow> u32 \<Rightarrow> ena_eth_io_rx_cdesc_base" where
  "set_ena_eth_io_rx_cdesc_base_ipv4_frag p v = p\<lparr>rx_cdesc_base_status := rx_cdesc_base_status p OR (push_bit ENA_ETH_IO_RX_CDESC_BASE_IPV4_FRAG_SHIFT v AND ENA_ETH_IO_RX_CDESC_BASE_IPV4_FRAG_MASK)\<rparr>"

interpretation bf_ena_eth_io_rx_cdesc_base_ipv4_frag: bitfield get_ena_eth_io_rx_cdesc_base_ipv4_frag set_ena_eth_io_rx_cdesc_base_ipv4_frag rx_cdesc_base_status 15 15
  by unfold_locales
    (simp_all add: get_ena_eth_io_rx_cdesc_base_ipv4_frag_def set_ena_eth_io_rx_cdesc_base_ipv4_frag_def ena_const BIT_eq_GENMASK)

definition get_ena_eth_io_rx_cdesc_base_l4_csum_checked :: "ena_eth_io_rx_cdesc_base \<Rightarrow> u32" where
  "get_ena_eth_io_rx_cdesc_base_l4_csum_checked p = drop_bit ENA_ETH_IO_RX_CDESC_BASE_L4_CSUM_CHECKED_SHIFT (rx_cdesc_base_status p AND ENA_ETH_IO_RX_CDESC_BASE_L4_CSUM_CHECKED_MASK)"

definition set_ena_eth_io_rx_cdesc_base_l4_csum_checked :: "ena_eth_io_rx_cdesc_base \<Rightarrow> u32 \<Rightarrow> ena_eth_io_rx_cdesc_base" where
  "set_ena_eth_io_rx_cdesc_base_l4_csum_checked p v = p\<lparr>rx_cdesc_base_status := rx_cdesc_base_status p OR (push_bit ENA_ETH_IO_RX_CDESC_BASE_L4_CSUM_CHECKED_SHIFT v AND ENA_ETH_IO_RX_CDESC_BASE_L4_CSUM_CHECKED_MASK)\<rparr>"

interpretation bf_ena_eth_io_rx_cdesc_base_l4_csum_checked: bitfield get_ena_eth_io_rx_cdesc_base_l4_csum_checked set_ena_eth_io_rx_cdesc_base_l4_csum_checked rx_cdesc_base_status 16 16
  by unfold_locales
    (simp_all add: get_ena_eth_io_rx_cdesc_base_l4_csum_checked_def set_ena_eth_io_rx_cdesc_base_l4_csum_checked_def ena_const BIT_eq_GENMASK)

definition get_ena_eth_io_rx_cdesc_base_mbz17 :: "ena_eth_io_rx_cdesc_base \<Rightarrow> u32" where
  "get_ena_eth_io_rx_cdesc_base_mbz17 p = drop_bit ENA_ETH_IO_RX_CDESC_BASE_MBZ17_SHIFT (rx_cdesc_base_status p AND ENA_ETH_IO_RX_CDESC_BASE_MBZ17_MASK)"

definition set_ena_eth_io_rx_cdesc_base_mbz17 :: "ena_eth_io_rx_cdesc_base \<Rightarrow> u32 \<Rightarrow> ena_eth_io_rx_cdesc_base" where
  "set_ena_eth_io_rx_cdesc_base_mbz17 p v = p\<lparr>rx_cdesc_base_status := rx_cdesc_base_status p OR (push_bit ENA_ETH_IO_RX_CDESC_BASE_MBZ17_SHIFT v AND ENA_ETH_IO_RX_CDESC_BASE_MBZ17_MASK)\<rparr>"

interpretation bf_ena_eth_io_rx_cdesc_base_mbz17: bitfield get_ena_eth_io_rx_cdesc_base_mbz17 set_ena_eth_io_rx_cdesc_base_mbz17 rx_cdesc_base_status 17 17
  by unfold_locales
    (simp_all add: get_ena_eth_io_rx_cdesc_base_mbz17_def set_ena_eth_io_rx_cdesc_base_mbz17_def ena_const BIT_eq_GENMASK)

definition get_ena_eth_io_rx_cdesc_base_phase :: "ena_eth_io_rx_cdesc_base \<Rightarrow> u32" where
  "get_ena_eth_io_rx_cdesc_base_phase p = drop_bit ENA_ETH_IO_RX_CDESC_BASE_PHASE_SHIFT (rx_cdesc_base_status p AND ENA_ETH_IO_RX_CDESC_BASE_PHASE_MASK)"

definition set_ena_eth_io_rx_cdesc_base_phase :: "ena_eth_io_rx_cdesc_base \<Rightarrow> u32 \<Rightarrow> ena_eth_io_rx_cdesc_base" where
  "set_ena_eth_io_rx_cdesc_base_phase p v = p\<lparr>rx_cdesc_base_status := rx_cdesc_base_status p OR (push_bit ENA_ETH_IO_RX_CDESC_BASE_PHASE_SHIFT v AND ENA_ETH_IO_RX_CDESC_BASE_PHASE_MASK)\<rparr>"

interpretation bf_ena_eth_io_rx_cdesc_base_phase: bitfield get_ena_eth_io_rx_cdesc_base_phase set_ena_eth_io_rx_cdesc_base_phase rx_cdesc_base_status 24 24
  by unfold_locales
    (simp_all add: get_ena_eth_io_rx_cdesc_base_phase_def set_ena_eth_io_rx_cdesc_base_phase_def ena_const BIT_eq_GENMASK)

definition get_ena_eth_io_rx_cdesc_base_l3_csum2 :: "ena_eth_io_rx_cdesc_base \<Rightarrow> u32" where
  "get_ena_eth_io_rx_cdesc_base_l3_csum2 p = drop_bit ENA_ETH_IO_RX_CDESC_BASE_L3_CSUM2_SHIFT (rx_cdesc_base_status p AND ENA_ETH_IO_RX_CDESC_BASE_L3_CSUM2_MASK)"

definition set_ena_eth_io_rx_cdesc_base_l3_csum2 :: "ena_eth_io_rx_cdesc_base \<Rightarrow> u32 \<Rightarrow> ena_eth_io_rx_cdesc_base" where
  "set_ena_eth_io_rx_cdesc_base_l3_csum2 p v = p\<lparr>rx_cdesc_base_status := rx_cdesc_base_status p OR (push_bit ENA_ETH_IO_RX_CDESC_BASE_L3_CSUM2_SHIFT v AND ENA_ETH_IO_RX_CDESC_BASE_L3_CSUM2_MASK)\<rparr>"

interpretation bf_ena_eth_io_rx_cdesc_base_l3_csum2: bitfield get_ena_eth_io_rx_cdesc_base_l3_csum2 set_ena_eth_io_rx_cdesc_base_l3_csum2 rx_cdesc_base_status 25 25
  by unfold_locales
    (simp_all add: get_ena_eth_io_rx_cdesc_base_l3_csum2_def set_ena_eth_io_rx_cdesc_base_l3_csum2_def ena_const BIT_eq_GENMASK)

definition get_ena_eth_io_rx_cdesc_base_first :: "ena_eth_io_rx_cdesc_base \<Rightarrow> u32" where
  "get_ena_eth_io_rx_cdesc_base_first p = drop_bit ENA_ETH_IO_RX_CDESC_BASE_FIRST_SHIFT (rx_cdesc_base_status p AND ENA_ETH_IO_RX_CDESC_BASE_FIRST_MASK)"

definition set_ena_eth_io_rx_cdesc_base_first :: "ena_eth_io_rx_cdesc_base \<Rightarrow> u32 \<Rightarrow> ena_eth_io_rx_cdesc_base" where
  "set_ena_eth_io_rx_cdesc_base_first p v = p\<lparr>rx_cdesc_base_status := rx_cdesc_base_status p OR (push_bit ENA_ETH_IO_RX_CDESC_BASE_FIRST_SHIFT v AND ENA_ETH_IO_RX_CDESC_BASE_FIRST_MASK)\<rparr>"

interpretation bf_ena_eth_io_rx_cdesc_base_first: bitfield get_ena_eth_io_rx_cdesc_base_first set_ena_eth_io_rx_cdesc_base_first rx_cdesc_base_status 26 26
  by unfold_locales
    (simp_all add: get_ena_eth_io_rx_cdesc_base_first_def set_ena_eth_io_rx_cdesc_base_first_def ena_const BIT_eq_GENMASK)

definition get_ena_eth_io_rx_cdesc_base_last :: "ena_eth_io_rx_cdesc_base \<Rightarrow> u32" where
  "get_ena_eth_io_rx_cdesc_base_last p = drop_bit ENA_ETH_IO_RX_CDESC_BASE_LAST_SHIFT (rx_cdesc_base_status p AND ENA_ETH_IO_RX_CDESC_BASE_LAST_MASK)"

definition set_ena_eth_io_rx_cdesc_base_last :: "ena_eth_io_rx_cdesc_base \<Rightarrow> u32 \<Rightarrow> ena_eth_io_rx_cdesc_base" where
  "set_ena_eth_io_rx_cdesc_base_last p v = p\<lparr>rx_cdesc_base_status := rx_cdesc_base_status p OR (push_bit ENA_ETH_IO_RX_CDESC_BASE_LAST_SHIFT v AND ENA_ETH_IO_RX_CDESC_BASE_LAST_MASK)\<rparr>"

interpretation bf_ena_eth_io_rx_cdesc_base_last: bitfield get_ena_eth_io_rx_cdesc_base_last set_ena_eth_io_rx_cdesc_base_last rx_cdesc_base_status 27 27
  by unfold_locales
    (simp_all add: get_ena_eth_io_rx_cdesc_base_last_def set_ena_eth_io_rx_cdesc_base_last_def ena_const BIT_eq_GENMASK)

definition get_ena_eth_io_rx_cdesc_base_buffer :: "ena_eth_io_rx_cdesc_base \<Rightarrow> u32" where
  "get_ena_eth_io_rx_cdesc_base_buffer p = drop_bit ENA_ETH_IO_RX_CDESC_BASE_BUFFER_SHIFT (rx_cdesc_base_status p AND ENA_ETH_IO_RX_CDESC_BASE_BUFFER_MASK)"

definition set_ena_eth_io_rx_cdesc_base_buffer :: "ena_eth_io_rx_cdesc_base \<Rightarrow> u32 \<Rightarrow> ena_eth_io_rx_cdesc_base" where
  "set_ena_eth_io_rx_cdesc_base_buffer p v = p\<lparr>rx_cdesc_base_status := rx_cdesc_base_status p OR (push_bit ENA_ETH_IO_RX_CDESC_BASE_BUFFER_SHIFT v AND ENA_ETH_IO_RX_CDESC_BASE_BUFFER_MASK)\<rparr>"

interpretation bf_ena_eth_io_rx_cdesc_base_buffer: bitfield get_ena_eth_io_rx_cdesc_base_buffer set_ena_eth_io_rx_cdesc_base_buffer rx_cdesc_base_status 30 30
  by unfold_locales
    (simp_all add: get_ena_eth_io_rx_cdesc_base_buffer_def set_ena_eth_io_rx_cdesc_base_buffer_def ena_const BIT_eq_GENMASK)

definition get_ena_eth_io_intr_reg_rx_intr_delay :: "ena_eth_io_intr_reg \<Rightarrow> u32" where
  "get_ena_eth_io_intr_reg_rx_intr_delay p = intr_reg_intr_control p AND ENA_ETH_IO_INTR_REG_RX_INTR_DELAY_MASK"

definition set_ena_eth_io_intr_reg_rx_intr_delay :: "ena_eth_io_intr_reg \<Rightarrow> u32 \<Rightarrow> ena_eth_io_intr_reg" where
  "set_ena_eth_io_intr_reg_rx_intr_delay p v = p\<lparr>intr_reg_intr_control := intr_reg_intr_control p OR (v AND ENA_ETH_IO_INTR_REG_RX_INTR_DELAY_MASK)\<rparr>"

interpretation bf_ena_eth_io_intr_reg_rx_intr_delay: bitfield get_ena_eth_io_intr_reg_rx_intr_delay set_ena_eth_io_intr_reg_rx_intr_delay intr_reg_intr_control 14 0
  by unfold_locales
    (simp_all add: get_ena_eth_io_intr_reg_rx_intr_delay_def set_ena_eth_io_intr_reg_rx_intr_delay_def ena_const BIT_eq_GENMASK)

definition get_ena_eth_io_intr_reg_tx_intr_delay :: "ena_eth_io_intr_reg \<Rightarrow> u32" where
  "get_ena_eth_io_intr_reg_tx_intr_delay p = drop_bit ENA_ETH_IO_INTR_REG_TX_INTR_DELAY_SHIFT (intr_reg_intr_control p AND ENA_ETH_IO_INTR_REG_TX_INTR_DELAY_MASK)"

definition set_ena_eth_io_intr_reg_tx_intr_delay :: "ena_eth_io_intr_reg \<Rightarrow> u32 \<Rightarrow> ena_eth_io_intr_reg" where
  "set_ena_eth_io_intr_reg_tx_intr_delay p v = p\<lparr>intr_reg_intr_control := intr_reg_intr_control p OR (push_bit ENA_ETH_IO_INTR_REG_TX_INTR_DELAY_SHIFT v AND ENA_ETH_IO_INTR_REG_TX_INTR_DELAY_MASK)\<rparr>"

interpretation bf_ena_eth_io_intr_reg_tx_intr_delay: bitfield get_ena_eth_io_intr_reg_tx_intr_delay set_ena_eth_io_intr_reg_tx_intr_delay intr_reg_intr_control 29 15
  by unfold_locales
    (simp_all add: get_ena_eth_io_intr_reg_tx_intr_delay_def set_ena_eth_io_intr_reg_tx_intr_delay_def ena_const BIT_eq_GENMASK)

definition get_ena_eth_io_intr_reg_intr_unmask :: "ena_eth_io_intr_reg \<Rightarrow> u32" where
  "get_ena_eth_io_intr_reg_intr_unmask p = drop_bit ENA_ETH_IO_INTR_REG_INTR_UNMASK_SHIFT (intr_reg_intr_control p AND ENA_ETH_IO_INTR_REG_INTR_UNMASK_MASK)"

definition set_ena_eth_io_intr_reg_intr_unmask :: "ena_eth_io_intr_reg \<Rightarrow> u32 \<Rightarrow> ena_eth_io_intr_reg" where
  "set_ena_eth_io_intr_reg_intr_unmask p v = p\<lparr>intr_reg_intr_control := intr_reg_intr_control p OR (push_bit ENA_ETH_IO_INTR_REG_INTR_UNMASK_SHIFT v AND ENA_ETH_IO_INTR_REG_INTR_UNMASK_MASK)\<rparr>"

interpretation bf_ena_eth_io_intr_reg_intr_unmask: bitfield get_ena_eth_io_intr_reg_intr_unmask set_ena_eth_io_intr_reg_intr_unmask intr_reg_intr_control 30 30
  by unfold_locales
    (simp_all add: get_ena_eth_io_intr_reg_intr_unmask_def set_ena_eth_io_intr_reg_intr_unmask_def ena_const BIT_eq_GENMASK)

definition get_ena_eth_io_intr_reg_no_moderation_update :: "ena_eth_io_intr_reg \<Rightarrow> u32" where
  "get_ena_eth_io_intr_reg_no_moderation_update p = drop_bit ENA_ETH_IO_INTR_REG_NO_MODERATION_UPDATE_SHIFT (intr_reg_intr_control p AND ENA_ETH_IO_INTR_REG_NO_MODERATION_UPDATE_MASK)"

definition set_ena_eth_io_intr_reg_no_moderation_update :: "ena_eth_io_intr_reg \<Rightarrow> u32 \<Rightarrow> ena_eth_io_intr_reg" where
  "set_ena_eth_io_intr_reg_no_moderation_update p v = p\<lparr>intr_reg_intr_control := intr_reg_intr_control p OR (push_bit ENA_ETH_IO_INTR_REG_NO_MODERATION_UPDATE_SHIFT v AND ENA_ETH_IO_INTR_REG_NO_MODERATION_UPDATE_MASK)\<rparr>"

interpretation bf_ena_eth_io_intr_reg_no_moderation_update: bitfield get_ena_eth_io_intr_reg_no_moderation_update set_ena_eth_io_intr_reg_no_moderation_update intr_reg_intr_control 31 31
  by unfold_locales
    (simp_all add: get_ena_eth_io_intr_reg_no_moderation_update_def set_ena_eth_io_intr_reg_no_moderation_update_def ena_const BIT_eq_GENMASK)

definition get_ena_eth_io_numa_node_cfg_reg_numa :: "ena_eth_io_numa_node_cfg_reg \<Rightarrow> u32" where
  "get_ena_eth_io_numa_node_cfg_reg_numa p = numa_node_cfg_reg_numa_cfg p AND ENA_ETH_IO_NUMA_NODE_CFG_REG_NUMA_MASK"

definition set_ena_eth_io_numa_node_cfg_reg_numa :: "ena_eth_io_numa_node_cfg_reg \<Rightarrow> u32 \<Rightarrow> ena_eth_io_numa_node_cfg_reg" where
  "set_ena_eth_io_numa_node_cfg_reg_numa p v = p\<lparr>numa_node_cfg_reg_numa_cfg := numa_node_cfg_reg_numa_cfg p OR (v AND ENA_ETH_IO_NUMA_NODE_CFG_REG_NUMA_MASK)\<rparr>"

interpretation bf_ena_eth_io_numa_node_cfg_reg_numa: bitfield get_ena_eth_io_numa_node_cfg_reg_numa set_ena_eth_io_numa_node_cfg_reg_numa numa_node_cfg_reg_numa_cfg 7 0
  by unfold_locales
    (simp_all add: get_ena_eth_io_numa_node_cfg_reg_numa_def set_ena_eth_io_numa_node_cfg_reg_numa_def ena_const BIT_eq_GENMASK)

definition get_ena_eth_io_numa_node_cfg_reg_enabled :: "ena_eth_io_numa_node_cfg_reg \<Rightarrow> u32" where
  "get_ena_eth_io_numa_node_cfg_reg_enabled p = drop_bit ENA_ETH_IO_NUMA_NODE_CFG_REG_ENABLED_SHIFT (numa_node_cfg_reg_numa_cfg p AND ENA_ETH_IO_NUMA_NODE_CFG_REG_ENABLED_MASK)"

definition set_ena_eth_io_numa_node_cfg_reg_enabled :: "ena_eth_io_numa_node_cfg_reg \<Rightarrow> u32 \<Rightarrow> ena_eth_io_numa_node_cfg_reg" where
  "set_ena_eth_io_numa_node_cfg_reg_enabled p v = p\<lparr>numa_node_cfg_reg_numa_cfg := numa_node_cfg_reg_numa_cfg p OR (push_bit ENA_ETH_IO_NUMA_NODE_CFG_REG_ENABLED_SHIFT v AND ENA_ETH_IO_NUMA_NODE_CFG_REG_ENABLED_MASK)\<rparr>"

interpretation bf_ena_eth_io_numa_node_cfg_reg_enabled: bitfield get_ena_eth_io_numa_node_cfg_reg_enabled set_ena_eth_io_numa_node_cfg_reg_enabled numa_node_cfg_reg_numa_cfg 31 31
  by unfold_locales
    (simp_all add: get_ena_eth_io_numa_node_cfg_reg_enabled_def set_ena_eth_io_numa_node_cfg_reg_enabled_def ena_const BIT_eq_GENMASK)

end
