(* ===== verification/Ena_Regs_Defs.thy ===== *)
theory Ena_Regs_Defs
  imports Ena_Bits
begin

text \<open>
  The register map of \<open>src/hw/ena_defs/ena_regs_defs.h\<close> (byte offsets as naturals, masks as 32-bit
  words) and the device limits and BAR layout of \<open>src/hw/ena.h\<close>.
\<close>

section \<open>Register offsets and fields\<close>

definition ENA_REGS_VERSION_OFF :: nat where [ena_const]: "ENA_REGS_VERSION_OFF = 0x0"
definition ENA_REGS_CONTROLLER_VERSION_OFF :: nat where [ena_const]: "ENA_REGS_CONTROLLER_VERSION_OFF = 0x4"
definition ENA_REGS_CAPS_OFF :: nat where [ena_const]: "ENA_REGS_CAPS_OFF = 0x8"
definition ENA_REGS_CAPS_EXT_OFF :: nat where [ena_const]: "ENA_REGS_CAPS_EXT_OFF = 0xc"
definition ENA_REGS_AQ_BASE_LO_OFF :: nat where [ena_const]: "ENA_REGS_AQ_BASE_LO_OFF = 0x10"
definition ENA_REGS_AQ_BASE_HI_OFF :: nat where [ena_const]: "ENA_REGS_AQ_BASE_HI_OFF = 0x14"
definition ENA_REGS_AQ_CAPS_OFF :: nat where [ena_const]: "ENA_REGS_AQ_CAPS_OFF = 0x18"
definition ENA_REGS_ACQ_BASE_LO_OFF :: nat where [ena_const]: "ENA_REGS_ACQ_BASE_LO_OFF = 0x20"
definition ENA_REGS_ACQ_BASE_HI_OFF :: nat where [ena_const]: "ENA_REGS_ACQ_BASE_HI_OFF = 0x24"
definition ENA_REGS_ACQ_CAPS_OFF :: nat where [ena_const]: "ENA_REGS_ACQ_CAPS_OFF = 0x28"
definition ENA_REGS_AQ_DB_OFF :: nat where [ena_const]: "ENA_REGS_AQ_DB_OFF = 0x2c"
definition ENA_REGS_ACQ_TAIL_OFF :: nat where [ena_const]: "ENA_REGS_ACQ_TAIL_OFF = 0x30"
definition ENA_REGS_AENQ_CAPS_OFF :: nat where [ena_const]: "ENA_REGS_AENQ_CAPS_OFF = 0x34"
definition ENA_REGS_AENQ_BASE_LO_OFF :: nat where [ena_const]: "ENA_REGS_AENQ_BASE_LO_OFF = 0x38"
definition ENA_REGS_AENQ_BASE_HI_OFF :: nat where [ena_const]: "ENA_REGS_AENQ_BASE_HI_OFF = 0x3c"
definition ENA_REGS_AENQ_HEAD_DB_OFF :: nat where [ena_const]: "ENA_REGS_AENQ_HEAD_DB_OFF = 0x40"
definition ENA_REGS_AENQ_TAIL_OFF :: nat where [ena_const]: "ENA_REGS_AENQ_TAIL_OFF = 0x44"
definition ENA_REGS_INTR_MASK_OFF :: nat where [ena_const]: "ENA_REGS_INTR_MASK_OFF = 0x4c"
definition ENA_REGS_DEV_CTL_OFF :: nat where [ena_const]: "ENA_REGS_DEV_CTL_OFF = 0x54"
definition ENA_REGS_DEV_STS_OFF :: nat where [ena_const]: "ENA_REGS_DEV_STS_OFF = 0x58"
definition ENA_REGS_MMIO_REG_READ_OFF :: nat where [ena_const]: "ENA_REGS_MMIO_REG_READ_OFF = 0x5c"
definition ENA_REGS_MMIO_RESP_LO_OFF :: nat where [ena_const]: "ENA_REGS_MMIO_RESP_LO_OFF = 0x60"
definition ENA_REGS_MMIO_RESP_HI_OFF :: nat where [ena_const]: "ENA_REGS_MMIO_RESP_HI_OFF = 0x64"
definition ENA_REGS_RSS_IND_ENTRY_UPDATE_OFF :: nat where [ena_const]: "ENA_REGS_RSS_IND_ENTRY_UPDATE_OFF = 0x68"
definition ENA_REGS_PHC_DB_OFF :: nat where [ena_const]: "ENA_REGS_PHC_DB_OFF = 0x100"
definition ENA_REGS_VERSION_MINOR_VERSION_MASK :: u32 where [ena_const]: "ENA_REGS_VERSION_MINOR_VERSION_MASK = 0xff"
definition ENA_REGS_VERSION_MAJOR_VERSION_SHIFT :: nat where [ena_const]: "ENA_REGS_VERSION_MAJOR_VERSION_SHIFT = 8"
definition ENA_REGS_VERSION_MAJOR_VERSION_MASK :: u32 where [ena_const]: "ENA_REGS_VERSION_MAJOR_VERSION_MASK = 0xff00"
definition ENA_REGS_CONTROLLER_VERSION_SUBMINOR_VERSION_MASK :: u32 where [ena_const]: "ENA_REGS_CONTROLLER_VERSION_SUBMINOR_VERSION_MASK = 0xff"
definition ENA_REGS_CONTROLLER_VERSION_MINOR_VERSION_SHIFT :: nat where [ena_const]: "ENA_REGS_CONTROLLER_VERSION_MINOR_VERSION_SHIFT = 8"
definition ENA_REGS_CONTROLLER_VERSION_MINOR_VERSION_MASK :: u32 where [ena_const]: "ENA_REGS_CONTROLLER_VERSION_MINOR_VERSION_MASK = 0xff00"
definition ENA_REGS_CONTROLLER_VERSION_MAJOR_VERSION_SHIFT :: nat where [ena_const]: "ENA_REGS_CONTROLLER_VERSION_MAJOR_VERSION_SHIFT = 16"
definition ENA_REGS_CONTROLLER_VERSION_MAJOR_VERSION_MASK :: u32 where [ena_const]: "ENA_REGS_CONTROLLER_VERSION_MAJOR_VERSION_MASK = 0xff0000"
definition ENA_REGS_CONTROLLER_VERSION_IMPL_ID_SHIFT :: nat where [ena_const]: "ENA_REGS_CONTROLLER_VERSION_IMPL_ID_SHIFT = 24"
definition ENA_REGS_CONTROLLER_VERSION_IMPL_ID_MASK :: u32 where [ena_const]: "ENA_REGS_CONTROLLER_VERSION_IMPL_ID_MASK = 0xff000000"
definition ENA_REGS_CAPS_CONTIGUOUS_QUEUE_REQUIRED_MASK :: u32 where [ena_const]: "ENA_REGS_CAPS_CONTIGUOUS_QUEUE_REQUIRED_MASK = 0x1"
definition ENA_REGS_CAPS_RESET_TIMEOUT_SHIFT :: nat where [ena_const]: "ENA_REGS_CAPS_RESET_TIMEOUT_SHIFT = 1"
definition ENA_REGS_CAPS_RESET_TIMEOUT_MASK :: u32 where [ena_const]: "ENA_REGS_CAPS_RESET_TIMEOUT_MASK = 0x3e"
definition ENA_REGS_CAPS_DMA_ADDR_WIDTH_SHIFT :: nat where [ena_const]: "ENA_REGS_CAPS_DMA_ADDR_WIDTH_SHIFT = 8"
definition ENA_REGS_CAPS_DMA_ADDR_WIDTH_MASK :: u32 where [ena_const]: "ENA_REGS_CAPS_DMA_ADDR_WIDTH_MASK = 0xff00"
definition ENA_REGS_CAPS_ADMIN_CMD_TO_SHIFT :: nat where [ena_const]: "ENA_REGS_CAPS_ADMIN_CMD_TO_SHIFT = 16"
definition ENA_REGS_CAPS_ADMIN_CMD_TO_MASK :: u32 where [ena_const]: "ENA_REGS_CAPS_ADMIN_CMD_TO_MASK = 0xf0000"
definition ENA_REGS_AQ_CAPS_AQ_DEPTH_MASK :: u32 where [ena_const]: "ENA_REGS_AQ_CAPS_AQ_DEPTH_MASK = 0xffff"
definition ENA_REGS_AQ_CAPS_AQ_ENTRY_SIZE_SHIFT :: nat where [ena_const]: "ENA_REGS_AQ_CAPS_AQ_ENTRY_SIZE_SHIFT = 16"
definition ENA_REGS_AQ_CAPS_AQ_ENTRY_SIZE_MASK :: u32 where [ena_const]: "ENA_REGS_AQ_CAPS_AQ_ENTRY_SIZE_MASK = 0xffff0000"
definition ENA_REGS_ACQ_CAPS_ACQ_DEPTH_MASK :: u32 where [ena_const]: "ENA_REGS_ACQ_CAPS_ACQ_DEPTH_MASK = 0xffff"
definition ENA_REGS_ACQ_CAPS_ACQ_ENTRY_SIZE_SHIFT :: nat where [ena_const]: "ENA_REGS_ACQ_CAPS_ACQ_ENTRY_SIZE_SHIFT = 16"
definition ENA_REGS_ACQ_CAPS_ACQ_ENTRY_SIZE_MASK :: u32 where [ena_const]: "ENA_REGS_ACQ_CAPS_ACQ_ENTRY_SIZE_MASK = 0xffff0000"
definition ENA_REGS_AENQ_CAPS_AENQ_DEPTH_MASK :: u32 where [ena_const]: "ENA_REGS_AENQ_CAPS_AENQ_DEPTH_MASK = 0xffff"
definition ENA_REGS_AENQ_CAPS_AENQ_ENTRY_SIZE_SHIFT :: nat where [ena_const]: "ENA_REGS_AENQ_CAPS_AENQ_ENTRY_SIZE_SHIFT = 16"
definition ENA_REGS_AENQ_CAPS_AENQ_ENTRY_SIZE_MASK :: u32 where [ena_const]: "ENA_REGS_AENQ_CAPS_AENQ_ENTRY_SIZE_MASK = 0xffff0000"
definition ENA_REGS_DEV_CTL_DEV_RESET_MASK :: u32 where [ena_const]: "ENA_REGS_DEV_CTL_DEV_RESET_MASK = 0x1"
definition ENA_REGS_DEV_CTL_AQ_RESTART_SHIFT :: nat where [ena_const]: "ENA_REGS_DEV_CTL_AQ_RESTART_SHIFT = 1"
definition ENA_REGS_DEV_CTL_AQ_RESTART_MASK :: u32 where [ena_const]: "ENA_REGS_DEV_CTL_AQ_RESTART_MASK = 0x2"
definition ENA_REGS_DEV_CTL_QUIESCENT_SHIFT :: nat where [ena_const]: "ENA_REGS_DEV_CTL_QUIESCENT_SHIFT = 2"
definition ENA_REGS_DEV_CTL_QUIESCENT_MASK :: u32 where [ena_const]: "ENA_REGS_DEV_CTL_QUIESCENT_MASK = 0x4"
definition ENA_REGS_DEV_CTL_IO_RESUME_SHIFT :: nat where [ena_const]: "ENA_REGS_DEV_CTL_IO_RESUME_SHIFT = 3"
definition ENA_REGS_DEV_CTL_IO_RESUME_MASK :: u32 where [ena_const]: "ENA_REGS_DEV_CTL_IO_RESUME_MASK = 0x8"
definition ENA_REGS_DEV_CTL_RESET_REASON_EXT_SHIFT :: nat where [ena_const]: "ENA_REGS_DEV_CTL_RESET_REASON_EXT_SHIFT = 24"
definition ENA_REGS_DEV_CTL_RESET_REASON_EXT_MASK :: u32 where [ena_const]: "ENA_REGS_DEV_CTL_RESET_REASON_EXT_MASK = 0xf000000"
definition ENA_REGS_DEV_CTL_RESET_REASON_SHIFT :: nat where [ena_const]: "ENA_REGS_DEV_CTL_RESET_REASON_SHIFT = 28"
definition ENA_REGS_DEV_CTL_RESET_REASON_MASK :: u32 where [ena_const]: "ENA_REGS_DEV_CTL_RESET_REASON_MASK = 0xf0000000"
definition ENA_REGS_DEV_STS_READY_MASK :: u32 where [ena_const]: "ENA_REGS_DEV_STS_READY_MASK = 0x1"
definition ENA_REGS_DEV_STS_AQ_RESTART_IN_PROGRESS_SHIFT :: nat where [ena_const]: "ENA_REGS_DEV_STS_AQ_RESTART_IN_PROGRESS_SHIFT = 1"
definition ENA_REGS_DEV_STS_AQ_RESTART_IN_PROGRESS_MASK :: u32 where [ena_const]: "ENA_REGS_DEV_STS_AQ_RESTART_IN_PROGRESS_MASK = 0x2"
definition ENA_REGS_DEV_STS_AQ_RESTART_FINISHED_SHIFT :: nat where [ena_const]: "ENA_REGS_DEV_STS_AQ_RESTART_FINISHED_SHIFT = 2"
definition ENA_REGS_DEV_STS_AQ_RESTART_FINISHED_MASK :: u32 where [ena_const]: "ENA_REGS_DEV_STS_AQ_RESTART_FINISHED_MASK = 0x4"
definition ENA_REGS_DEV_STS_RESET_IN_PROGRESS_SHIFT :: nat where [ena_const]: "ENA_REGS_DEV_STS_RESET_IN_PROGRESS_SHIFT = 3"
definition ENA_REGS_DEV_STS_RESET_IN_PROGRESS_MASK :: u32 where [ena_const]: "ENA_REGS_DEV_STS_RESET_IN_PROGRESS_MASK = 0x8"
definition ENA_REGS_DEV_STS_RESET_FINISHED_SHIFT :: nat where [ena_const]: "ENA_REGS_DEV_STS_RESET_FINISHED_SHIFT = 4"
definition ENA_REGS_DEV_STS_RESET_FINISHED_MASK :: u32 where [ena_const]: "ENA_REGS_DEV_STS_RESET_FINISHED_MASK = 0x10"
definition ENA_REGS_DEV_STS_FATAL_ERROR_SHIFT :: nat where [ena_const]: "ENA_REGS_DEV_STS_FATAL_ERROR_SHIFT = 5"
definition ENA_REGS_DEV_STS_FATAL_ERROR_MASK :: u32 where [ena_const]: "ENA_REGS_DEV_STS_FATAL_ERROR_MASK = 0x20"
definition ENA_REGS_DEV_STS_QUIESCENT_STATE_IN_PROGRESS_SHIFT :: nat where [ena_const]: "ENA_REGS_DEV_STS_QUIESCENT_STATE_IN_PROGRESS_SHIFT = 6"
definition ENA_REGS_DEV_STS_QUIESCENT_STATE_IN_PROGRESS_MASK :: u32 where [ena_const]: "ENA_REGS_DEV_STS_QUIESCENT_STATE_IN_PROGRESS_MASK = 0x40"
definition ENA_REGS_DEV_STS_QUIESCENT_STATE_ACHIEVED_SHIFT :: nat where [ena_const]: "ENA_REGS_DEV_STS_QUIESCENT_STATE_ACHIEVED_SHIFT = 7"
definition ENA_REGS_DEV_STS_QUIESCENT_STATE_ACHIEVED_MASK :: u32 where [ena_const]: "ENA_REGS_DEV_STS_QUIESCENT_STATE_ACHIEVED_MASK = 0x80"
definition ENA_REGS_MMIO_REG_READ_REQ_ID_MASK :: u32 where [ena_const]: "ENA_REGS_MMIO_REG_READ_REQ_ID_MASK = 0xffff"
definition ENA_REGS_MMIO_REG_READ_REG_OFF_SHIFT :: nat where [ena_const]: "ENA_REGS_MMIO_REG_READ_REG_OFF_SHIFT = 16"
definition ENA_REGS_MMIO_REG_READ_REG_OFF_MASK :: u32 where [ena_const]: "ENA_REGS_MMIO_REG_READ_REG_OFF_MASK = 0xffff0000"
definition ENA_REGS_RSS_IND_ENTRY_UPDATE_INDEX_MASK :: u32 where [ena_const]: "ENA_REGS_RSS_IND_ENTRY_UPDATE_INDEX_MASK = 0xffff"
definition ENA_REGS_RSS_IND_ENTRY_UPDATE_CQ_IDX_SHIFT :: nat where [ena_const]: "ENA_REGS_RSS_IND_ENTRY_UPDATE_CQ_IDX_SHIFT = 16"
definition ENA_REGS_RSS_IND_ENTRY_UPDATE_CQ_IDX_MASK :: u32 where [ena_const]: "ENA_REGS_RSS_IND_ENTRY_UPDATE_CQ_IDX_MASK = 0xffff0000"
definition ENA_REGS_PHC_DB_REQ_ID_MASK :: u32 where [ena_const]: "ENA_REGS_PHC_DB_REQ_ID_MASK = 0xffff"

section \<open>Device limits and BAR layout\<close>

definition ENA_MAX_IO_QUEUES :: nat where [ena_const]: "ENA_MAX_IO_QUEUES = 8"
definition ENA_MAX_SQ :: nat where [ena_const]: "ENA_MAX_SQ = 2 * ENA_MAX_IO_QUEUES"
definition ENA_MAX_CQ :: nat where [ena_const]: "ENA_MAX_CQ = 2 * ENA_MAX_IO_QUEUES"
definition ENA_MSIX_VECTORS :: nat where [ena_const]: "ENA_MSIX_VECTORS = 1 + ENA_MAX_IO_QUEUES"
definition ENA_ADMIN_MSIX_VECTOR :: u32 where [ena_const]: "ENA_ADMIN_MSIX_VECTOR = 0"
definition ENA_MSIX_VECTOR_NONE :: u32 where [ena_const]: "ENA_MSIX_VECTOR_NONE = 0xffffffff"
definition ENA_MAX_QUEUE_DEPTH :: nat where [ena_const]: "ENA_MAX_QUEUE_DEPTH = 1024"
definition ENA_MAX_CQ_ENTRY_SIZE :: nat where [ena_const]: "ENA_MAX_CQ_ENTRY_SIZE = 32"
definition ENA_MIN_QUEUE_DEPTH :: nat where [ena_const]: "ENA_MIN_QUEUE_DEPTH = 16"
definition ENA_MAX_TX_HEADER_SIZE :: nat where [ena_const]: "ENA_MAX_TX_HEADER_SIZE = 96"
definition ENA_MAX_PKT_DESCS :: nat where [ena_const]: "ENA_MAX_PKT_DESCS = 17"
definition ENA_MAX_MTU :: nat where [ena_const]: "ENA_MAX_MTU = 9000"
definition ENA_MIN_MTU :: nat where [ena_const]: "ENA_MIN_MTU = 128"
definition ENA_DMA_ADDR_WIDTH :: nat where [ena_const]: "ENA_DMA_ADDR_WIDTH = 48"
definition ENA_RSS_IND_TBL_LOG_SIZE :: nat where [ena_const]: "ENA_RSS_IND_TBL_LOG_SIZE = 7"
definition ENA_RSS_IND_TBL_SIZE :: nat where [ena_const]: "ENA_RSS_IND_TBL_SIZE = 2 ^ ENA_RSS_IND_TBL_LOG_SIZE"
definition ENA_LINK_SPEED_MBPS :: nat where [ena_const]: "ENA_LINK_SPEED_MBPS = 10000"
definition ENA_KEEP_ALIVE_INTERVAL_MS :: u64 where [ena_const]: "ENA_KEEP_ALIVE_INTERVAL_MS = 1000"
definition ENA_ADMIN_OS_DPDK :: u32 where [ena_const]: "ENA_ADMIN_OS_DPDK = 3"
definition ENA_REG_BAR_SIZE :: nat where [ena_const]: "ENA_REG_BAR_SIZE = 0x4000"
definition ENA_REG_FILE_SIZE :: nat where [ena_const]: "ENA_REG_FILE_SIZE = 0x70"
definition ENA_REG_COUNT :: nat where [ena_const]: "ENA_REG_COUNT = ENA_REG_FILE_SIZE div 4"
definition ENA_REG_SQ_DB_BASE :: nat where [ena_const]: "ENA_REG_SQ_DB_BASE = 0x1000"
definition ENA_REG_CQ_UNMASK_BASE :: nat where [ena_const]: "ENA_REG_CQ_UNMASK_BASE = 0x2000"
definition ENA_LLQ_ENTRY_SIZE :: nat where [ena_const]: "ENA_LLQ_ENTRY_SIZE = 128"
definition ENA_LLQ_LARGE_ENTRY_SIZE :: nat where [ena_const]: "ENA_LLQ_LARGE_ENTRY_SIZE = 256"
definition ENA_LLQ_DESCS_BEFORE_HEADER :: nat where [ena_const]: "ENA_LLQ_DESCS_BEFORE_HEADER = 2"
definition ENA_LLQ_QUEUE_BYTES :: nat where [ena_const]: "ENA_LLQ_QUEUE_BYTES = ENA_MAX_QUEUE_DEPTH * ENA_LLQ_ENTRY_SIZE"
definition ENA_MEM_BAR_SIZE :: nat where [ena_const]: "ENA_MEM_BAR_SIZE = ENA_MAX_SQ * ENA_LLQ_QUEUE_BYTES"
definition ENA_VERSION_MAJOR :: u32 where [ena_const]: "ENA_VERSION_MAJOR = 2"
definition ENA_VERSION_MINOR :: u32 where [ena_const]: "ENA_VERSION_MINOR = 0"
definition ENA_CTRL_VERSION_MAJOR :: u32 where [ena_const]: "ENA_CTRL_VERSION_MAJOR = 0"
definition ENA_CTRL_VERSION_MINOR :: u32 where [ena_const]: "ENA_CTRL_VERSION_MINOR = 0"
definition ENA_CTRL_VERSION_SUBMINOR :: u32 where [ena_const]: "ENA_CTRL_VERSION_SUBMINOR = 1"
definition ENA_CTRL_VERSION_IMPL_ID :: u32 where [ena_const]: "ENA_CTRL_VERSION_IMPL_ID = 1"
definition ENA_CAPS_RESET_TIMEOUT :: u32 where [ena_const]: "ENA_CAPS_RESET_TIMEOUT = 10"
definition ENA_CAPS_ADMIN_CMD_TO :: u32 where [ena_const]: "ENA_CAPS_ADMIN_CMD_TO = 0"

end
