(* ===== verification/Ena_State.thy ===== *)
theory Ena_State
  imports Ena_Admin_Defs Ena_Eth_Io Ena_Regs_Defs
begin

text \<open>
  The device state of \<open>src/hw/ena.h\<close>, the calls the device makes into QEMU, and the part of QEMU
  the device relies on.

  QEMU itself is a submodule outside this repository. Every call into it is an \<open>effect\<close> that the
  model appends to the \<open>trace\<close> of the device state, and every answer of QEMU is a function of the
  calls made so far, taken from the parameter record \<open>qemu\<close>. Two reads of the same guest address
  may therefore return different bytes: the guest runs concurrently with the device.
\<close>

section \<open>Calls into QEMU\<close>

datatype timer = KeepAliveTimer | ModerTimer u32

datatype effect =
    DmaRead u64 nat
  | DmaWrite u64 "byte list"
  | LlqRead nat nat
  | MsixNotify u32
  | TimerDel timer
  | TimerMod timer u64
  | TimerModAnticipate timer u64
  | TimerFired timer
  | ClockGetUs
  | ClockGetMs
  | SendPacket "byte list"
  | FlushQueuedPackets
  | NetTxAddRawFragment "byte list"
  | NetTxParse
  | NetTxBuildVheader bool bool u16
  | NetTxUpdateIpChecksums
  | NetTxSend
  | NetTxReset

type_synonym trace = "effect list"

datatype EthL4HdrProto =
    ETH_L4_HDR_PROTO_INVALID | ETH_L4_HDR_PROTO_TCP | ETH_L4_HDR_PROTO_UDP | ETH_L4_HDR_PROTO_SCTP

datatype NetRxPktRssType =
    NetPktRssIpV4 | NetPktRssIpV4Tcp | NetPktRssIpV4Udp
  | NetPktRssIpV6 | NetPktRssIpV6Tcp | NetPktRssIpV6Udp

text \<open>
  The answers of QEMU. \<open>dma_byte tr a n i\<close> is byte \<open>i\<close> of the buffer after a read of \<open>n\<close> bytes at
  \<open>a\<close>; \<open>dma_ok\<close> says whether the read returned \<open>MEMTX_OK\<close>. \<open>incoming\<close> is what the network layer
  delivers to the device while a send or a flush is in progress: a backend may answer a frame
  before \<open>qemu_send_packet\<close> returns. A frame comes as an I/O vector, a list of byte lists.
\<close>

record qemu =
  dma_byte :: "trace \<Rightarrow> u64 \<Rightarrow> nat \<Rightarrow> nat \<Rightarrow> byte"
  dma_ok :: "trace \<Rightarrow> u64 \<Rightarrow> nat \<Rightarrow> bool"
  llq_byte :: "trace \<Rightarrow> nat \<Rightarrow> byte"
  clock_us :: "trace \<Rightarrow> u64"
  clock_ms :: "trace \<Rightarrow> u64"
  link_down :: "trace \<Rightarrow> bool"
  incoming :: "trace \<Rightarrow> byte list list list"
  is_power_of_2 :: "u64 \<Rightarrow> bool"
  iov_size :: "byte list list \<Rightarrow> nat"
  iov_to_buf :: "byte list list \<Rightarrow> nat \<Rightarrow> nat \<Rightarrow> byte list"
  net_rx_pkt_get_protocols :: "byte list \<Rightarrow> bool \<times> bool \<times> EthL4HdrProto"
  net_rx_pkt_ip4_fragment :: "byte list \<Rightarrow> bool"
  net_rx_pkt_validate_l3_csum :: "byte list \<Rightarrow> bool \<times> bool"
  net_rx_pkt_validate_l4_csum :: "byte list \<Rightarrow> bool \<times> bool"
  net_rx_pkt_calc_rss_hash :: "byte list \<Rightarrow> NetRxPktRssType \<Rightarrow> byte list \<Rightarrow> u32"
  eth_get_l2_hdr_length :: "byte list \<Rightarrow> nat"
  eth_get_l3_proto :: "byte list \<Rightarrow> nat \<Rightarrow> u16"
  ip_hdr_get_len :: "byte list \<Rightarrow> nat"
  ip_header_version :: "byte list \<Rightarrow> nat"
  net_raw_checksum :: "byte list \<Rightarrow> u16"
  net_tx_pkt_parse :: "trace \<Rightarrow> bool"
  net_tx_pkt_build_vheader :: "trace \<Rightarrow> bool"
  net_tx_pkt_send :: "trace \<Rightarrow> bool"
  net_tx_pkt_get_total_len :: "trace \<Rightarrow> u64"

text \<open>What the development relies on, as QEMU documents it; theorems name the part they use.\<close>

definition pow2_ok :: "qemu \<Rightarrow> bool" where
  "pow2_ok Q \<longleftrightarrow> (\<forall>v. is_power_of_2 Q v \<longleftrightarrow> (\<exists>k. unat v = 2 ^ k))"

definition iov_ok :: "qemu \<Rightarrow> bool" where
  "iov_ok Q \<longleftrightarrow> (\<forall>iov. iov_size Q iov = length (concat iov)) \<and>
     (\<forall>iov off n. iov_to_buf Q iov off n = take n (drop off (concat iov)))"

definition l2_ok :: "qemu \<Rightarrow> bool" where
  "l2_ok Q \<longleftrightarrow> (\<forall>buf. 14 \<le> eth_get_l2_hdr_length Q buf)"

section \<open>Ends of the device process\<close>

text \<open>
  \<open>ena_unsupported\<close> and a failed \<open>assert\<close> abort QEMU; an access outside an array or the LLQ memory
  would be undefined behaviour, and a loop that is not done after the steps that must suffice would
  be a hang. All are values of the model.
\<close>

datatype unsupported =
    U_dev_ctl_write | U_dev_ctl_reason | U_queue_caps | U_bar0_offset | U_intr_mask | U_register
  | U_sq_head_writeback | U_inline_ctrl_data | U_feature_select | U_inline_ind_table

datatype assertion =
    A_llq_mem | A_cq_push | A_aenq_len | A_host_os | A_pkt_entries | A_tx_entry_size | A_tx_doorbell
  | A_rx_entry_size | A_rx_doorbell | A_rx_all_delivered

datatype abort =
    Unsupported unsupported
  | AssertFailed assertion
  | OutOfBounds
  | Diverges

section \<open>Device state\<close>

record EnaCq =
  cq_used :: bool
  cq_base :: u64
  cq_depth :: u16
  cq_entry_size :: u8
  cq_intr_enabled :: bool
  cq_msix_vector :: u32
  cq_tail :: u16
  cq_phase :: bool

text \<open>The moderation timer of a vector is named by the vector; the back pointer \<open>s\<close> has no model.\<close>

record EnaIrq =
  irq_unmasked :: bool
  irq_rx_pending :: bool
  irq_tx_pending :: bool
  irq_rx_delay_us :: u32
  irq_tx_delay_us :: u32
  irq_vector :: u32

record EnaTxMeta =
  meta_mss :: u16
  meta_l3_hdr_len :: u8
  meta_l3_hdr_off :: u8
  meta_l4_hdr_len_words :: u8

record EnaSq =
  sq_used :: bool
  sq_is_tx :: bool
  sq_llq :: bool
  sq_cq_idx :: u16
  sq_base :: u64
  sq_depth :: u16
  sq_entry_size :: u16
  sq_head :: u16
  sq_tail :: u16
  sq_meta :: EnaTxMeta

record EnaRss =
  rss_key :: "u32 list"
  rss_key_parts :: u32
  rss_init_val :: u32
  rss_fields :: "u16 list"
  rss_ind_tbl :: "u16 list"

text \<open>
  \<open>macaddr\<close> is \<open>conf.macaddr.a\<close>, \<open>rx_pkt\<close> the frame attached to \<open>s->rx_pkt\<close>. The packet under
  construction in \<open>s->tx_pkt\<close> is the run of \<open>NetTx\<close> calls in the trace.
\<close>

record EnaState =
  macaddr :: "byte list"
  reg :: "u32 list"
  aq_head :: u16
  acq_tail :: u16
  acq_phase :: bool
  aenq_tail :: u16
  aenq_phase :: bool
  aenq_groups :: u32
  mtu :: u32
  host_info_addr :: u64
  debug_area_addr :: u64
  debug_area_size :: u32
  llq_enabled :: bool
  llq_entry_size :: u16
  llq_large :: bool
  rss :: EnaRss
  sq :: "EnaSq list"
  cq :: "EnaCq list"
  irq :: "EnaIrq list"
  rx_pkt :: "byte list"
  tx_pkts :: u64
  tx_bytes :: u64
  rx_pkts :: u64
  rx_bytes :: u64
  rx_drops :: u64
  tx_drops :: u64
  trace :: trace

type_synonym 'a result = "abort + 'a"

text \<open>Memory cleared by \<open>memset\<close> or by the allocation of the object.\<close>

definition zero_meta :: EnaTxMeta where
  "zero_meta = \<lparr>meta_mss = 0, meta_l3_hdr_len = 0, meta_l3_hdr_off = 0, meta_l4_hdr_len_words = 0\<rparr>"

definition zero_sq :: EnaSq where
  "zero_sq = \<lparr>sq_used = False, sq_is_tx = False, sq_llq = False, sq_cq_idx = 0, sq_base = 0,
     sq_depth = 0, sq_entry_size = 0, sq_head = 0, sq_tail = 0, sq_meta = zero_meta\<rparr>"

definition zero_cq :: EnaCq where
  "zero_cq = \<lparr>cq_used = False, cq_base = 0, cq_depth = 0, cq_entry_size = 0,
     cq_intr_enabled = False, cq_msix_vector = 0, cq_tail = 0, cq_phase = False\<rparr>"

section \<open>Calls\<close>

definition emit :: "effect \<Rightarrow> EnaState \<Rightarrow> EnaState" where
  "emit e s = s\<lparr>trace := trace s @ [e]\<rparr>"

definition ena_dma_read :: "qemu \<Rightarrow> EnaState \<Rightarrow> u64 \<Rightarrow> nat \<Rightarrow> byte list \<times> bool \<times> EnaState" where
  "ena_dma_read Q s addr len =
     (map (dma_byte Q (trace s) addr len) [0..<len], dma_ok Q (trace s) addr len,
      emit (DmaRead addr len) s)"

definition ena_dma_write :: "EnaState \<Rightarrow> u64 \<Rightarrow> byte list \<Rightarrow> EnaState" where
  "ena_dma_write s addr buf = emit (DmaWrite addr buf) s"

definition qemu_clock_get_us :: "qemu \<Rightarrow> EnaState \<Rightarrow> u64 \<times> EnaState" where
  "qemu_clock_get_us Q s = (clock_us Q (trace s), emit ClockGetUs s)"

definition qemu_clock_get_ms :: "qemu \<Rightarrow> EnaState \<Rightarrow> u64 \<times> EnaState" where
  "qemu_clock_get_ms Q s = (clock_ms Q (trace s), emit ClockGetMs s)"

section \<open>Register file\<close>

definition REG :: "EnaState \<Rightarrow> nat \<Rightarrow> u32" where
  "REG s off = reg s ! (off div 4)"

definition set_REG :: "EnaState \<Rightarrow> nat \<Rightarrow> u32 \<Rightarrow> EnaState" where
  "set_REG s off v = s\<lparr>reg := (reg s)[off div 4 := v]\<rparr>"

definition reg64 :: "EnaState \<Rightarrow> nat \<Rightarrow> nat \<Rightarrow> u64" where
  "reg64 s hi lo = push_bit 32 (ucast (REG s hi)) OR ucast (REG s lo)"

section \<open>Instances\<close>

text \<open>
  The state \<open>ena_realize\<close> leaves: the object's memory is zero but for the properties \<open>mac\<close> and
  \<open>llq-large-header\<close>, every vector gets its number and the timers exist without being armed. The
  registration of the BARs, of MSI-X and of the network client is not part of the state.
\<close>

definition ena_realize :: "byte list \<Rightarrow> bool \<Rightarrow> EnaState" where
  "ena_realize mac large = \<lparr>
     macaddr = mac, reg = replicate ENA_REG_COUNT 0, aq_head = 0, acq_tail = 0, acq_phase = False,
     aenq_tail = 0, aenq_phase = False, aenq_groups = 0, mtu = 0, host_info_addr = 0,
     debug_area_addr = 0, debug_area_size = 0, llq_enabled = False, llq_entry_size = 0,
     llq_large = large,
     rss = \<lparr>rss_key = replicate ENA_ADMIN_RSS_KEY_PARTS 0, rss_key_parts = 0, rss_init_val = 0,
            rss_fields = replicate ENA_ADMIN_RSS_PROTO_NUM 0, rss_ind_tbl = replicate ENA_RSS_IND_TBL_SIZE 0\<rparr>,
     sq = replicate ENA_MAX_SQ zero_sq, cq = replicate ENA_MAX_CQ zero_cq,
     irq = map (\<lambda>i. \<lparr>irq_unmasked = False, irq_rx_pending = False, irq_tx_pending = False,
                     irq_rx_delay_us = 0, irq_tx_delay_us = 0, irq_vector = of_nat i\<rparr>) [0..<ENA_MSIX_VECTORS],
     rx_pkt = [], tx_pkts = 0, tx_bytes = 0, rx_pkts = 0, rx_bytes = 0, rx_drops = 0, tx_drops = 0,
     trace = []\<rparr>"

text \<open>
  A concrete environment, on which the theorems are exercised: guest memory and the LLQ memory read
  as given, every access succeeds, the clock stands still, nothing arrives while sending, and no
  frame is recognised as IP.
\<close>

definition quiet_qemu :: "(u64 \<Rightarrow> byte) \<Rightarrow> (nat \<Rightarrow> byte) \<Rightarrow> qemu" where
  "quiet_qemu mem llq = \<lparr>
     dma_byte = (\<lambda>tr a n i. mem (a + of_nat i)), dma_ok = (\<lambda>tr a n. True), llq_byte = (\<lambda>tr. llq),
     clock_us = (\<lambda>tr. 0), clock_ms = (\<lambda>tr. 0), link_down = (\<lambda>tr. False), incoming = (\<lambda>tr. []),
     is_power_of_2 = (\<lambda>v. list_ex (\<lambda>k. v = 2 ^ k) [0..<64]),
     iov_size = (\<lambda>iov. length (concat iov)), iov_to_buf = (\<lambda>iov off n. take n (drop off (concat iov))),
     net_rx_pkt_get_protocols = (\<lambda>f. (False, False, ETH_L4_HDR_PROTO_INVALID)),
     net_rx_pkt_ip4_fragment = (\<lambda>f. False),
     net_rx_pkt_validate_l3_csum = (\<lambda>f. (False, False)),
     net_rx_pkt_validate_l4_csum = (\<lambda>f. (False, False)),
     net_rx_pkt_calc_rss_hash = (\<lambda>f t k. 0),
     eth_get_l2_hdr_length = (\<lambda>f. 14), eth_get_l3_proto = (\<lambda>f n. 0), ip_hdr_get_len = (\<lambda>f. 20),
     ip_header_version = (\<lambda>f. 4), net_raw_checksum = (\<lambda>f. 0),
     net_tx_pkt_parse = (\<lambda>tr. True), net_tx_pkt_build_vheader = (\<lambda>tr. True),
     net_tx_pkt_send = (\<lambda>tr. True), net_tx_pkt_get_total_len = (\<lambda>tr. 0)\<rparr>"

lemma quiet_pow2_ok: "pow2_ok (quiet_qemu mem llq)"
proof -
  have "list_ex (\<lambda>k. v = 2 ^ k) [0..<64] \<longleftrightarrow> (\<exists>k. unat v = 2 ^ k)" for v :: u64
  proof
    assume "list_ex (\<lambda>k. v = 2 ^ k) [0..<64]"
    then obtain k where "k < 64" "v = 2 ^ k" by (auto simp: list_ex_iff)
    then have "unat v = 2 ^ k" using unat_pow2 [of k, where 'a = 64] by simp
    then show "\<exists>k. unat v = 2 ^ k" ..
  next
    assume "\<exists>k. unat v = 2 ^ k"
    then obtain k where k: "unat v = 2 ^ k" ..
    have "unat v < 2 ^ LENGTH(64)" by (rule unsigned_less)
    with k have "(2 :: nat) ^ k < 2 ^ 64" by simp
    then have "k < 64" by (rule power_less_imp_less_exp [rotated]) simp
    moreover from k this have "v = 2 ^ k" by (simp add: word_unat_eq_iff unat_pow2)
    ultimately show "list_ex (\<lambda>k. v = 2 ^ k) [0..<64]" by (auto simp: list_ex_iff)
  qed
  then show ?thesis by (simp add: pow2_ok_def quiet_qemu_def)
qed

lemma quiet_iov_ok: "iov_ok (quiet_qemu mem llq)"
  by (simp add: iov_ok_def quiet_qemu_def)

lemma quiet_l2_ok: "l2_ok (quiet_qemu mem llq)"
  by (simp add: l2_ok_def quiet_qemu_def)

end
