(* ===== verification/Ena_Frame.thy ===== *)
theory Ena_Frame
  imports Ena_State
begin

text \<open>
  Frame reasoning. \<open>cfg s\<close> is the device state without what the datapath changes: ring positions,
  the TX metadata cache, the interrupt state, the statistics, the attached frame and the trace.
  An operation that keeps \<open>cfg\<close> changes nothing a command has configured, and as \<open>cfg\<close> is a
  function, keeping it composes by equality.
\<close>

definition cfg_cq :: "EnaCq \<Rightarrow> EnaCq" where
  "cfg_cq q = q\<lparr>cq_tail := 0, cq_phase := False\<rparr>"

definition cfg_sq :: "EnaSq \<Rightarrow> EnaSq" where
  "cfg_sq q = q\<lparr>sq_head := 0, sq_meta := zero_meta\<rparr>"

definition cfg_irq :: "EnaIrq \<Rightarrow> EnaIrq" where
  "cfg_irq i = i\<lparr>irq_unmasked := False, irq_rx_pending := False, irq_tx_pending := False\<rparr>"

definition cfg :: "EnaState \<Rightarrow> EnaState" where
  "cfg s = s\<lparr>sq := map cfg_sq (sq s), cq := map cfg_cq (cq s), irq := map cfg_irq (irq s),
     rx_pkt := [], tx_pkts := 0, tx_bytes := 0, rx_pkts := 0, rx_bytes := 0,
     rx_drops := 0, tx_drops := 0, trace := []\<rparr>"

lemma cfg_cq_simps [simp]:
  "cq_used (cfg_cq q) = cq_used q" "cq_base (cfg_cq q) = cq_base q"
  "cq_depth (cfg_cq q) = cq_depth q" "cq_entry_size (cfg_cq q) = cq_entry_size q"
  "cq_intr_enabled (cfg_cq q) = cq_intr_enabled q" "cq_msix_vector (cfg_cq q) = cq_msix_vector q"
  by (simp_all add: cfg_cq_def)

lemma cfg_sq_simps [simp]:
  "sq_used (cfg_sq q) = sq_used q" "sq_is_tx (cfg_sq q) = sq_is_tx q" "sq_llq (cfg_sq q) = sq_llq q"
  "sq_cq_idx (cfg_sq q) = sq_cq_idx q" "sq_base (cfg_sq q) = sq_base q"
  "sq_depth (cfg_sq q) = sq_depth q" "sq_entry_size (cfg_sq q) = sq_entry_size q"
  "sq_tail (cfg_sq q) = sq_tail q"
  by (simp_all add: cfg_sq_def)

lemma cfg_irq_simps [simp]:
  "irq_rx_delay_us (cfg_irq i) = irq_rx_delay_us i" "irq_tx_delay_us (cfg_irq i) = irq_tx_delay_us i"
  "irq_vector (cfg_irq i) = irq_vector i"
  by (simp_all add: cfg_irq_def)

lemma cfg_cq_update [simp]: "cfg_cq (q\<lparr>cq_tail := t\<rparr>) = cfg_cq q" "cfg_cq (q\<lparr>cq_phase := p\<rparr>) = cfg_cq q"
  by (simp_all add: cfg_cq_def)

lemma cfg_sq_update [simp]: "cfg_sq (q\<lparr>sq_head := h\<rparr>) = cfg_sq q" "cfg_sq (q\<lparr>sq_meta := m\<rparr>) = cfg_sq q"
  by (simp_all add: cfg_sq_def)

lemma cfg_irq_update [simp]:
  "cfg_irq (i\<lparr>irq_unmasked := b\<rparr>) = cfg_irq i" "cfg_irq (i\<lparr>irq_rx_pending := b\<rparr>) = cfg_irq i"
  "cfg_irq (i\<lparr>irq_tx_pending := b\<rparr>) = cfg_irq i"
  by (simp_all add: cfg_irq_def)

text \<open>The updates the datapath makes.\<close>

lemma cfg_update [simp]:
  "cfg (s\<lparr>trace := t\<rparr>) = cfg s" "cfg (s\<lparr>rx_pkt := f\<rparr>) = cfg s"
  "cfg (s\<lparr>tx_pkts := n\<rparr>) = cfg s" "cfg (s\<lparr>tx_bytes := n\<rparr>) = cfg s" "cfg (s\<lparr>rx_pkts := n\<rparr>) = cfg s"
  "cfg (s\<lparr>rx_bytes := n\<rparr>) = cfg s" "cfg (s\<lparr>rx_drops := n\<rparr>) = cfg s" "cfg (s\<lparr>tx_drops := n\<rparr>) = cfg s"
  by (simp_all add: cfg_def)

lemma cfg_set_cq [simp]: "map cfg_cq qs = map cfg_cq (cq s) \<Longrightarrow> cfg (s\<lparr>cq := qs\<rparr>) = cfg s"
  by (simp add: cfg_def)

lemma cfg_set_sq [simp]: "map cfg_sq qs = map cfg_sq (sq s) \<Longrightarrow> cfg (s\<lparr>sq := qs\<rparr>) = cfg s"
  by (simp add: cfg_def)

lemma cfg_set_irq [simp]: "map cfg_irq qs = map cfg_irq (irq s) \<Longrightarrow> cfg (s\<lparr>irq := qs\<rparr>) = cfg s"
  by (simp add: cfg_def)

declare map_update_same [simp]

lemma emit_simps [simp]:
  "cfg (emit e s) = cfg s" "trace (emit e s) = trace s @ [e]"
  "sq (emit e s) = sq s" "cq (emit e s) = cq s" "irq (emit e s) = irq s" "reg (emit e s) = reg s"
  "rss (emit e s) = rss s" "mtu (emit e s) = mtu s" "macaddr (emit e s) = macaddr s"
  "aq_head (emit e s) = aq_head s" "acq_tail (emit e s) = acq_tail s" "acq_phase (emit e s) = acq_phase s"
  "aenq_tail (emit e s) = aenq_tail s" "aenq_phase (emit e s) = aenq_phase s"
  "aenq_groups (emit e s) = aenq_groups s" "llq_enabled (emit e s) = llq_enabled s"
  "llq_entry_size (emit e s) = llq_entry_size s" "llq_large (emit e s) = llq_large s"
  "rx_pkt (emit e s) = rx_pkt s" "tx_pkts (emit e s) = tx_pkts s" "tx_bytes (emit e s) = tx_bytes s"
  "rx_pkts (emit e s) = rx_pkts s" "rx_bytes (emit e s) = rx_bytes s" "rx_drops (emit e s) = rx_drops s"
  "tx_drops (emit e s) = tx_drops s" "host_info_addr (emit e s) = host_info_addr s"
  "debug_area_addr (emit e s) = debug_area_addr s" "debug_area_size (emit e s) = debug_area_size s"
  by (simp_all add: emit_def)

text \<open>What two states with the same configuration agree on.\<close>

lemma cfg_sel:
  "macaddr (cfg s) = macaddr s" "reg (cfg s) = reg s" "aq_head (cfg s) = aq_head s"
  "acq_tail (cfg s) = acq_tail s" "acq_phase (cfg s) = acq_phase s"
  "aenq_tail (cfg s) = aenq_tail s" "aenq_phase (cfg s) = aenq_phase s"
  "aenq_groups (cfg s) = aenq_groups s" "mtu (cfg s) = mtu s"
  "host_info_addr (cfg s) = host_info_addr s" "debug_area_addr (cfg s) = debug_area_addr s"
  "debug_area_size (cfg s) = debug_area_size s" "llq_enabled (cfg s) = llq_enabled s"
  "llq_entry_size (cfg s) = llq_entry_size s" "llq_large (cfg s) = llq_large s"
  "rss (cfg s) = rss s" "sq (cfg s) = map cfg_sq (sq s)" "cq (cfg s) = map cfg_cq (cq s)"
  "irq (cfg s) = map cfg_irq (irq s)"
  by (simp_all add: cfg_def)

lemma cfgD:
  assumes "cfg s' = cfg s"
  shows
    "macaddr s' = macaddr s" "reg s' = reg s" "aq_head s' = aq_head s" "acq_tail s' = acq_tail s"
    "acq_phase s' = acq_phase s" "aenq_tail s' = aenq_tail s" "aenq_phase s' = aenq_phase s"
    "aenq_groups s' = aenq_groups s" "mtu s' = mtu s" "host_info_addr s' = host_info_addr s"
    "debug_area_addr s' = debug_area_addr s" "debug_area_size s' = debug_area_size s"
    "llq_enabled s' = llq_enabled s" "llq_entry_size s' = llq_entry_size s"
    "llq_large s' = llq_large s" "rss s' = rss s" "map cfg_sq (sq s') = map cfg_sq (sq s)"
    "map cfg_cq (cq s') = map cfg_cq (cq s)" "map cfg_irq (irq s') = map cfg_irq (irq s)"
  by (metis assms cfg_sel)+

lemma cfg_length:
  assumes "cfg s' = cfg s"
  shows "length (sq s') = length (sq s)" "length (cq s') = length (cq s)" "length (irq s') = length (irq s)"
  using cfgD(17-19) [OF assms] by (metis length_map)+

lemma cfg_sq_nth: "cfg s' = cfg s \<Longrightarrow> i < length (sq s) \<Longrightarrow> cfg_sq (sq s' ! i) = cfg_sq (sq s ! i)"
  by (metis cfgD(17) length_map nth_map)

lemma cfg_cq_nth: "cfg s' = cfg s \<Longrightarrow> c < length (cq s) \<Longrightarrow> cfg_cq (cq s' ! c) = cfg_cq (cq s ! c)"
  by (metis cfgD(18) length_map nth_map)

lemma cfg_irq_nth: "cfg s' = cfg s \<Longrightarrow> v < length (irq s) \<Longrightarrow> cfg_irq (irq s' ! v) = cfg_irq (irq s ! v)"
  by (metis cfgD(19) length_map nth_map)

lemma cfg_sqD:
  assumes "cfg_sq q' = cfg_sq q"
  shows "sq_used q' = sq_used q" "sq_is_tx q' = sq_is_tx q" "sq_llq q' = sq_llq q"
    "sq_cq_idx q' = sq_cq_idx q" "sq_base q' = sq_base q" "sq_depth q' = sq_depth q"
    "sq_entry_size q' = sq_entry_size q" "sq_tail q' = sq_tail q"
  by (metis assms cfg_sq_simps)+

lemma cfg_cqD:
  assumes "cfg_cq q' = cfg_cq q"
  shows "cq_used q' = cq_used q" "cq_base q' = cq_base q" "cq_depth q' = cq_depth q"
    "cq_entry_size q' = cq_entry_size q" "cq_intr_enabled q' = cq_intr_enabled q"
    "cq_msix_vector q' = cq_msix_vector q"
  by (metis assms cfg_cq_simps)+

lemma cfg_irqD:
  assumes "cfg_irq i' = cfg_irq i"
  shows "irq_rx_delay_us i' = irq_rx_delay_us i" "irq_tx_delay_us i' = irq_tx_delay_us i"
    "irq_vector i' = irq_vector i"
  by (metis assms cfg_irq_simps)+

end
