(* ===== verification/Ena_Cq.thy ===== *)
theory Ena_Cq
  imports Ena_Frame
begin

text \<open>
  IO completion queues (\<open>ena_cq_push\<close> of \<open>src/hw/ena.c\<close>): the ring of completion entries in guest
  memory, published with a phase bit. The queue record is a \<open>phase_ring\<close>, and a run of pushes
  leaves in every slot exactly the entry a driver expects there.
\<close>

section \<open>Operations\<close>

definition ena_cq_slot_addr :: "EnaCq \<Rightarrow> u64" where
  "ena_cq_slot_addr q =
     cq_base q + ucast (cq_tail q AND (cq_depth q - 1)) * ucast (cq_entry_size q)"

definition ena_cq_advance :: "EnaCq \<Rightarrow> EnaCq" where
  "ena_cq_advance q =
     (let t = cq_tail q + 1
      in q\<lparr>cq_tail := t,
           cq_phase := (if t AND (cq_depth q - 1) = 0 then \<not> cq_phase q else cq_phase q)\<rparr>)"

definition ena_cq_push :: "EnaState \<Rightarrow> nat \<Rightarrow> byte list \<Rightarrow> EnaState result" where
  "ena_cq_push s c cdesc =
     (let q = cq s ! c; addr = ena_cq_slot_addr q
      in if \<not> cq_used q then Inl (AssertFailed A_cq_push)
         else let s = ena_dma_write s addr (take (unat (cq_entry_size q)) cdesc)
              in Inr (s\<lparr>cq := (cq s)[c := ena_cq_advance q]\<rparr>))"

text \<open>Consecutive pushes, as the receive path makes them for a frame of several buffers.\<close>

fun cq_push_all :: "EnaState \<Rightarrow> nat \<Rightarrow> byte list list \<Rightarrow> EnaState result" where
  "cq_push_all s c [] = Inr s"
| "cq_push_all s c (d # ds) = bindR (ena_cq_push s c d) (\<lambda>s. cq_push_all s c ds)"

section \<open>The ring contract\<close>

definition is_ring_depth :: "u16 \<Rightarrow> bool" where
  "is_ring_depth d \<longleftrightarrow> list_ex (\<lambda>k. d = 2 ^ k) [0..<16]"

lemma is_ring_depthE:
  assumes "is_ring_depth d"
  obtains k where "k \<le> 15" and "d = 2 ^ k" and "unat d = 2 ^ k"
proof -
  obtain k where k: "k < 16" "d = 2 ^ k"
    using assms by (auto simp: is_ring_depth_def list_ex_iff)
  then have "unat d = 2 ^ k" by (simp add: unat_pow2)
  with k that [of k] show thesis by simp
qed

lemma is_ring_depth_numeral [simp]: "is_ring_depth 8" "is_ring_depth 16"
  by (simp_all add: is_ring_depth_def upt_rec)

lemma and_depth_mask: "is_ring_depth d \<Longrightarrow> unat (t AND (d - 1)) = unat t mod unat d"
  by (elim is_ring_depthE) (simp add: unat_and_pow2_mask)

definition cq_ring_ok :: "EnaCq \<Rightarrow> bool" where
  "cq_ring_ok q \<longleftrightarrow> is_ring_depth (cq_depth q)"

definition cq_slot :: "EnaCq \<Rightarrow> nat" where
  "cq_slot q = unat (cq_tail q AND (cq_depth q - 1))"

interpretation cqr: phase_ring cq_tail cq_phase "\<lambda>q. unat (cq_depth q)" cq_slot ena_cq_advance cq_ring_ok
proof unfold_locales
  fix q :: EnaCq
  assume "cq_ring_ok q"
  then have d: "is_ring_depth (cq_depth q)" by (simp add: cq_ring_ok_def)
  then show "\<exists>k \<le> 15. unat (cq_depth q) = 2 ^ k" by (elim is_ring_depthE) auto
  show "cq_slot q = unat (cq_tail q) mod unat (cq_depth q)"
    by (simp add: cq_slot_def and_depth_mask d)
  show "cq_phase (ena_cq_advance q) =
      (if unat (cq_tail q + 1) mod unat (cq_depth q) = 0 then \<not> cq_phase q else cq_phase q)"
    using and_depth_mask [OF d, of "cq_tail q + 1"]
    by (simp add: ena_cq_advance_def Let_def unat_eq_0 flip: unat_eq_zero)
qed (simp_all add: ena_cq_advance_def Let_def cq_ring_ok_def)

lemma cfg_cq_advance [simp]: "cfg_cq (ena_cq_advance q) = cfg_cq q"
  by (simp add: ena_cq_advance_def Let_def cfg_cq_def)

lemma cq_advance_simps [simp]:
  "cq_used (ena_cq_advance q) = cq_used q" "cq_base (ena_cq_advance q) = cq_base q"
  "cq_depth (ena_cq_advance q) = cq_depth q" "cq_entry_size (ena_cq_advance q) = cq_entry_size q"
  "cq_intr_enabled (ena_cq_advance q) = cq_intr_enabled q"
  "cq_msix_vector (ena_cq_advance q) = cq_msix_vector q"
  by (simp_all add: ena_cq_advance_def Let_def)

lemma ena_cq_push_cfg: "ena_cq_push s c d = Inr s' \<Longrightarrow> cfg s' = cfg s"
  by (auto simp: ena_cq_push_def Let_def ena_dma_write_def split: if_splits)

lemma ena_cq_push_ok: "cq_used (cq s ! c) \<Longrightarrow> \<exists>s'. ena_cq_push s c d = Inr s'"
  by (simp add: ena_cq_push_def Let_def)

lemma ena_cq_push_frame:
  "ena_cq_push s c d = Inr s' \<Longrightarrow> sq s' = sq s \<and> irq s' = irq s \<and> rx_pkt s' = rx_pkt s \<and>
     tx_pkts s' = tx_pkts s \<and> tx_bytes s' = tx_bytes s \<and> tx_drops s' = tx_drops s \<and>
     rx_pkts s' = rx_pkts s \<and> rx_bytes s' = rx_bytes s \<and> rx_drops s' = rx_drops s"
  by (auto simp: ena_cq_push_def Let_def ena_dma_write_def split: if_splits)

section \<open>What the driver finds in the ring\<close>

text \<open>The abstract ring: \<open>n\<close> entries pushed since the queue was created.\<close>

definition cq_counts :: "nat \<Rightarrow> EnaCq \<Rightarrow> bool" where
  "cq_counts n q \<longleftrightarrow> is_ring_depth (cq_depth q) \<and> cq_tail q = of_nat n \<and>
     cq_phase q = even (n div unat (cq_depth q))"

lemma cq_counts_eq: "cq_counts n q = cqr.counts n q"
  by (simp add: cq_counts_def cqr.counts_def cq_ring_ok_def)

definition cq_entry_addr :: "EnaCq \<Rightarrow> nat \<Rightarrow> u64" where
  "cq_entry_addr q n = cq_base q + of_nat (n mod unat (cq_depth q) * unat (cq_entry_size q))"

lemma cq_entry_addr_advance [simp]: "cq_entry_addr (ena_cq_advance q) n = cq_entry_addr q n"
  by (simp add: cq_entry_addr_def)

lemma slot_addr_counts:
  assumes "cq_counts n q"
  shows "ena_cq_slot_addr q = cq_entry_addr q n"
proof -
  have "unat (cq_tail q AND (cq_depth q - 1)) = n mod unat (cq_depth q)"
    using cqr.counts_slot [of n q] assms by (simp add: cq_counts_eq cq_slot_def)
  moreover have "ena_cq_slot_addr q =
      cq_base q + of_nat (unat (cq_tail q AND (cq_depth q - 1)) * unat (cq_entry_size q))"
    by (simp add: ena_cq_slot_addr_def)
  ultimately show ?thesis by (simp add: cq_entry_addr_def)
qed

lemma ena_cq_push_spec:
  assumes "cq_counts n (cq s ! c)" and "c < length (cq s)" and "cq_used (cq s ! c)"
  obtains s' where "ena_cq_push s c d = Inr s'"
    and "trace s' = trace s @ [DmaWrite (cq_entry_addr (cq s ! c) n) (take (unat (cq_entry_size (cq s ! c))) d)]"
    and "cq s' = (cq s)[c := ena_cq_advance (cq s ! c)]"
    and "cq_counts (Suc n) (cq s' ! c)"
proof -
  have "cq_counts (Suc n) (ena_cq_advance (cq s ! c))"
    using assms(1) by (simp add: cq_counts_eq cqr.counts_push)
  then show thesis
    using that assms
    by (simp add: ena_cq_push_def Let_def ena_dma_write_def slot_addr_counts)
qed

lemma cq_push_all_spec:
  assumes "cq_counts n (cq s ! c)" and "c < length (cq s)" and "cq_used (cq s ! c)"
  shows "\<exists>s'. cq_push_all s c ds = Inr s' \<and>
    trace s' = trace s @ map (\<lambda>j. DmaWrite (cq_entry_addr (cq s ! c) (n + j))
      (take (unat (cq_entry_size (cq s ! c))) (ds ! j))) [0..<length ds] \<and>
    cq s' = (cq s)[c := (ena_cq_advance ^^ length ds) (cq s ! c)]"
  using assms
proof (induction ds arbitrary: s n)
  case Nil
  then show ?case by simp
next
  case (Cons d ds)
  obtain s1 where s1: "ena_cq_push s c d = Inr s1"
    "trace s1 = trace s @ [DmaWrite (cq_entry_addr (cq s ! c) n) (take (unat (cq_entry_size (cq s ! c))) d)]"
    "cq s1 = (cq s)[c := ena_cq_advance (cq s ! c)]" "cq_counts (Suc n) (cq s1 ! c)"
    using ena_cq_push_spec [OF Cons.prems, of d] by blast
  have "c < length (cq s1)" "cq_used (cq s1 ! c)"
    using s1(3) Cons.prems by simp_all
  from Cons.IH [OF s1(4) this] obtain s' where s': "cq_push_all s1 c ds = Inr s'"
    "trace s' = trace s1 @ map (\<lambda>j. DmaWrite (cq_entry_addr (cq s1 ! c) (Suc n + j))
      (take (unat (cq_entry_size (cq s1 ! c))) (ds ! j))) [0..<length ds]"
    "cq s' = (cq s1)[c := (ena_cq_advance ^^ length ds) (cq s1 ! c)]"
    by blast
  have q1: "cq s1 ! c = ena_cq_advance (cq s ! c)"
    using s1(3) Cons.prems(2) by simp
  have "[0..<length (d # ds)] = 0 # map Suc [0..<length ds]"
    by (simp add: upt_conv_Cons map_Suc_upt del: upt_Suc)
  then show ?case
    using s1(1,2) s' q1 by (simp add: s1(3) o_def funpow_swap1 del: upt_Suc)
qed

text \<open>The last bytes the device wrote at an address.\<close>

definition last_write :: "trace \<Rightarrow> u64 \<Rightarrow> byte list option" where
  "last_write tr a = fold (\<lambda>e r. case e of DmaWrite b bs \<Rightarrow> if b = a then Some bs else r | _ \<Rightarrow> r) tr None"

lemma last_write_snoc:
  "last_write (tr @ [e]) a = (case e of DmaWrite b bs \<Rightarrow> if b = a then Some bs else last_write tr a
     | _ \<Rightarrow> last_write tr a)"
  by (cases e) (simp_all add: last_write_def)

lemma last_write_other:
  "(\<And>bs. DmaWrite a bs \<notin> set tr') \<Longrightarrow> last_write (tr @ tr') a = last_write tr a"
proof (induction tr' rule: rev_induct)
  case (snoc e tr')
  then have "last_write (tr @ tr') a = last_write tr a" by auto
  with snoc.prems show ?case
    by (cases e) (auto simp: last_write_snoc simp flip: append_assoc)
qed simp

lemma cq_entry_addr_inj:
  assumes "is_ring_depth (cq_depth q)" and "0 < unat (cq_entry_size q)"
    and "m mod unat (cq_depth q) \<noteq> m' mod unat (cq_depth q)"
  shows "cq_entry_addr q m \<noteq> cq_entry_addr q m'"
proof
  let ?d = "unat (cq_depth q)" and ?e = "unat (cq_entry_size q)"
  have d: "0 < ?d" using assms(1) by (elim is_ring_depthE) simp
  have small: "x mod ?d * ?e < 2 ^ 64" for x
  proof -
    have "x mod ?d < ?d" using d by simp
    moreover have "?d < 2 ^ 16" using unsigned_less [of "cq_depth q"] by simp
    moreover have "?e < 2 ^ 8" using unsigned_less [of "cq_entry_size q"] by simp
    ultimately have "x mod ?d * ?e < 2 ^ 16 * 2 ^ 8"
      by (intro mult_strict_mono') auto
    also have "\<dots> < (2 :: nat) ^ 64" by simp
    finally show ?thesis .
  qed
  assume "cq_entry_addr q m = cq_entry_addr q m'"
  then have "(of_nat (m mod ?d * ?e) :: u64) = of_nat (m' mod ?d * ?e)"
    by (simp add: cq_entry_addr_def)
  with small [of m] small [of m'] have "m mod ?d * ?e = m' mod ?d * ?e"
    by (intro of_nat_inj_small [where 'a = 64]) simp_all
  with assms(2,3) show False by simp
qed

text \<open>
  C10. Completion ring contract. Starting from a ring that has published \<open>n\<close> entries, pushing the
  entries \<open>ds\<close> never fails, and entry \<open>n + m\<close> is what the ring memory holds at slot
  \<open>(n + m) mod depth\<close> as long as at most one lap has been written over it; the queue then counts
  \<open>n + length ds\<close> entries, so the phase the driver expects for the next one is the queue's phase.
\<close>

theorem cq_ring_delivers:
  assumes "cq_counts n (cq s ! c)" and "c < length (cq s)" and "cq_used (cq s ! c)"
    and "0 < unat (cq_entry_size (cq s ! c))"
    and "m < length ds" and "length ds \<le> m + unat (cq_depth (cq s ! c))"
  shows "\<exists>s'. cq_push_all s c ds = Inr s' \<and> cq_counts (n + length ds) (cq s' ! c) \<and>
    last_write (trace s') (cq_entry_addr (cq s ! c) (n + m)) =
      Some (take (unat (cq_entry_size (cq s ! c))) (ds ! m))"
proof -
  let ?q = "cq s ! c"
  let ?w = "\<lambda>j. DmaWrite (cq_entry_addr ?q (n + j)) (take (unat (cq_entry_size ?q)) (ds ! j))"
  obtain s' where s': "cq_push_all s c ds = Inr s'" "trace s' = trace s @ map ?w [0..<length ds]"
    "cq s' = (cq s)[c := (ena_cq_advance ^^ length ds) ?q]"
    using cq_push_all_spec [OF assms(1-3), of ds] by blast
  have split: "[0..<length ds] = [0..<m] @ m # [Suc m..<length ds]"
    using upt_add_eq_append [of 0 m "length ds - m"] assms(5) by (simp add: upt_conv_Cons)
  have other: "DmaWrite (cq_entry_addr ?q (n + m)) bs \<notin> set (map ?w [Suc m..<length ds])" for bs
  proof
    assume "DmaWrite (cq_entry_addr ?q (n + m)) bs \<in> set (map ?w [Suc m..<length ds])"
    then obtain j where j: "m < j" "j < length ds" "cq_entry_addr ?q (n + m) = cq_entry_addr ?q (n + j)"
      by (fastforce simp: Suc_le_eq)
    then have "(n + j) mod unat (cq_depth ?q) \<noteq> (n + m) mod unat (cq_depth ?q)"
      using assms(6) by (intro ring_slot_unique) auto
    then show False
      using cq_entry_addr_inj [of ?q "n + m" "n + j"] assms(1,4) j(3)
      by (auto simp: cq_counts_def)
  qed
  have "last_write (trace s') (cq_entry_addr ?q (n + m)) =
      last_write ((trace s @ map ?w [0..<m]) @ [?w m]) (cq_entry_addr ?q (n + m))"
    using last_write_other [OF other, of "(trace s @ map ?w [0..<m]) @ [?w m]"]
    by (simp add: s'(2) split)
  also have "\<dots> = Some (take (unat (cq_entry_size ?q)) (ds ! m))"
    by (simp only: last_write_snoc effect.case) simp
  finally show ?thesis
    using s' assms(1,2) cqr.counts_pushes [of n ?q "length ds"] by (simp add: cq_counts_eq)
qed

text \<open>A state with one completion queue of 16 eight-byte entries on vector 1, as a command leaves it.\<close>

definition one_cq_state :: EnaState where
  "one_cq_state = (ena_realize [2, 0, 0, 0, 0, 1] False)\<lparr>cq := (replicate ENA_MAX_CQ zero_cq)
     [0 := \<lparr>cq_used = True, cq_base = 0x1000, cq_depth = 16, cq_entry_size = 8, cq_intr_enabled = True,
            cq_msix_vector = 1, cq_tail = 0, cq_phase = True\<rparr>]\<rparr>"

lemma one_cq_state_cq [simp]:
  "cq one_cq_state ! 0 = \<lparr>cq_used = True, cq_base = 0x1000, cq_depth = 16, cq_entry_size = 8,
     cq_intr_enabled = True, cq_msix_vector = 1, cq_tail = 0, cq_phase = True\<rparr>"
  "length (cq one_cq_state) = 16"
  by (simp_all add: one_cq_state_def ena_const)

theorem cq_ring_delivers_witness:
  "\<exists>s'. cq_push_all one_cq_state 0 [[1, 2, 3, 4, 5, 6, 7, 8], [9, 10, 11, 12, 13, 14, 15, 16]] = Inr s' \<and>
     cq_counts 2 (cq s' ! 0) \<and> last_write (trace s') 0x1008 = Some [9, 10, 11, 12, 13, 14, 15, 16]"
proof -
  have "cq_counts 0 (cq one_cq_state ! 0)"
    by (simp add: cq_counts_def)
  moreover have "cq_entry_addr (cq one_cq_state ! 0) 1 = 0x1008"
    by (simp add: cq_entry_addr_def)
  ultimately show ?thesis
    using cq_ring_delivers [of 0 one_cq_state 0 1 "[[1, 2, 3, 4, 5, 6, 7, 8], [9, 10, 11, 12, 13, 14, 15, 16]]"]
    by (simp add: numeral_2_eq_2 [symmetric] del: cq_push_all.simps)
qed

end
