(* ===== verification/Ena_Irq.thy ===== *)
theory Ena_Irq
  imports Ena_Cq
begin

text \<open>
  Interrupt vectors of the IO queues (\<open>src/hw/ena.c\<close>): one-shot unmasking, pending completions and
  moderation delays. A vector is shared by the queues bound to it.
\<close>

section \<open>Operations\<close>

definition ena_irq_fire :: "EnaState \<Rightarrow> nat \<Rightarrow> EnaState" where
  "ena_irq_fire s v =
     (let i = irq s ! v;
          s = emit (TimerDel (ModerTimer (irq_vector i))) s;
          s = s\<lparr>irq := (irq s)[v := i\<lparr>irq_unmasked := False, irq_rx_pending := False,
                                      irq_tx_pending := False\<rparr>]\<rparr>
      in emit (MsixNotify (irq_vector i)) s)"

definition ena_irq_moder_timer :: "EnaState \<Rightarrow> nat \<Rightarrow> EnaState" where
  "ena_irq_moder_timer s v = ena_irq_fire s v"

definition ena_irq_schedule :: "qemu \<Rightarrow> EnaState \<Rightarrow> nat \<Rightarrow> u32 \<Rightarrow> EnaState" where
  "ena_irq_schedule Q s v delay_us =
     (if delay_us = 0 then ena_irq_fire s v
      else let (now, s) = qemu_clock_get_us Q s
           in emit (TimerModAnticipate (ModerTimer (irq_vector (irq s ! v))) (now + ucast delay_us)) s)"

definition ena_cq_intr :: "qemu \<Rightarrow> EnaState \<Rightarrow> nat \<Rightarrow> bool \<Rightarrow> EnaState" where
  "ena_cq_intr Q s c is_tx =
     (let q = cq s ! c; v = unat (cq_msix_vector q)
      in if \<not> cq_intr_enabled q \<or> ENA_MSIX_VECTORS \<le> v then s
         else let i = irq s ! v
              in if \<not> irq_unmasked i
                 then s\<lparr>irq := (irq s)[v := if is_tx then i\<lparr>irq_tx_pending := True\<rparr>
                                           else i\<lparr>irq_rx_pending := True\<rparr>]\<rparr>
                 else ena_irq_schedule Q s v (if is_tx then irq_tx_delay_us i else irq_rx_delay_us i))"

text \<open>An unmask write: the delays, the unmask bit, then the two pending flags one after the other.\<close>

definition irq_set_moderation :: "u32 \<Rightarrow> EnaIrq \<Rightarrow> EnaIrq" where
  "irq_set_moderation val i =
     (if val AND ENA_ETH_IO_INTR_REG_NO_MODERATION_UPDATE_MASK = 0
      then i\<lparr>irq_rx_delay_us := val AND ENA_ETH_IO_INTR_REG_RX_INTR_DELAY_MASK,
             irq_tx_delay_us :=
               drop_bit ENA_ETH_IO_INTR_REG_TX_INTR_DELAY_SHIFT
                 (val AND ENA_ETH_IO_INTR_REG_TX_INTR_DELAY_MASK)\<rparr>
      else i)"

definition irq_deliver_pending :: "qemu \<Rightarrow> EnaState \<Rightarrow> nat \<Rightarrow> EnaState" where
  "irq_deliver_pending Q s v =
     (let s = (if irq_rx_pending (irq s ! v)
               then ena_irq_schedule Q s v (irq_rx_delay_us (irq s ! v)) else s)
      in if irq_tx_pending (irq s ! v)
         then ena_irq_schedule Q s v (irq_tx_delay_us (irq s ! v)) else s)"

definition ena_cq_unmask_write :: "qemu \<Rightarrow> EnaState \<Rightarrow> nat \<Rightarrow> u32 \<Rightarrow> EnaState" where
  "ena_cq_unmask_write Q s c val =
     (let q = cq s ! c; v = unat (cq_msix_vector q)
      in if \<not> cq_used q \<or> \<not> cq_intr_enabled q \<or> ENA_MSIX_VECTORS \<le> v then s
         else
           let i = (irq_set_moderation val (irq s ! v))
                     \<lparr>irq_unmasked := (val AND ENA_ETH_IO_INTR_REG_INTR_UNMASK_MASK \<noteq> 0)\<rparr>;
               s = s\<lparr>irq := (irq s)[v := i]\<rparr>
           in if \<not> irq_unmasked i then emit (TimerDel (ModerTimer (irq_vector i))) s
              else irq_deliver_pending Q s v)"

lemma irq_set_moderation_simps [simp]:
  "irq_unmasked (irq_set_moderation val i) = irq_unmasked i"
  "irq_rx_pending (irq_set_moderation val i) = irq_rx_pending i"
  "irq_tx_pending (irq_set_moderation val i) = irq_tx_pending i"
  "irq_vector (irq_set_moderation val i) = irq_vector i"
  by (simp_all add: irq_set_moderation_def)

section \<open>Frame\<close>

lemma ena_irq_fire_cfg [simp]: "cfg (ena_irq_fire s v) = cfg s"
  by (simp add: ena_irq_fire_def Let_def)

lemma ena_irq_schedule_cfg [simp]: "cfg (ena_irq_schedule Q s v d) = cfg s"
  by (simp add: ena_irq_schedule_def qemu_clock_get_us_def)

lemma ena_cq_intr_cfg [simp]: "cfg (ena_cq_intr Q s c t) = cfg s"
  by (simp add: ena_cq_intr_def Let_def)

definition irq_frame :: "EnaState \<Rightarrow> EnaState" where
  "irq_frame s = s\<lparr>irq := [], trace := []\<rparr>"

lemma irq_frame_simps [simp]:
  "irq_frame (emit e s) = irq_frame s" "irq_frame (s\<lparr>irq := x\<rparr>) = irq_frame s"
  by (simp_all add: irq_frame_def emit_def)

lemma irq_frame_if: "irq_frame (if b then s else t) = (if b then irq_frame s else irq_frame t)"
  by simp

lemma irq_frame_fire [simp]: "irq_frame (ena_irq_fire s v) = irq_frame s"
  by (simp add: ena_irq_fire_def Let_def)

lemma irq_frame_schedule [simp]: "irq_frame (ena_irq_schedule Q s v d) = irq_frame s"
  by (simp add: ena_irq_schedule_def qemu_clock_get_us_def)

lemma irq_frame_intr [simp]: "irq_frame (ena_cq_intr Q s c t) = irq_frame s"
  by (simp add: ena_cq_intr_def Let_def irq_frame_if)

lemma irq_frame_deliver [simp]: "irq_frame (irq_deliver_pending Q s v) = irq_frame s"
  by (simp add: irq_deliver_pending_def Let_def irq_frame_if)

lemma irq_frame_unmask [simp]: "irq_frame (ena_cq_unmask_write Q s c val) = irq_frame s"
  by (simp add: ena_cq_unmask_write_def Let_def irq_frame_if)

lemma irq_frame_sel:
  "sq (irq_frame s) = sq s" "cq (irq_frame s) = cq s" "reg (irq_frame s) = reg s"
  "rss (irq_frame s) = rss s" "mtu (irq_frame s) = mtu s" "macaddr (irq_frame s) = macaddr s"
  "rx_pkt (irq_frame s) = rx_pkt s" "tx_pkts (irq_frame s) = tx_pkts s"
  "tx_bytes (irq_frame s) = tx_bytes s" "tx_drops (irq_frame s) = tx_drops s"
  "rx_pkts (irq_frame s) = rx_pkts s" "rx_bytes (irq_frame s) = rx_bytes s"
  "rx_drops (irq_frame s) = rx_drops s" "aq_head (irq_frame s) = aq_head s"
  "acq_tail (irq_frame s) = acq_tail s" "acq_phase (irq_frame s) = acq_phase s"
  "aenq_tail (irq_frame s) = aenq_tail s" "aenq_phase (irq_frame s) = aenq_phase s"
  "aenq_groups (irq_frame s) = aenq_groups s" "llq_enabled (irq_frame s) = llq_enabled s"
  "llq_entry_size (irq_frame s) = llq_entry_size s" "llq_large (irq_frame s) = llq_large s"
  by (simp_all add: irq_frame_def)

lemma irq_frameD:
  assumes "irq_frame s' = irq_frame s"
  shows
    "sq s' = sq s" "cq s' = cq s" "reg s' = reg s" "rss s' = rss s" "mtu s' = mtu s"
    "macaddr s' = macaddr s" "rx_pkt s' = rx_pkt s" "tx_pkts s' = tx_pkts s"
    "tx_bytes s' = tx_bytes s" "tx_drops s' = tx_drops s" "rx_pkts s' = rx_pkts s"
    "rx_bytes s' = rx_bytes s" "rx_drops s' = rx_drops s" "aq_head s' = aq_head s"
    "acq_tail s' = acq_tail s" "acq_phase s' = acq_phase s" "aenq_tail s' = aenq_tail s"
    "aenq_phase s' = aenq_phase s" "aenq_groups s' = aenq_groups s"
    "llq_enabled s' = llq_enabled s" "llq_entry_size s' = llq_entry_size s"
    "llq_large s' = llq_large s"
  by (metis assms irq_frame_sel)+

section \<open>Timers and notifications in the trace\<close>

text \<open>
  A timer is armed when the last call on it armed it and it has not fired since; a callback only
  runs on an armed timer.
\<close>

fun timer_step :: "timer \<Rightarrow> effect \<Rightarrow> bool \<Rightarrow> bool" where
  "timer_step t (TimerDel t') a = (t' \<noteq> t \<and> a)"
| "timer_step t (TimerFired t') a = (t' \<noteq> t \<and> a)"
| "timer_step t (TimerMod t' n) a = (t' = t \<or> a)"
| "timer_step t (TimerModAnticipate t' n) a = (t' = t \<or> a)"
| "timer_step t e a = a"

definition timer_armed :: "timer \<Rightarrow> trace \<Rightarrow> bool" where
  "timer_armed t tr = fold (timer_step t) tr False"

fun timer_effect :: "timer \<Rightarrow> effect \<Rightarrow> bool" where
  "timer_effect t (TimerDel t') = (t' = t)"
| "timer_effect t (TimerFired t') = (t' = t)"
| "timer_effect t (TimerMod t' n) = (t' = t)"
| "timer_effect t (TimerModAnticipate t' n) = (t' = t)"
| "timer_effect t e = False"

text \<open>The calls that concern no IO vector: no moderation timer, and no notification but the admin vector's.\<close>

fun quiet :: "effect \<Rightarrow> bool" where
  "quiet (MsixNotify v) = (v = 0)"
| "quiet (TimerDel t) = (t = KeepAliveTimer)"
| "quiet (TimerFired t) = (t = KeepAliveTimer)"
| "quiet (TimerMod t n) = (t = KeepAliveTimer)"
| "quiet (TimerModAnticipate t n) = (t = KeepAliveTimer)"
| "quiet e = True"

text \<open>The vector a notification or a moderation timer names exists.\<close>

fun timer_wf :: "timer \<Rightarrow> bool" where
  "timer_wf KeepAliveTimer = True"
| "timer_wf (ModerTimer v) = (unat v < ENA_MSIX_VECTORS)"

fun vec_call :: "effect \<Rightarrow> bool" where
  "vec_call (MsixNotify v) = (unat v < ENA_MSIX_VECTORS)"
| "vec_call (TimerDel t) = timer_wf t"
| "vec_call (TimerFired t) = timer_wf t"
| "vec_call (TimerMod t n) = timer_wf t"
| "vec_call (TimerModAnticipate t n) = timer_wf t"
| "vec_call e = True"

lemma quiet_timer: "quiet e \<Longrightarrow> \<not> timer_effect (ModerTimer v) e"
  by (cases e) auto

lemma quiet_msix: "quiet e \<Longrightarrow> v \<noteq> 0 \<Longrightarrow> e \<noteq> MsixNotify v"
  by auto

lemma quiet_vec_call: "quiet e \<Longrightarrow> vec_call e"
  by (cases e) (auto simp: ena_const)

lemma timer_step_other [simp]: "\<not> timer_effect t e \<Longrightarrow> timer_step t e a = a"
  by (cases e) auto

lemma timer_armed_append [simp]: "timer_armed t (tr @ es) = fold (timer_step t) es (timer_armed t tr)"
  by (simp add: timer_armed_def)

lemma timer_armed_Nil [simp]: "timer_armed t [] = False"
  by (simp add: timer_armed_def)

definition msix_count :: "u32 \<Rightarrow> trace \<Rightarrow> nat" where
  "msix_count v tr = length (filter (\<lambda>e. e = MsixNotify v) tr)"

lemma msix_count_append [simp]: "msix_count v (tr @ tr') = msix_count v tr + msix_count v tr'"
  by (simp add: msix_count_def)

lemma msix_count_simps [simp]:
  "msix_count v [] = 0"
  "msix_count v (e # tr) = (if e = MsixNotify v then Suc (msix_count v tr) else msix_count v tr)"
  by (simp_all add: msix_count_def)

section \<open>Delivery of interrupts\<close>

text \<open>An interrupt is owed on a vector when a completion is pending or its delay is running.\<close>

definition irq_owed :: "EnaState \<Rightarrow> nat \<Rightarrow> bool" where
  "irq_owed s v \<longleftrightarrow> irq_rx_pending (irq s ! v) \<or> irq_tx_pending (irq s ! v) \<or>
     timer_armed (ModerTimer (irq_vector (irq s ! v))) (trace s)"

text \<open>
  The vector numbers, that a delay only runs on an unmasked vector, and that only existing vectors have
  been notified or delayed.
\<close>

definition irq_ok :: "EnaState \<Rightarrow> bool" where
  "irq_ok s \<longleftrightarrow> length (irq s) = ENA_MSIX_VECTORS \<and>
     (\<forall>v < ENA_MSIX_VECTORS. irq_vector (irq s ! v) = of_nat v \<and>
        (timer_armed (ModerTimer (of_nat v)) (trace s) \<longrightarrow> irq_unmasked (irq s ! v))) \<and>
     list_all vec_call (trace s)"

lemma vectors9: "ENA_MSIX_VECTORS = 9"
  by (simp add: ena_const)

lemma of_nat_vec_inj: "v < 9 \<Longrightarrow> w < 9 \<Longrightarrow> (of_nat v :: u32) = of_nat w \<longleftrightarrow> v = w"
  by (auto dest: of_nat_inj_small [where 'a = 32, rotated 2])

lemma irq_okD:
  assumes "irq_ok s" and "v < 9"
  shows "length (irq s) = 9" "irq_vector (irq s ! v) = of_nat v"
    "timer_armed (ModerTimer (of_nat v)) (trace s) \<Longrightarrow> irq_unmasked (irq s ! v)"
  using assms by (auto simp: irq_ok_def vectors9)

lemma irq_ok_emit [simp]: "quiet e \<Longrightarrow> irq_ok (emit e s) = irq_ok s"
  by (simp add: irq_ok_def quiet_timer quiet_vec_call)

lemma unat_vec [simp]: "v < 9 \<Longrightarrow> unat (of_nat v :: u32) = v"
  by (simp add: unat_of_nat_small)

lemma ena_irq_fire_ok: "irq_ok s \<Longrightarrow> v < 9 \<Longrightarrow> irq_ok (ena_irq_fire s v)"
  by (auto simp: irq_ok_def vectors9 ena_irq_fire_def Let_def nth_list_update of_nat_vec_inj)

lemma ena_irq_schedule_ok:
  "irq_ok s \<Longrightarrow> v < 9 \<Longrightarrow> irq_unmasked (irq s ! v) \<Longrightarrow> irq_ok (ena_irq_schedule Q s v d)"
  by (auto simp: ena_irq_schedule_def qemu_clock_get_us_def ena_irq_fire_ok)
    (auto simp: irq_ok_def vectors9 of_nat_vec_inj)

lemma fire_result:
  assumes "irq_ok s" and "v < 9"
  shows "msix_count (of_nat v) (trace (ena_irq_fire s v)) = Suc (msix_count (of_nat v) (trace s))"
    "\<not> irq_unmasked (irq (ena_irq_fire s v) ! v)" "\<not> irq_rx_pending (irq (ena_irq_fire s v) ! v)"
    "\<not> irq_tx_pending (irq (ena_irq_fire s v) ! v)" "\<not> irq_owed (ena_irq_fire s v) v"
    "irq_rx_delay_us (irq (ena_irq_fire s v) ! v) = irq_rx_delay_us (irq s ! v)"
    "irq_tx_delay_us (irq (ena_irq_fire s v) ! v) = irq_tx_delay_us (irq s ! v)"
  using irq_okD [OF assms] assms(2) by (auto simp: ena_irq_fire_def Let_def irq_owed_def)

lemma delay_result:
  assumes "irq_ok s" and "v < 9" and "d \<noteq> 0"
  shows "msix_count (of_nat v) (trace (ena_irq_schedule Q s v d)) = msix_count (of_nat v) (trace s)"
    "irq (ena_irq_schedule Q s v d) = irq s" "irq_owed (ena_irq_schedule Q s v d) v"
    "timer_armed (ModerTimer (of_nat v)) (trace (ena_irq_schedule Q s v d))"
  using irq_okD [OF assms(1,2)] assms(2,3)
  by (auto simp: ena_irq_schedule_def qemu_clock_get_us_def irq_owed_def)

lemma schedule_0 [simp]: "ena_irq_schedule Q s v 0 = ena_irq_fire s v"
  by (simp add: ena_irq_schedule_def)

lemma schedule_vector:
  "irq_ok s \<Longrightarrow> v < 9 \<Longrightarrow> irq_vector (irq (ena_irq_schedule Q s v d) ! v) = of_nat v"
  using cfg_irq_nth [of "ena_irq_schedule Q s v d" s v]
  by (auto simp: irq_okD dest!: cfg_irqD)

lemma ena_cq_intr_ok: "irq_ok s \<Longrightarrow> irq_ok (ena_cq_intr Q s c t)"
proof -
  assume ok: "irq_ok s"
  show "irq_ok (ena_cq_intr Q s c t)"
  proof (cases "\<not> cq_intr_enabled (cq s ! c) \<or> 9 \<le> unat (cq_msix_vector (cq s ! c))")
    case True
    then show ?thesis using ok by (auto simp: ena_cq_intr_def Let_def vectors9)
  next
    case False
    then show ?thesis
      using ok ena_irq_schedule_ok [OF ok, of "unat (cq_msix_vector (cq s ! c))"]
      by (auto simp: ena_cq_intr_def Let_def vectors9)
        (auto simp: irq_ok_def vectors9 nth_list_update)
  qed
qed

text \<open>
  C17. A completion on a queue bound to an enabled vector is never lost: if the vector is unmasked
  and the delay is zero the guest is notified exactly once and the vector masks itself with nothing
  left owed; otherwise nothing is sent and the interrupt is owed, pending or with its delay running.
\<close>

theorem cq_intr_delivers_or_owes:
  assumes "irq_ok s" and "cq_intr_enabled (cq s ! c)" and "cq_msix_vector (cq s ! c) = of_nat v" and "v < 9"
    and s'_def: "s' = ena_cq_intr Q s c is_tx"
    and d_def: "d = (if is_tx then irq_tx_delay_us (irq s ! v) else irq_rx_delay_us (irq s ! v))"
  shows "if irq_unmasked (irq s ! v) \<and> d = 0
    then msix_count (of_nat v) (trace s') = Suc (msix_count (of_nat v) (trace s)) \<and>
      \<not> irq_unmasked (irq s' ! v) \<and> \<not> irq_owed s' v
    else msix_count (of_nat v) (trace s') = msix_count (of_nat v) (trace s) \<and>
      irq_unmasked (irq s' ! v) = irq_unmasked (irq s ! v) \<and> irq_owed s' v"
proof -
  have v: "unat (cq_msix_vector (cq s ! c)) = v"
    using assms(3,4) by (simp add: unat_of_nat_small)
  have s': "s' = (if irq_unmasked (irq s ! v) then ena_irq_schedule Q s v d
      else s\<lparr>irq := (irq s)[v := if is_tx then (irq s ! v)\<lparr>irq_tx_pending := True\<rparr>
                                 else (irq s ! v)\<lparr>irq_rx_pending := True\<rparr>]\<rparr>)"
    using assms(2,4) v by (simp add: s'_def d_def ena_cq_intr_def Let_def vectors9)
  show ?thesis
    using fire_result [OF assms(1,4)] delay_result [OF assms(1,4)] irq_okD(1) [OF assms(1,4)] assms(4)
    by (auto simp: s' irq_owed_def)
qed

lemma one_cq_irq_ok: "irq_ok one_cq_state"
  by (simp add: irq_ok_def one_cq_state_def ena_realize_def)

theorem cq_intr_delivers_or_owes_witness:
  "irq_owed (ena_cq_intr (quiet_qemu (\<lambda>_. 0) (\<lambda>_. 0)) one_cq_state 0 True) 1"
proof -
  have "irq one_cq_state ! 1 = \<lparr>irq_unmasked = False, irq_rx_pending = False, irq_tx_pending = False,
      irq_rx_delay_us = 0, irq_tx_delay_us = 0, irq_vector = 1\<rparr>"
    by (simp add: one_cq_state_def ena_realize_def ena_const)
  then show ?thesis
    using cq_intr_delivers_or_owes [OF one_cq_irq_ok, of 0 1, OF _ _ _ refl refl,
        of True "quiet_qemu (\<lambda>_. 0) (\<lambda>_. 0)"]
    by simp
qed

definition delivered_or_delayed :: "EnaState \<Rightarrow> EnaState \<Rightarrow> nat \<Rightarrow> bool" where
  "delivered_or_delayed s s' v \<longleftrightarrow>
     msix_count (of_nat v) (trace s') = Suc (msix_count (of_nat v) (trace s)) \<and>
        \<not> irq_unmasked (irq s' ! v) \<and> \<not> irq_owed s' v \<or>
     msix_count (of_nat v) (trace s') = msix_count (of_nat v) (trace s) \<and>
        irq_unmasked (irq s' ! v) \<and> timer_armed (ModerTimer (of_nat v)) (trace s')"

lemma schedule_delivers:
  assumes "irq_ok t" and "v < 9" and "irq_unmasked (irq t ! v)"
  shows "delivered_or_delayed t (ena_irq_schedule Q t v d) v"
  using fire_result [OF assms(1,2)] delay_result [OF assms(1,2)] assms(3)
  by (cases "d = 0") (auto simp: delivered_or_delayed_def)

lemma deliver_pending_result:
  assumes "irq_ok t" and "v < 9" and "irq_unmasked (irq t ! v)"
  shows "if irq_owed t v then delivered_or_delayed t (irq_deliver_pending Q t v) v
    else irq_deliver_pending Q t v = t"
proof (cases "irq_rx_pending (irq t ! v)")
  case rx: True
  let ?d = "irq_rx_delay_us (irq t ! v)"
  let ?t1 = "ena_irq_schedule Q t v ?d"
  note del1 = schedule_delivers [OF assms, of Q ?d]
  show ?thesis
  proof (cases "?d = 0 \<or> \<not> irq_tx_pending (irq t ! v)")
    case True
    then have "\<not> irq_tx_pending (irq ?t1 ! v)"
      using fire_result(4) [OF assms(1,2)] delay_result(2) [OF assms(1,2), of ?d Q] by (cases "?d = 0") auto
    then have "irq_deliver_pending Q t v = ?t1"
      using rx by (simp add: irq_deliver_pending_def Let_def)
    with del1 rx show ?thesis by (simp add: irq_owed_def)
  next
    case False
    note t1 = delay_result [OF assms(1,2), of ?d Q]
    have ok1: "irq_ok ?t1" using assms by (simp add: ena_irq_schedule_ok)
    have "delivered_or_delayed ?t1 (ena_irq_schedule Q ?t1 v (irq_tx_delay_us (irq t ! v))) v"
      using schedule_delivers [OF ok1 assms(2)] t1 assms(3) False by simp
    with t1 rx False show ?thesis
      by (simp add: irq_deliver_pending_def Let_def irq_owed_def delivered_or_delayed_def)
  qed
next
  case False
  then show ?thesis
    using schedule_delivers [OF assms, of Q "irq_tx_delay_us (irq t ! v)"] assms irq_okD(2) [OF assms(1,2)]
    by (auto simp: irq_deliver_pending_def irq_owed_def delivered_or_delayed_def)
qed

lemma deliver_pending_ok:
  assumes "irq_ok t" and "v < 9" and "irq_unmasked (irq t ! v)"
  shows "irq_ok (irq_deliver_pending Q t v)"
proof -
  let ?d = "irq_rx_delay_us (irq t ! v)"
  let ?t1 = "if irq_rx_pending (irq t ! v) then ena_irq_schedule Q t v ?d else t"
  have ok: "irq_ok ?t1" using assms by (simp add: ena_irq_schedule_ok)
  have "irq_tx_pending (irq ?t1 ! v) \<Longrightarrow> irq_unmasked (irq ?t1 ! v)"
    using fire_result(4) [OF assms(1,2)] delay_result(2) [OF assms(1,2), of ?d Q] assms(3)
    by (cases "?d = 0") auto
  with ok show ?thesis
    using assms(2) by (auto simp: irq_deliver_pending_def Let_def intro: ena_irq_schedule_ok)
qed

lemma ena_cq_unmask_ok:
  assumes "irq_ok s"
  shows "irq_ok (ena_cq_unmask_write Q s c val)"
proof (cases "cq_used (cq s ! c) \<and> cq_intr_enabled (cq s ! c) \<and> unat (cq_msix_vector (cq s ! c)) < 9")
  case False
  then show ?thesis using assms by (auto simp: ena_cq_unmask_write_def Let_def vectors9 not_less)
next
  case True
  let ?v = "unat (cq_msix_vector (cq s ! c))"
  let ?i = "(irq_set_moderation val (irq s ! ?v))
    \<lparr>irq_unmasked := (val AND ENA_ETH_IO_INTR_REG_INTR_UNMASK_MASK \<noteq> 0)\<rparr>"
  let ?t = "s\<lparr>irq := (irq s)[?v := ?i]\<rparr>"
  have eq: "ena_cq_unmask_write Q s c val =
      (if \<not> irq_unmasked ?i then emit (TimerDel (ModerTimer (irq_vector ?i))) ?t
       else irq_deliver_pending Q ?t ?v)"
    using True by (simp add: ena_cq_unmask_write_def Let_def vectors9)
  show ?thesis
  proof (cases "irq_unmasked ?i")
    case u: True
    have "irq_ok ?t" "irq_unmasked (irq ?t ! ?v)"
      using assms True u by (auto simp: irq_ok_def vectors9 nth_list_update)
    then show ?thesis using True u by (simp add: eq deliver_pending_ok)
  next
    case False
    then show ?thesis
      using assms True irq_okD(2) [OF assms, of ?v]
      by (auto simp: eq irq_ok_def vectors9 nth_list_update of_nat_vec_inj)
  qed
qed

subsection \<open>One notification per re-arming\<close>

text \<open>
  The notifications an IO vector has sent together with the one it may still send: only an unmask write
  makes this larger. Vector 0 also carries the notifications of the admin queue and is left out.
\<close>

definition vec_pot :: "EnaState \<Rightarrow> nat \<Rightarrow> nat" where
  "vec_pot s v = msix_count (of_nat v) (trace s) + of_bool (irq_unmasked (irq s ! v))"

definition one_shot :: "EnaState \<Rightarrow> EnaState \<Rightarrow> bool" where
  "one_shot s s' \<longleftrightarrow> (\<forall>v. 0 < v \<and> v < 9 \<longrightarrow> vec_pot s' v \<le> vec_pot s v)"

lemma one_shot_refl [simp]: "one_shot s s"
  by (simp add: one_shot_def)

lemma one_shot_trans: "one_shot s t \<Longrightarrow> one_shot t u \<Longrightarrow> one_shot s u"
  unfolding one_shot_def by (blast intro: le_trans)

lemma one_shot_same: "irq s' = irq s \<Longrightarrow> trace s' = trace s \<Longrightarrow> one_shot s s'"
  by (simp add: one_shot_def vec_pot_def)

lemma msix_other_vec: "0 < v \<Longrightarrow> v < 9 \<Longrightarrow> (0 :: u32) \<noteq> of_nat v"
  using of_nat_vec_inj [of 0 v] by simp

lemma vec_pot_emit: "quiet e \<Longrightarrow> 0 < v \<Longrightarrow> v < 9 \<Longrightarrow> vec_pot (emit e s) v = vec_pot s v"
  using msix_other_vec [of v] by (auto simp: vec_pot_def)

lemma one_shot_emit: "quiet e \<Longrightarrow> one_shot s (emit e s)"
  by (simp add: one_shot_def vec_pot_emit)

lemma ena_irq_fire_one_shot:
  assumes "irq_ok s" and "v < 9" and "irq_unmasked (irq s ! v)"
  shows "one_shot s (ena_irq_fire s v)"
  using assms irq_okD [OF assms(1,2)]
  by (auto simp: one_shot_def vec_pot_def ena_irq_fire_def Let_def nth_list_update of_nat_vec_inj)

lemma ena_irq_schedule_one_shot:
  assumes "irq_ok s" and "v < 9" and "irq_unmasked (irq s ! v)"
  shows "one_shot s (ena_irq_schedule Q s v d)"
  using ena_irq_fire_one_shot [OF assms]
  by (auto simp: ena_irq_schedule_def qemu_clock_get_us_def) (simp add: one_shot_def vec_pot_def)

lemma pending_one_shot: "irq_unmasked i = irq_unmasked (irq s ! v) \<Longrightarrow> one_shot s (s\<lparr>irq := (irq s)[v := i]\<rparr>)"
  by (cases "v < length (irq s)") (auto simp: one_shot_def vec_pot_def nth_list_update list_update_beyond)

lemma ena_cq_intr_one_shot:
  assumes "irq_ok s"
  shows "one_shot s (ena_cq_intr Q s c t)"
  using ena_irq_schedule_one_shot [OF assms, of "unat (cq_msix_vector (cq s ! c))"]
  by (auto simp: ena_cq_intr_def Let_def vectors9 intro!: pending_one_shot)

lemma deliver_pending_one_shot:
  assumes "irq_ok t" and "v < 9" and "irq_unmasked (irq t ! v)"
  shows "one_shot t (irq_deliver_pending Q t v)"
proof -
  let ?d = "irq_rx_delay_us (irq t ! v)"
  let ?t1 = "if irq_rx_pending (irq t ! v) then ena_irq_schedule Q t v ?d else t"
  have "irq_ok ?t1" "one_shot t ?t1" using assms by (simp_all add: ena_irq_schedule_ok ena_irq_schedule_one_shot)
  moreover have "irq_tx_pending (irq ?t1 ! v) \<Longrightarrow> irq_unmasked (irq ?t1 ! v)"
    using fire_result(4) [OF assms(1,2)] delay_result(2) [OF assms(1,2), of ?d Q] assms(3)
    by (cases "?d = 0") auto
  ultimately show ?thesis
    using assms(2) by (auto simp: irq_deliver_pending_def Let_def intro: ena_irq_schedule_one_shot
        one_shot_trans [OF _ ena_irq_schedule_one_shot])
qed

text \<open>A write to an unmask register re-arms at most one vector, and only with the unmask bit.\<close>

lemma ena_cq_unmask_pot:
  assumes "irq_ok s" and "0 < w" and "w < 9"
  shows "vec_pot (ena_cq_unmask_write Q s c val) w \<le>
    vec_pot s w + of_bool (bit val 30 \<and> w = unat (cq_msix_vector (cq s ! c)))"
proof (cases "cq_used (cq s ! c) \<and> cq_intr_enabled (cq s ! c) \<and> unat (cq_msix_vector (cq s ! c)) < 9")
  case False
  then show ?thesis by (auto simp: ena_cq_unmask_write_def Let_def vectors9 not_less)
next
  case True
  let ?v = "unat (cq_msix_vector (cq s ! c))"
  let ?i = "(irq_set_moderation val (irq s ! ?v))\<lparr>irq_unmasked := bit val 30\<rparr>"
  let ?t = "s\<lparr>irq := (irq s)[?v := ?i]\<rparr>"
  have bit: "val AND ENA_ETH_IO_INTR_REG_INTR_UNMASK_MASK \<noteq> 0 \<longleftrightarrow> bit val 30"
    by (simp add: ENA_ETH_IO_INTR_REG_INTR_UNMASK_MASK_def and_BIT_eq_0)
  have len: "length (irq s) = 9" using irq_okD(1) [OF assms(1,3)] .
  have pot: "vec_pot ?t w \<le> vec_pot s w + of_bool (bit val 30 \<and> w = ?v)"
    using True len by (cases "w = ?v") (auto simp: vec_pot_def)
  have eq: "ena_cq_unmask_write Q s c val =
      (if bit val 30 then irq_deliver_pending Q ?t ?v else emit (TimerDel (ModerTimer (irq_vector ?i))) ?t)"
    using True by (simp add: ena_cq_unmask_write_def Let_def vectors9 bit)
  show ?thesis
  proof (cases "bit val 30")
    case u: True
    have "irq_ok ?t" "irq_unmasked (irq ?t ! ?v)"
      using assms True u by (auto simp: irq_ok_def vectors9 nth_list_update)
    then have "one_shot ?t (irq_deliver_pending Q ?t ?v)" using True by (intro deliver_pending_one_shot) simp_all
    then show ?thesis using assms(2,3) pot u by (auto simp: eq one_shot_def intro: le_trans)
  next
    case False
    then have "vec_pot (ena_cq_unmask_write Q s c val) w = vec_pot ?t w" by (simp add: eq vec_pot_def)
    with pot show ?thesis by simp
  qed
qed

text \<open>
  C18. Re-arming a vector (a write with the unmask bit set) through any queue bound to it: an owed
  interrupt is notified exactly once, leaving the vector masked and clear, or its delay is running
  on the unmasked vector; without an owed interrupt nothing is sent and the vector is unmasked.
\<close>

theorem unmask_delivers_owed:
  assumes "irq_ok s" and "cq_used (cq s ! c)" and "cq_intr_enabled (cq s ! c)"
    and "cq_msix_vector (cq s ! c) = of_nat v" and "v < 9" and "bit val 30"
    and s'_def: "s' = ena_cq_unmask_write Q s c val"
  shows "if irq_owed s v
    then msix_count (of_nat v) (trace s') = Suc (msix_count (of_nat v) (trace s)) \<and>
        \<not> irq_unmasked (irq s' ! v) \<and> \<not> irq_owed s' v \<or>
      msix_count (of_nat v) (trace s') = msix_count (of_nat v) (trace s) \<and>
        irq_unmasked (irq s' ! v) \<and> timer_armed (ModerTimer (of_nat v)) (trace s')
    else msix_count (of_nat v) (trace s') = msix_count (of_nat v) (trace s) \<and>
      irq_unmasked (irq s' ! v) \<and> \<not> irq_owed s' v"
proof -
  have v: "unat (cq_msix_vector (cq s ! c)) = v"
    using assms(4,5) by (simp add: unat_of_nat_small)
  have u: "val AND ENA_ETH_IO_INTR_REG_INTR_UNMASK_MASK \<noteq> 0"
    using assms(6) by (simp add: ENA_ETH_IO_INTR_REG_INTR_UNMASK_MASK_def and_BIT_eq_0)
  define i where "i = (irq_set_moderation val (irq s ! v))\<lparr>irq_unmasked := True\<rparr>"
  have s': "s' = irq_deliver_pending Q (s\<lparr>irq := (irq s)[v := i]\<rparr>) v"
    using assms(2,3,5) u by (simp add: s'_def i_def ena_cq_unmask_write_def Let_def v vectors9)
  have i: "irq_unmasked i" "irq_rx_pending i = irq_rx_pending (irq s ! v)"
    "irq_tx_pending i = irq_tx_pending (irq s ! v)" "irq_vector i = irq_vector (irq s ! v)"
    by (simp_all add: i_def)
  let ?t = "s\<lparr>irq := (irq s)[v := i]\<rparr>"
  have t: "irq_ok ?t" "irq ?t ! v = i"
    using assms(1,5) i by (auto simp: irq_ok_def vectors9 nth_list_update)
  have "irq_owed ?t v = irq_owed s v" "trace ?t = trace s"
    using t i by (simp_all add: irq_owed_def)
  then show ?thesis
    using deliver_pending_result [OF t(1) assms(5), of Q] t i
    by (auto simp: s' delivered_or_delayed_def)
qed

text \<open>The same queue with a receive interrupt pending on its masked vector.\<close>

definition owed_state :: EnaState where
  "owed_state = one_cq_state\<lparr>irq := (irq one_cq_state)[1 := (irq one_cq_state ! 1)\<lparr>irq_rx_pending := True\<rparr>]\<rparr>"

theorem unmask_delivers_owed_witness:
  "msix_count 1 (trace (ena_cq_unmask_write (quiet_qemu (\<lambda>_. 0) (\<lambda>_. 0)) owed_state 0 0x40000000)) = 1 \<and>
     \<not> irq_owed (ena_cq_unmask_write (quiet_qemu (\<lambda>_. 0) (\<lambda>_. 0)) owed_state 0 0x40000000) 1 \<or>
   timer_armed (ModerTimer 1) (trace (ena_cq_unmask_write (quiet_qemu (\<lambda>_. 0) (\<lambda>_. 0)) owed_state 0 0x40000000))"
proof -
  have len: "length (irq one_cq_state) = 9" using one_cq_irq_ok by (simp add: irq_ok_def vectors9)
  have "irq_ok owed_state"
    using one_cq_irq_ok by (auto simp: irq_ok_def owed_state_def vectors9 nth_list_update)
  moreover have "irq_owed owed_state 1" using len by (simp add: irq_owed_def owed_state_def)
  moreover have "cq owed_state = cq one_cq_state" "trace owed_state = []"
    by (simp_all add: owed_state_def one_cq_state_def ena_realize_def)
  moreover have "bit (0x40000000 :: u32) 30" by simp
  ultimately show ?thesis
    using unmask_delivers_owed [of owed_state 0 1 "0x40000000", OF _ _ _ _ _ _ refl, of "quiet_qemu (\<lambda>_. 0) (\<lambda>_. 0)"]
    by auto
qed

text \<open>
  Masking a vector sends nothing, cancels a running delay and keeps the pending flags, so a
  masked vector stays silent until the driver re-arms it.
\<close>

theorem mask_silences:
  assumes "irq_ok s" and "cq_used (cq s ! c)" and "cq_intr_enabled (cq s ! c)"
    and "cq_msix_vector (cq s ! c) = of_nat v" and "v < 9" and "\<not> bit val 30"
    and s'_def: "s' = ena_cq_unmask_write Q s c val"
  shows "irq_ok s' \<and> trace s' = trace s @ [TimerDel (ModerTimer (of_nat v))] \<and>
    \<not> irq_unmasked (irq s' ! v) \<and> \<not> timer_armed (ModerTimer (of_nat v)) (trace s') \<and>
    irq_rx_pending (irq s' ! v) = irq_rx_pending (irq s ! v) \<and>
    irq_tx_pending (irq s' ! v) = irq_tx_pending (irq s ! v)"
proof -
  have v: "unat (cq_msix_vector (cq s ! c)) = v"
    using assms(4,5) by (simp add: unat_of_nat_small)
  have u: "val AND ENA_ETH_IO_INTR_REG_INTR_UNMASK_MASK = 0"
    using assms(6) by (simp add: ENA_ETH_IO_INTR_REG_INTR_UNMASK_MASK_def and_BIT_eq_0)
  have "s' = emit (TimerDel (ModerTimer (of_nat v)))
      (s\<lparr>irq := (irq s)[v := (irq_set_moderation val (irq s ! v))\<lparr>irq_unmasked := False\<rparr>]\<rparr>)"
    using assms(2,3,5) u irq_okD(2) [OF assms(1,5)]
    by (simp add: s'_def ena_cq_unmask_write_def Let_def v vectors9)
  then show ?thesis
    using assms(1,5) by (auto simp: irq_ok_def vectors9 nth_list_update of_nat_vec_inj)
qed


theorem mask_silences_witness:
  "trace (ena_cq_unmask_write (quiet_qemu (\<lambda>_. 0) (\<lambda>_. 0)) one_cq_state 0 0) = [TimerDel (ModerTimer 1)]"
proof -
  have "trace one_cq_state = []" by (simp add: one_cq_state_def ena_realize_def)
  then show ?thesis
    using mask_silences [OF one_cq_irq_ok, of 0 1 0, OF _ _ _ _ _ refl, of "quiet_qemu (\<lambda>_. 0) (\<lambda>_. 0)"]
    by simp
qed

end
