(* ===== verification/Ena_Aenq.thy ===== *)
theory Ena_Aenq
  imports Ena_Irq
begin

text \<open>
  The asynchronous event notification queue (\<open>src/hw/ena.c\<close>): link-change and keep-alive events
  are written into a ring in guest memory whose free entries the driver grants through the head
  doorbell. The ring is a \<open>phase_ring\<close> whose position is part of the device state.
\<close>

section \<open>Operations\<close>

definition ena_admin_intr :: "EnaState \<Rightarrow> EnaState" where
  "ena_admin_intr s =
     (if REG s ENA_REGS_INTR_MASK_OFF AND 1 \<noteq> 0 then s
      else emit (MsixNotify ENA_ADMIN_MSIX_VECTOR) s)"

definition aenq_depth :: "EnaState \<Rightarrow> u16" where
  "aenq_depth s = ucast (REG s ENA_REGS_AENQ_CAPS_OFF AND ENA_REGS_AENQ_CAPS_AENQ_DEPTH_MASK)"

definition aenq_base :: "EnaState \<Rightarrow> u64" where
  "aenq_base s = reg64 s ENA_REGS_AENQ_BASE_HI_OFF ENA_REGS_AENQ_BASE_LO_OFF"

definition aenq_advance :: "EnaState \<Rightarrow> EnaState" where
  "aenq_advance s =
     (let t = aenq_tail s + 1
      in s\<lparr>aenq_tail := t, aenq_phase := (if t mod aenq_depth s = 0 then \<not> aenq_phase s else aenq_phase s)\<rparr>)"

definition aenq_mk_entry :: "EnaState \<Rightarrow> u16 \<Rightarrow> u16 \<Rightarrow> u64 \<Rightarrow> u64 \<Rightarrow> byte list \<Rightarrow> ena_admin_aenq_entry" where
  "aenq_mk_entry s grp syndrome now_lo now_hi data = \<lparr>
     aenq_entry_aenq_common_desc = \<lparr>
       aenq_common_group = grp,
       aenq_common_syndrome = syndrome,
       aenq_common_flags = (if aenq_phase s then 1 else 0),
       aenq_common_reserved1 = replicate 3 0,
       aenq_common_timestamp_low = ucast now_lo,
       aenq_common_timestamp_high = ucast (drop_bit 32 now_hi)\<rparr>,
     aenq_entry_inline_data_w4 = data @ replicate (48 - length data) 0\<rparr>"

definition aenq_publish :: "EnaState \<Rightarrow> ena_admin_aenq_entry \<Rightarrow> EnaState" where
  "aenq_publish s e =
     (let s = ena_dma_write s (aenq_base s + ucast (aenq_tail s mod aenq_depth s) * 64)
                (enc_ena_admin_aenq_entry e);
          s = aenq_advance s;
          s = set_REG s ENA_REGS_AENQ_TAIL_OFF (ucast (aenq_tail s))
      in ena_admin_intr s)"

definition ena_aenq_post :: "qemu \<Rightarrow> EnaState \<Rightarrow> u16 \<Rightarrow> u16 \<Rightarrow> byte list \<Rightarrow> EnaState result" where
  "ena_aenq_post Q s grp syndrome data =
     (let head_db = ucast (REG s ENA_REGS_AENQ_HEAD_DB_OFF) :: u16
      in if 48 < length data then Inl (AssertFailed A_aenq_len)
         else if aenq_base s = 0 \<or> aenq_depth s = 0 \<or> aenq_groups s AND BIT (unat grp) = 0 then Inr s
         else if aenq_depth s < head_db - aenq_tail s then Inr s
         else if head_db = aenq_tail s then Inr s
         else
           let (now_lo, s) = qemu_clock_get_us Q s;
               (now_hi, s) = qemu_clock_get_us Q s
           in Inr (aenq_publish s (aenq_mk_entry s grp syndrome now_lo now_hi data)))"

definition ena_post_link_change :: "qemu \<Rightarrow> EnaState \<Rightarrow> EnaState result" where
  "ena_post_link_change Q s =
     (let up = \<not> link_down Q (trace s);
          flags = if up then ENA_ADMIN_AENQ_LINK_CHANGE_DESC_LINK_STATUS_MASK else 0
      in ena_aenq_post Q s ENA_ADMIN_LINK_CHANGE 0 (le32 flags))"

text \<open>The drop counters of the payload beyond \<open>rx_drops\<close> are left zero by the initialiser.\<close>

definition keep_alive_data :: "EnaState \<Rightarrow> byte list" where
  "keep_alive_data s =
     le32 (ucast (rx_drops s)) @ le32 (ucast (drop_bit 32 (rx_drops s))) @
     le32 0 @ le32 0 @ le32 0 @ le32 0"

definition ena_keep_alive :: "qemu \<Rightarrow> EnaState \<Rightarrow> EnaState result" where
  "ena_keep_alive Q s =
     bindR (ena_aenq_post Q s ENA_ADMIN_KEEP_ALIVE 0 (keep_alive_data s))
       (\<lambda>s. let (now, s) = qemu_clock_get_ms Q s
            in Inr (emit (TimerMod KeepAliveTimer (now + ENA_KEEP_ALIVE_INTERVAL_MS)) s))"

definition ena_aenq_config :: "qemu \<Rightarrow> EnaState \<Rightarrow> u32 \<Rightarrow> EnaState result" where
  "ena_aenq_config Q s groups =
     (let s = s\<lparr>aenq_groups := groups\<rparr>
      in bindR (if groups AND BIT (unat ENA_ADMIN_LINK_CHANGE) \<noteq> 0 then ena_post_link_change Q s else Inr s)
           (\<lambda>s. if groups AND BIT (unat ENA_ADMIN_KEEP_ALIVE) \<noteq> 0
                then let (now, s) = qemu_clock_get_ms Q s
                     in Inr (emit (TimerMod KeepAliveTimer (now + ENA_KEEP_ALIVE_INTERVAL_MS)) s)
                else Inr (emit (TimerDel KeepAliveTimer) s)))"

section \<open>Register and frame facts\<close>

lemma REG_set_REG:
  "REG (set_REG s off v) off' =
     (if off div 4 = off' div 4 \<and> off div 4 < length (reg s) then v else REG s off')"
  by (cases "off div 4 < length (reg s)") (auto simp: REG_def set_REG_def nth_list_update list_update_beyond)

lemma REG_simps [simp]:
  "REG (emit e s) off = REG s off" "REG (s\<lparr>aenq_tail := t\<rparr>) off = REG s off"
  "REG (s\<lparr>aenq_phase := p\<rparr>) off = REG s off" "REG (s\<lparr>aenq_groups := g\<rparr>) off = REG s off"
  by (simp_all add: REG_def)

lemma aenq_regs_simps [simp]:
  "aenq_depth (emit e s) = aenq_depth s" "aenq_base (emit e s) = aenq_base s"
  "aenq_depth (aenq_advance s) = aenq_depth s" "aenq_base (aenq_advance s) = aenq_base s"
  "REG (aenq_advance s) off = REG s off" "reg (aenq_advance s) = reg s"
  "trace (aenq_advance s) = trace s"
  by (simp_all add: aenq_depth_def aenq_base_def reg64_def aenq_advance_def Let_def)

text \<open>What an event may change: the ring position, its register and the trace.\<close>

definition aenq_frame :: "EnaState \<Rightarrow> EnaState" where
  "aenq_frame s = s\<lparr>aenq_tail := 0, aenq_phase := False, reg := (reg s)[17 := 0], trace := []\<rparr>"

lemma aenq_frame_simps [simp]:
  "aenq_frame (emit e s) = aenq_frame s" "aenq_frame (aenq_advance s) = aenq_frame s"
  "aenq_frame (set_REG s ENA_REGS_AENQ_TAIL_OFF v) = aenq_frame s"
  "aenq_frame (ena_admin_intr s) = aenq_frame s"
  by (simp_all add: aenq_frame_def emit_def aenq_advance_def Let_def set_REG_def ena_const ena_admin_intr_def)

section \<open>The event ring\<close>

interpretation aenqr: phase_ring aenq_tail aenq_phase "\<lambda>s. unat (aenq_depth s)"
  "\<lambda>s. unat (aenq_tail s mod aenq_depth s)" aenq_advance "\<lambda>s. is_ring_depth (aenq_depth s)"
proof unfold_locales
  fix s :: EnaState
  assume d: "is_ring_depth (aenq_depth s)"
  then show "\<exists>k \<le> 15. unat (aenq_depth s) = 2 ^ k" by (elim is_ring_depthE) auto
  show "aenq_phase (aenq_advance s) =
      (if unat (aenq_tail s + 1) mod unat (aenq_depth s) = 0 then \<not> aenq_phase s else aenq_phase s)"
    by (simp add: aenq_advance_def Let_def flip: unat_mod unat_eq_0)
qed (simp_all add: unat_mod, simp add: aenq_advance_def Let_def)

definition aenq_counts :: "nat \<Rightarrow> EnaState \<Rightarrow> bool" where
  "aenq_counts n s \<longleftrightarrow> is_ring_depth (aenq_depth s) \<and> aenq_tail s = of_nat n \<and>
     aenq_phase s = even (n div unat (aenq_depth s))"

lemma aenq_counts_eq: "aenq_counts n s = aenqr.counts n s"
  by (simp add: aenq_counts_def aenqr.counts_def)

text \<open>The entries the driver has granted and the device has not used yet.\<close>

definition aenq_credit :: "EnaState \<Rightarrow> nat" where
  "aenq_credit s = unat (ucast (REG s ENA_REGS_AENQ_HEAD_DB_OFF) - aenq_tail s :: u16)"

lemma aenq_mk_entry_wf: "length data \<le> 48 \<Longrightarrow> wf_ena_admin_aenq_entry (aenq_mk_entry s g y lo hi data)"
  by (simp add: aenq_mk_entry_def ena_codec)

lemma admin_intr_simps [simp]:
  "reg (ena_admin_intr s) = reg s" "REG (ena_admin_intr s) off = REG s off"
  "aenq_tail (ena_admin_intr s) = aenq_tail s" "aenq_phase (ena_admin_intr s) = aenq_phase s"
  "aenq_depth (ena_admin_intr s) = aenq_depth s"
  by (simp_all add: ena_admin_intr_def)

lemma trace_admin_intr:
  "trace (ena_admin_intr s) = trace s @ (if bit (REG s ENA_REGS_INTR_MASK_OFF) 0 then [] else [MsixNotify 0])"
proof -
  have "(REG s ENA_REGS_INTR_MASK_OFF AND 1 = 0) = (\<not> bit (REG s ENA_REGS_INTR_MASK_OFF) 0)"
    by (simp only: and_one_eq bit_0 even_iff_mod_2_eq_zero not_not)
  then show ?thesis by (simp add: ena_admin_intr_def ena_const)
qed

lemma set_tail_reg [simp]:
  "REG (set_REG s ENA_REGS_AENQ_TAIL_OFF v) ENA_REGS_AENQ_HEAD_DB_OFF = REG s ENA_REGS_AENQ_HEAD_DB_OFF"
  "REG (set_REG s ENA_REGS_AENQ_TAIL_OFF v) ENA_REGS_INTR_MASK_OFF = REG s ENA_REGS_INTR_MASK_OFF"
  "aenq_depth (set_REG s ENA_REGS_AENQ_TAIL_OFF v) = aenq_depth s"
  "aenq_tail (set_REG s off v) = aenq_tail s" "aenq_phase (set_REG s off v) = aenq_phase s"
  "trace (set_REG s off v) = trace s" "length (reg (set_REG s off v)) = length (reg s)"
  by (simp_all add: REG_set_REG ena_const aenq_depth_def) (simp_all add: set_REG_def)

lemma aenq_publish_spec:
  assumes "aenq_counts n s" and "length (reg s) = ENA_REG_COUNT" and "0 < aenq_credit s"
  shows "aenq_counts (Suc n) (aenq_publish s e)" "Suc (aenq_credit (aenq_publish s e)) = aenq_credit s"
    "aenq_frame (aenq_publish s e) = aenq_frame s"
    "REG (aenq_publish s e) ENA_REGS_AENQ_TAIL_OFF = ucast (aenq_tail (aenq_publish s e))"
    "trace (aenq_publish s e) = trace s @
       DmaWrite (aenq_base s + of_nat (n mod unat (aenq_depth s) * 64)) (enc_ena_admin_aenq_entry e) #
       (if bit (REG s ENA_REGS_INTR_MASK_OFF) 0 then [] else [MsixNotify 0])"
proof -
  have c: "aenqr.counts n s" using assms(1) by (simp add: aenq_counts_eq)
  have "aenqr.counts (Suc n) (aenq_advance (emit w s))" for w
    using c by (intro aenqr.counts_push) (simp add: aenqr.counts_def)
  then show "aenq_counts (Suc n) (aenq_publish s e)"
    by (simp add: aenq_counts_def aenqr.counts_def aenq_publish_def ena_dma_write_def Let_def)
  have "unat (x - (t + 1)) = unat (x - t) - 1" if "0 < unat (x - t)" for x t :: u16
    using that by (metis add_diff_eq diff_diff_eq unat_minus_one unat_gt_0 word_gt_0)
  then show "Suc (aenq_credit (aenq_publish s e)) = aenq_credit s"
    using assms(3)
    by (simp add: aenq_credit_def aenq_publish_def ena_dma_write_def Let_def aenqr.tail_push) (simp add: aenq_advance_def Let_def)
  show "aenq_frame (aenq_publish s e) = aenq_frame s"
    by (simp add: aenq_publish_def ena_dma_write_def Let_def)
  show "REG (aenq_publish s e) ENA_REGS_AENQ_TAIL_OFF = ucast (aenq_tail (aenq_publish s e))"
    using assms(2) by (simp add: aenq_publish_def ena_dma_write_def Let_def REG_set_REG) (simp add: ena_const)
  have "(of_nat (unat (aenq_tail s mod aenq_depth s)) :: u64) = of_nat (n mod unat (aenq_depth s))"
    by (simp only: aenqr.counts_slot [OF c])
  then show "trace (aenq_publish s e) = trace s @
       DmaWrite (aenq_base s + of_nat (n mod unat (aenq_depth s) * 64)) (enc_ena_admin_aenq_entry e) #
       (if bit (REG s ENA_REGS_INTR_MASK_OFF) 0 then [] else [MsixNotify 0])"
    by (simp add: aenq_publish_def ena_dma_write_def Let_def trace_admin_intr)
qed

lemma aenq_post_in_credit:
  assumes "aenq_counts n s" and "aenq_base s \<noteq> 0" and "bit (aenq_groups s) (unat grp)"
    and "0 < aenq_credit s" and "aenq_credit s \<le> unat (aenq_depth s)"
    and "length data \<le> 48" and "length (reg s) = ENA_REG_COUNT"
  shows "\<exists>s' e. ena_aenq_post Q s grp syndrome data = Inr s' \<and> aenq_counts (Suc n) s' \<and>
    Suc (aenq_credit s') = aenq_credit s \<and> aenq_frame s' = aenq_frame s \<and>
    REG s' ENA_REGS_AENQ_TAIL_OFF = ucast (aenq_tail s') \<and>
    trace s' = trace s @ [ClockGetUs, ClockGetUs,
        DmaWrite (aenq_base s + of_nat (n mod unat (aenq_depth s) * 64)) (enc_ena_admin_aenq_entry e)] @
      (if bit (REG s ENA_REGS_INTR_MASK_OFF) 0 then [] else [MsixNotify 0]) \<and>
    wf_ena_admin_aenq_entry e \<and>
    aenq_common_group (aenq_entry_aenq_common_desc e) = grp \<and>
    aenq_common_syndrome (aenq_entry_aenq_common_desc e) = syndrome \<and>
    aenq_common_flags (aenq_entry_aenq_common_desc e) = (if even (n div unat (aenq_depth s)) then 1 else 0) \<and>
    take (length data) (aenq_entry_inline_data_w4 e) = data"
proof -
  let ?s2 = "emit ClockGetUs (emit ClockGetUs s)"
  let ?e = "aenq_mk_entry ?s2 grp syndrome (clock_us Q (trace s)) (clock_us Q (trace s @ [ClockGetUs])) data"
  have "aenq_depth s \<noteq> 0" using assms(1) by (auto simp: aenq_counts_def elim!: is_ring_depthE)
  moreover have "ucast (REG s ENA_REGS_AENQ_HEAD_DB_OFF) \<noteq> aenq_tail s"
    using assms(4) by (auto simp: aenq_credit_def)
  moreover have "\<not> aenq_depth s < ucast (REG s ENA_REGS_AENQ_HEAD_DB_OFF) - aenq_tail s"
    using assms(5) by (simp add: aenq_credit_def word_less_nat_alt)
  ultimately have "ena_aenq_post Q s grp syndrome data = Inr (aenq_publish ?s2 ?e)"
    using assms(2,3,6) by (simp add: ena_aenq_post_def qemu_clock_get_us_def and_BIT_eq_0)
  moreover have "aenq_counts n ?s2" "length (reg ?s2) = ENA_REG_COUNT" "0 < aenq_credit ?s2"
    using assms by (simp_all add: aenq_counts_def aenq_credit_def)
  note aenq_publish_spec [OF this, of ?e]
  moreover have "wf_ena_admin_aenq_entry ?e" by (rule aenq_mk_entry_wf [OF assms(6)])
  ultimately show ?thesis
    using assms(1,4) by (intro exI [of _ "aenq_publish ?s2 ?e"] exI [of _ ?e])
      (simp add: aenq_mk_entry_def aenq_counts_def aenq_credit_def)
qed

text \<open>A reset device whose driver has set up an event queue of 8 entries and granted all of them.\<close>

definition aenq_ready_state :: EnaState where
  "aenq_ready_state = (ena_realize [2, 0, 0, 0, 0, 1] False)
     \<lparr>reg := (replicate ENA_REG_COUNT 0)[13 := 0x400008, 14 := 0x2000, 16 := 8],
      aenq_phase := True, aenq_groups := BIT 0\<rparr>"

lemma aenq_ready_simps [simp]:
  "aenq_depth aenq_ready_state = 8" "aenq_base aenq_ready_state = 0x2000"
  "aenq_credit aenq_ready_state = 8" "aenq_counts 0 aenq_ready_state"
  "bit (aenq_groups aenq_ready_state) 0" "length (reg aenq_ready_state) = ENA_REG_COUNT"
  "trace aenq_ready_state = []" "REG aenq_ready_state ENA_REGS_INTR_MASK_OFF = 0"
  by (simp_all add: aenq_ready_state_def ena_realize_def aenq_depth_def aenq_base_def reg64_def
      aenq_credit_def REG_def aenq_counts_def ena_const)

lemma aenq_post_dropped:
  assumes "length data \<le> 48"
    and "aenq_base s = 0 \<or> aenq_depth s = 0 \<or> \<not> bit (aenq_groups s) (unat grp) \<or>
      aenq_credit s = 0 \<or> unat (aenq_depth s) < aenq_credit s"
  shows "ena_aenq_post Q s grp syndrome data = Inr s"
proof -
  have "aenq_credit s = 0 \<longleftrightarrow> ucast (REG s ENA_REGS_AENQ_HEAD_DB_OFF) = aenq_tail s"
    by (simp add: aenq_credit_def unat_eq_0)
  with assms show ?thesis
    by (auto simp: ena_aenq_post_def Let_def and_BIT_eq_0 aenq_credit_def word_less_nat_alt)
qed

subsection \<open>The ring stays in step\<close>

text \<open>As soon as the event ring has a depth, its phase is that of the lap of its tail.\<close>

definition aenq_sync :: "EnaState \<Rightarrow> bool" where
  "aenq_sync s \<longleftrightarrow> aenq_depth s = 0 \<or> aenq_counts (unat (aenq_tail s)) s"

lemma aenq_sync_cong:
  "aenq_tail s' = aenq_tail s \<Longrightarrow> aenq_phase s' = aenq_phase s \<Longrightarrow> reg s' ! 13 = reg s ! 13 \<Longrightarrow> aenq_sync s' = aenq_sync s"
  by (simp add: aenq_sync_def aenq_counts_def aenq_depth_def REG_def ENA_REGS_AENQ_CAPS_OFF_def)

lemma aenq_sync_emit [simp]: "aenq_sync (emit e s) = aenq_sync s"
  by (rule aenq_sync_cong) simp_all

lemma aenq_publish_sync:
  assumes "aenq_sync s" and "aenq_depth s \<noteq> 0"
  shows "aenq_sync (aenq_publish s e)"
proof -
  have "aenqr.counts (unat (aenq_tail s)) s" using assms by (simp add: aenq_sync_def aenq_counts_eq)
  then have "aenqr.counts (Suc (unat (aenq_tail s))) (aenq_advance (emit w s))" for w
    by (intro aenqr.counts_push) (simp add: aenqr.counts_def)
  then have "aenq_counts (Suc (unat (aenq_tail s))) (aenq_publish s e)"
    by (simp add: aenq_counts_def aenqr.counts_def aenq_publish_def ena_dma_write_def Let_def)
  then show ?thesis unfolding aenq_sync_def aenq_counts_eq by (simp add: aenqr.counts_tail)
qed

lemma ena_aenq_post_sync:
  "ena_aenq_post Q s grp syndrome data = Inr s' \<Longrightarrow> aenq_sync s \<Longrightarrow> aenq_sync s'"
  by (auto simp: ena_aenq_post_def Let_def qemu_clock_get_us_def split: if_splits intro!: aenq_publish_sync)

lemma aenq_events_sync:
  "ena_post_link_change Q s = Inr s' \<Longrightarrow> aenq_sync s \<Longrightarrow> aenq_sync s'"
  "ena_keep_alive Q s = Inr s' \<Longrightarrow> aenq_sync s \<Longrightarrow> aenq_sync s'"
  by (auto simp: ena_post_link_change_def ena_keep_alive_def Let_def bindR_eq_Inr qemu_clock_get_ms_def
      dest: ena_aenq_post_sync)

lemma aenq_sync_update [simp]:
  "aenq_sync (s\<lparr>aenq_groups := g\<rparr>) = aenq_sync s" "aenq_sync (s\<lparr>mtu := m\<rparr>) = aenq_sync s"
  "aenq_sync (s\<lparr>rss := r\<rparr>) = aenq_sync s" "aenq_sync (s\<lparr>host_info_addr := a\<rparr>) = aenq_sync s"
  "aenq_sync (s\<lparr>debug_area_addr := a\<rparr>) = aenq_sync s" "aenq_sync (s\<lparr>debug_area_size := n\<rparr>) = aenq_sync s"
  "aenq_sync (s\<lparr>llq_enabled := b, llq_entry_size := z\<rparr>) = aenq_sync s" "aenq_sync (s\<lparr>aq_head := h\<rparr>) = aenq_sync s"
  "aenq_sync (s\<lparr>acq_tail := t, acq_phase := p\<rparr>) = aenq_sync s"
  by (rule aenq_sync_cong; simp)+

lemma aenq_sync_set_REG: "off div 4 \<noteq> 13 \<Longrightarrow> aenq_sync (set_REG s off v) = aenq_sync s"
  by (rule aenq_sync_cong) (simp_all add: set_REG_def)

lemma ena_aenq_config_sync:
  assumes "ena_aenq_config Q s g = Inr s'" and "aenq_sync s"
  shows "aenq_sync s'"
proof (cases "g AND BIT (unat ENA_ADMIN_LINK_CHANGE) \<noteq> 0")
  case True
  then obtain t where t: "ena_post_link_change Q (s\<lparr>aenq_groups := g\<rparr>) = Inr t"
    using assms(1) by (auto simp: ena_aenq_config_def bindR_eq_Inr)
  then have "aenq_sync t" using aenq_events_sync(1) [OF t] assms(2) by simp
  moreover have "aenq_sync s' = aenq_sync t"
    using assms(1) True t
    by (cases "g AND BIT (unat ENA_ADMIN_KEEP_ALIVE) \<noteq> 0") (auto simp: ena_aenq_config_def Let_def qemu_clock_get_ms_def)
  ultimately show ?thesis by simp
next
  case False
  then show ?thesis
    using assms
    by (cases "g AND BIT (unat ENA_ADMIN_KEEP_ALIVE) \<noteq> 0") (auto simp: ena_aenq_config_def Let_def qemu_clock_get_ms_def)
qed

text \<open>
  C19. When an event is delivered and when not. If its group is enabled, the queue is configured and
  the driver has granted between one and \<open>depth\<close> entries, one 64-byte entry with the current phase goes to
  slot \<open>n mod depth\<close>, the tail register follows, one granted entry is used up and the admin vector is
  notified unless it is masked. In every other case the event is dropped without touching the device:
  the driver's ring is never written beyond what it granted.
\<close>

theorem aenq_post_exact:
  assumes "length data \<le> 48" and "length (reg s) = ENA_REG_COUNT" and "aenq_depth s \<noteq> 0 \<longrightarrow> aenq_counts n s"
  shows "if aenq_base s \<noteq> 0 \<and> aenq_depth s \<noteq> 0 \<and> bit (aenq_groups s) (unat grp) \<and>
      0 < aenq_credit s \<and> aenq_credit s \<le> unat (aenq_depth s)
    then \<exists>s' e. ena_aenq_post Q s grp syndrome data = Inr s' \<and> aenq_counts (Suc n) s' \<and>
    Suc (aenq_credit s') = aenq_credit s \<and> aenq_frame s' = aenq_frame s \<and>
    REG s' ENA_REGS_AENQ_TAIL_OFF = ucast (aenq_tail s') \<and>
    trace s' = trace s @ [ClockGetUs, ClockGetUs,
        DmaWrite (aenq_base s + of_nat (n mod unat (aenq_depth s) * 64)) (enc_ena_admin_aenq_entry e)] @
      (if bit (REG s ENA_REGS_INTR_MASK_OFF) 0 then [] else [MsixNotify 0]) \<and>
    wf_ena_admin_aenq_entry e \<and>
    aenq_common_group (aenq_entry_aenq_common_desc e) = grp \<and>
    aenq_common_syndrome (aenq_entry_aenq_common_desc e) = syndrome \<and>
    aenq_common_flags (aenq_entry_aenq_common_desc e) = (if even (n div unat (aenq_depth s)) then 1 else 0) \<and>
    take (length data) (aenq_entry_inline_data_w4 e) = data
    else ena_aenq_post Q s grp syndrome data = Inr s"
  using aenq_post_in_credit [of n s grp data Q syndrome] aenq_post_dropped [of data s grp Q syndrome] assms
  by (simp add: not_le not_less)

theorem aenq_post_exact_witness:
  "\<exists>s'. ena_aenq_post (quiet_qemu (\<lambda>_. 0) (\<lambda>_. 0)) aenq_ready_state 0 0 [1, 0, 0, 0] = Inr s' \<and>
     aenq_counts 1 s' \<and> aenq_credit s' = 7"
  using aenq_post_exact [of "[1, 0, 0, 0]" aenq_ready_state 0 0 "quiet_qemu (\<lambda>_. 0) (\<lambda>_. 0)" 0]
  by auto

end
