(* ===== verification/Ena_Reset.thy ===== *)
theory Ena_Reset
  imports Ena_Aenq
begin

text \<open>
  Device reset, the register file and the reads by message of \<open>src/hw/ena.c\<close>, with the address
  decoding and the RSS defaults they share with the admin commands.
\<close>

section \<open>Operations\<close>

definition ena_mem_addr :: "ena_common_mem_addr \<Rightarrow> u64" where
  "ena_mem_addr a = push_bit 32 (ucast (mem_addr_mem_addr_high a)) OR ucast (mem_addr_mem_addr_low a)"

definition ena_stats_reset :: "EnaState \<Rightarrow> EnaState" where
  "ena_stats_reset s = s\<lparr>tx_pkts := 0, tx_bytes := 0, rx_pkts := 0, rx_bytes := 0,
     rx_drops := 0, tx_drops := 0\<rparr>"

definition ENA_RSS_L3L4_FIELDS :: u16 where
  [ena_const]: "ENA_RSS_L3L4_FIELDS =
     ENA_ADMIN_RSS_L3_DA OR ENA_ADMIN_RSS_L3_SA OR ENA_ADMIN_RSS_L4_DP OR ENA_ADMIN_RSS_L4_SP"

definition ENA_RSS_L3_FIELDS :: u16 where
  [ena_const]: "ENA_RSS_L3_FIELDS = ENA_ADMIN_RSS_L3_DA OR ENA_ADMIN_RSS_L3_SA"

definition ena_rss_supported_fields :: "nat \<Rightarrow> u16" where
  "ena_rss_supported_fields proto =
     (if proto \<in> {ENA_ADMIN_RSS_TCP4, ENA_ADMIN_RSS_UDP4, ENA_ADMIN_RSS_TCP6, ENA_ADMIN_RSS_UDP6}
      then ENA_RSS_L3L4_FIELDS
      else if proto \<in> {ENA_ADMIN_RSS_IP4, ENA_ADMIN_RSS_IP6, ENA_ADMIN_RSS_IP4_FRAG}
      then ENA_RSS_L3_FIELDS
      else 0)"

definition default_key :: "u32 list" where
  "default_key = [0x6d5a56da, 0x255b0ec2, 0x4167253d, 0x43a38fb0, 0xd0ca2bcb,
     0xae7b30b4, 0x77cb2da3, 0x8030f20c, 0x6a42b73b, 0xbeac01fa]"

definition ena_rss_reset :: EnaRss where
  "ena_rss_reset = \<lparr>rss_key = default_key, rss_key_parts = of_nat ENA_ADMIN_RSS_KEY_PARTS,
     rss_init_val = 0,
     rss_fields = map ena_rss_supported_fields [0..<ENA_ADMIN_RSS_PROTO_NUM],
     rss_ind_tbl = replicate ENA_RSS_IND_TBL_SIZE 0\<rparr>"

text \<open>One round of the loop over the vectors: the timer is deleted, all but the vector is cleared.\<close>

definition irq_reset :: "nat \<Rightarrow> EnaState \<Rightarrow> EnaState" where
  "irq_reset i s =
     (let q = irq s ! i;
          s = emit (TimerDel (ModerTimer (irq_vector q))) s
      in s\<lparr>irq := (irq s)[i := q\<lparr>irq_unmasked := False, irq_rx_pending := False,
                irq_tx_pending := False, irq_rx_delay_us := 0, irq_tx_delay_us := 0\<rparr>]\<rparr>)"

definition reset_version :: u32 where
  "reset_version = push_bit ENA_REGS_VERSION_MAJOR_VERSION_SHIFT ENA_VERSION_MAJOR OR ENA_VERSION_MINOR"

definition reset_controller_version :: u32 where
  "reset_controller_version =
     push_bit ENA_REGS_CONTROLLER_VERSION_IMPL_ID_SHIFT ENA_CTRL_VERSION_IMPL_ID OR
     push_bit ENA_REGS_CONTROLLER_VERSION_MAJOR_VERSION_SHIFT ENA_CTRL_VERSION_MAJOR OR
     push_bit ENA_REGS_CONTROLLER_VERSION_MINOR_VERSION_SHIFT ENA_CTRL_VERSION_MINOR OR
     ENA_CTRL_VERSION_SUBMINOR"

definition reset_caps :: u32 where
  "reset_caps =
     push_bit ENA_REGS_CAPS_RESET_TIMEOUT_SHIFT ENA_CAPS_RESET_TIMEOUT OR
     push_bit ENA_REGS_CAPS_DMA_ADDR_WIDTH_SHIFT (of_nat ENA_DMA_ADDR_WIDTH) OR
     push_bit ENA_REGS_CAPS_ADMIN_CMD_TO_SHIFT ENA_CAPS_ADMIN_CMD_TO"

definition ena_dev_reset :: "EnaState \<Rightarrow> EnaState" where
  "ena_dev_reset s =
     (let s = s\<lparr>reg := replicate ENA_REG_COUNT 0, aq_head := 0, acq_tail := 0, acq_phase := True,
                aenq_tail := 0, aenq_phase := True, aenq_groups := 0\<rparr>;
          s = emit (TimerDel KeepAliveTimer) s;
          s = s\<lparr>mtu := of_nat ENA_MAX_MTU, host_info_addr := 0, debug_area_addr := 0,
                debug_area_size := 0, llq_enabled := False, llq_entry_size := 0,
                rss := ena_rss_reset,
                sq := replicate ENA_MAX_SQ zero_sq, cq := replicate ENA_MAX_CQ zero_cq\<rparr>;
          s = fold irq_reset [0..<ENA_MSIX_VECTORS] s;
          s = ena_stats_reset s;
          s = set_REG s ENA_REGS_VERSION_OFF reset_version;
          s = set_REG s ENA_REGS_CONTROLLER_VERSION_OFF reset_controller_version;
          s = set_REG s ENA_REGS_CAPS_OFF reset_caps
      in set_REG s ENA_REGS_DEV_STS_OFF ENA_REGS_DEV_STS_READY_MASK)"

definition ena_reg_file_read :: "EnaState \<Rightarrow> nat \<Rightarrow> u32" where
  "ena_reg_file_read s off = (if off < ENA_REG_FILE_SIZE then REG s off else 0xffffffff)"

definition ena_mmio_readless :: "EnaState \<Rightarrow> u32 \<Rightarrow> EnaState" where
  "ena_mmio_readless s req =
     (let resp_addr = reg64 s ENA_REGS_MMIO_RESP_HI_OFF ENA_REGS_MMIO_RESP_LO_OFF;
          req_id = ucast (req AND ENA_REGS_MMIO_REG_READ_REQ_ID_MASK) :: u16;
          off = ucast (drop_bit ENA_REGS_MMIO_REG_READ_REG_OFF_SHIFT
                  (req AND ENA_REGS_MMIO_REG_READ_REG_OFF_MASK)) :: u16;
          resp = \<lparr>readless_resp_req_id = req_id, readless_resp_reg_off = off,
                  readless_resp_reg_val = ena_reg_file_read s (unat off)\<rparr>
      in if resp_addr = 0 \<or> off AND 3 \<noteq> 0 then s
         else ena_dma_write s resp_addr (enc_ena_admin_ena_mmio_req_read_less_resp resp))"

definition ena_dev_ctl_write :: "EnaState \<Rightarrow> u32 \<Rightarrow> EnaState result" where
  "ena_dev_ctl_write s val =
     (if val AND NOT (ENA_REGS_DEV_CTL_DEV_RESET_MASK OR ENA_REGS_DEV_CTL_RESET_REASON_MASK OR
                      ENA_REGS_DEV_CTL_RESET_REASON_EXT_MASK) \<noteq> 0
      then Inl (Unsupported U_dev_ctl_write)
      else if val AND ENA_REGS_DEV_CTL_DEV_RESET_MASK \<noteq> 0 then
        let s = ena_dev_reset s;
            s = set_REG s ENA_REGS_DEV_CTL_OFF val
        in Inr (set_REG s ENA_REGS_DEV_STS_OFF ENA_REGS_DEV_STS_RESET_IN_PROGRESS_MASK)
      else if val \<noteq> 0 then Inl (Unsupported U_dev_ctl_reason)
      else
        let s = set_REG s ENA_REGS_DEV_CTL_OFF 0
        in Inr (if REG s ENA_REGS_DEV_STS_OFF AND ENA_REGS_DEV_STS_RESET_IN_PROGRESS_MASK \<noteq> 0
                then set_REG s ENA_REGS_DEV_STS_OFF ENA_REGS_DEV_STS_READY_MASK else s))"

definition ena_check_queue_caps :: "qemu \<Rightarrow> u32 \<Rightarrow> unit result" where
  "ena_check_queue_caps Q val =
     (let depth = ucast (val AND ENA_REGS_AQ_CAPS_AQ_DEPTH_MASK) :: u16;
          entry = drop_bit ENA_REGS_AQ_CAPS_AQ_ENTRY_SIZE_SHIFT (val AND ENA_REGS_AQ_CAPS_AQ_ENTRY_SIZE_MASK)
      in if entry \<noteq> 64 \<or> \<not> is_power_of_2 Q (ucast depth) then Inl (Unsupported U_queue_caps) else Inr ())"

section \<open>Addresses\<close>

lemma bit_ena_mem_addr:
  "bit (ena_mem_addr a) n \<longleftrightarrow>
     (if n < 32 then bit (mem_addr_mem_addr_low a) n else bit (mem_addr_mem_addr_high a) (n - 32))"
  by (auto simp: ena_mem_addr_def bit_simps dest: bit_imp_le_length)

text \<open>The 48-bit address width the device reports in its capabilities bounds every address it uses.\<close>

lemma ena_mem_addr_bound: "unat (ena_mem_addr a) < 2 ^ ENA_DMA_ADDR_WIDTH"
proof -
  have "take_bit 48 (ena_mem_addr a) = ena_mem_addr a"
    by (rule bit_word_eqI) (auto simp: bit_ena_mem_addr bit_simps dest: bit_imp_le_length)
  then have "take_bit 48 (unat (ena_mem_addr a)) = unat (ena_mem_addr a)"
    by (metis unsigned_take_bit_eq)
  then show ?thesis
    by (metis ENA_DMA_ADDR_WIDTH_def take_bit_nat_less_exp)
qed

section \<open>Reset\<close>

lemma length_reset [simp]: "length (irq (irq_reset i s)) = length (irq s)"
  by (simp add: irq_reset_def Let_def)

lemma irq_frame_reset [simp]: "irq_frame (irq_reset i s) = irq_frame s"
  by (simp add: irq_reset_def Let_def)

lemma irq_frame_resets [simp]: "irq_frame (fold irq_reset is s) = irq_frame s"
  by (induction "is" arbitrary: s) simp_all

lemma length_resets [simp]: "length (irq (fold irq_reset is s)) = length (irq s)"
  by (induction "is" arbitrary: s) simp_all

lemma resets_addr:
  "host_info_addr (fold irq_reset is s) = host_info_addr s"
  "debug_area_addr (fold irq_reset is s) = debug_area_addr s"
  "debug_area_size (fold irq_reset is s) = debug_area_size s"
  by (induction "is" arbitrary: s) (simp_all add: irq_reset_def Let_def)

definition zero_irq :: "u32 \<Rightarrow> EnaIrq" where
  "zero_irq v = \<lparr>irq_unmasked = False, irq_rx_pending = False, irq_tx_pending = False,
     irq_rx_delay_us = 0, irq_tx_delay_us = 0, irq_vector = v\<rparr>"

lemma irq_resets_nth:
  "\<forall>i \<in> set is. i < length (irq s) \<Longrightarrow> v < length (irq s) \<Longrightarrow>
   irq (fold irq_reset is s) ! v = (if v \<in> set is then zero_irq (irq_vector (irq s ! v)) else irq s ! v)"
proof (induction "is" arbitrary: s)
  case (Cons i "is")
  have "irq (irq_reset i s) ! v = (if v = i then zero_irq (irq_vector (irq s ! v)) else irq s ! v)"
    using Cons.prems by (simp add: irq_reset_def Let_def zero_irq_def nth_list_update)
  with Cons show ?case by (auto simp: zero_irq_def)
qed simp

lemma trace_resets:
  "\<forall>i \<in> set is. i < length (irq s) \<Longrightarrow>
   trace (fold irq_reset is s) = trace s @ map (\<lambda>i. TimerDel (ModerTimer (irq_vector (irq s ! i)))) is"
proof (induction "is" arbitrary: s)
  case (Cons i "is")
  have "irq_vector (irq (irq_reset i s) ! j) = irq_vector (irq s ! j)" for j
    using Cons.prems by (cases "j = i") (simp_all add: irq_reset_def Let_def)
  moreover have "trace (irq_reset i s) = trace s @ [TimerDel (ModerTimer (irq_vector (irq s ! i)))]"
    by (simp add: irq_reset_def Let_def)
  ultimately show ?case using Cons by simp
qed simp

text \<open>The reset state, field by field.\<close>

lemma ena_dev_reset_sel:
  "aq_head (ena_dev_reset s) = 0" "acq_tail (ena_dev_reset s) = 0" "acq_phase (ena_dev_reset s)"
  "aenq_tail (ena_dev_reset s) = 0" "aenq_phase (ena_dev_reset s)" "aenq_groups (ena_dev_reset s) = 0"
  "mtu (ena_dev_reset s) = of_nat ENA_MAX_MTU" "llq_enabled (ena_dev_reset s) = False"
  "llq_entry_size (ena_dev_reset s) = 0" "rss (ena_dev_reset s) = ena_rss_reset"
  "sq (ena_dev_reset s) = replicate ENA_MAX_SQ zero_sq" "cq (ena_dev_reset s) = replicate ENA_MAX_CQ zero_cq"
  "macaddr (ena_dev_reset s) = macaddr s" "llq_large (ena_dev_reset s) = llq_large s"
  "tx_pkts (ena_dev_reset s) = 0" "tx_bytes (ena_dev_reset s) = 0" "rx_pkts (ena_dev_reset s) = 0"
  "rx_bytes (ena_dev_reset s) = 0" "rx_drops (ena_dev_reset s) = 0" "tx_drops (ena_dev_reset s) = 0"
  by (simp_all add: ena_dev_reset_def Let_def set_REG_def ena_stats_reset_def
        irq_frameD [OF irq_frame_resets])

lemma ena_dev_reset_reg:
  "reg (ena_dev_reset s) =
     (replicate 28 0)[0 := reset_version, 1 := reset_controller_version, 2 := reset_caps, 22 := 1]"
  by (simp add: ena_dev_reset_def Let_def set_REG_def ena_stats_reset_def irq_frameD [OF irq_frame_resets])
     (simp add: ena_const)

lemma ena_dev_reset_irq:
  assumes "length (irq s) = ENA_MSIX_VECTORS"
  shows "irq (ena_dev_reset s) = map (\<lambda>i. zero_irq (irq_vector i)) (irq s)"
proof (rule nth_equalityI)
  show "length (irq (ena_dev_reset s)) = length (map (\<lambda>i. zero_irq (irq_vector i)) (irq s))"
    by (simp add: ena_dev_reset_def Let_def set_REG_def ena_stats_reset_def)
  fix v assume "v < length (irq (ena_dev_reset s))"
  then have "v < ENA_MSIX_VECTORS"
    using assms by (simp add: ena_dev_reset_def Let_def set_REG_def ena_stats_reset_def)
  with assms show "irq (ena_dev_reset s) ! v = map (\<lambda>i. zero_irq (irq_vector i)) (irq s) ! v"
    by (simp add: ena_dev_reset_def Let_def set_REG_def ena_stats_reset_def irq_resets_nth)
qed

lemma ena_dev_reset_trace:
  assumes "length (irq s) = ENA_MSIX_VECTORS"
  shows "trace (ena_dev_reset s) = trace s @ TimerDel KeepAliveTimer #
    map (\<lambda>i. TimerDel (ModerTimer (irq_vector (irq s ! i)))) [0..<ENA_MSIX_VECTORS]"
  using assms by (simp add: ena_dev_reset_def Let_def set_REG_def ena_stats_reset_def trace_resets)

lemma fold_timer_del:
  "TimerDel t \<in> set es \<Longrightarrow> (\<forall>e \<in> set es. \<exists>t'. e = TimerDel t') \<Longrightarrow> \<not> fold (timer_step t) es a"
proof (induction es arbitrary: a)
  case (Cons e es)
  have stays: "\<not> fold (timer_step t) es False" if "\<forall>e \<in> set es. \<exists>t'. e = TimerDel t'" for es
    using that by (induction es) auto
  show ?case
  proof (cases "e = TimerDel t")
    case True
    then show ?thesis using stays Cons.prems(2) by simp
  next
    case False
    then show ?thesis using Cons by auto
  qed
qed simp

lemma ena_dev_reset_timers:
  assumes "irq_ok s" and "t = KeepAliveTimer \<or> (\<exists>v < ENA_MSIX_VECTORS. t = ModerTimer (of_nat v))"
  shows "\<not> timer_armed t (trace (ena_dev_reset s))"
proof -
  have len: "length (irq s) = ENA_MSIX_VECTORS" using assms(1) by (simp add: irq_ok_def)
  have "TimerDel t \<in> set (TimerDel KeepAliveTimer #
      map (\<lambda>i. TimerDel (ModerTimer (irq_vector (irq s ! i)))) [0..<ENA_MSIX_VECTORS])"
    using assms by (auto simp: irq_ok_def)
  then show ?thesis
    unfolding ena_dev_reset_trace [OF len] timer_armed_append
    by (rule fold_timer_del) auto
qed

lemma ena_dev_reset_calls: "irq_ok s \<Longrightarrow> list_all vec_call (trace (ena_dev_reset s))"
  by (auto simp: irq_ok_def ena_dev_reset_trace list_all_iff vectors9)

lemma ena_dev_reset_irq_ok: "irq_ok s \<Longrightarrow> irq_ok (ena_dev_reset s)"
  using ena_dev_reset_timers [of s] ena_dev_reset_calls [of s]
  by (auto simp: irq_ok_def ena_dev_reset_irq zero_irq_def)

lemma ena_dev_reset_one_shot: "irq_ok s \<Longrightarrow> one_shot s (ena_dev_reset s)"
  by (auto simp: irq_ok_def one_shot_def vec_pot_def ena_dev_reset_trace ena_dev_reset_irq zero_irq_def vectors9
      msix_count_def filter_empty_conv)

lemma irq_ok_realize: "irq_ok (ena_realize mac large)"
  by (simp add: irq_ok_def ena_realize_def)

text \<open>The state a reset leaves, apart from what it cannot see: the attached frame and the past calls.\<close>

definition reset_view :: "EnaState \<Rightarrow> EnaState" where
  "reset_view s = s\<lparr>rx_pkt := [], trace := []\<rparr>"

text \<open>
  C20. Reset erases the history of the device: from any state whose vectors carry their numbers it
  reaches the state a freshly created device is reset to, with the same MAC address and LLQ
  property, and no keep-alive or moderation timer is left running.
\<close>

theorem dev_reset_erases:
  assumes "irq_ok s"
  shows "reset_view (ena_dev_reset s) = reset_view (ena_dev_reset (ena_realize (macaddr s) (llq_large s))) \<and>
    \<not> timer_armed KeepAliveTimer (trace (ena_dev_reset s)) \<and>
    (\<forall>v < ENA_MSIX_VECTORS. \<not> timer_armed (ModerTimer (of_nat v)) (trace (ena_dev_reset s)))"
proof -
  let ?r = "ena_realize (macaddr s) (llq_large s)"
  have "map (\<lambda>i. zero_irq (irq_vector i)) (irq s) = map (\<lambda>i. zero_irq (irq_vector i)) (irq ?r)"
    using assms by (intro nth_equalityI) (simp_all add: irq_ok_def ena_realize_def)
  then have "irq (ena_dev_reset s) = irq (ena_dev_reset ?r)"
    using assms irq_ok_realize by (simp add: irq_ok_def ena_dev_reset_irq)
  moreover have "host_info_addr (ena_dev_reset x) = 0" "debug_area_addr (ena_dev_reset x) = 0"
    "debug_area_size (ena_dev_reset x) = 0" for x
    by (simp_all add: ena_dev_reset_def Let_def set_REG_def ena_stats_reset_def resets_addr)
  ultimately have "reset_view (ena_dev_reset s) = reset_view (ena_dev_reset ?r)"
    by (intro EnaState.equality)
       (simp_all add: reset_view_def ena_dev_reset_sel ena_dev_reset_reg, simp_all add: ena_realize_def)
  then show ?thesis using ena_dev_reset_timers [OF assms] by auto
qed

theorem dev_reset_erases_witness:
  "reset_view (ena_dev_reset ((ena_realize [2, 0, 0, 0, 0, 1] True)\<lparr>mtu := 300, aenq_groups := 6\<rparr>)) =
     reset_view (ena_dev_reset (ena_realize [2, 0, 0, 0, 0, 1] True))"
proof -
  let ?s = "(ena_realize [2, 0, 0, 0, 0, 1] True)\<lparr>mtu := 300, aenq_groups := 6\<rparr>"
  have "irq_ok ?s"
    using irq_ok_realize [of "[2, 0, 0, 0, 0, 1]" True] by (simp add: irq_ok_def)
  from dev_reset_erases [OF this] show ?thesis by (simp add: ena_realize_def)
qed

section \<open>The reset handshake\<close>

definition dev_ctl_ok :: "u32 \<Rightarrow> bool" where
  "dev_ctl_ok val \<longleftrightarrow> val AND NOT (ENA_REGS_DEV_CTL_DEV_RESET_MASK OR ENA_REGS_DEV_CTL_RESET_REASON_MASK OR
     ENA_REGS_DEV_CTL_RESET_REASON_EXT_MASK) = 0"

lemma reg_consts:
  "ENA_REGS_DEV_CTL_OFF = 84" "ENA_REGS_DEV_STS_OFF = 88" "ENA_REG_COUNT = 28"
  by (simp_all add: ena_const)

lemma REG_reset: "length (reg (ena_dev_reset s)) = 28" "REG (ena_dev_reset s) 88 = 1" "REG (ena_dev_reset s) 84 = 0"
  by (simp_all add: REG_def ena_dev_reset_reg)

lemma set_REG_irq_frame [simp]:
  "irq (set_REG s off v) = irq s" "sq (set_REG s off v) = sq s" "cq (set_REG s off v) = cq s"
  by (simp_all add: set_REG_def)

text \<open>The state between the two writes of the handshake.\<close>

definition resetting :: "u32 \<Rightarrow> EnaState \<Rightarrow> EnaState" where
  "resetting val s = set_REG (set_REG (ena_dev_reset s) ENA_REGS_DEV_CTL_OFF val) ENA_REGS_DEV_STS_OFF
     ENA_REGS_DEV_STS_RESET_IN_PROGRESS_MASK"

lemma reset_writes:
  assumes "bit val 0" and "dev_ctl_ok val"
  shows "ena_dev_ctl_write s val = Inr (resetting val s)"
    "REG (resetting val s) ENA_REGS_DEV_STS_OFF = ENA_REGS_DEV_STS_RESET_IN_PROGRESS_MASK"
    "REG (resetting val s) ENA_REGS_DEV_CTL_OFF = val"
    "ena_dev_ctl_write (resetting val s) 0 = Inr (ena_dev_reset s)"
proof -
  have "val AND 1 \<noteq> 0" using assms(1) and_BIT_eq_0 [of val 0] by (simp add: BIT_def)
  moreover define s1 where "s1 = set_REG (set_REG (ena_dev_reset s) 84 val) 88 8"
  have s1_eq: "resetting val s = s1"
    by (simp add: resetting_def s1_def reg_consts ENA_REGS_DEV_STS_RESET_IN_PROGRESS_MASK_def)
  ultimately show "ena_dev_ctl_write s val = Inr (resetting val s)"
    using assms(2) [unfolded dev_ctl_ok_def]
    by (simp only: ena_dev_ctl_write_def Let_def reg_consts ENA_REGS_DEV_CTL_DEV_RESET_MASK_def s1_def
        ENA_REGS_DEV_STS_RESET_IN_PROGRESS_MASK_def if_True if_False simp_thms)
  have r: "REG s1 88 = 8" "REG s1 84 = val"
    by (simp_all add: s1_def REG_set_REG REG_reset)
  then show "REG (resetting val s) ENA_REGS_DEV_STS_OFF = ENA_REGS_DEV_STS_RESET_IN_PROGRESS_MASK"
    "REG (resetting val s) ENA_REGS_DEV_CTL_OFF = val"
    by (simp_all add: s1_eq reg_consts ENA_REGS_DEV_STS_RESET_IN_PROGRESS_MASK_def)
  have "(((reg (ena_dev_reset s))[21 := val, 22 := 8])[21 := 0])[22 := 1] = reg (ena_dev_reset s)"
    by (rule nth_equalityI) (auto simp: ena_dev_reset_reg nth_list_update)
  then have "set_REG (set_REG s1 84 0) 88 1 = ena_dev_reset s"
    by (simp add: s1_def set_REG_def)
  moreover have "REG (set_REG s1 84 0) 88 = 8"
    using r by (simp add: REG_set_REG)
  ultimately show "ena_dev_ctl_write (resetting val s) 0 = Inr (ena_dev_reset s)"
    unfolding s1_eq by (simp add: ena_dev_ctl_write_def Let_def reg_consts)
       (simp add: ENA_REGS_DEV_STS_RESET_IN_PROGRESS_MASK_def ENA_REGS_DEV_STS_READY_MASK_def)
qed

text \<open>
  C21. The reset handshake. A write of a reset reason with the reset bit resets the device, stores
  the reason in \<open>DEV_CTL\<close> and reports the reset in \<open>DEV_STS\<close>; the following write of 0 clears
  \<open>DEV_CTL\<close> and reports the device ready again, and between the two nothing else has moved: the
  state is the reset state but for these two registers, which end as a reset leaves them.
\<close>

theorem dev_ctl_handshake:
  assumes "bit val 0" and "dev_ctl_ok val"
  shows "\<exists>s1. ena_dev_ctl_write s val = Inr s1 \<and>
    REG s1 ENA_REGS_DEV_STS_OFF = ENA_REGS_DEV_STS_RESET_IN_PROGRESS_MASK \<and>
    REG s1 ENA_REGS_DEV_CTL_OFF = val \<and> ena_dev_ctl_write s1 0 = Inr (ena_dev_reset s)"
  using reset_writes [OF assms] by blast

theorem dev_ctl_handshake_witness:
  "\<exists>s1. ena_dev_ctl_write (ena_realize [2, 0, 0, 0, 0, 1] False) 0x10000001 = Inr s1 \<and>
     REG s1 ENA_REGS_DEV_CTL_OFF = 0x10000001 \<and>
     ena_dev_ctl_write s1 0 = Inr (ena_dev_reset (ena_realize [2, 0, 0, 0, 0, 1] False))"
proof -
  have "bit (0x10000001 :: u32) 0" "dev_ctl_ok 0x10000001"
    by (simp_all add: dev_ctl_ok_def ena_const)
  from dev_ctl_handshake [OF this] show ?thesis by blast
qed

section \<open>Reads by message\<close>

text \<open>
  C22. A read request by message on an aligned offset answers with one 8-byte response that carries
  the request's id, its offset, and the register's value, or all ones beyond the register file.
\<close>

theorem mmio_readless_answers:
  assumes "reg64 s ENA_REGS_MMIO_RESP_HI_OFF ENA_REGS_MMIO_RESP_LO_OFF \<noteq> 0"
    and "4 dvd unat off"
  shows "\<exists>bs. ena_mmio_readless s (push_bit 16 (ucast (off :: u16)) OR ucast (req_id :: u16)) =
      emit (DmaWrite (reg64 s ENA_REGS_MMIO_RESP_HI_OFF ENA_REGS_MMIO_RESP_LO_OFF) bs) s \<and> length bs = 8 \<and>
    dec_ena_admin_ena_mmio_req_read_less_resp bs =
      \<lparr>readless_resp_req_id = req_id, readless_resp_reg_off = off,
       readless_resp_reg_val = (if unat off < ENA_REG_FILE_SIZE then REG s (unat off) else 0xffffffff)\<rparr>"
proof -
  let ?req = "push_bit 16 (ucast off) OR ucast req_id :: u32"
  have id: "ucast (?req AND 0xffff) = req_id"
  proof -
    have "?req AND 0xffff = take_bit 16 ?req" by (simp add: take_bit_eq_mask mask_eq_exp_minus_1)
    then show ?thesis by (intro bit_word_eqI) (auto simp: bit_simps)
  qed
  have o: "ucast (drop_bit 16 (?req AND 0xffff0000)) = off"
  proof -
    have m: "(0xffff0000 :: u32) = push_bit 16 (mask 16)" by (simp add: mask_eq_exp_minus_1)
    show ?thesis
      unfolding m by (rule bit_word_eqI) (auto simp: bit_simps dest: bit_imp_le_length)
  qed
  have "unat (off AND 3) = 0"
    using assms(2) unat_and_pow2_mask [of 2 off] by (simp add: dvd_eq_mod_eq_0)
  then have "off AND 3 = 0" by (simp only: unat_eq_0)
  with assms(1) id o have "ena_mmio_readless s ?req =
      emit (DmaWrite (reg64 s ENA_REGS_MMIO_RESP_HI_OFF ENA_REGS_MMIO_RESP_LO_OFF)
        (enc_ena_admin_ena_mmio_req_read_less_resp
          \<lparr>readless_resp_req_id = req_id, readless_resp_reg_off = off,
           readless_resp_reg_val = ena_reg_file_read s (unat off)\<rparr>)) s"
    by (simp add: ena_mmio_readless_def Let_def ena_dma_write_def
        ENA_REGS_MMIO_REG_READ_REQ_ID_MASK_def ENA_REGS_MMIO_REG_READ_REG_OFF_MASK_def
        ENA_REGS_MMIO_REG_READ_REG_OFF_SHIFT_def)
  then show ?thesis
    by (auto simp: readless_resp.load_buffer readless_resp.enc_size ena_reg_file_read_def)
qed

theorem mmio_readless_answers_witness:
  "\<exists>bs. ena_mmio_readless (set_REG (ena_dev_reset (ena_realize [] False)) ENA_REGS_MMIO_RESP_LO_OFF 0x1000)
       (push_bit 16 (ucast (0x58 :: u16)) OR ucast (7 :: u16)) =
      emit (DmaWrite 0x1000 bs) (set_REG (ena_dev_reset (ena_realize [] False)) ENA_REGS_MMIO_RESP_LO_OFF 0x1000) \<and>
    dec_ena_admin_ena_mmio_req_read_less_resp bs =
      \<lparr>readless_resp_req_id = 7, readless_resp_reg_off = 0x58, readless_resp_reg_val = 1\<rparr>"
proof -
  let ?s = "set_REG (ena_dev_reset (ena_realize [] False)) ENA_REGS_MMIO_RESP_LO_OFF 0x1000"
  have a: "reg64 ?s ENA_REGS_MMIO_RESP_HI_OFF ENA_REGS_MMIO_RESP_LO_OFF = 0x1000"
    by (simp add: reg64_def REG_def set_REG_def ena_dev_reset_reg ena_const)
  have "REG ?s 88 = 1"
    by (simp add: REG_def set_REG_def ena_dev_reset_reg ena_const)
  with mmio_readless_answers [of ?s "0x58" 7] a show ?thesis
    by (auto simp: ena_const)
qed

end
