(* ===== verification/Ena_Inv.thy ===== *)
theory Ena_Inv
  imports Ena_Reset
begin

text \<open>
  The device invariant. \<open>cfg_inv\<close> describes what commands and registers have configured and is a
  property of \<open>cfg\<close> alone, so the datapath keeps it by keeping \<open>cfg\<close>; \<open>dev_inv\<close> adds the interrupt
  state and the bound on posted descriptors.
\<close>

section \<open>Well-formed parts\<close>

definition valid_depth :: "u16 \<Rightarrow> bool" where
  "valid_depth d \<longleftrightarrow> is_ring_depth d \<and> ENA_MIN_QUEUE_DEPTH \<le> unat d \<and> unat d \<le> ENA_MAX_QUEUE_DEPTH"

definition caps_wf :: "u32 \<Rightarrow> bool" where
  "caps_wf v \<longleftrightarrow> (ucast (v AND 0xffff) :: u16) = 0 \<or> is_ring_depth (ucast (v AND 0xffff))"

definition regs_wf :: "u32 list \<Rightarrow> bool" where
  "regs_wf r \<longleftrightarrow> length r = ENA_REG_COUNT \<and> caps_wf (r ! 6) \<and> caps_wf (r ! 10) \<and> caps_wf (r ! 13)"

definition fields_wf :: "u16 \<Rightarrow> bool" where
  "fields_wf f \<longleftrightarrow> f = 0 \<or> f = ENA_RSS_L3_FIELDS \<or> f = ENA_RSS_L3L4_FIELDS"

definition rss_wf :: "EnaRss \<Rightarrow> bool" where
  "rss_wf r \<longleftrightarrow> length (rss_key r) = ENA_ADMIN_RSS_KEY_PARTS \<and> rss_key_parts r = of_nat ENA_ADMIN_RSS_KEY_PARTS \<and>
     length (rss_fields r) = ENA_ADMIN_RSS_PROTO_NUM \<and> list_all fields_wf (rss_fields r) \<and>
     length (rss_ind_tbl r) = ENA_RSS_IND_TBL_SIZE \<and> list_all (\<lambda>i. unat i < ENA_MAX_SQ) (rss_ind_tbl r)"

definition llq_size_wf :: "u16 \<Rightarrow> bool" where
  "llq_size_wf n \<longleftrightarrow> unat n = ENA_LLQ_ENTRY_SIZE \<or> unat n = ENA_LLQ_LARGE_ENTRY_SIZE"

definition cq_wf :: "EnaCq \<Rightarrow> bool" where
  "cq_wf q \<longleftrightarrow> cq_used q \<longrightarrow> valid_depth (cq_depth q) \<and> cq_entry_size q \<in> {8, 16, 32} \<and> cq_base q \<noteq> 0 \<and>
     (cq_intr_enabled q \<longrightarrow> cq_msix_vector q = ENA_MSIX_VECTOR_NONE \<or>
        cq_msix_vector q \<noteq> ENA_ADMIN_MSIX_VECTOR \<and> unat (cq_msix_vector q) < ENA_MSIX_VECTORS)"

text \<open>
  A used submission queue feeds a used completion queue at least as deep; an LLQ is a transmit
  queue whose entries fit its slice of the device memory, a receive queue has wide completions.
\<close>

definition sq_wf :: "EnaCq list \<Rightarrow> EnaSq \<Rightarrow> bool" where
  "sq_wf cqs q \<longleftrightarrow> sq_used q \<longrightarrow>
     unat (sq_cq_idx q) < ENA_MAX_CQ \<and> cq_used (cqs ! unat (sq_cq_idx q)) \<and>
     valid_depth (sq_depth q) \<and> unat (sq_depth q) \<le> unat (cq_depth (cqs ! unat (sq_cq_idx q))) \<and>
     (if sq_llq q
      then sq_is_tx q \<and> llq_size_wf (sq_entry_size q) \<and>
           unat (sq_depth q) * unat (sq_entry_size q) \<le> ENA_LLQ_QUEUE_BYTES
      else sq_entry_size q = 0 \<and> sq_base q \<noteq> 0) \<and>
     (\<not> sq_is_tx q \<longrightarrow> 16 \<le> unat (cq_entry_size (cqs ! unat (sq_cq_idx q))))"

definition sq_posted :: "EnaSq \<Rightarrow> nat" where
  "sq_posted q = unat (sq_tail q - sq_head q)"

text \<open>The phase of a completion queue is the phase of the lap its tail is on.\<close>

definition cq_sync :: "EnaCq \<Rightarrow> bool" where
  "cq_sync q \<longleftrightarrow> cq_counts (unat (cq_tail q)) q"

lemma cq_sync_counts: "cq_counts n q \<Longrightarrow> cq_sync q"
  by (simp add: cq_sync_def cq_counts_eq cqr.counts_tail)

lemma cq_sync_advance: "cq_sync q \<Longrightarrow> cq_sync (ena_cq_advance q)"
  unfolding cq_sync_def cq_counts_eq by (drule cqr.counts_push) (rule cqr.counts_tail)

section \<open>The invariant\<close>

definition cfg_inv :: "EnaState \<Rightarrow> bool" where
  "cfg_inv s \<longleftrightarrow> length (macaddr s) = 6 \<and> regs_wf (reg s) \<and>
     ENA_MIN_MTU \<le> unat (mtu s) \<and> unat (mtu s) \<le> ENA_MAX_MTU \<and>
     (llq_enabled s \<longrightarrow> llq_size_wf (llq_entry_size s)) \<and> rss_wf (rss s) \<and>
     length (sq s) = ENA_MAX_SQ \<and> length (cq s) = ENA_MAX_CQ \<and>
     (\<forall>c < ENA_MAX_CQ. cq_wf (cq s ! c)) \<and> (\<forall>i < ENA_MAX_SQ. sq_wf (cq s) (sq s ! i))"

definition dev_inv :: "EnaState \<Rightarrow> bool" where
  "dev_inv s \<longleftrightarrow> cfg_inv s \<and> irq_ok s \<and> (\<forall>c < ENA_MAX_CQ. cq_used (cq s ! c) \<longrightarrow> cq_sync (cq s ! c)) \<and>
     (\<forall>i < ENA_MAX_SQ. sq_used (sq s ! i) \<longrightarrow> sq_posted (sq s ! i) \<le> unat (sq_depth (sq s ! i)))"

lemma cq_wf_cfg: "cfg_cq q' = cfg_cq q \<Longrightarrow> cq_wf q' = cq_wf q"
  by (simp add: cq_wf_def cfg_cqD [of q' q])

lemma sq_wf_cfg:
  assumes "cfg_sq q' = cfg_sq q" and "map cfg_cq cqs' = map cfg_cq cqs" and "length cqs = ENA_MAX_CQ"
  shows "sq_wf cqs' q' = sq_wf cqs q"
proof -
  have "cfg_cq (cqs' ! i) = cfg_cq (cqs ! i)" if "i < ENA_MAX_CQ" for i
    using that assms(2,3) by (metis length_map nth_map)
  from cfg_cqD [OF this] cfg_sqD [OF assms(1)] show ?thesis
    by (cases "unat (sq_cq_idx q) < ENA_MAX_CQ") (simp_all add: sq_wf_def)
qed

lemma cfg_inv_cfg:
  assumes "cfg s' = cfg s" and "cfg_inv s"
  shows "cfg_inv s'"
proof -
  have "cq_wf (cq s' ! c) = cq_wf (cq s ! c)" if "c < ENA_MAX_CQ" for c
    using that assms by (intro cq_wf_cfg cfg_cq_nth) (simp_all add: cfg_inv_def)
  moreover have "sq_wf (cq s') (sq s' ! i) = sq_wf (cq s) (sq s ! i)" if "i < ENA_MAX_SQ" for i
    using that assms by (intro sq_wf_cfg cfg_sq_nth cfgD) (simp_all add: cfg_inv_def)
  ultimately show ?thesis
    using assms cfgD [OF assms(1)] cfg_length [OF assms(1)] by (simp add: cfg_inv_def)
qed

lemma dev_invD:
  assumes "dev_inv s"
  shows "cfg_inv s" "irq_ok s" "length (sq s) = 16" "length (cq s) = 16" "length (reg s) = 28"
    "length (macaddr s) = 6"
    "\<And>i. i < 16 \<Longrightarrow> sq_wf (cq s) (sq s ! i)" "\<And>c. c < 16 \<Longrightarrow> cq_wf (cq s ! c)"
    "\<And>c. c < 16 \<Longrightarrow> cq_used (cq s ! c) \<Longrightarrow> cq_sync (cq s ! c)"
  using assms by (simp_all add: dev_inv_def cfg_inv_def regs_wf_def ena_const)

text \<open>How an operation that leaves the configuration alone keeps the whole invariant.\<close>

lemma dev_inv_cfg:
  assumes "dev_inv s" and "cfg s' = cfg s" and "irq_ok s'"
    and "\<And>i. i < 16 \<Longrightarrow> sq_used (sq s ! i) \<Longrightarrow> sq_posted (sq s' ! i) \<le> sq_posted (sq s ! i)"
    and "\<And>c. c < 16 \<Longrightarrow> cq_sync (cq s ! c) \<Longrightarrow> cq_sync (cq s' ! c)"
  shows "dev_inv s'"
proof -
  have "cq_sync (cq s' ! c)" if "c < ENA_MAX_CQ" "cq_used (cq s' ! c)" for c
  proof -
    have c: "c < 16" using that(1) by (simp add: ena_const)
    then have "cfg_cq (cq s' ! c) = cfg_cq (cq s ! c)"
      using assms(1,2) by (intro cfg_cq_nth) (simp_all add: dev_invD)
    then have "cq_used (cq s ! c)" using that(2) cfg_cqD(1) by blast
    with c show ?thesis by (intro assms(5) dev_invD(9) [OF assms(1)])
  qed
  moreover
  have "sq_posted (sq s' ! i) \<le> unat (sq_depth (sq s' ! i))" if "i < ENA_MAX_SQ" "sq_used (sq s' ! i)" for i
  proof -
    have i: "i < 16" using that(1) by (simp add: ena_const)
    then have "cfg_sq (sq s' ! i) = cfg_sq (sq s ! i)"
      using assms(1,2) by (intro cfg_sq_nth) (simp_all add: dev_invD)
    note q = cfg_sqD [OF this]
    have "sq_posted (sq s ! i) \<le> unat (sq_depth (sq s ! i))"
      using assms(1) that q by (simp add: dev_inv_def)
    with assms(4) [of i] i that q show ?thesis by simp
  qed
  ultimately show ?thesis
    using cfg_inv_cfg [OF assms(2) dev_invD(1) [OF assms(1)]] assms(3) unfolding dev_inv_def by blast
qed

lemma dev_inv_emit: "quiet e \<Longrightarrow> dev_inv (emit e s) = dev_inv s"
  using cfg_inv_cfg [of "emit e s" s] cfg_inv_cfg [of s "emit e s"] by (auto simp: dev_inv_def)

section \<open>Reset establishes the invariant\<close>

lemma fields_wf_supported [simp]: "fields_wf (ena_rss_supported_fields p)"
  by (simp add: fields_wf_def ena_rss_supported_fields_def)

lemma rss_wf_reset: "rss_wf ena_rss_reset"
  by (simp add: rss_wf_def ena_rss_reset_def default_key_def list_all_iff)
     (simp add: ena_const)

lemma dev_reset_inv:
  assumes "irq_ok s" and "length (macaddr s) = 6"
  shows "dev_inv (ena_dev_reset s)"
proof -
  have "caps_wf 0" by (simp add: caps_wf_def)
  then have "regs_wf (reg (ena_dev_reset s))"
    by (simp add: regs_wf_def ena_dev_reset_reg ena_const)
  then show ?thesis
    using assms
    by (simp add: dev_inv_def cfg_inv_def ena_dev_reset_sel rss_wf_reset ena_dev_reset_irq_ok
        cq_wf_def sq_wf_def zero_sq_def zero_cq_def)
       (simp add: ena_const)
qed

section \<open>Changes to the queue tables\<close>

lemma irq_ok_cong: "irq s' = irq s \<Longrightarrow> trace s' = trace s \<Longrightarrow> irq_ok s' = irq_ok s"
  by (simp add: irq_ok_def)

lemma sq_wf_set_cq: "sq_wf cqs q \<Longrightarrow> sq_used q \<longrightarrow> unat (sq_cq_idx q) \<noteq> i \<Longrightarrow> sq_wf (cqs[i := x]) q"
  by (auto simp: sq_wf_def)

lemma dev_inv_set_cq:
  assumes "dev_inv s" and "i < 16" and "cq_wf q" and "cq_used q \<longrightarrow> cq_sync q"
    and "\<forall>j < 16. sq_used (sq s ! j) \<longrightarrow> unat (sq_cq_idx (sq s ! j)) \<noteq> i"
  shows "dev_inv (s\<lparr>cq := (cq s)[i := q]\<rparr>)"
proof -
  let ?s = "s\<lparr>cq := (cq s)[i := q]\<rparr>"
  have "irq_ok ?s" using dev_invD(2) [OF assms(1)] irq_ok_cong [of ?s s] by simp
  moreover have "cq_sync ((cq s)[i := q] ! c)" if "c < ENA_MAX_CQ" "cq_used ((cq s)[i := q] ! c)" for c
    using that assms(1,4) by (cases "c = i") (simp_all add: dev_inv_def cfg_inv_def)
  moreover have "cq_wf ((cq s)[i := q] ! c)" if "c < ENA_MAX_CQ" for c
    using that assms(1,3) by (cases "c = i") (simp_all add: dev_inv_def cfg_inv_def)
  moreover have "sq_wf ((cq s)[i := q]) (sq s ! j)" if "j < ENA_MAX_SQ" for j
    using that assms(1,5) by (intro sq_wf_set_cq) (auto simp: dev_inv_def cfg_inv_def ena_const)
  ultimately show ?thesis using assms(1) by (simp add: dev_inv_def cfg_inv_def)
qed

lemma dev_inv_set_sq:
  assumes "dev_inv s" and "i < 16" and "sq_wf (cq s) q"
    and "sq_used q \<longrightarrow> sq_posted q \<le> unat (sq_depth q)"
  shows "dev_inv (s\<lparr>sq := (sq s)[i := q]\<rparr>)"
proof -
  let ?s = "s\<lparr>sq := (sq s)[i := q]\<rparr>"
  have "irq_ok ?s" using dev_invD(2) [OF assms(1)] irq_ok_cong [of ?s s] by simp
  moreover have "sq_wf (cq s) ((sq s)[i := q] ! j)" if "j < ENA_MAX_SQ" for j
    using that assms(1,3) by (cases "j = i") (simp_all add: dev_inv_def cfg_inv_def)
  moreover have "sq_posted ((sq s)[i := q] ! j) \<le> unat (sq_depth ((sq s)[i := q] ! j))"
    if "j < ENA_MAX_SQ" "sq_used ((sq s)[i := q] ! j)" for j
    using that assms(1,4) by (cases "j = i") (simp_all add: dev_inv_def cfg_inv_def)
  ultimately show ?thesis using assms(1) by (simp add: dev_inv_def cfg_inv_def)
qed

section \<open>Events keep the invariant\<close>

text \<open>The calls an operation has made, all of a given sort.\<close>

definition ext_by :: "(effect \<Rightarrow> bool) \<Rightarrow> EnaState \<Rightarrow> EnaState \<Rightarrow> bool" where
  "ext_by P s s' \<longleftrightarrow> (\<exists>es. trace s' = trace s @ es \<and> list_all P es)"

lemma ext_by_refl [simp]: "ext_by P s s"
  by (simp add: ext_by_def)

lemma ext_by_same: "trace s' = trace s \<Longrightarrow> ext_by P s s'"
  by (simp add: ext_by_def)

lemma ext_by_trans: "ext_by P s t \<Longrightarrow> ext_by P t u \<Longrightarrow> ext_by P s u"
  by (fastforce simp: ext_by_def)

lemma ext_by_emit: "P e \<Longrightarrow> ext_by P s (emit e s)"
  by (simp add: ext_by_def)

lemma ext_by_mono: "ext_by P s s' \<Longrightarrow> (\<And>e. P e \<Longrightarrow> R e) \<Longrightarrow> ext_by R s s'"
  by (fastforce simp: ext_by_def list_all_iff)

lemma ext_by_then: "ext_by P s t \<Longrightarrow> P e \<Longrightarrow> ext_by P s (emit e t)"
  by (blast intro: ext_by_trans ext_by_emit)

lemma ext_by_cong: "trace t' = trace t \<Longrightarrow> ext_by P s t' = ext_by P s t" "trace s' = trace s \<Longrightarrow> ext_by P s' t = ext_by P s t"
  by (simp_all add: ext_by_def)

text \<open>The calls of the admin queue and of the events, none of which concerns an IO vector.\<close>

fun admin_call :: "effect \<Rightarrow> bool" where
  "admin_call (DmaRead a n) = True"
| "admin_call (DmaWrite a bs) = True"
| "admin_call (MsixNotify v) = (v = 0)"
| "admin_call (TimerDel t) = (t = KeepAliveTimer)"
| "admin_call (TimerFired t) = (t = KeepAliveTimer)"
| "admin_call (TimerMod t n) = (t = KeepAliveTimer)"
| "admin_call ClockGetUs = True"
| "admin_call ClockGetMs = True"
| "admin_call _ = False"

lemma admin_call_quiet: "admin_call e \<Longrightarrow> quiet e"
  by (cases e) auto

lemma admin_ext_quiet: "ext_by admin_call s s' \<Longrightarrow> ext_by quiet s s'"
  by (erule ext_by_mono) (rule admin_call_quiet)

definition admin_step :: "EnaState \<Rightarrow> EnaState \<Rightarrow> bool" where
  "admin_step s s' \<longleftrightarrow> irq s' = irq s \<and> macaddr s' = macaddr s \<and> (aenq_sync s \<longrightarrow> aenq_sync s') \<and>
     ext_by admin_call s s'"

lemma admin_step_refl [simp]: "admin_step s s"
  by (simp add: admin_step_def)

lemma admin_step_trans: "admin_step s t \<Longrightarrow> admin_step t u \<Longrightarrow> admin_step s u"
  by (auto simp: admin_step_def intro: ext_by_trans)

lemma admin_step_emit: "admin_call e \<Longrightarrow> admin_step s (emit e s)"
  by (simp add: admin_step_def ext_by_emit)

lemma admin_step_same:
  "irq s' = irq s \<Longrightarrow> macaddr s' = macaddr s \<Longrightarrow> trace s' = trace s \<Longrightarrow> aenq_tail s' = aenq_tail s \<Longrightarrow>
     aenq_phase s' = aenq_phase s \<Longrightarrow> reg s' ! 13 = reg s ! 13 \<Longrightarrow> admin_step s s'"
  using aenq_sync_cong [of s' s] by (simp add: admin_step_def ext_by_same)

lemma fold_timer_quiet:
  "\<forall>e \<in> set es. \<not> timer_effect t e \<Longrightarrow> fold (timer_step t) es a = a"
  by (induction es) simp_all

lemma irq_ok_quiet: "irq_ok s \<Longrightarrow> irq s' = irq s \<Longrightarrow> ext_by quiet s s' \<Longrightarrow> irq_ok s'"
  by (auto simp: irq_ok_def ext_by_def fold_timer_quiet quiet_timer quiet_vec_call list_all_iff)

lemma msix_count_quiet: "list_all quiet es \<Longrightarrow> 0 < v \<Longrightarrow> v < 9 \<Longrightarrow> msix_count (of_nat v) es = 0"
  using msix_other_vec [of v] by (induction es) auto

lemma one_shot_quiet: "irq s' = irq s \<Longrightarrow> ext_by quiet s s' \<Longrightarrow> one_shot s s'"
  by (auto simp: one_shot_def vec_pot_def ext_by_def msix_count_quiet)

lemma aenq_frame_sel:
  "sq (aenq_frame s) = sq s" "cq (aenq_frame s) = cq s" "irq (aenq_frame s) = irq s"
  "mtu (aenq_frame s) = mtu s" "macaddr (aenq_frame s) = macaddr s" "rss (aenq_frame s) = rss s"
  "llq_enabled (aenq_frame s) = llq_enabled s" "llq_entry_size (aenq_frame s) = llq_entry_size s"
  "reg (aenq_frame s) = (reg s)[17 := 0]" "aq_head (aenq_frame s) = aq_head s"
  "acq_tail (aenq_frame s) = acq_tail s" "acq_phase (aenq_frame s) = acq_phase s"
  "aenq_groups (aenq_frame s) = aenq_groups s"
  by (simp_all add: aenq_frame_def)

lemma aenq_frameD:
  assumes "aenq_frame s' = aenq_frame s"
  shows "sq s' = sq s" "cq s' = cq s" "irq s' = irq s" "mtu s' = mtu s" "macaddr s' = macaddr s"
    "rss s' = rss s" "llq_enabled s' = llq_enabled s" "llq_entry_size s' = llq_entry_size s"
    "aq_head s' = aq_head s" "acq_tail s' = acq_tail s" "acq_phase s' = acq_phase s"
    "aenq_groups s' = aenq_groups s" "length (reg s') = length (reg s)"
    "\<And>i. i \<noteq> 17 \<Longrightarrow> reg s' ! i = reg s ! i"
proof -
  show "length (reg s') = length (reg s)" by (metis assms aenq_frame_sel(9) length_list_update)
  show "reg s' ! i = reg s ! i" if "i \<noteq> 17" for i
    by (metis that assms aenq_frame_sel(9) nth_list_update_neq)
qed (metis assms aenq_frame_sel)+

lemma aenq_admin_step:
  "aenq_frame s' = aenq_frame s \<Longrightarrow> ext_by admin_call s s' \<Longrightarrow> (aenq_sync s \<Longrightarrow> aenq_sync s') \<Longrightarrow> admin_step s s'"
  using aenq_frameD(3,5) [of s' s] by (simp add: admin_step_def)

lemma dev_inv_aenq:
  assumes "dev_inv s" and "aenq_frame s' = aenq_frame s" and "ext_by admin_call s s'"
  shows "dev_inv s'"
proof -
  note d = aenq_frameD [OF assms(2)]
  have "irq_ok s'" using dev_invD(2) [OF assms(1)] d(3) admin_ext_quiet [OF assms(3)] by (rule irq_ok_quiet)
  with assms(1) d show ?thesis by (simp add: dev_inv_def cfg_inv_def regs_wf_def)
qed

lemma dev_inv_groups [simp]: "dev_inv (s\<lparr>aenq_groups := g\<rparr>) = dev_inv s"
  by (simp add: dev_inv_def cfg_inv_def irq_ok_def)

lemma aenq_publish_frame:
  "aenq_frame (aenq_publish s e) = aenq_frame s" "ext_by admin_call s (aenq_publish s e)"
  by (simp_all add: aenq_publish_def ena_dma_write_def Let_def ext_by_def trace_admin_intr)

lemma ena_aenq_post_frame:
  assumes "length data \<le> 48"
  obtains s' where "ena_aenq_post Q s g y data = Inr s'" "aenq_frame s' = aenq_frame s" "ext_by admin_call s s'"
proof (cases "ena_aenq_post Q s g y data = Inr s")
  case True
  then show thesis using that by simp
next
  case False
  let ?s2 = "emit ClockGetUs (emit ClockGetUs s)"
  from False assms obtain e where e: "ena_aenq_post Q s g y data = Inr (aenq_publish ?s2 e)"
    by (auto simp: ena_aenq_post_def Let_def qemu_clock_get_us_def split: if_splits)
  have "ext_by admin_call s ?s2" by (intro ext_by_then) simp_all
  with e show thesis
    using that [OF e] aenq_publish_frame [of ?s2 e] by (auto intro: ext_by_trans)
qed

lemma ena_post_link_change_frame:
  obtains s' where "ena_post_link_change Q s = Inr s'" "aenq_frame s' = aenq_frame s" "ext_by admin_call s s'"
proof -
  let ?d = "le32 (if \<not> link_down Q (trace s) then ENA_ADMIN_AENQ_LINK_CHANGE_DESC_LINK_STATUS_MASK else 0)"
  have "length ?d \<le> 48" by simp
  then show thesis
    by (rule ena_aenq_post_frame [of ?d Q s ENA_ADMIN_LINK_CHANGE 0])
       (rule that, simp_all add: ena_post_link_change_def Let_def)
qed

lemma ena_keep_alive_frame:
  obtains s' where "ena_keep_alive Q s = Inr s'" "aenq_frame s' = aenq_frame s" "ext_by admin_call s s'"
proof -
  obtain t where t: "ena_aenq_post Q s ENA_ADMIN_KEEP_ALIVE 0 (keep_alive_data s) = Inr t"
      "aenq_frame t = aenq_frame s" "ext_by admin_call s t"
    using ena_aenq_post_frame [of "keep_alive_data s" Q s] by (auto simp: keep_alive_data_def)
  have "ena_keep_alive Q s = Inr (emit (TimerMod KeepAliveTimer
      (clock_ms Q (trace t) + ENA_KEEP_ALIVE_INTERVAL_MS)) (emit ClockGetMs t))"
    by (simp add: ena_keep_alive_def t(1) qemu_clock_get_ms_def)
  then show thesis using that t by (simp add: ext_by_then)
qed

lemma ena_aenq_config_frame:
  obtains s' where "ena_aenq_config Q s g = Inr s'" "aenq_frame s' = aenq_frame (s\<lparr>aenq_groups := g\<rparr>)"
    "ext_by admin_call s s'"
proof -
  let ?s = "s\<lparr>aenq_groups := g\<rparr>"
  obtain l where l: "ena_post_link_change Q ?s = Inr l" "aenq_frame l = aenq_frame ?s" "ext_by admin_call ?s l"
    by (rule ena_post_link_change_frame)
  define t where "t = (if g AND BIT (unat ENA_ADMIN_LINK_CHANGE) \<noteq> 0 then l else ?s)"
  have t: "(if g AND BIT (unat ENA_ADMIN_LINK_CHANGE) \<noteq> 0 then ena_post_link_change Q ?s else Inr ?s) = Inr t"
      "aenq_frame t = aenq_frame ?s" "ext_by admin_call s t"
    using l by (auto simp: t_def ext_by_def)
  then show thesis
    using that
    by (cases "g AND BIT (unat ENA_ADMIN_KEEP_ALIVE) \<noteq> 0")
      (auto simp: ena_aenq_config_def Let_def qemu_clock_get_ms_def ext_by_then)
qed

lemma ena_aenq_configD:
  assumes "ena_aenq_config Q s g = Inr s'"
  shows "aenq_frame s' = aenq_frame (s\<lparr>aenq_groups := g\<rparr>)" "ext_by admin_call s s'"
  by (rule ena_aenq_config_frame [of Q s g]; use assms in simp)+

lemma ena_aenq_config_no_abort: "ena_aenq_config Q s g \<noteq> Inl e"
  by (rule ena_aenq_config_frame [of Q s g]) simp

lemma dev_inv_config:
  assumes "dev_inv s"
  shows "dev_inv (s\<lparr>host_info_addr := a\<rparr>)" "dev_inv (s\<lparr>debug_area_addr := a\<rparr>)" "dev_inv (s\<lparr>debug_area_size := n\<rparr>)"
    "ENA_MIN_MTU \<le> unat m \<Longrightarrow> unat m \<le> ENA_MAX_MTU \<Longrightarrow> dev_inv (s\<lparr>mtu := m\<rparr>)"
    "llq_size_wf e \<Longrightarrow> dev_inv (s\<lparr>llq_enabled := True, llq_entry_size := e\<rparr>)"
    "rss_wf r \<Longrightarrow> dev_inv (s\<lparr>rss := r\<rparr>)"
  using assms by (simp_all add: dev_inv_def cfg_inv_def irq_ok_def)

end
