(* ===== verification/Ena_Admin_Queues.thy ===== *)
theory Ena_Admin_Queues
  imports Ena_Inv
begin

text \<open>
  The commands that create and destroy queues (\<open>src/hw/ena_admin.c\<close>), and the contract every
  admin command handler meets. A handler reads the 64-byte command and fills the 64-byte response;
  its status, the new state and the response are its result.
\<close>

type_synonym outcome = "(ena_admin_aq_completion_status \<times> EnaState \<times> byte list) result"

section \<open>Operations\<close>

definition ena_valid_depth :: "qemu \<Rightarrow> u32 \<Rightarrow> bool" where
  "ena_valid_depth Q depth \<longleftrightarrow> is_power_of_2 Q (ucast depth) \<and>
     of_nat ENA_MIN_QUEUE_DEPTH \<le> depth \<and> depth \<le> of_nat ENA_MAX_QUEUE_DEPTH"

text \<open>The scan for a free slot stops at the first unused one or at the end of the table.\<close>

definition first_unused :: "('q \<Rightarrow> bool) \<Rightarrow> nat \<Rightarrow> 'q list \<Rightarrow> nat" where
  "first_unused used n qs = length (takeWhile used (take n qs))"

definition ena_create_cq :: "qemu \<Rightarrow> EnaState \<Rightarrow> byte list \<Rightarrow> byte list \<Rightarrow> outcome" where
  "ena_create_cq Q s cmd resp =
     (let c = dec_ena_admin_aq_create_cq_cmd cmd;
          depth = create_cq_cmd_cq_depth c;
          words = create_cq_cmd_cq_caps_2 c AND ENA_ADMIN_AQ_CREATE_CQ_CMD_CQ_ENTRY_SIZE_WORDS_MASK;
          vector = create_cq_cmd_msix_vector c;
          intr = create_cq_cmd_cq_caps_1 c AND ENA_ADMIN_AQ_CREATE_CQ_CMD_INTERRUPT_MODE_ENABLED_MASK \<noteq> 0;
          i = first_unused cq_used ENA_MAX_CQ (cq s)
      in if \<not> ena_valid_depth Q (ucast depth) \<or> words \<noteq> 2 \<and> words \<noteq> 4 \<and> words \<noteq> 8
         then Inr (ENA_ADMIN_ILLEGAL_PARAMETER, s, resp)
         else if ena_mem_addr (create_cq_cmd_cq_ba c) = 0 then Inr (ENA_ADMIN_ILLEGAL_PARAMETER, s, resp)
         else if intr \<and> vector \<noteq> ENA_MSIX_VECTOR_NONE \<and>
                 (vector = ENA_ADMIN_MSIX_VECTOR \<or> of_nat ENA_MSIX_VECTORS \<le> vector)
         then Inr (ENA_ADMIN_ILLEGAL_PARAMETER, s, resp)
         else if i = ENA_MAX_CQ then Inr (ENA_ADMIN_RESOURCE_ALLOCATION_FAILURE, s, resp)
         else
           let q = \<lparr>cq_used = True, cq_base = ena_mem_addr (create_cq_cmd_cq_ba c), cq_depth = depth,
                    cq_entry_size = words * 4, cq_intr_enabled = intr, cq_msix_vector = vector,
                    cq_tail = 0, cq_phase = True\<rparr>;
               r = (dec_ena_admin_acq_create_cq_resp_desc resp)
                     \<lparr>create_cq_resp_cq_idx := of_nat i,
                      create_cq_resp_cq_actual_depth := depth,
                      create_cq_resp_numa_node_register_offset := 0,
                      create_cq_resp_cq_head_db_register_offset := 0,
                      create_cq_resp_cq_interrupt_unmask_register_offset :=
                        of_nat (ENA_REG_CQ_UNMASK_BASE + i * 4)\<rparr>
           in Inr (ENA_ADMIN_SUCCESS, s\<lparr>cq := (cq s)[i := q]\<rparr>,
                   put_bytes 0 (enc_ena_admin_acq_create_cq_resp_desc r) resp))"

definition ena_destroy_cq :: "qemu \<Rightarrow> EnaState \<Rightarrow> byte list \<Rightarrow> byte list \<Rightarrow> outcome" where
  "ena_destroy_cq Q s cmd resp =
     (let c = dec_ena_admin_aq_destroy_cq_cmd cmd;
          idx = destroy_cq_cmd_cq_idx c
      in if ENA_MAX_CQ \<le> unat idx \<or> \<not> cq_used (cq s ! unat idx)
         then Inr (ENA_ADMIN_ILLEGAL_PARAMETER, s, resp)
         else if list_ex (\<lambda>i. sq_used (sq s ! i) \<and> sq_cq_idx (sq s ! i) = idx) [0..<ENA_MAX_SQ]
         then Inr (ENA_ADMIN_RESOURCE_BUSY, s, resp)
         else Inr (ENA_ADMIN_SUCCESS,
                   s\<lparr>cq := (cq s)[unat idx := (cq s ! unat idx)\<lparr>cq_used := False\<rparr>]\<rparr>, resp))"

definition ena_create_sq :: "qemu \<Rightarrow> EnaState \<Rightarrow> byte list \<Rightarrow> byte list \<Rightarrow> outcome" where
  "ena_create_sq Q s cmd resp =
     (let c = dec_ena_admin_aq_create_sq_cmd cmd;
          dir = drop_bit ENA_ADMIN_AQ_CREATE_SQ_CMD_SQ_DIRECTION_SHIFT
                  (create_sq_cmd_sq_identity c AND ENA_ADMIN_AQ_CREATE_SQ_CMD_SQ_DIRECTION_MASK);
          placement = create_sq_cmd_sq_caps_2 c AND ENA_ADMIN_AQ_CREATE_SQ_CMD_PLACEMENT_POLICY_MASK;
          completion = drop_bit ENA_ADMIN_AQ_CREATE_SQ_CMD_COMPLETION_POLICY_SHIFT
                         (create_sq_cmd_sq_caps_2 c AND ENA_ADMIN_AQ_CREATE_SQ_CMD_COMPLETION_POLICY_MASK);
          cq_idx = create_sq_cmd_cq_idx c;
          depth = create_sq_cmd_sq_depth c;
          is_tx = (dir = ENA_ADMIN_SQ_DIRECTION_TX);
          llq = (placement = ENA_ADMIN_PLACEMENT_POLICY_DEV);
          base = ena_mem_addr (create_sq_cmd_sq_ba c);
          i = first_unused sq_used ENA_MAX_SQ (sq s)
      in if dir \<noteq> ENA_ADMIN_SQ_DIRECTION_TX \<and> dir \<noteq> ENA_ADMIN_SQ_DIRECTION_RX
         then Inr (ENA_ADMIN_ILLEGAL_PARAMETER, s, resp)
         else if placement \<noteq> ENA_ADMIN_PLACEMENT_POLICY_HOST \<and> \<not> llq
         then Inr (ENA_ADMIN_ILLEGAL_PARAMETER, s, resp)
         else if llq \<and> (\<not> is_tx \<or> \<not> llq_enabled s) then Inr (ENA_ADMIN_ILLEGAL_PARAMETER, s, resp)
         else if completion \<noteq> ENA_ADMIN_COMPLETION_POLICY_DESC then Inr (ENA_ADMIN_UNSUPPORTED_OPCODE, s, resp)
         else if create_sq_cmd_sq_caps_3 c AND ENA_ADMIN_AQ_CREATE_SQ_CMD_IS_PHYSICALLY_CONTIGUOUS_MASK = 0
         then Inr (ENA_ADMIN_ILLEGAL_PARAMETER, s, resp)
         else if ENA_MAX_CQ \<le> unat cq_idx \<or> \<not> cq_used (cq s ! unat cq_idx) \<or>
                 \<not> ena_valid_depth Q (ucast depth)
         then Inr (ENA_ADMIN_ILLEGAL_PARAMETER, s, resp)
         else if cq_depth (cq s ! unat cq_idx) < depth \<or> \<not> llq \<and> base = 0 \<or>
                 \<not> is_tx \<and> unat (cq_entry_size (cq s ! unat cq_idx)) < 16
         then Inr (ENA_ADMIN_ILLEGAL_PARAMETER, s, resp)
         else if ena_mem_addr (create_sq_cmd_sq_head_writeback c) \<noteq> 0
         then Inl (Unsupported U_sq_head_writeback)
         else if i = ENA_MAX_SQ then Inr (ENA_ADMIN_RESOURCE_ALLOCATION_FAILURE, s, resp)
         else if llq \<and> of_nat ENA_LLQ_QUEUE_BYTES < (ucast depth * ucast (llq_entry_size s) :: u32)
         then Inr (ENA_ADMIN_ILLEGAL_PARAMETER, s, resp)
         else
           let q = zero_sq\<lparr>sq_used := True, sq_is_tx := is_tx, sq_llq := llq, sq_cq_idx := cq_idx,
                           sq_base := (if llq then 0 else base), sq_depth := depth,
                           sq_entry_size := (if llq then llq_entry_size s else 0)\<rparr>;
               r = (dec_ena_admin_acq_create_sq_resp_desc resp)
                     \<lparr>create_sq_resp_sq_idx := of_nat i,
                      create_sq_resp_sq_doorbell_offset := of_nat (ENA_REG_SQ_DB_BASE + i * 4),
                      create_sq_resp_llq_descriptors_offset :=
                        (if llq then of_nat (i * ENA_LLQ_QUEUE_BYTES) else 0),
                      create_sq_resp_llq_headers_offset := 0\<rparr>
           in Inr (ENA_ADMIN_SUCCESS, s\<lparr>sq := (sq s)[i := q]\<rparr>,
                   put_bytes 0 (enc_ena_admin_acq_create_sq_resp_desc r) resp))"

definition ena_destroy_sq :: "qemu \<Rightarrow> EnaState \<Rightarrow> byte list \<Rightarrow> byte list \<Rightarrow> outcome" where
  "ena_destroy_sq Q s cmd resp =
     (let c = dec_ena_admin_aq_destroy_sq_cmd cmd;
          idx = unat (admin_sq_sq_idx (destroy_sq_cmd_sq c));
          dir = drop_bit ENA_ADMIN_SQ_SQ_DIRECTION_SHIFT
                  (admin_sq_sq_identity (destroy_sq_cmd_sq c) AND ENA_ADMIN_SQ_SQ_DIRECTION_MASK)
      in if ENA_MAX_SQ \<le> idx \<or> \<not> sq_used (sq s ! idx) \<or>
            sq_is_tx (sq s ! idx) \<noteq> (dir = ENA_ADMIN_SQ_DIRECTION_TX)
         then Inr (ENA_ADMIN_ILLEGAL_PARAMETER, s, resp)
         else Inr (ENA_ADMIN_SUCCESS, s\<lparr>sq := (sq s)[idx := (sq s ! idx)\<lparr>sq_used := False\<rparr>]\<rparr>, resp))"

section \<open>The contract of a command handler\<close>

text \<open>Ends of the process a guest can cause with a well-behaved device: requests the device refuses.\<close>

fun guest_abort :: "abort \<Rightarrow> bool" where
  "guest_abort (Unsupported _) = True"
| "guest_abort (AssertFailed a) = (a = A_host_os)"
| "guest_abort _ = False"

locale admin_handler =
  fixes h :: "qemu \<Rightarrow> EnaState \<Rightarrow> byte list \<Rightarrow> byte list \<Rightarrow> outcome"
  assumes rings: "h Q s cmd resp = Inr (st, s', resp') \<Longrightarrow>
      aq_head s' = aq_head s \<and> acq_tail s' = acq_tail s \<and> acq_phase s' = acq_phase s \<and>
      (\<forall>i. i \<noteq> 17 \<longrightarrow> reg s' ! i = reg s ! i)"
    and history: "h Q s cmd resp = Inr (st, s', resp') \<Longrightarrow> admin_step s s'"
    and resp_size: "h Q s cmd resp = Inr (st, s', resp') \<Longrightarrow> length (macaddr s) = 6 \<Longrightarrow> length resp = 64 \<Longrightarrow>
      length resp' = 64"
    and keeps_inv: "h Q s cmd resp = Inr (st, s', resp') \<Longrightarrow> pow2_ok Q \<Longrightarrow> dev_inv s \<Longrightarrow> dev_inv s'"
    and only_guest_aborts: "h Q s cmd resp = Inl e \<Longrightarrow> dev_inv s \<Longrightarrow> guest_abort e"

lemma first_unused_le: "first_unused used n qs \<le> n"
proof -
  have "length (takeWhile used (take n qs)) \<le> length (take n qs)" by (rule length_takeWhile_le)
  then show ?thesis by (simp add: first_unused_def)
qed

lemma first_unused_free:
  assumes "first_unused used n qs \<noteq> n" and "length qs = n"
  shows "first_unused used n qs < n" "\<not> used (qs ! first_unused used n qs)"
    "\<And>j. j < first_unused used n qs \<Longrightarrow> used (qs ! j)"
proof -
  show lt: "first_unused used n qs < n" using first_unused_le [of used n qs] assms(1) by simp
  show "\<not> used (qs ! first_unused used n qs)"
    using lt assms(2) nth_length_takeWhile [of used qs] by (simp add: first_unused_def)
  show "used (qs ! j)" if "j < first_unused used n qs" for j
    using that assms(2) nth_mem [of j "takeWhile used qs"]
    by (auto simp: first_unused_def takeWhile_nth dest: set_takeWhileD)
qed

lemma first_unused_full: "length qs = n \<Longrightarrow> first_unused used n qs = n \<Longrightarrow> j < n \<Longrightarrow> used (qs ! j)"
  by (metis first_unused_def nth_mem order_refl set_takeWhileD take_all takeWhile_nth)

lemma ena_valid_depth_iff:
  assumes "pow2_ok Q"
  shows "ena_valid_depth Q (ucast d) \<longleftrightarrow> valid_depth d"
proof -
  have "unat (ucast (ucast d :: u32) :: u64) = unat d" by transfer simp
  with assms have "is_power_of_2 Q (ucast (ucast d :: u32)) \<longleftrightarrow> (\<exists>k. unat d = 2 ^ k)"
    by (simp only: pow2_ok_def)
  moreover have "unat (ucast d :: u32) = unat d" by transfer simp
  then have "of_nat ENA_MIN_QUEUE_DEPTH \<le> (ucast d :: u32) \<longleftrightarrow> 16 \<le> unat d"
    "(ucast d :: u32) \<le> of_nat ENA_MAX_QUEUE_DEPTH \<longleftrightarrow> unat d \<le> 1024"
    by (simp_all add: ena_const word_le_nat_alt)
  moreover have "is_ring_depth d \<longleftrightarrow> (\<exists>k. unat d = 2 ^ k)" if "unat d \<le> 1024"
  proof
    assume "\<exists>k. unat d = 2 ^ k"
    then obtain k where k: "unat d = 2 ^ k" ..
    have "(2 :: nat) ^ k < 2 ^ 16" using that k by simp
    then have "k < 16" by (rule power_less_imp_less_exp [rotated]) simp
    moreover from k this have "d = 2 ^ k" by (simp add: word_unat_eq_iff unat_pow2)
    ultimately show "is_ring_depth d" by (auto simp: is_ring_depth_def list_ex_iff)
  qed (auto elim: is_ring_depthE)
  ultimately show ?thesis by (auto simp: ena_valid_depth_def valid_depth_def ena_const)
qed

section \<open>Create completion queue\<close>

definition new_cq :: "ena_admin_aq_create_cq_cmd \<Rightarrow> EnaCq" where
  "new_cq c = \<lparr>cq_used = True, cq_base = ena_mem_addr (create_cq_cmd_cq_ba c), cq_depth = create_cq_cmd_cq_depth c,
     cq_entry_size = (create_cq_cmd_cq_caps_2 c AND ENA_ADMIN_AQ_CREATE_CQ_CMD_CQ_ENTRY_SIZE_WORDS_MASK) * 4,
     cq_intr_enabled = (create_cq_cmd_cq_caps_1 c AND ENA_ADMIN_AQ_CREATE_CQ_CMD_INTERRUPT_MODE_ENABLED_MASK \<noteq> 0),
     cq_msix_vector = create_cq_cmd_msix_vector c, cq_tail = 0, cq_phase = True\<rparr>"

lemma ena_create_cqE:
  assumes "ena_create_cq Q s cmd resp = Inr (st, s', resp')"
  obtains (rejected) "st \<noteq> ENA_ADMIN_SUCCESS" "s' = s" "resp' = resp"
  | (created) r where "st = ENA_ADMIN_SUCCESS" "first_unused cq_used ENA_MAX_CQ (cq s) \<noteq> ENA_MAX_CQ"
      "s' = s\<lparr>cq := (cq s)[first_unused cq_used ENA_MAX_CQ (cq s) := new_cq (dec_ena_admin_aq_create_cq_cmd cmd)]\<rparr>"
      "resp' = put_bytes 0 (enc_ena_admin_acq_create_cq_resp_desc r) resp"
      "create_cq_resp_cq_idx r = of_nat (first_unused cq_used ENA_MAX_CQ (cq s))"
      "create_cq_resp_cq_interrupt_unmask_register_offset r =
         of_nat (ENA_REG_CQ_UNMASK_BASE + first_unused cq_used ENA_MAX_CQ (cq s) * 4)"
      "pow2_ok Q \<Longrightarrow> cq_wf (new_cq (dec_ena_admin_aq_create_cq_cmd cmd))"
proof -
  let ?c = "dec_ena_admin_aq_create_cq_cmd cmd"
  let ?words = "create_cq_cmd_cq_caps_2 ?c AND ENA_ADMIN_AQ_CREATE_CQ_CMD_CQ_ENTRY_SIZE_WORDS_MASK"
  show thesis
  proof (cases "st = ENA_ADMIN_SUCCESS")
    case True
    note run = assms [unfolded ena_create_cq_def Let_def, simplified True, folded new_cq_def]
    have ok: "ena_valid_depth Q (ucast (create_cq_cmd_cq_depth ?c))" "?words = 2 \<or> ?words = 4 \<or> ?words = 8"
      "ena_mem_addr (create_cq_cmd_cq_ba ?c) \<noteq> 0"
      "cq_intr_enabled (new_cq ?c) \<longrightarrow> create_cq_cmd_msix_vector ?c = ENA_MSIX_VECTOR_NONE \<or>
        create_cq_cmd_msix_vector ?c \<noteq> ENA_ADMIN_MSIX_VECTOR \<and> create_cq_cmd_msix_vector ?c < of_nat ENA_MSIX_VECTORS"
      using run by (auto simp: new_cq_def not_le split: if_splits)
    have "cq_wf (new_cq ?c)" if "pow2_ok Q"
    proof -
      have "unat (create_cq_cmd_msix_vector ?c) < ENA_MSIX_VECTORS"
        if "create_cq_cmd_msix_vector ?c < of_nat ENA_MSIX_VECTORS"
        using that by (simp add: ena_const word_less_nat_alt)
      with ok ena_valid_depth_iff [OF that] show ?thesis
        by (auto simp: cq_wf_def new_cq_def)
    qed
    with created run True show thesis by (auto simp: new_cq_def split: if_splits)
  next
    case False
    with assms rejected show thesis by (auto simp: ena_create_cq_def Let_def split: if_splits)
  qed
qed

lemma new_cq_sync: "cq_wf (new_cq c) \<Longrightarrow> cq_sync (new_cq c)"
  by (simp add: cq_wf_def cq_sync_def cq_counts_def new_cq_def valid_depth_def)

lemma ena_create_cq_total: "\<exists>r. ena_create_cq Q s cmd resp = Inr r"
  by (simp add: ena_create_cq_def Let_def)

interpretation create_cq: admin_handler ena_create_cq
proof unfold_locales
  fix Q s cmd resp st s' resp'
  assume run: "ena_create_cq Q s cmd resp = Inr (st, s', resp')"
  show "aq_head s' = aq_head s \<and> acq_tail s' = acq_tail s \<and> acq_phase s' = acq_phase s \<and>
      (\<forall>i. i \<noteq> 17 \<longrightarrow> reg s' ! i = reg s ! i)"
    by (rule ena_create_cqE [OF run]) simp_all
  show "admin_step s s'"
    by (rule ena_create_cqE [OF run]) (simp_all add: admin_step_same)
  show "length resp' = 64" if "length resp = 64"
    by (rule ena_create_cqE [OF run]) (simp_all add: that create_cq_resp.enc_size)
  show "dev_inv s'" if "pow2_ok Q" "dev_inv s"
    using run
  proof (cases rule: ena_create_cqE)
    case rejected
    with that show ?thesis by simp
  next
    case created
    let ?i = "first_unused cq_used ENA_MAX_CQ (cq s)"
    have i: "?i < 16" "\<not> cq_used (cq s ! ?i)"
      using first_unused_free [OF created(2)] that(2) by (simp_all add: dev_invD ena_const)
    have "unat (sq_cq_idx (sq s ! j)) \<noteq> ?i" if "j < 16" "sq_used (sq s ! j)" for j
      using that i dev_invD(7) [OF \<open>dev_inv s\<close> that(1)] by (auto simp: sq_wf_def)
    with that created i show ?thesis by (auto intro: dev_inv_set_cq new_cq_sync)
  qed
next
  fix Q s cmd resp e
  assume "ena_create_cq Q s cmd resp = Inl e"
  then show "guest_abort e" using ena_create_cq_total [of Q s cmd resp] by auto
qed

section \<open>Destroy completion queue\<close>

lemma ena_destroy_cqE:
  assumes "ena_destroy_cq Q s cmd resp = Inr (st, s', resp')"
  obtains (rejected) "st \<noteq> ENA_ADMIN_SUCCESS" "s' = s" "resp' = resp"
  | (destroyed) idx where "st = ENA_ADMIN_SUCCESS" "idx = destroy_cq_cmd_cq_idx (dec_ena_admin_aq_destroy_cq_cmd cmd)"
      "unat idx < 16" "cq_used (cq s ! unat idx)" "\<forall>j < 16. sq_used (sq s ! j) \<longrightarrow> sq_cq_idx (sq s ! j) \<noteq> idx"
      "s' = s\<lparr>cq := (cq s)[unat idx := (cq s ! unat idx)\<lparr>cq_used := False\<rparr>]\<rparr>" "resp' = resp"
proof (cases "st = ENA_ADMIN_SUCCESS")
  case True
  with assms destroyed [OF _ refl] show thesis
    by (auto simp: ena_destroy_cq_def Let_def list_ex_iff ena_const split: if_splits)
next
  case False
  with assms rejected show thesis by (auto simp: ena_destroy_cq_def Let_def split: if_splits)
qed

interpretation destroy_cq: admin_handler ena_destroy_cq
proof unfold_locales
  fix Q s cmd resp st s' resp'
  assume run: "ena_destroy_cq Q s cmd resp = Inr (st, s', resp')"
  show "aq_head s' = aq_head s \<and> acq_tail s' = acq_tail s \<and> acq_phase s' = acq_phase s \<and>
      (\<forall>i. i \<noteq> 17 \<longrightarrow> reg s' ! i = reg s ! i)"
    by (rule ena_destroy_cqE [OF run]) simp_all
  show "admin_step s s'"
    by (rule ena_destroy_cqE [OF run]) (simp_all add: admin_step_same)
  show "length resp' = 64" if "length resp = 64"
    by (rule ena_destroy_cqE [OF run]) (simp_all add: that)
  show "dev_inv s'" if "pow2_ok Q" "dev_inv s"
    using run
  proof (cases rule: ena_destroy_cqE)
    case rejected
    with that show ?thesis by simp
  next
    case (destroyed idx)
    have "cq_wf ((cq s ! unat idx)\<lparr>cq_used := False\<rparr>)" by (simp add: cq_wf_def)
    moreover have "\<forall>j < 16. sq_used (sq s ! j) \<longrightarrow> unat (sq_cq_idx (sq s ! j)) \<noteq> unat idx"
      using destroyed(5) by (simp add: word_unat_eq_iff)
    ultimately show ?thesis using that destroyed by (simp add: dev_inv_set_cq)
  qed
next
  fix Q s cmd resp e
  assume "ena_destroy_cq Q s cmd resp = Inl e"
  then show "guest_abort e" by (simp add: ena_destroy_cq_def Let_def split: if_splits)
qed

section \<open>Create submission queue\<close>

definition new_sq :: "EnaState \<Rightarrow> ena_admin_aq_create_sq_cmd \<Rightarrow> EnaSq" where
  "new_sq s c =
     (let dir = drop_bit ENA_ADMIN_AQ_CREATE_SQ_CMD_SQ_DIRECTION_SHIFT
                  (create_sq_cmd_sq_identity c AND ENA_ADMIN_AQ_CREATE_SQ_CMD_SQ_DIRECTION_MASK);
          llq = create_sq_cmd_sq_caps_2 c AND ENA_ADMIN_AQ_CREATE_SQ_CMD_PLACEMENT_POLICY_MASK =
                  ENA_ADMIN_PLACEMENT_POLICY_DEV
      in zero_sq\<lparr>sq_used := True, sq_is_tx := (dir = ENA_ADMIN_SQ_DIRECTION_TX), sq_llq := llq,
           sq_cq_idx := create_sq_cmd_cq_idx c,
           sq_base := (if llq then 0 else ena_mem_addr (create_sq_cmd_sq_ba c)),
           sq_depth := create_sq_cmd_sq_depth c,
           sq_entry_size := (if llq then llq_entry_size s else 0)\<rparr>)"

lemma llq_fits_32:
  assumes "llq_size_wf e" and "unat d \<le> 1024"
  shows "of_nat ENA_LLQ_QUEUE_BYTES < (ucast d * ucast e :: u32) \<longleftrightarrow> ENA_LLQ_QUEUE_BYTES < unat d * unat (e :: u16)"
proof -
  have "unat d * unat e \<le> 1024 * 256"
    using assms by (intro mult_mono) (auto simp: llq_size_wf_def ena_const)
  then have "unat d * unat e < 2 ^ LENGTH(32)" by simp
  from unat_of_nat_small [OF this] have "unat (ucast d * ucast e :: u32) = unat d * unat e" by simp
  then show ?thesis by (simp add: word_less_nat_alt ena_const)
qed

lemma ena_create_sqE:
  assumes "ena_create_sq Q s cmd resp = Inr (st, s', resp')"
  obtains (rejected) "st \<noteq> ENA_ADMIN_SUCCESS" "s' = s" "resp' = resp"
  | (created) r where "st = ENA_ADMIN_SUCCESS" "first_unused sq_used ENA_MAX_SQ (sq s) \<noteq> ENA_MAX_SQ"
      "s' = s\<lparr>sq := (sq s)[first_unused sq_used ENA_MAX_SQ (sq s) := new_sq s (dec_ena_admin_aq_create_sq_cmd cmd)]\<rparr>"
      "resp' = put_bytes 0 (enc_ena_admin_acq_create_sq_resp_desc r) resp"
      "create_sq_resp_sq_idx r = of_nat (first_unused sq_used ENA_MAX_SQ (sq s))"
      "create_sq_resp_sq_doorbell_offset r =
         of_nat (ENA_REG_SQ_DB_BASE + first_unused sq_used ENA_MAX_SQ (sq s) * 4)"
      "pow2_ok Q \<Longrightarrow> dev_inv s \<Longrightarrow> sq_wf (cq s) (new_sq s (dec_ena_admin_aq_create_sq_cmd cmd))"
proof -
  let ?c = "dec_ena_admin_aq_create_sq_cmd cmd"
  let ?q = "new_sq s ?c"
  let ?cq = "cq s ! unat (sq_cq_idx ?q)"
  show thesis
  proof (cases "st = ENA_ADMIN_SUCCESS")
    case True
    note run = assms [unfolded ena_create_sq_def Let_def, simplified True]
    have used: "sq_used ?q" "sq_base ?q = (if sq_llq ?q then 0 else ena_mem_addr (create_sq_cmd_sq_ba ?c))"
      "sq_entry_size ?q = (if sq_llq ?q then llq_entry_size s else 0)"
      by (simp_all add: new_sq_def Let_def)
    have ok: "unat (sq_cq_idx ?q) < ENA_MAX_CQ" "cq_used ?cq" "ena_valid_depth Q (ucast (sq_depth ?q))"
      "sq_depth ?q \<le> cq_depth ?cq" "\<not> sq_llq ?q \<longrightarrow> ena_mem_addr (create_sq_cmd_sq_ba ?c) \<noteq> 0"
      "\<not> sq_is_tx ?q \<longrightarrow> 16 \<le> unat (cq_entry_size ?cq)"
      "sq_llq ?q \<longrightarrow> sq_is_tx ?q \<and> llq_enabled s \<and>
         \<not> of_nat ENA_LLQ_QUEUE_BYTES < (ucast (sq_depth ?q) * ucast (llq_entry_size s) :: u32)"
      using run by (auto simp: new_sq_def Let_def not_le not_less split: if_splits)
    have "sq_wf (cq s) ?q" if "pow2_ok Q" "dev_inv s"
    proof -
      have depth: "valid_depth (sq_depth ?q)" using ok(3) ena_valid_depth_iff [OF that(1)] by simp
      have "sq_llq ?q \<longrightarrow> llq_size_wf (llq_entry_size s) \<and>
          unat (sq_depth ?q) * unat (llq_entry_size s) \<le> ENA_LLQ_QUEUE_BYTES"
        using that(2) ok(7) depth llq_fits_32 [of "llq_entry_size s" "sq_depth ?q"]
        by (auto simp: dev_inv_def cfg_inv_def valid_depth_def ENA_MAX_QUEUE_DEPTH_def not_less)
      with depth ok used show ?thesis
        by (auto simp: sq_wf_def word_le_nat_alt)
    qed
    with run True created show thesis by (auto simp: new_sq_def Let_def split: if_splits)
  next
    case False
    with assms rejected show thesis by (auto simp: ena_create_sq_def Let_def split: if_splits)
  qed
qed

interpretation create_sq: admin_handler ena_create_sq
proof unfold_locales
  fix Q s cmd resp st s' resp'
  assume run: "ena_create_sq Q s cmd resp = Inr (st, s', resp')"
  show "aq_head s' = aq_head s \<and> acq_tail s' = acq_tail s \<and> acq_phase s' = acq_phase s \<and>
      (\<forall>i. i \<noteq> 17 \<longrightarrow> reg s' ! i = reg s ! i)"
    by (rule ena_create_sqE [OF run]) simp_all
  show "admin_step s s'"
    by (rule ena_create_sqE [OF run]) (simp_all add: admin_step_same)
  show "length resp' = 64" if "length resp = 64"
    by (rule ena_create_sqE [OF run]) (simp_all add: that create_sq_resp.enc_size)
  show "dev_inv s'" if "pow2_ok Q" "dev_inv s"
    using run
  proof (cases rule: ena_create_sqE)
    case rejected
    with that show ?thesis by simp
  next
    case created
    have "first_unused sq_used ENA_MAX_SQ (sq s) < 16"
      using first_unused_free [OF created(2)] that(2) by (simp_all add: dev_invD ena_const)
    moreover have "sq_posted (new_sq s c) = 0" for c
      by (simp add: sq_posted_def new_sq_def Let_def zero_sq_def)
    ultimately show ?thesis using that created by (simp add: dev_inv_set_sq)
  qed
next
  fix Q s cmd resp e
  assume "ena_create_sq Q s cmd resp = Inl e"
  then show "guest_abort e" by (auto simp: ena_create_sq_def Let_def split: if_splits)
qed

section \<open>Destroy submission queue\<close>

lemma ena_destroy_sqE:
  assumes "ena_destroy_sq Q s cmd resp = Inr (st, s', resp')"
  obtains (rejected) "st \<noteq> ENA_ADMIN_SUCCESS" "s' = s" "resp' = resp"
  | (destroyed) idx where "st = ENA_ADMIN_SUCCESS" "idx < 16" "sq_used (sq s ! idx)"
      "idx = unat (admin_sq_sq_idx (destroy_sq_cmd_sq (dec_ena_admin_aq_destroy_sq_cmd cmd)))"
      "s' = s\<lparr>sq := (sq s)[idx := (sq s ! idx)\<lparr>sq_used := False\<rparr>]\<rparr>" "resp' = resp"
proof (cases "st = ENA_ADMIN_SUCCESS")
  case True
  with assms destroyed show thesis
    by (auto simp: ena_destroy_sq_def Let_def not_le ENA_MAX_SQ_def ENA_MAX_IO_QUEUES_def split: if_splits)
next
  case False
  with assms rejected show thesis by (auto simp: ena_destroy_sq_def Let_def split: if_splits)
qed

interpretation destroy_sq: admin_handler ena_destroy_sq
proof unfold_locales
  fix Q s cmd resp st s' resp'
  assume run: "ena_destroy_sq Q s cmd resp = Inr (st, s', resp')"
  show "aq_head s' = aq_head s \<and> acq_tail s' = acq_tail s \<and> acq_phase s' = acq_phase s \<and>
      (\<forall>i. i \<noteq> 17 \<longrightarrow> reg s' ! i = reg s ! i)"
    by (rule ena_destroy_sqE [OF run]) simp_all
  show "admin_step s s'"
    by (rule ena_destroy_sqE [OF run]) (simp_all add: admin_step_same)
  show "length resp' = 64" if "length resp = 64"
    by (rule ena_destroy_sqE [OF run]) (simp_all add: that)
  show "dev_inv s'" if "pow2_ok Q" "dev_inv s"
    by (rule ena_destroy_sqE [OF run]) (simp_all add: that dev_inv_set_sq sq_wf_def)
next
  fix Q s cmd resp e
  assume "ena_destroy_sq Q s cmd resp = Inl e"
  then show "guest_abort e" by (auto simp: ena_destroy_sq_def Let_def split: if_splits)
qed

section \<open>Properties of the queue commands\<close>

lemma first_unused_eqI:
  assumes "i < n" and "length qs = n" and "\<not> used (qs ! i)" and "\<forall>j < i. used (qs ! j)"
  shows "first_unused used n qs = i"
proof -
  have "takeWhile used qs = take i qs"
    using assms by (intro takeWhile_eq_take_P_nth) auto
  with assms show ?thesis by (simp add: first_unused_def)
qed

definition cq_request_ok :: "ena_admin_aq_create_cq_cmd \<Rightarrow> bool" where
  "cq_request_ok c \<longleftrightarrow> cq_wf (new_cq c)"

lemma words_times_4:
  "w = 2 \<or> w = 4 \<or> w = 8" if "w * 4 \<in> {8, 16, 32}" and "w = x AND ENA_ADMIN_AQ_CREATE_CQ_CMD_CQ_ENTRY_SIZE_WORDS_MASK" for w x :: u8
proof -
  have "ENA_ADMIN_AQ_CREATE_CQ_CMD_CQ_ENTRY_SIZE_WORDS_MASK = (2 ^ 5 - 1 :: u8)"
    by (simp add: ENA_ADMIN_AQ_CREATE_CQ_CMD_CQ_ENTRY_SIZE_WORDS_MASK_def GENMASK_def mask_eq_exp_minus_1)
  then have "unat w = unat x mod 32" using that(2) unat_and_pow2_mask [of 5 x] by simp
  then have "unat w < 32" by simp
  moreover have "unat (w * 4) = unat w * 4" using \<open>unat w < 32\<close> by (simp add: unat_word_ariths)
  moreover have "unat (w * 4) = 8 \<or> unat (w * 4) = 16 \<or> unat (w * 4) = 32" using that(1) by auto
  ultimately show ?thesis by (auto simp: word_unat_eq_iff)
qed

text \<open>
  C15. Creating a completion queue: a request for a valid ring with a legal vector takes the lowest
  free index, which the response names together with the queue's unmask register; the new queue
  starts its ring at entry 0 with phase 1 and nothing else of the device changes.
\<close>

theorem create_cq_allocates:
  assumes "pow2_ok Q" and "dev_inv s" and "length resp = 64" and "c = dec_ena_admin_aq_create_cq_cmd cmd"
    and "cq_request_ok c" and "i < 16" and "\<not> cq_used (cq s ! i)" and "\<forall>j < i. cq_used (cq s ! j)"
  shows "\<exists>resp'. ena_create_cq Q s cmd resp = Inr (ENA_ADMIN_SUCCESS, s\<lparr>cq := (cq s)[i := new_cq c]\<rparr>, resp') \<and>
    cq_used (new_cq c) \<and> cq_counts 0 (new_cq c) \<and>
    create_cq_resp_cq_idx (dec_ena_admin_acq_create_cq_resp_desc resp') = of_nat i \<and>
    create_cq_resp_cq_actual_depth (dec_ena_admin_acq_create_cq_resp_desc resp') = cq_depth (new_cq c) \<and>
    create_cq_resp_cq_interrupt_unmask_register_offset (dec_ena_admin_acq_create_cq_resp_desc resp') =
      of_nat (ENA_REG_CQ_UNMASK_BASE + i * 4)"
proof -
  have i: "first_unused cq_used ENA_MAX_CQ (cq s) = i"
    using assms(2,6-8) by (intro first_unused_eqI) (simp_all add: dev_invD ena_const)
  let ?words = "create_cq_cmd_cq_caps_2 c AND ENA_ADMIN_AQ_CREATE_CQ_CMD_CQ_ENTRY_SIZE_WORDS_MASK"
  have wf: "valid_depth (create_cq_cmd_cq_depth c)" "?words * 4 \<in> {8, 16, 32}"
    "ena_mem_addr (create_cq_cmd_cq_ba c) \<noteq> 0"
    "cq_intr_enabled (new_cq c) \<longrightarrow> create_cq_cmd_msix_vector c = ENA_MSIX_VECTOR_NONE \<or>
      create_cq_cmd_msix_vector c \<noteq> ENA_ADMIN_MSIX_VECTOR \<and> unat (create_cq_cmd_msix_vector c) < ENA_MSIX_VECTORS"
    using assms(5) by (simp_all add: cq_request_ok_def cq_wf_def new_cq_def)
  have "unat (create_cq_cmd_msix_vector c) < ENA_MSIX_VECTORS \<longleftrightarrow>
      \<not> of_nat ENA_MSIX_VECTORS \<le> create_cq_cmd_msix_vector c"
    by (simp add: ena_const word_le_nat_alt not_le)
  moreover have "i \<noteq> ENA_MAX_CQ" using assms(6) by (simp add: ena_const)
  ultimately have "\<exists>r. ena_create_cq Q s cmd resp = Inr (ENA_ADMIN_SUCCESS, s\<lparr>cq := (cq s)[i := new_cq c]\<rparr>,
      put_bytes 0 (enc_ena_admin_acq_create_cq_resp_desc r) resp) \<and> create_cq_resp_cq_idx r = of_nat i \<and>
      create_cq_resp_cq_actual_depth r = cq_depth (new_cq c) \<and>
      create_cq_resp_cq_interrupt_unmask_register_offset r = of_nat (ENA_REG_CQ_UNMASK_BASE + i * 4)"
    using wf words_times_4 [OF wf(2) refl] i ena_valid_depth_iff [OF assms(1)]
    unfolding ena_create_cq_def Let_def assms(4) [symmetric] new_cq_def by auto
  then obtain r where r: "ena_create_cq Q s cmd resp = Inr (ENA_ADMIN_SUCCESS, s\<lparr>cq := (cq s)[i := new_cq c]\<rparr>,
      put_bytes 0 (enc_ena_admin_acq_create_cq_resp_desc r) resp)" "create_cq_resp_cq_idx r = of_nat i"
      "create_cq_resp_cq_actual_depth r = cq_depth (new_cq c)"
      "create_cq_resp_cq_interrupt_unmask_register_offset r = of_nat (ENA_REG_CQ_UNMASK_BASE + i * 4)"
    by blast
  have "dec_ena_admin_acq_create_cq_resp_desc (put_bytes 0 (enc_ena_admin_acq_create_cq_resp_desc r) resp) = r"
    using create_cq_resp.load_store [of 0 resp r] assms(3) by simp
  moreover have "cq_counts 0 (new_cq c)" using wf(1) by (simp add: cq_counts_def new_cq_def valid_depth_def)
  ultimately show ?thesis using r by (auto simp: new_cq_def)
qed

text \<open>A device after reset, and the request for a 64-entry ring of 16-byte completions on vector 2.\<close>

definition fresh_state :: EnaState where
  "fresh_state = ena_dev_reset (ena_realize [2, 0, 0, 0, 0, 1] False)"

lemma fresh_inv: "dev_inv fresh_state"
  unfolding fresh_state_def
  by (rule dev_reset_inv) (simp_all add: irq_ok_realize, simp add: ena_realize_def)

lemma fresh_unused [simp]: "i < 16 \<Longrightarrow> \<not> cq_used (cq fresh_state ! i)" "i < 16 \<Longrightarrow> \<not> sq_used (sq fresh_state ! i)"
  by (simp_all add: fresh_state_def ena_dev_reset_sel zero_cq_def zero_sq_def ena_const)

definition sample_cq_cmd :: ena_admin_aq_create_cq_cmd where
  "sample_cq_cmd = \<lparr>
     create_cq_cmd_aq_common_descriptor = \<lparr>aq_common_desc_command_id = 1, aq_common_desc_opcode = 3, aq_common_desc_flags = 0\<rparr>,
     create_cq_cmd_cq_caps_1 = 0x20, create_cq_cmd_cq_caps_2 = 4, create_cq_cmd_cq_depth = 64,
     create_cq_cmd_msix_vector = 2,
     create_cq_cmd_cq_ba = \<lparr>mem_addr_mem_addr_low = 0x8000, mem_addr_mem_addr_high = 0, mem_addr_reserved16 = 0\<rparr>\<rparr>"

lemma valid_depth_64: "valid_depth 64"
  by (simp add: valid_depth_def is_ring_depth_def upt_rec ena_const)

lemma sample_cq_ok: "cq_request_ok sample_cq_cmd"
  using valid_depth_64
  by (simp add: cq_request_ok_def cq_wf_def new_cq_def sample_cq_cmd_def ena_mem_addr_def ena_const GENMASK_def
      mask_eq_exp_minus_1)

theorem create_cq_allocates_witness:
  "\<exists>resp'. ena_create_cq (quiet_qemu (\<lambda>_. 0) (\<lambda>_. 0)) fresh_state
       (enc_ena_admin_aq_create_cq_cmd sample_cq_cmd @ replicate 40 0) (replicate 64 0) =
     Inr (ENA_ADMIN_SUCCESS, fresh_state\<lparr>cq := (cq fresh_state)[0 := new_cq sample_cq_cmd]\<rparr>, resp')"
  using create_cq_allocates [OF quiet_pow2_ok fresh_inv _ _ sample_cq_ok, of "replicate 64 0"
      "enc_ena_admin_aq_create_cq_cmd sample_cq_cmd @ replicate 40 0" 0 "\<lambda>_. 0" "\<lambda>_. 0"]
  by (auto simp: create_cq_cmd.dec_enc)

text \<open>
  A completion queue cannot be destroyed while a submission queue uses it: the command answers
  \<open>RESOURCE_BUSY\<close> and changes nothing.
\<close>

theorem destroy_cq_busy:
  assumes "i < 16" and "sq_used (sq s ! i)" and "sq_wf (cq s) (sq s ! i)"
    and "destroy_cq_cmd_cq_idx (dec_ena_admin_aq_destroy_cq_cmd cmd) = sq_cq_idx (sq s ! i)"
  shows "ena_destroy_cq Q s cmd resp = Inr (ENA_ADMIN_RESOURCE_BUSY, s, resp)"
  using assms by (auto simp: ena_destroy_cq_def Let_def sq_wf_def list_ex_iff ena_const)

text \<open>The same device with that queue and a transmit and a receive queue that complete on it.\<close>

definition sample_sq_cmd :: "u8 \<Rightarrow> u64 \<Rightarrow> ena_admin_aq_create_sq_cmd" where
  "sample_sq_cmd dir base = \<lparr>
     create_sq_cmd_aq_common_descriptor = \<lparr>aq_common_desc_command_id = 2, aq_common_desc_opcode = 1, aq_common_desc_flags = 0\<rparr>,
     create_sq_cmd_sq_identity = push_bit 5 dir, create_sq_cmd_reserved8_w1 = 0,
     create_sq_cmd_sq_caps_2 = 1, create_sq_cmd_sq_caps_3 = 1, create_sq_cmd_cq_idx = 0,
     create_sq_cmd_sq_depth = 64,
     create_sq_cmd_sq_ba = \<lparr>mem_addr_mem_addr_low = ucast base, mem_addr_mem_addr_high = 0, mem_addr_reserved16 = 0\<rparr>,
     create_sq_cmd_sq_head_writeback = \<lparr>mem_addr_mem_addr_low = 0, mem_addr_mem_addr_high = 0, mem_addr_reserved16 = 0\<rparr>,
     create_sq_cmd_reserved0_w7 = 0, create_sq_cmd_reserved0_w8 = 0\<rparr>"

definition sample_cq :: EnaCq where
  "sample_cq = \<lparr>cq_used = True, cq_base = 0x8000, cq_depth = 64, cq_entry_size = 16, cq_intr_enabled = True,
     cq_msix_vector = 2, cq_tail = 0, cq_phase = True\<rparr>"

definition sample_sq :: "bool \<Rightarrow> u64 \<Rightarrow> EnaSq" where
  "sample_sq is_tx base = zero_sq\<lparr>sq_used := True, sq_is_tx := is_tx, sq_base := base, sq_depth := 64\<rparr>"

definition queue_state :: EnaState where
  "queue_state = fresh_state\<lparr>cq := (cq fresh_state)[0 := sample_cq],
     sq := (sq fresh_state)[0 := sample_sq True 0x10000, 1 := sample_sq False 0x20000]\<rparr>"

lemma sample_cq_wf: "cq_wf sample_cq"
  using valid_depth_64 by (simp add: cq_wf_def sample_cq_def ena_const)

lemma sample_cq_sync: "cq_sync sample_cq"
  using valid_depth_64 by (simp add: cq_sync_def cq_counts_def sample_cq_def valid_depth_def)

lemma queue_state_inv: "dev_inv queue_state"
proof -
  let ?s1 = "fresh_state\<lparr>cq := (cq fresh_state)[0 := sample_cq]\<rparr>"
  have 1: "dev_inv ?s1"
    using fresh_inv sample_cq_wf sample_cq_sync by (intro dev_inv_set_cq) simp_all
  have wf: "sq_wf (cq ?s1) (sample_sq t b)" if "b \<noteq> 0" for t b
    using that valid_depth_64 fresh_inv
    by (simp add: sq_wf_def sample_sq_def zero_sq_def sample_cq_def dev_invD ena_const)
  have posted: "sq_posted (sample_sq t b) \<le> unat (sq_depth (sample_sq t b))" for t b
    by (simp add: sq_posted_def sample_sq_def zero_sq_def)
  let ?s2 = "?s1\<lparr>sq := (sq ?s1)[0 := sample_sq True 0x10000]\<rparr>"
  have 2: "dev_inv ?s2" by (rule dev_inv_set_sq [OF 1]) (simp_all add: wf [simplified] posted)
  have "dev_inv (?s2\<lparr>sq := (sq ?s2)[1 := sample_sq False 0x20000]\<rparr>)"
    by (rule dev_inv_set_sq [OF 2]) (simp_all add: wf [simplified] posted)
  then show ?thesis by (simp add: queue_state_def)
qed

lemma queue_state_sel [simp]:
  "cq queue_state ! 0 = sample_cq" "sq queue_state ! 0 = sample_sq True 0x10000"
  "sq queue_state ! Suc 0 = sample_sq False 0x20000"
  using fresh_inv by (simp_all add: queue_state_def dev_invD)

theorem destroy_cq_busy_witness:
  "ena_destroy_cq (quiet_qemu (\<lambda>_. 0) (\<lambda>_. 0)) queue_state (replicate 64 0) (replicate 64 0) =
     Inr (ENA_ADMIN_RESOURCE_BUSY, queue_state, replicate 64 0)"
proof -
  have "sq_wf (cq queue_state) (sq queue_state ! 0)"
    by (rule dev_invD(7) [OF queue_state_inv]) simp
  moreover have "destroy_cq_cmd_cq_idx (dec_ena_admin_aq_destroy_cq_cmd (replicate 64 0)) = 0"
    by (simp add: ena_codec get_le16_def)
  ultimately show ?thesis
    by (intro destroy_cq_busy [of 0]) (simp_all add: sample_sq_def zero_sq_def)
qed

text \<open>
  C24. A queue command that fails is inert: it returns the device state and the zeroed response as
  it received them, whatever error it reports.
\<close>

theorem queue_errors_inert:
  assumes "st \<noteq> ENA_ADMIN_SUCCESS" and "ena_create_cq Q s cmd resp = Inr (st, s', resp') \<or>
      ena_destroy_cq Q s cmd resp = Inr (st, s', resp') \<or> ena_create_sq Q s cmd resp = Inr (st, s', resp') \<or>
      ena_destroy_sq Q s cmd resp = Inr (st, s', resp')"
  shows "s' = s \<and> resp' = resp"
  using assms(2)
proof (elim disjE)
  assume "ena_create_cq Q s cmd resp = Inr (st, s', resp')"
  then show ?thesis using assms(1) by (cases rule: ena_create_cqE) simp_all
next
  assume "ena_destroy_cq Q s cmd resp = Inr (st, s', resp')"
  then show ?thesis using assms(1) by (cases rule: ena_destroy_cqE) simp_all
next
  assume "ena_create_sq Q s cmd resp = Inr (st, s', resp')"
  then show ?thesis using assms(1) by (cases rule: ena_create_sqE) simp_all
next
  assume "ena_destroy_sq Q s cmd resp = Inr (st, s', resp')"
  then show ?thesis using assms(1) by (cases rule: ena_destroy_sqE) simp_all
qed

theorem queue_errors_inert_witness:
  "case ena_destroy_cq (quiet_qemu (\<lambda>_. 0) (\<lambda>_. 0)) queue_state (replicate 64 0) (replicate 64 0) of
     Inl e \<Rightarrow> False
   | Inr (st, s', resp') \<Rightarrow> st = ENA_ADMIN_RESOURCE_BUSY \<and> s' = queue_state \<and> resp' = replicate 64 0"
proof -
  let ?run = "ena_destroy_cq (quiet_qemu (\<lambda>_. 0) (\<lambda>_. 0)) queue_state (replicate 64 0) (replicate 64 0)"
  have "\<exists>i \<in> {0..<ENA_MAX_SQ}. sq_used (sq queue_state ! i) \<and> sq_cq_idx (sq queue_state ! i) = 0"
    by (rule bexI [of _ 0]) (simp_all add: sample_sq_def zero_sq_def ena_const)
  then have "\<exists>s' r'. ?run = Inr (ENA_ADMIN_RESOURCE_BUSY, s', r')"
    by (simp add: ena_destroy_cq_def Let_def ena_codec get_le16_def list_ex_iff sample_cq_def)
       (simp add: ena_const)
  then obtain s' r' where run: "?run = Inr (ENA_ADMIN_RESOURCE_BUSY, s', r')" by blast
  then have "s' = queue_state \<and> r' = replicate 64 0"
    by (intro queue_errors_inert [of ENA_ADMIN_RESOURCE_BUSY "quiet_qemu (\<lambda>_. 0) (\<lambda>_. 0)" queue_state
        "replicate 64 0"]) simp_all
  with run show ?thesis by simp
qed

text \<open>
  Creating and destroying a submission queue are inverse on the queue tables. A created queue
  gets the lowest free index and its doorbell, starts empty, and completes on the used queue it
  named; destroying the index the response carries, with the direction of the request, succeeds and
  leaves the same queues in use as before, the completion queues untouched.
\<close>

theorem create_destroy_sq:
  assumes "pow2_ok Q" and "dev_inv s" and "length resp = 64"
    and "ena_create_sq Q s cmd resp = Inr (ENA_ADMIN_SUCCESS, s1, resp1)"
    and i_def: "i = unat (create_sq_resp_sq_idx (dec_ena_admin_acq_create_sq_resp_desc resp1))"
  shows "i < 16 \<and> \<not> sq_used (sq s ! i) \<and> (\<forall>j < i. sq_used (sq s ! j)) \<and>
    s1 = s\<lparr>sq := (sq s)[i := sq s1 ! i]\<rparr> \<and> sq_used (sq s1 ! i) \<and> sq_posted (sq s1 ! i) = 0 \<and>
    cq_used (cq s1 ! unat (sq_cq_idx (sq s1 ! i))) \<and>
    create_sq_resp_sq_doorbell_offset (dec_ena_admin_acq_create_sq_resp_desc resp1) =
      of_nat (ENA_REG_SQ_DB_BASE + i * 4) \<and>
    (\<forall>d. destroy_sq_cmd_sq d = \<lparr>admin_sq_sq_idx = of_nat i,
        admin_sq_sq_identity = create_sq_cmd_sq_identity (dec_ena_admin_aq_create_sq_cmd cmd),
        admin_sq_reserved1 = 0\<rparr> \<longrightarrow>
      (\<exists>s2. ena_destroy_sq Q s1 (enc_ena_admin_aq_destroy_sq_cmd d) resp = Inr (ENA_ADMIN_SUCCESS, s2, resp) \<and>
        map sq_used (sq s2) = map sq_used (sq s) \<and> cq s2 = cq s))"
proof -
  let ?c = "dec_ena_admin_aq_create_sq_cmd cmd"
  let ?k = "first_unused sq_used ENA_MAX_SQ (sq s)"
  from assms(4) obtain r where r: "?k \<noteq> ENA_MAX_SQ" "s1 = s\<lparr>sq := (sq s)[?k := new_sq s ?c]\<rparr>"
      "resp1 = put_bytes 0 (enc_ena_admin_acq_create_sq_resp_desc r) resp"
      "create_sq_resp_sq_idx r = of_nat ?k" "create_sq_resp_sq_doorbell_offset r = of_nat (ENA_REG_SQ_DB_BASE + ?k * 4)"
      "sq_wf (cq s) (new_sq s ?c)"
    using assms(1,2) by (cases rule: ena_create_sqE) auto
  have k: "?k < 16" "\<not> sq_used (sq s ! ?k)" "\<forall>j < ?k. sq_used (sq s ! j)"
    using first_unused_free [OF r(1)] assms(2) by (simp_all add: dev_invD ena_const)
  have dec: "dec_ena_admin_acq_create_sq_resp_desc resp1 = r"
    using create_sq_resp.load_store [of 0 resp r] assms(3) r(3) by simp
  have i: "i = ?k" using k(1) by (simp add: i_def dec r(4) unat_of_nat_small)
  have q: "sq s1 ! i = new_sq s ?c" using r(2) k(1) assms(2) i by (simp add: dev_invD)
  have new: "sq_used (new_sq s ?c)" "sq_posted (new_sq s ?c) = 0"
    "sq_is_tx (new_sq s ?c) = (drop_bit ENA_ADMIN_AQ_CREATE_SQ_CMD_SQ_DIRECTION_SHIFT
       (create_sq_cmd_sq_identity ?c AND ENA_ADMIN_AQ_CREATE_SQ_CMD_SQ_DIRECTION_MASK) = ENA_ADMIN_SQ_DIRECTION_TX)"
    by (simp_all add: new_sq_def Let_def sq_posted_def zero_sq_def)
  have "ena_destroy_sq Q s1 (enc_ena_admin_aq_destroy_sq_cmd d) resp =
      Inr (ENA_ADMIN_SUCCESS, s1\<lparr>sq := (sq s1)[i := (sq s1 ! i)\<lparr>sq_used := False\<rparr>]\<rparr>, resp)"
    if "destroy_sq_cmd_sq d = \<lparr>admin_sq_sq_idx = of_nat i, admin_sq_sq_identity = create_sq_cmd_sq_identity ?c,
        admin_sq_reserved1 = 0\<rparr>" for d
    using that q new i k(1)
    by (simp add: ena_destroy_sq_def Let_def destroy_sq_cmd.load_buffer unat_of_nat_small)
       (simp add: ena_const)
  moreover have "map sq_used ((sq s1)[i := (sq s1 ! i)\<lparr>sq_used := False\<rparr>]) = map sq_used (sq s)"
    using r(2) i k dev_invD(3) [OF assms(2)] by (simp add: map_update list_update_same_conv)
  ultimately show ?thesis
    using r i k q new dec by (auto simp: sq_wf_def)
qed

lemma sample_create_sq:
  "\<exists>s1 r1. ena_create_sq (quiet_qemu mem llq) queue_state
     (enc_ena_admin_aq_create_sq_cmd (sample_sq_cmd 2 0x30000)) (replicate 64 0) = Inr (ENA_ADMIN_SUCCESS, s1, r1)"
proof -
  let ?c = "sample_sq_cmd 2 0x30000"
  have "length (sq queue_state) = 16" "\<not> sq_used (sq queue_state ! 2)"
    using queue_state_inv by (simp_all add: dev_invD) (simp add: queue_state_def)
  then have "first_unused sq_used ENA_MAX_SQ (sq queue_state) = 2"
    by (intro first_unused_eqI) (auto simp: ena_const less_2_cases_iff sample_sq_def)
  moreover have "ena_valid_depth (quiet_qemu mem llq) 64"
    using ena_valid_depth_iff [OF quiet_pow2_ok, of mem llq 64] valid_depth_64 by simp
  moreover have "drop_bit 5 (create_sq_cmd_sq_identity ?c AND GENMASK 7 5) = 2"
    "create_sq_cmd_sq_caps_2 ?c AND GENMASK 3 0 = 1" "drop_bit 4 (create_sq_cmd_sq_caps_2 ?c AND GENMASK 6 4) = 0"
    "create_sq_cmd_sq_caps_3 ?c AND BIT 0 \<noteq> 0" "ena_mem_addr (create_sq_cmd_sq_ba ?c) \<noteq> 0"
    "ena_mem_addr (create_sq_cmd_sq_head_writeback ?c) = 0"
    by (simp_all add: sample_sq_cmd_def GENMASK_def BIT_def mask_eq_exp_minus_1 ena_mem_addr_def)
  moreover have "create_sq_cmd_cq_idx ?c = 0" "create_sq_cmd_sq_depth ?c = 64"
    by (simp_all add: sample_sq_cmd_def)
  ultimately show ?thesis
    unfolding ena_create_sq_def Let_def create_sq_cmd.load_buffer [OF TrueI]
    by (simp add: ena_const sample_cq_def)
qed

theorem create_destroy_sq_witness:
  "\<exists>s1 r1. ena_create_sq (quiet_qemu (\<lambda>_. 0) (\<lambda>_. 0)) queue_state
       (enc_ena_admin_aq_create_sq_cmd (sample_sq_cmd 2 0x30000)) (replicate 64 0) = Inr (ENA_ADMIN_SUCCESS, s1, r1) \<and>
     sq_used (sq s1 ! unat (create_sq_resp_sq_idx (dec_ena_admin_acq_create_sq_resp_desc r1)))"
proof -
  obtain s1 r1 where run: "ena_create_sq (quiet_qemu (\<lambda>_. 0) (\<lambda>_. 0)) queue_state
      (enc_ena_admin_aq_create_sq_cmd (sample_sq_cmd 2 0x30000)) (replicate 64 0) = Inr (ENA_ADMIN_SUCCESS, s1, r1)"
    using sample_create_sq by blast
  from create_destroy_sq [OF quiet_pow2_ok queue_state_inv _ run refl] run show ?thesis by simp
qed

end
