(* ===== verification/Ena_Admin_Features.thy ===== *)
theory Ena_Admin_Features
  imports Ena_Admin_Queues
begin

text \<open>
  GET\_FEATURE, SET\_FEATURE and GET\_STATS (\<open>src/hw/ena_admin.c\<close>). The union of a feature
  response starts at byte 8, the union of a SET\_FEATURE command at byte 20; each branch of the two
  switches is a definition of its own.
\<close>

section \<open>Shared helpers\<close>

definition ENA_SUPPORTED_FEATURES :: u32 where
  "ENA_SUPPORTED_FEATURES =
     BIT (unat ENA_ADMIN_DEVICE_ATTRIBUTES) OR BIT (unat ENA_ADMIN_MAX_QUEUES_NUM) OR
     BIT (unat ENA_ADMIN_MAX_QUEUES_EXT) OR BIT (unat ENA_ADMIN_LLQ) OR
     BIT (unat ENA_ADMIN_RSS_HASH_FUNCTION) OR BIT (unat ENA_ADMIN_STATELESS_OFFLOAD_CONFIG) OR
     BIT (unat ENA_ADMIN_RSS_INDIRECTION_TABLE_CONFIG) OR BIT (unat ENA_ADMIN_MTU) OR
     BIT (unat ENA_ADMIN_RSS_HASH_INPUT) OR BIT (unat ENA_ADMIN_INTERRUPT_MODERATION) OR
     BIT (unat ENA_ADMIN_AENQ_CONFIG) OR BIT (unat ENA_ADMIN_LINK_CONFIG) OR
     BIT (unat ENA_ADMIN_HOST_ATTR_CONFIG)"

definition ENA_SUPPORTED_AENQ_GROUPS :: u32 where
  "ENA_SUPPORTED_AENQ_GROUPS = BIT (unat ENA_ADMIN_LINK_CHANGE) OR BIT (unat ENA_ADMIN_KEEP_ALIVE)"

definition ENA_TX_OFFLOADS :: u32 where
  "ENA_TX_OFFLOADS =
     ENA_ADMIN_FEATURE_OFFLOAD_DESC_TX_L3_CSUM_IPV4_MASK OR
     ENA_ADMIN_FEATURE_OFFLOAD_DESC_TX_L4_IPV4_CSUM_PART_MASK OR
     ENA_ADMIN_FEATURE_OFFLOAD_DESC_TX_L4_IPV4_CSUM_FULL_MASK OR
     ENA_ADMIN_FEATURE_OFFLOAD_DESC_TX_L4_IPV6_CSUM_PART_MASK OR
     ENA_ADMIN_FEATURE_OFFLOAD_DESC_TX_L4_IPV6_CSUM_FULL_MASK OR
     ENA_ADMIN_FEATURE_OFFLOAD_DESC_TSO_IPV4_MASK OR
     ENA_ADMIN_FEATURE_OFFLOAD_DESC_TSO_IPV6_MASK"

definition ENA_RX_OFFLOADS :: u32 where
  "ENA_RX_OFFLOADS =
     ENA_ADMIN_FEATURE_OFFLOAD_DESC_RX_L3_CSUM_IPV4_MASK OR
     ENA_ADMIN_FEATURE_OFFLOAD_DESC_RX_L4_IPV4_CSUM_MASK OR
     ENA_ADMIN_FEATURE_OFFLOAD_DESC_RX_L4_IPV6_CSUM_MASK OR
     ENA_ADMIN_FEATURE_OFFLOAD_DESC_RX_HASH_MASK"

definition ena_ctrl_buf :: "u8 \<Rightarrow> ena_admin_ctrl_buff_info \<Rightarrow> nat \<Rightarrow> u64 result" where
  "ena_ctrl_buf flags info need =
     (if unat (ctrl_buff_info_length info) < need then Inr 0
      else if flags AND ENA_ADMIN_AQ_COMMON_DESC_CTRL_DATA_INDIRECT_MASK = 0
      then Inl (Unsupported U_inline_ctrl_data)
      else Inr (ena_mem_addr (ctrl_buff_info_address info)))"

definition ena_fill_hash_ctrl :: "EnaState \<Rightarrow> ena_admin_feature_rss_hash_control" where
  "ena_fill_hash_ctrl s = \<lparr>
     hash_ctrl_supported_fields = map ena_rss_supported_fields [0..<ENA_ADMIN_RSS_PROTO_NUM],
     hash_ctrl_selected_fields = map (\<lambda>i. rss_fields (rss s) ! i) [0..<ENA_ADMIN_RSS_PROTO_NUM]\<rparr>"

section \<open>GET\_FEATURE\<close>

definition get_dev_attr :: "EnaState \<Rightarrow> byte list \<Rightarrow> byte list" where
  "get_dev_attr s resp =
     (let r = (dec_ena_admin_device_attr_feature_desc (drop 8 resp))
                \<lparr>dev_attr_impl_id := ENA_CTRL_VERSION_IMPL_ID,
                 dev_attr_device_version := 0,
                 dev_attr_supported_features := ENA_SUPPORTED_FEATURES,
                 dev_attr_capabilities := 0,
                 dev_attr_phys_addr_width := of_nat ENA_DMA_ADDR_WIDTH,
                 dev_attr_virt_addr_width := of_nat ENA_DMA_ADDR_WIDTH,
                 dev_attr_mac_addr := macaddr s,
                 dev_attr_max_mtu := of_nat ENA_MAX_MTU\<rparr>
      in put_bytes 8 (enc_ena_admin_device_attr_feature_desc r) resp)"

definition get_max_queues :: "byte list \<Rightarrow> byte list" where
  "get_max_queues resp =
     (let r = (dec_ena_admin_queue_feature_desc (drop 8 resp))
                \<lparr>queue_feature_max_sq_num := of_nat ENA_MAX_IO_QUEUES,
                 queue_feature_max_sq_depth := of_nat ENA_MAX_QUEUE_DEPTH,
                 queue_feature_max_cq_num := of_nat ENA_MAX_IO_QUEUES,
                 queue_feature_max_cq_depth := of_nat ENA_MAX_QUEUE_DEPTH,
                 queue_feature_max_legacy_llq_num := 0,
                 queue_feature_max_legacy_llq_depth := 0,
                 queue_feature_max_header_size := of_nat ENA_MAX_TX_HEADER_SIZE,
                 queue_feature_max_packet_tx_descs := of_nat ENA_MAX_PKT_DESCS,
                 queue_feature_max_packet_rx_descs := of_nat ENA_MAX_PKT_DESCS\<rparr>
      in put_bytes 8 (enc_ena_admin_queue_feature_desc r) resp)"

definition get_max_queues_ext :: "byte list \<Rightarrow> byte list" where
  "get_max_queues_ext resp =
     (let r = dec_ena_admin_queue_ext_feature_desc (drop 8 resp);
          f = (queue_ext_desc_max_queue_ext r)
                \<lparr>queue_ext_fields_max_tx_sq_num := of_nat ENA_MAX_IO_QUEUES,
                 queue_ext_fields_max_tx_cq_num := of_nat ENA_MAX_IO_QUEUES,
                 queue_ext_fields_max_rx_sq_num := of_nat ENA_MAX_IO_QUEUES,
                 queue_ext_fields_max_rx_cq_num := of_nat ENA_MAX_IO_QUEUES,
                 queue_ext_fields_max_tx_sq_depth := of_nat ENA_MAX_QUEUE_DEPTH,
                 queue_ext_fields_max_tx_cq_depth := of_nat ENA_MAX_QUEUE_DEPTH,
                 queue_ext_fields_max_rx_sq_depth := of_nat ENA_MAX_QUEUE_DEPTH,
                 queue_ext_fields_max_rx_cq_depth := of_nat ENA_MAX_QUEUE_DEPTH,
                 queue_ext_fields_max_tx_header_size := of_nat ENA_MAX_TX_HEADER_SIZE,
                 queue_ext_fields_max_per_packet_tx_descs := of_nat ENA_MAX_PKT_DESCS,
                 queue_ext_fields_max_per_packet_rx_descs := of_nat ENA_MAX_PKT_DESCS\<rparr>
      in put_bytes 8 (enc_ena_admin_queue_ext_feature_desc
           (r\<lparr>queue_ext_desc_version := 1, queue_ext_desc_max_queue_ext := f\<rparr>)) resp)"

definition get_llq :: "EnaState \<Rightarrow> u8 \<Rightarrow> byte list \<Rightarrow> byte list" where
  "get_llq s version resp =
     (let d = dec_ena_admin_feature_llq_desc (drop 8 resp);
          r = d\<lparr>llq_desc_max_llq_num := of_nat ENA_MAX_IO_QUEUES,
                llq_desc_max_llq_depth := of_nat ENA_MAX_QUEUE_DEPTH,
                llq_desc_header_location_ctrl_supported := ENA_ADMIN_INLINE_HEADER,
                llq_desc_header_location_ctrl_enabled := (if llq_enabled s then ENA_ADMIN_INLINE_HEADER else 0),
                llq_desc_entry_size_ctrl_supported :=
                  ENA_ADMIN_LIST_ENTRY_SIZE_128B OR ENA_ADMIN_LIST_ENTRY_SIZE_256B,
                llq_desc_entry_size_ctrl_enabled :=
                  (if llq_entry_size s = of_nat ENA_LLQ_LARGE_ENTRY_SIZE then ENA_ADMIN_LIST_ENTRY_SIZE_256B
                   else if llq_enabled s then ENA_ADMIN_LIST_ENTRY_SIZE_128B else 0),
                llq_desc_desc_num_before_header_supported := ENA_ADMIN_LLQ_NUM_DESCS_BEFORE_HEADER_2,
                llq_desc_desc_num_before_header_enabled :=
                  (if llq_enabled s then ENA_ADMIN_LLQ_NUM_DESCS_BEFORE_HEADER_2 else 0),
                llq_desc_descriptors_stride_ctrl_supported := ENA_ADMIN_MULTIPLE_DESCS_PER_ENTRY,
                llq_desc_descriptors_stride_ctrl_enabled :=
                  (if llq_enabled s then ENA_ADMIN_MULTIPLE_DESCS_PER_ENTRY else 0),
                llq_desc_feature_version := min version ENA_ADMIN_LLQ_FEATURE_VERSION_1,
                llq_desc_entry_size_recommended :=
                  ucast (if llq_large s then ENA_ADMIN_LIST_ENTRY_SIZE_256B else ENA_ADMIN_LIST_ENTRY_SIZE_128B),
                llq_desc_max_wide_llq_depth := 0,
                llq_desc_accel_mode_get := (llq_desc_accel_mode_get d)
                  \<lparr>accel_get_supported_flags := BIT ENA_ADMIN_DISABLE_META_CACHING,
                   accel_get_max_tx_burst_size := 0\<rparr>\<rparr>
      in put_bytes 8 (enc_ena_admin_feature_llq_desc r) resp)"

definition get_aenq :: "EnaState \<Rightarrow> byte list \<Rightarrow> byte list" where
  "get_aenq s resp =
     put_bytes 8 (enc_ena_admin_feature_aenq_desc
       ((dec_ena_admin_feature_aenq_desc (drop 8 resp))
          \<lparr>aenq_desc_supported_groups := ENA_SUPPORTED_AENQ_GROUPS,
           aenq_desc_enabled_groups := aenq_groups s\<rparr>)) resp"

definition get_link :: "byte list \<Rightarrow> byte list" where
  "get_link resp =
     put_bytes 8 (enc_ena_admin_get_feature_link_desc
       ((dec_ena_admin_get_feature_link_desc (drop 8 resp))
          \<lparr>link_desc_speed := of_nat ENA_LINK_SPEED_MBPS,
           link_desc_supported := ENA_ADMIN_LINK_SPEED_10G,
           link_desc_flags := ENA_ADMIN_GET_FEATURE_LINK_DESC_DUPLEX_MASK\<rparr>)) resp"

definition get_offload :: "byte list \<Rightarrow> byte list" where
  "get_offload resp =
     put_bytes 8 (enc_ena_admin_feature_offload_desc
       ((dec_ena_admin_feature_offload_desc (drop 8 resp))
          \<lparr>offload_desc_tx := ENA_TX_OFFLOADS,
           offload_desc_rx_supported := ENA_RX_OFFLOADS,
           offload_desc_rx_enabled := ENA_RX_OFFLOADS\<rparr>)) resp"

definition get_intr_moderation :: "byte list \<Rightarrow> byte list" where
  "get_intr_moderation resp =
     put_bytes 8 (enc_ena_admin_feature_intr_moder_desc
       ((dec_ena_admin_feature_intr_moder_desc (drop 8 resp))\<lparr>intr_moder_intr_delay_resolution := 1\<rparr>)) resp"

definition get_hash_function :: "EnaState \<Rightarrow> ena_admin_get_feat_cmd \<Rightarrow> byte list \<Rightarrow> outcome" where
  "get_hash_function s c resp =
     (let resp = put_bytes 8 (enc_ena_admin_feature_rss_flow_hash_function
            ((dec_ena_admin_feature_rss_flow_hash_function (drop 8 resp))
               \<lparr>hash_function_supported_func := BIT ENA_ADMIN_TOEPLITZ,
                hash_function_selected_func := BIT ENA_ADMIN_TOEPLITZ,
                hash_function_init_val := rss_init_val (rss s)\<rparr>)) resp
      in bindR (ena_ctrl_buf (aq_common_desc_flags (feat_cmd_aq_common_descriptor c)) (feat_cmd_control_buffer c) 48)
           (\<lambda>buf. if buf \<noteq> 0
                  then let key = \<lparr>hash_key_key_parts = rss_key_parts (rss s), hash_key_reserved = 0,
                                  hash_key_key = map (\<lambda>i. rss_key (rss s) ! i) [0..<ENA_ADMIN_RSS_KEY_PARTS]\<rparr>
                       in Inr (ENA_ADMIN_SUCCESS,
                            ena_dma_write s buf (enc_ena_admin_feature_rss_flow_hash_control key), resp)
                  else Inr (ENA_ADMIN_SUCCESS, s, resp)))"

definition get_hash_input :: "EnaState \<Rightarrow> ena_admin_get_feat_cmd \<Rightarrow> byte list \<Rightarrow> outcome" where
  "get_hash_input s c resp =
     (let resp = put_bytes 8 (enc_ena_admin_feature_rss_flow_hash_input
            ((dec_ena_admin_feature_rss_flow_hash_input (drop 8 resp))
               \<lparr>hash_input_supported_input_sort := 0, hash_input_enabled_input_sort := 0\<rparr>)) resp
      in bindR (ena_ctrl_buf (aq_common_desc_flags (feat_cmd_aq_common_descriptor c)) (feat_cmd_control_buffer c) 256)
           (\<lambda>buf. if buf \<noteq> 0
                  then Inr (ENA_ADMIN_SUCCESS,
                         ena_dma_write s buf (enc_ena_admin_feature_rss_hash_control (ena_fill_hash_ctrl s)), resp)
                  else Inr (ENA_ADMIN_SUCCESS, s, resp)))"

definition get_ind_table :: "EnaState \<Rightarrow> ena_admin_get_feat_cmd \<Rightarrow> byte list \<Rightarrow> outcome" where
  "get_ind_table s c resp =
     (let resp = put_bytes 8 (enc_ena_admin_feature_rss_ind_table
            ((dec_ena_admin_feature_rss_ind_table (drop 8 resp))
               \<lparr>ind_table_min_size := of_nat ENA_RSS_IND_TBL_LOG_SIZE,
                ind_table_max_size := of_nat ENA_RSS_IND_TBL_LOG_SIZE,
                ind_table_size := of_nat ENA_RSS_IND_TBL_LOG_SIZE,
                ind_table_flags := 0,
                ind_table_inline_index := 0xffffffff\<rparr>)) resp
      in bindR (ena_ctrl_buf (aq_common_desc_flags (feat_cmd_aq_common_descriptor c)) (feat_cmd_control_buffer c)
                 (4 * ENA_RSS_IND_TBL_SIZE))
           (\<lambda>buf. if buf \<noteq> 0
                  then let tbl = map (\<lambda>i. \<lparr>ind_entry_cq_idx = rss_ind_tbl (rss s) ! i, ind_entry_reserved = 0\<rparr>)
                                   [0..<ENA_RSS_IND_TBL_SIZE]
                       in Inr (ENA_ADMIN_SUCCESS,
                            ena_dma_write s buf (concat (map enc_ena_admin_rss_ind_table_entry tbl)), resp)
                  else Inr (ENA_ADMIN_SUCCESS, s, resp)))"

definition ena_get_feature :: "qemu \<Rightarrow> EnaState \<Rightarrow> byte list \<Rightarrow> byte list \<Rightarrow> outcome" where
  "ena_get_feature Q s cmd resp =
     (let c = dec_ena_admin_get_feat_cmd cmd;
          fc = feat_cmd_feat_common c;
          id = feat_common_feature_id fc
      in if feat_common_flags fc AND ENA_ADMIN_GET_SET_FEATURE_COMMON_DESC_SELECT_MASK \<noteq> 0
         then Inl (Unsupported U_feature_select)
         else if id = ENA_ADMIN_DEVICE_ATTRIBUTES then Inr (ENA_ADMIN_SUCCESS, s, get_dev_attr s resp)
         else if id = ENA_ADMIN_MAX_QUEUES_NUM then Inr (ENA_ADMIN_SUCCESS, s, get_max_queues resp)
         else if id = ENA_ADMIN_MAX_QUEUES_EXT
         then if feat_common_feature_version fc \<noteq> 1 then Inr (ENA_ADMIN_ILLEGAL_PARAMETER, s, resp)
              else Inr (ENA_ADMIN_SUCCESS, s, get_max_queues_ext resp)
         else if id = ENA_ADMIN_LLQ
         then Inr (ENA_ADMIN_SUCCESS, s, get_llq s (feat_common_feature_version fc) resp)
         else if id = ENA_ADMIN_AENQ_CONFIG then Inr (ENA_ADMIN_SUCCESS, s, get_aenq s resp)
         else if id = ENA_ADMIN_LINK_CONFIG then Inr (ENA_ADMIN_SUCCESS, s, get_link resp)
         else if id = ENA_ADMIN_STATELESS_OFFLOAD_CONFIG then Inr (ENA_ADMIN_SUCCESS, s, get_offload resp)
         else if id = ENA_ADMIN_INTERRUPT_MODERATION then Inr (ENA_ADMIN_SUCCESS, s, get_intr_moderation resp)
         else if id = ENA_ADMIN_MTU then Inr (ENA_ADMIN_SUCCESS, s, put_bytes 8 (le32 (mtu s)) resp)
         else if id = ENA_ADMIN_RSS_HASH_FUNCTION then get_hash_function s c resp
         else if id = ENA_ADMIN_RSS_HASH_INPUT then get_hash_input s c resp
         else if id = ENA_ADMIN_RSS_INDIRECTION_TABLE_CONFIG then get_ind_table s c resp
         else Inr (ENA_ADMIN_UNSUPPORTED_OPCODE, s, resp))"

section \<open>SET\_FEATURE\<close>

definition set_host_attr :: "qemu \<Rightarrow> EnaState \<Rightarrow> byte list \<Rightarrow> byte list \<Rightarrow> outcome" where
  "set_host_attr Q s cmd resp =
     (let u = dec_ena_admin_set_feature_host_attr_desc (drop 20 cmd);
          s = s\<lparr>host_info_addr := ena_mem_addr (host_attr_os_info_ba u),
                debug_area_addr := ena_mem_addr (host_attr_debug_ba u),
                debug_area_size := host_attr_debug_area_size u\<rparr>
      in if host_info_addr s = 0 then Inr (ENA_ADMIN_ILLEGAL_PARAMETER, s, resp)
         else let (bs, ok, s) = ena_dma_read Q s (host_info_addr s) 196;
                  hi = dec_ena_admin_host_info bs
              in if host_info_os_type hi \<noteq> ENA_ADMIN_OS_DPDK then Inl (AssertFailed A_host_os)
                 else Inr (ENA_ADMIN_SUCCESS, s, resp))"

definition set_aenq :: "qemu \<Rightarrow> EnaState \<Rightarrow> byte list \<Rightarrow> byte list \<Rightarrow> outcome" where
  "set_aenq Q s cmd resp =
     (let groups = aenq_desc_enabled_groups (dec_ena_admin_feature_aenq_desc (drop 20 cmd))
      in if groups AND NOT ENA_SUPPORTED_AENQ_GROUPS \<noteq> 0 then Inr (ENA_ADMIN_ILLEGAL_PARAMETER, s, resp)
         else bindR (ena_aenq_config Q s groups) (\<lambda>s. Inr (ENA_ADMIN_SUCCESS, s, resp)))"

definition set_mtu :: "EnaState \<Rightarrow> byte list \<Rightarrow> byte list \<Rightarrow> outcome" where
  "set_mtu s cmd resp =
     (let m = mtu_desc_mtu (dec_ena_admin_set_feature_mtu_desc (drop 20 cmd))
      in if m < of_nat ENA_MIN_MTU \<or> of_nat ENA_MAX_MTU < m then Inr (ENA_ADMIN_ILLEGAL_PARAMETER, s, resp)
         else Inr (ENA_ADMIN_SUCCESS, s\<lparr>mtu := m\<rparr>, resp))"

definition set_llq :: "EnaState \<Rightarrow> byte list \<Rightarrow> byte list \<Rightarrow> outcome" where
  "set_llq s cmd resp =
     (let u = dec_ena_admin_feature_llq_desc (drop 20 cmd);
          entry = llq_desc_entry_size_ctrl_enabled u
      in if llq_desc_header_location_ctrl_enabled u \<noteq> ENA_ADMIN_INLINE_HEADER \<or>
            entry \<noteq> ENA_ADMIN_LIST_ENTRY_SIZE_128B \<and> entry \<noteq> ENA_ADMIN_LIST_ENTRY_SIZE_256B \<or>
            llq_desc_desc_num_before_header_enabled u \<noteq> ENA_ADMIN_LLQ_NUM_DESCS_BEFORE_HEADER_2 \<or>
            llq_desc_descriptors_stride_ctrl_enabled u \<noteq> ENA_ADMIN_MULTIPLE_DESCS_PER_ENTRY
         then Inr (ENA_ADMIN_ILLEGAL_PARAMETER, s, resp)
         else Inr (ENA_ADMIN_SUCCESS,
                s\<lparr>llq_enabled := True,
                  llq_entry_size := (if entry = ENA_ADMIN_LIST_ENTRY_SIZE_256B
                                     then of_nat ENA_LLQ_LARGE_ENTRY_SIZE else of_nat ENA_LLQ_ENTRY_SIZE)\<rparr>, resp))"

definition set_hash_function :: "qemu \<Rightarrow> EnaState \<Rightarrow> byte list \<Rightarrow> byte list \<Rightarrow> outcome" where
  "set_hash_function Q s cmd resp =
     (let c = dec_ena_admin_get_feat_cmd cmd;
          u = dec_ena_admin_feature_rss_flow_hash_function (drop 20 cmd)
      in if hash_function_selected_func u \<noteq> BIT ENA_ADMIN_TOEPLITZ
         then Inr (ENA_ADMIN_ILLEGAL_PARAMETER, s, resp)
         else bindR (ena_ctrl_buf (aq_common_desc_flags (feat_cmd_aq_common_descriptor c)) (feat_cmd_control_buffer c) 48)
           (\<lambda>buf. if buf = 0 then Inr (ENA_ADMIN_MALFORMED_REQUEST, s, resp)
             else let (bs, ok, s) = ena_dma_read Q s buf 48;
                      key = dec_ena_admin_feature_rss_flow_hash_control bs
                  in if hash_key_key_parts key \<noteq> of_nat ENA_ADMIN_RSS_KEY_PARTS
                     then Inr (ENA_ADMIN_ILLEGAL_PARAMETER, s, resp)
                     else Inr (ENA_ADMIN_SUCCESS,
                            s\<lparr>rss := (rss s)\<lparr>rss_key_parts := hash_key_key_parts key,
                                             rss_key := map (\<lambda>i. hash_key_key key ! i) [0..<ENA_ADMIN_RSS_KEY_PARTS],
                                             rss_init_val := hash_function_init_val u\<rparr>\<rparr>, resp)))"

definition set_hash_input :: "qemu \<Rightarrow> EnaState \<Rightarrow> byte list \<Rightarrow> byte list \<Rightarrow> outcome" where
  "set_hash_input Q s cmd resp =
     (let c = dec_ena_admin_get_feat_cmd cmd
      in bindR (ena_ctrl_buf (aq_common_desc_flags (feat_cmd_aq_common_descriptor c)) (feat_cmd_control_buffer c) 256)
           (\<lambda>buf. if buf = 0 then Inr (ENA_ADMIN_MALFORMED_REQUEST, s, resp)
             else let (bs, ok, s) = ena_dma_read Q s buf 256;
                      hc = dec_ena_admin_feature_rss_hash_control bs;
                      sel = map (\<lambda>i. hash_ctrl_selected_fields hc ! i AND ena_rss_supported_fields i)
                              [0..<ENA_ADMIN_RSS_PROTO_NUM]
                  in if list_ex (\<lambda>f. f \<noteq> 0 \<and> f \<noteq> ENA_RSS_L3_FIELDS \<and> f \<noteq> ENA_RSS_L3L4_FIELDS) sel
                     then Inr (ENA_ADMIN_ILLEGAL_PARAMETER, s, resp)
                     else Inr (ENA_ADMIN_SUCCESS, s\<lparr>rss := (rss s)\<lparr>rss_fields := sel\<rparr>\<rparr>, resp)))"

definition set_ind_table :: "qemu \<Rightarrow> EnaState \<Rightarrow> byte list \<Rightarrow> byte list \<Rightarrow> outcome" where
  "set_ind_table Q s cmd resp =
     (let c = dec_ena_admin_get_feat_cmd cmd;
          u = dec_ena_admin_feature_rss_ind_table (drop 20 cmd)
      in if ind_table_size u \<noteq> of_nat ENA_RSS_IND_TBL_LOG_SIZE then Inr (ENA_ADMIN_ILLEGAL_PARAMETER, s, resp)
         else if ind_table_inline_index u \<noteq> 0xffffffff then Inl (Unsupported U_inline_ind_table)
         else bindR (ena_ctrl_buf (aq_common_desc_flags (feat_cmd_aq_common_descriptor c)) (feat_cmd_control_buffer c)
                       (4 * ENA_RSS_IND_TBL_SIZE))
           (\<lambda>buf. if buf = 0 then Inr (ENA_ADMIN_ILLEGAL_PARAMETER, s, resp)
             else let (bs, ok, s) = ena_dma_read Q s buf (4 * ENA_RSS_IND_TBL_SIZE);
                      tbl = map (\<lambda>i. dec_ena_admin_rss_ind_table_entry (drop (4 * i) bs)) [0..<ENA_RSS_IND_TBL_SIZE]
                  in if list_ex (\<lambda>e. let idx = unat (ind_entry_cq_idx e)
                                     in ENA_MAX_SQ \<le> idx \<or> \<not> sq_used (sq s ! idx) \<or> sq_is_tx (sq s ! idx)) tbl
                     then Inr (ENA_ADMIN_ILLEGAL_PARAMETER, s, resp)
                     else Inr (ENA_ADMIN_SUCCESS,
                            s\<lparr>rss := (rss s)\<lparr>rss_ind_tbl := map ind_entry_cq_idx tbl\<rparr>\<rparr>, resp)))"

definition ena_set_feature :: "qemu \<Rightarrow> EnaState \<Rightarrow> byte list \<Rightarrow> byte list \<Rightarrow> outcome" where
  "ena_set_feature Q s cmd resp =
     (let fc = feat_cmd_feat_common (dec_ena_admin_get_feat_cmd cmd);
          id = feat_common_feature_id fc
      in if feat_common_flags fc AND ENA_ADMIN_GET_SET_FEATURE_COMMON_DESC_SELECT_MASK \<noteq> 0
         then Inl (Unsupported U_feature_select)
         else if id = ENA_ADMIN_HOST_ATTR_CONFIG then set_host_attr Q s cmd resp
         else if id = ENA_ADMIN_AENQ_CONFIG then set_aenq Q s cmd resp
         else if id = ENA_ADMIN_MTU then set_mtu s cmd resp
         else if id = ENA_ADMIN_LLQ then set_llq s cmd resp
         else if id = ENA_ADMIN_RSS_HASH_FUNCTION then set_hash_function Q s cmd resp
         else if id = ENA_ADMIN_RSS_HASH_INPUT then set_hash_input Q s cmd resp
         else if id = ENA_ADMIN_RSS_INDIRECTION_TABLE_CONFIG then set_ind_table Q s cmd resp
         else Inr (ENA_ADMIN_UNSUPPORTED_OPCODE, s, resp))"

section \<open>GET\_STATS\<close>

definition ena_get_stats :: "qemu \<Rightarrow> EnaState \<Rightarrow> byte list \<Rightarrow> byte list \<Rightarrow> outcome" where
  "ena_get_stats Q s cmd resp =
     (let c = dec_ena_admin_aq_get_stats_cmd cmd;
          b = (dec_ena_admin_basic_stats (drop 8 resp))
                \<lparr>basic_stats_tx_bytes_low := ucast (tx_bytes s),
                 basic_stats_tx_bytes_high := ucast (drop_bit 32 (tx_bytes s)),
                 basic_stats_tx_pkts_low := ucast (tx_pkts s),
                 basic_stats_tx_pkts_high := ucast (drop_bit 32 (tx_pkts s)),
                 basic_stats_rx_bytes_low := ucast (rx_bytes s),
                 basic_stats_rx_bytes_high := ucast (drop_bit 32 (rx_bytes s)),
                 basic_stats_rx_pkts_low := ucast (rx_pkts s),
                 basic_stats_rx_pkts_high := ucast (drop_bit 32 (rx_pkts s)),
                 basic_stats_rx_drops_low := ucast (rx_drops s),
                 basic_stats_rx_drops_high := ucast (drop_bit 32 (rx_drops s)),
                 basic_stats_tx_drops_low := ucast (tx_drops s),
                 basic_stats_tx_drops_high := ucast (drop_bit 32 (tx_drops s))\<rparr>
      in if get_stats_cmd_type c \<noteq> ENA_ADMIN_GET_STATS_TYPE_BASIC
         then Inr (ENA_ADMIN_UNSUPPORTED_OPCODE, s, resp)
         else if get_stats_cmd_device_id c \<noteq> 0 \<and> get_stats_cmd_device_id c \<noteq> 0xffff
         then Inr (ENA_ADMIN_ILLEGAL_PARAMETER, s, resp)
         else Inr (ENA_ADMIN_SUCCESS, s, put_bytes 8 (enc_ena_admin_basic_stats b) resp))"

section \<open>The handler contract\<close>

lemma ena_ctrl_buf_abort: "ena_ctrl_buf flags info n = Inl e \<Longrightarrow> guest_abort e"
  by (auto simp: ena_ctrl_buf_def split: if_splits)

lemma ena_get_feature_keeps:
  "ena_get_feature Q s cmd resp = Inr (st, s', resp') \<Longrightarrow>
     s' = s \<or> (\<exists>a bs. s' = emit (DmaWrite a bs) s)"
  by (auto simp: ena_get_feature_def get_hash_function_def get_hash_input_def get_ind_table_def
      ena_dma_write_def Let_def bindR_eq_Inr split: if_splits)

lemma ena_get_feature_abort: "ena_get_feature Q s cmd resp = Inl e \<Longrightarrow> guest_abort e"
  by (auto simp: ena_get_feature_def get_hash_function_def get_hash_input_def get_ind_table_def
      Let_def bindR_eq_Inl split: if_splits dest: ena_ctrl_buf_abort)

lemma getter_sizes:
  assumes "length resp = 64"
  shows "length (macaddr s) = 6 \<Longrightarrow> length (get_dev_attr s resp) = 64" "length (get_max_queues resp) = 64"
    "length (get_max_queues_ext resp) = 64" "length (get_llq s v resp) = 64" "length (get_aenq s resp) = 64"
    "length (get_link resp) = 64" "length (get_offload resp) = 64" "length (get_intr_moderation resp) = 64"
proof -
  show "length (get_dev_attr s resp) = 64" if "length (macaddr s) = 6"
    using that assms dev_attr.enc_size
    by (simp add: get_dev_attr_def Let_def wf_ena_admin_device_attr_feature_desc_def
        dec_ena_admin_device_attr_feature_desc_def)
  show "length (get_max_queues_ext resp) = 64"
    using assms queue_ext_desc.enc_size
    by (simp add: get_max_queues_ext_def Let_def wf_ena_admin_queue_ext_feature_desc_def
        dec_ena_admin_queue_ext_feature_desc_def)
qed (simp_all add: assms get_max_queues_def get_llq_def get_aenq_def get_link_def get_offload_def
  get_intr_moderation_def Let_def queue_feature.enc_size llq_desc.enc_size aenq_desc.enc_size
  link_desc.enc_size offload_desc.enc_size intr_moder.enc_size)

lemma ena_get_feature_size:
  "ena_get_feature Q s cmd resp = Inr (st, s', resp') \<Longrightarrow> length (macaddr s) = 6 \<Longrightarrow> length resp = 64 \<Longrightarrow>
     length resp' = 64"
  by (auto simp: ena_get_feature_def get_hash_function_def get_hash_input_def get_ind_table_def
      Let_def bindR_eq_Inr getter_sizes hash_function.enc_size hash_input.enc_size ind_table.enc_size
      split: if_splits)

interpretation get_feature: admin_handler ena_get_feature
proof unfold_locales
  fix Q s cmd resp st s' resp'
  assume run: "ena_get_feature Q s cmd resp = Inr (st, s', resp')"
  note keeps = ena_get_feature_keeps [OF run]
  show "aq_head s' = aq_head s \<and> acq_tail s' = acq_tail s \<and> acq_phase s' = acq_phase s \<and>
      (\<forall>i. i \<noteq> 17 \<longrightarrow> reg s' ! i = reg s ! i)" using keeps by auto
  show "admin_step s s'" using keeps by (auto intro: admin_step_emit)
  show "length resp' = 64" if "length (macaddr s) = 6" "length resp = 64"
    by (rule ena_get_feature_size [OF run that])
  show "dev_inv s'" if "pow2_ok Q" "dev_inv s"
    using keeps that by (auto simp: dev_inv_emit)
qed (rule ena_get_feature_abort)

lemma ena_get_stats_keeps:
  "ena_get_stats Q s cmd resp = Inr (st, s', resp') \<Longrightarrow> s' = s \<and> (length resp = 64 \<longrightarrow> length resp' = 64)"
  by (auto simp: ena_get_stats_def Let_def basic_stats.enc_size split: if_splits)

lemma ena_get_stats_total: "ena_get_stats Q s cmd resp \<noteq> Inl e"
  by (simp add: ena_get_stats_def Let_def)

interpretation get_stats: admin_handler ena_get_stats
  by unfold_locales (auto dest: ena_get_stats_keeps simp: ena_get_stats_total)

text \<open>What each SET\_FEATURE branch may change.\<close>

lemmas set_feature_defs = ena_set_feature_def set_host_attr_def set_aenq_def set_mtu_def set_llq_def
  set_hash_function_def set_hash_input_def set_ind_table_def ena_dma_read_def

lemma ena_set_feature_resp: "ena_set_feature Q s cmd resp = Inr (st, s', resp') \<Longrightarrow> resp' = resp"
  by (auto simp: set_feature_defs Let_def bindR_eq_Inr split: if_splits)

lemma ena_set_feature_abort: "ena_set_feature Q s cmd resp = Inl e \<Longrightarrow> guest_abort e"
  by (auto simp: set_feature_defs Let_def bindR_eq_Inl ena_aenq_config_no_abort split: if_splits
      dest: ena_ctrl_buf_abort)

lemma ena_set_feature_rings:
  assumes "ena_set_feature Q s cmd resp = Inr (st, s', resp')"
  shows "aq_head s' = aq_head s" "acq_tail s' = acq_tail s" "acq_phase s' = acq_phase s"
    "i \<noteq> 17 \<Longrightarrow> reg s' ! i = reg s ! i"
  using assms
  by (auto simp: set_feature_defs Let_def bindR_eq_Inr split: if_splits
      dest!: ena_aenq_configD(1) dest: aenq_frameD(9-11,14))

lemma ena_set_feature_history:
  assumes "ena_set_feature Q s cmd resp = Inr (st, s', resp')"
  shows "irq s' = irq s" "macaddr s' = macaddr s" "ext_by admin_call s s'" "aenq_sync s \<Longrightarrow> aenq_sync s'"
  subgoal using assms by (auto simp: set_feature_defs Let_def bindR_eq_Inr split: if_splits
      dest!: ena_aenq_configD(1) dest: aenq_frameD(3))
  subgoal using assms by (auto simp: set_feature_defs Let_def bindR_eq_Inr split: if_splits
      dest!: ena_aenq_configD(1) dest: aenq_frameD(5))
  subgoal using assms by (auto simp: set_feature_defs Let_def bindR_eq_Inr split: if_splits dest!: ena_aenq_configD(2))
     (auto simp: ext_by_def)
  subgoal using assms by (auto simp: set_feature_defs Let_def bindR_eq_Inr split: if_splits dest: ena_aenq_config_sync)
  done

lemma set_mtu_inv: "set_mtu s cmd resp = Inr (st, s', resp') \<Longrightarrow> dev_inv s \<Longrightarrow> dev_inv s'"
  by (auto simp: set_mtu_def Let_def not_less word_le_nat_alt ENA_MIN_MTU_def ENA_MAX_MTU_def split: if_splits
      intro!: dev_inv_config(4))

lemma set_llq_inv: "set_llq s cmd resp = Inr (st, s', resp') \<Longrightarrow> dev_inv s \<Longrightarrow> dev_inv s'"
  by (auto simp: set_llq_def Let_def llq_size_wf_def ENA_LLQ_ENTRY_SIZE_def ENA_LLQ_LARGE_ENTRY_SIZE_def
      split: if_splits intro!: dev_inv_config(5))

lemma set_aenq_inv: "set_aenq Q s cmd resp = Inr (st, s', resp') \<Longrightarrow> dev_inv s \<Longrightarrow> dev_inv s'"
proof -
  assume "set_aenq Q s cmd resp = Inr (st, s', resp')" and inv: "dev_inv s"
  then consider "s' = s" | g where "ena_aenq_config Q s g = Inr s'"
    by (auto simp: set_aenq_def Let_def bindR_eq_Inr split: if_splits)
  then show "dev_inv s'"
  proof cases
    case (2 g)
    note d = ena_aenq_configD [OF this]
    have "ext_by admin_call (s\<lparr>aenq_groups := g\<rparr>) s'" using d(2) by (simp add: ext_by_def)
    with d(1) show ?thesis using inv by (metis dev_inv_aenq dev_inv_groups)
  qed (use inv in simp)
qed

lemma set_host_attr_inv: "set_host_attr Q s cmd resp = Inr (st, s', resp') \<Longrightarrow> dev_inv s \<Longrightarrow> dev_inv s'"
  by (auto simp: set_host_attr_def Let_def ena_dma_read_def dev_inv_emit dev_inv_config split: if_splits)

lemma rss_wf_state: "dev_inv s \<Longrightarrow> rss_wf (rss s)"
  by (simp add: dev_inv_def cfg_inv_def)

lemma set_hash_function_inv: "set_hash_function Q s cmd resp = Inr (st, s', resp') \<Longrightarrow> dev_inv s \<Longrightarrow> dev_inv s'"
  by (auto simp: set_hash_function_def Let_def ena_dma_read_def bindR_eq_Inr dev_inv_emit split: if_splits
      intro!: dev_inv_config(6)) (auto simp: rss_wf_def dest!: rss_wf_state)

lemma set_hash_input_inv: "set_hash_input Q s cmd resp = Inr (st, s', resp') \<Longrightarrow> dev_inv s \<Longrightarrow> dev_inv s'"
  by (auto simp: set_hash_input_def Let_def ena_dma_read_def bindR_eq_Inr dev_inv_emit split: if_splits
      intro!: dev_inv_config(6))
     (auto simp: rss_wf_def fields_wf_def list_all_iff list_ex_iff dest!: rss_wf_state)

lemma set_ind_table_inv: "set_ind_table Q s cmd resp = Inr (st, s', resp') \<Longrightarrow> dev_inv s \<Longrightarrow> dev_inv s'"
  by (auto simp: set_ind_table_def Let_def ena_dma_read_def bindR_eq_Inr dev_inv_emit split: if_splits
      intro!: dev_inv_config(6))
     (auto simp: rss_wf_def list_all_iff list_ex_iff not_le dest!: rss_wf_state)

lemma ena_set_feature_inv: "ena_set_feature Q s cmd resp = Inr (st, s', resp') \<Longrightarrow> dev_inv s \<Longrightarrow> dev_inv s'"
  by (auto simp: ena_set_feature_def Let_def split: if_splits
      dest: set_mtu_inv set_llq_inv set_aenq_inv set_host_attr_inv set_hash_function_inv
        set_hash_input_inv set_ind_table_inv)

interpretation set_feature: admin_handler ena_set_feature
proof unfold_locales
  fix Q s cmd resp st s' resp'
  assume run: "ena_set_feature Q s cmd resp = Inr (st, s', resp')"
  show "aq_head s' = aq_head s \<and> acq_tail s' = acq_tail s \<and> acq_phase s' = acq_phase s \<and>
      (\<forall>i. i \<noteq> 17 \<longrightarrow> reg s' ! i = reg s ! i)" using ena_set_feature_rings [OF run] by blast
  show "admin_step s s'" using ena_set_feature_history [OF run] by (simp add: admin_step_def)
  show "length resp' = 64" if "length resp = 64" using that ena_set_feature_resp [OF run] by simp
  show "dev_inv s'" if "dev_inv s" using that by (rule ena_set_feature_inv [OF run])
qed (rule ena_set_feature_abort)

section \<open>Features read back as they were set\<close>

definition feature_request :: "u8 \<Rightarrow> byte list \<Rightarrow> bool" where
  "feature_request fid cmd \<longleftrightarrow>
     (let fc = feat_cmd_feat_common (dec_ena_admin_get_feat_cmd cmd)
      in feat_common_flags fc AND ENA_ADMIN_GET_SET_FEATURE_COMMON_DESC_SELECT_MASK = 0 \<and>
         feat_common_feature_id fc = fid)"

text \<open>A command that carries a control buffer of at least \<open>n\<close> bytes at address \<open>buf\<close>.\<close>

definition with_buffer :: "byte list \<Rightarrow> u64 \<Rightarrow> nat \<Rightarrow> bool" where
  "with_buffer cmd buf n \<longleftrightarrow>
     (let c = dec_ena_admin_get_feat_cmd cmd
      in ena_mem_addr (ctrl_buff_info_address (feat_cmd_control_buffer c)) = buf \<and> buf \<noteq> 0 \<and>
         n \<le> unat (ctrl_buff_info_length (feat_cmd_control_buffer c)) \<and>
         bit (aq_common_desc_flags (feat_cmd_aq_common_descriptor c)) 2)"

lemma with_buffer_ctrl_buf:
  "with_buffer cmd buf n \<Longrightarrow>
     ena_ctrl_buf (aq_common_desc_flags (feat_cmd_aq_common_descriptor (dec_ena_admin_get_feat_cmd cmd)))
       (feat_cmd_control_buffer (dec_ena_admin_get_feat_cmd cmd)) n = Inr buf \<and> buf \<noteq> 0"
  by (auto simp: with_buffer_def ena_ctrl_buf_def Let_def
      ENA_ADMIN_AQ_COMMON_DESC_CTRL_DATA_INDIRECT_MASK_def and_BIT_eq_0)

lemmas feature_id_defs =
  ENA_ADMIN_DEVICE_ATTRIBUTES_def ENA_ADMIN_MAX_QUEUES_NUM_def ENA_ADMIN_MAX_QUEUES_EXT_def
  ENA_ADMIN_LLQ_def ENA_ADMIN_AENQ_CONFIG_def ENA_ADMIN_LINK_CONFIG_def
  ENA_ADMIN_STATELESS_OFFLOAD_CONFIG_def ENA_ADMIN_INTERRUPT_MODERATION_def ENA_ADMIN_MTU_def
  ENA_ADMIN_RSS_HASH_FUNCTION_def ENA_ADMIN_RSS_HASH_INPUT_def ENA_ADMIN_RSS_INDIRECTION_TABLE_CONFIG_def
  ENA_ADMIN_HOST_ATTR_CONFIG_def

lemma get_feature_select:
  "feature_request ENA_ADMIN_MTU cmd \<Longrightarrow>
     ena_get_feature Q s cmd resp = Inr (ENA_ADMIN_SUCCESS, s, put_bytes 8 (le32 (mtu s)) resp)"
  "feature_request ENA_ADMIN_RSS_HASH_FUNCTION cmd \<Longrightarrow>
     ena_get_feature Q s cmd resp = get_hash_function s (dec_ena_admin_get_feat_cmd cmd) resp"
  "feature_request ENA_ADMIN_RSS_HASH_INPUT cmd \<Longrightarrow>
     ena_get_feature Q s cmd resp = get_hash_input s (dec_ena_admin_get_feat_cmd cmd) resp"
  "feature_request ENA_ADMIN_RSS_INDIRECTION_TABLE_CONFIG cmd \<Longrightarrow>
     ena_get_feature Q s cmd resp = get_ind_table s (dec_ena_admin_get_feat_cmd cmd) resp"
  "feature_request ENA_ADMIN_AENQ_CONFIG cmd \<Longrightarrow>
     ena_get_feature Q s cmd resp = Inr (ENA_ADMIN_SUCCESS, s, get_aenq s resp)"
  "feature_request ENA_ADMIN_LLQ cmd \<Longrightarrow> ena_get_feature Q s cmd resp = Inr (ENA_ADMIN_SUCCESS, s,
     get_llq s (feat_common_feature_version (feat_cmd_feat_common (dec_ena_admin_get_feat_cmd cmd))) resp)"
  by (simp_all add: feature_request_def ena_get_feature_def Let_def feature_id_defs)

lemma set_feature_select:
  "feature_request ENA_ADMIN_MTU cmd \<Longrightarrow> ena_set_feature Q s cmd resp = set_mtu s cmd resp"
  "feature_request ENA_ADMIN_LLQ cmd \<Longrightarrow> ena_set_feature Q s cmd resp = set_llq s cmd resp"
  "feature_request ENA_ADMIN_AENQ_CONFIG cmd \<Longrightarrow> ena_set_feature Q s cmd resp = set_aenq Q s cmd resp"
  "feature_request ENA_ADMIN_RSS_HASH_FUNCTION cmd \<Longrightarrow> ena_set_feature Q s cmd resp = set_hash_function Q s cmd resp"
  "feature_request ENA_ADMIN_RSS_HASH_INPUT cmd \<Longrightarrow> ena_set_feature Q s cmd resp = set_hash_input Q s cmd resp"
  "feature_request ENA_ADMIN_RSS_INDIRECTION_TABLE_CONFIG cmd \<Longrightarrow>
     ena_set_feature Q s cmd resp = set_ind_table Q s cmd resp"
  by (simp_all add: feature_request_def ena_set_feature_def Let_def feature_id_defs)

text \<open>
  C25. The MTU: a value from 128 to 9000 is accepted and read back unchanged, and it is the only
  thing that changes; any other value is rejected and leaves the device alone.
\<close>

theorem mtu_roundtrip:
  assumes "feature_request ENA_ADMIN_MTU cmd" and "feature_request ENA_ADMIN_MTU gcmd"
    and "m = mtu_desc_mtu (dec_ena_admin_set_feature_mtu_desc (drop 20 cmd))" and "length gresp = 64"
  shows "if ENA_MIN_MTU \<le> unat m \<and> unat m \<le> ENA_MAX_MTU
    then ena_set_feature Q s cmd resp = Inr (ENA_ADMIN_SUCCESS, s\<lparr>mtu := m\<rparr>, resp) \<and>
      (\<exists>r. ena_get_feature Q (s\<lparr>mtu := m\<rparr>) gcmd gresp = Inr (ENA_ADMIN_SUCCESS, s\<lparr>mtu := m\<rparr>, r) \<and>
        get_le32 (drop 8 r) = m)
    else ena_set_feature Q s cmd resp = Inr (ENA_ADMIN_ILLEGAL_PARAMETER, s, resp)"
proof -
  have "m < of_nat ENA_MIN_MTU \<or> of_nat ENA_MAX_MTU < m \<longleftrightarrow> \<not> (ENA_MIN_MTU \<le> unat m \<and> unat m \<le> ENA_MAX_MTU)"
    by (auto simp: word_less_nat_alt ena_const)
  then show ?thesis
    using assms by (simp add: get_feature_select set_feature_select set_mtu_def Let_def)
qed

text \<open>Feature commands with an indirect control buffer of 1024 bytes at \<open>0x5000\<close>, and their union.\<close>

definition sample_feat_cmd :: "u8 \<Rightarrow> u32 list \<Rightarrow> byte list" where
  "sample_feat_cmd fid raw = enc_ena_admin_get_feat_cmd \<lparr>
     feat_cmd_aq_common_descriptor = \<lparr>aq_common_desc_command_id = 3, aq_common_desc_opcode = 9, aq_common_desc_flags = 4\<rparr>,
     feat_cmd_control_buffer = \<lparr>ctrl_buff_info_length = 1024, ctrl_buff_info_address =
       \<lparr>mem_addr_mem_addr_low = 0x5000, mem_addr_mem_addr_high = 0, mem_addr_reserved16 = 0\<rparr>\<rparr>,
     feat_cmd_feat_common = \<lparr>feat_common_flags = 0, feat_common_feature_id = fid, feat_common_feature_version = 0,
       feat_common_reserved8 = 0\<rparr>,
     feat_cmd_raw = raw\<rparr>"

lemma sample_feat_union: "drop 20 (sample_feat_cmd fid raw) = concat (map le32 raw)"
  by (simp add: sample_feat_cmd_def ena_codec le16_def le32_def)

lemma sample_feat_request: "length raw = 11 \<Longrightarrow> feature_request fid (sample_feat_cmd fid raw)"
  by (simp add: feature_request_def sample_feat_cmd_def feat_cmd.load_buffer wf_ena_admin_get_feat_cmd_def)

lemma sample_feat_buffer: "length raw = 11 \<Longrightarrow> n \<le> 1024 \<Longrightarrow> with_buffer (sample_feat_cmd fid raw) 0x5000 n"
  by (simp add: with_buffer_def sample_feat_cmd_def feat_cmd.load_buffer wf_ena_admin_get_feat_cmd_def
      ena_mem_addr_def Let_def)

theorem mtu_roundtrip_witness:
  "ena_set_feature (quiet_qemu (\<lambda>_. 0) (\<lambda>_. 0)) fresh_state (sample_feat_cmd ENA_ADMIN_MTU (1500 # replicate 10 0)) (replicate 64 0) =
     Inr (ENA_ADMIN_SUCCESS, fresh_state\<lparr>mtu := 1500\<rparr>, replicate 64 0)"
proof -
  let ?cmd = "sample_feat_cmd ENA_ADMIN_MTU (1500 # replicate 10 0)"
  have "mtu_desc_mtu (dec_ena_admin_set_feature_mtu_desc (drop 20 ?cmd)) = 1500"
    by (simp add: sample_feat_union dec_ena_admin_set_feature_mtu_desc_def)
  then show ?thesis
    using mtu_roundtrip [of ?cmd ?cmd 1500 "replicate 64 0" "quiet_qemu (\<lambda>_. 0) (\<lambda>_. 0)" fresh_state "replicate 64 0"]
      sample_feat_request [of "1500 # replicate 10 0" ENA_ADMIN_MTU]
    by (simp add: ENA_MIN_MTU_def ENA_MAX_MTU_def)
qed

text \<open>
  C26. The RSS key: a Toeplitz key the driver supplies in a buffer is stored, and reading the hash
  function back into a buffer writes a structure with the same key words, and reports the same
  initial value.
\<close>

theorem rss_key_roundtrip:
  assumes "feature_request ENA_ADMIN_RSS_HASH_FUNCTION cmd" and "with_buffer cmd buf 48"
    and "feature_request ENA_ADMIN_RSS_HASH_FUNCTION gcmd" and "with_buffer gcmd gbuf 48"
    and "u = dec_ena_admin_feature_rss_flow_hash_function (drop 20 cmd)"
    and "hash_function_selected_func u = BIT ENA_ADMIN_TOEPLITZ"
    and "key = dec_ena_admin_feature_rss_flow_hash_control (map (dma_byte Q (trace s) buf 48) [0..<48])"
    and "hash_key_key_parts key = 10" and "length gresp = 64"
  shows "\<exists>s' r bs. ena_set_feature Q s cmd resp = Inr (ENA_ADMIN_SUCCESS, s', resp) \<and>
    ena_get_feature Q s' gcmd gresp = Inr (ENA_ADMIN_SUCCESS, emit (DmaWrite gbuf bs) s', r) \<and> length bs = 48 \<and>
    hash_key_key (dec_ena_admin_feature_rss_flow_hash_control bs) = hash_key_key key \<and>
    hash_function_init_val (dec_ena_admin_feature_rss_flow_hash_function (drop 8 r)) = hash_function_init_val u"
proof -
  note buf = with_buffer_ctrl_buf [OF assms(2)] and gbuf = with_buffer_ctrl_buf [OF assms(4)]
  define r' where "r' = (rss s)\<lparr>rss_key_parts := 10, rss_key := map (\<lambda>i. hash_key_key key ! i) [0..<10],
    rss_init_val := hash_function_init_val u\<rparr>"
  define s' where "s' = (emit (DmaRead buf 48) s)\<lparr>rss := r'\<rparr>"
  have len: "length (hash_key_key key) = 10"
    by (simp add: assms(7) dec_ena_admin_feature_rss_flow_hash_control_def)
  then have keys: "map (\<lambda>i. hash_key_key key ! i) [0..<10] = hash_key_key key"
    by (metis map_nth)
  have set: "ena_set_feature Q s cmd resp = Inr (ENA_ADMIN_SUCCESS, s', resp)"
    using assms(1,6-8) buf
    by (simp add: set_feature_select set_hash_function_def Let_def ena_dma_read_def assms(5) [symmetric]
        ENA_ADMIN_RSS_KEY_PARTS_def s'_def r'_def)
  let ?k = "\<lparr>hash_key_key_parts = 10, hash_key_reserved = 0, hash_key_key = hash_key_key key\<rparr>"
  let ?f = "(dec_ena_admin_feature_rss_flow_hash_function (drop 8 gresp))
    \<lparr>hash_function_supported_func := BIT ENA_ADMIN_TOEPLITZ, hash_function_selected_func := BIT ENA_ADMIN_TOEPLITZ,
     hash_function_init_val := hash_function_init_val u\<rparr>"
  have get: "ena_get_feature Q s' gcmd gresp = Inr (ENA_ADMIN_SUCCESS,
      emit (DmaWrite gbuf (enc_ena_admin_feature_rss_flow_hash_control ?k)) s',
      put_bytes 8 (enc_ena_admin_feature_rss_flow_hash_function ?f) gresp)"
    using gbuf len
    by (simp add: get_feature_select assms(3) get_hash_function_def Let_def ena_dma_write_def
        ENA_ADMIN_RSS_KEY_PARTS_def s'_def r'_def keys)
  have wf: "wf_ena_admin_feature_rss_flow_hash_control ?k"
    using len by (simp add: wf_ena_admin_feature_rss_flow_hash_control_def)
  have "dec_ena_admin_feature_rss_flow_hash_function
      (drop 8 (put_bytes 8 (enc_ena_admin_feature_rss_flow_hash_function ?f) gresp)) = ?f"
    using hash_function.load_store [of 8 gresp ?f] assms(9) by simp
  with set get hash_key.load_buffer [OF wf] hash_key.enc_size [OF wf] show ?thesis
    by (intro exI [of _ s'] exI [of _ "put_bytes 8 (enc_ena_admin_feature_rss_flow_hash_function ?f) gresp"]
        exI [of _ "enc_ena_admin_feature_rss_flow_hash_control ?k"]) simp
qed

theorem rss_key_roundtrip_witness:
  "\<exists>s'. ena_set_feature (quiet_qemu (\<lambda>a. if a = 0x5000 then 10 else 0) (\<lambda>_. 0)) fresh_state
     (sample_feat_cmd ENA_ADMIN_RSS_HASH_FUNCTION (0 # 2 # 5 # replicate 8 0)) (replicate 64 0) =
     Inr (ENA_ADMIN_SUCCESS, s', replicate 64 0)"
proof -
  let ?raw = "0 # 2 # 5 # replicate 8 0" and ?Q = "quiet_qemu (\<lambda>a. if a = 0x5000 then 10 else 0) (\<lambda>_. 0)"
  let ?cmd = "sample_feat_cmd ENA_ADMIN_RSS_HASH_FUNCTION ?raw"
  note cmd = sample_feat_request [of ?raw ENA_ADMIN_RSS_HASH_FUNCTION] sample_feat_buffer [of ?raw 48]
  have "hash_function_selected_func (dec_ena_admin_feature_rss_flow_hash_function (drop 20 ?cmd)) = BIT ENA_ADMIN_TOEPLITZ"
    by (simp add: sample_feat_union dec_ena_admin_feature_rss_flow_hash_function_def ENA_ADMIN_TOEPLITZ_def BIT_def)
  moreover have "hash_key_key_parts (dec_ena_admin_feature_rss_flow_hash_control
      (map (dma_byte ?Q (trace fresh_state) 0x5000 48) [0..<48])) = 10"
    by (simp add: dec_ena_admin_feature_rss_flow_hash_control_def get_le32_def quiet_qemu_def)
  ultimately show ?thesis
    using rss_key_roundtrip [OF _ _ _ _ refl _ refl, of ?cmd "0x5000" ?cmd "0x5000" ?Q fresh_state "replicate 64 0" "replicate 64 0"]
      cmd by auto
qed

lemma ind_entry_pair16: "enc_ena_admin_rss_ind_table_entry \<lparr>ind_entry_cq_idx = v, ind_entry_reserved = 0\<rparr> = pair16 v"
  by (simp add: enc_ena_admin_rss_ind_table_entry_def pair16_def)

lemma ind_tbl_size: "ENA_RSS_IND_TBL_SIZE = 128"
  by (simp add: ena_const)

text \<open>
  C27. The indirection table: a table whose entries all name used receive queues is stored, and
  reading it back into a buffer writes the same 128 entries; a table with any other entry is
  rejected and the stored one kept.
\<close>

theorem ind_table_roundtrip:
  assumes "feature_request ENA_ADMIN_RSS_INDIRECTION_TABLE_CONFIG cmd" and "with_buffer cmd buf 512"
    and "feature_request ENA_ADMIN_RSS_INDIRECTION_TABLE_CONFIG gcmd" and "with_buffer gcmd gbuf 512"
    and "u = dec_ena_admin_feature_rss_ind_table (drop 20 cmd)"
    and "ind_table_size u = 7" and "ind_table_inline_index u = 0xffffffff"
    and tbl: "tbl = get_arr_pair16 128 (map (dma_byte Q (trace s) buf 512) [0..<512])"
  shows "if \<forall>v \<in> set tbl. unat v < ENA_MAX_SQ \<and> sq_used (sq s ! unat v) \<and> \<not> sq_is_tx (sq s ! unat v)
    then \<exists>s' r bs. ena_set_feature Q s cmd resp = Inr (ENA_ADMIN_SUCCESS, s', resp) \<and> rss_ind_tbl (rss s') = tbl \<and>
      ena_get_feature Q s' gcmd gresp = Inr (ENA_ADMIN_SUCCESS, emit (DmaWrite gbuf bs) s', r) \<and>
      length bs = 512 \<and> get_arr_pair16 128 bs = tbl
    else ena_set_feature Q s cmd resp = Inr (ENA_ADMIN_ILLEGAL_PARAMETER, emit (DmaRead buf 512) s, resp)"
proof -
  note buf = with_buffer_ctrl_buf [OF assms(2)] and gbuf = with_buffer_ctrl_buf [OF assms(4)]
  define bs where "bs = map (dma_byte Q (trace s) buf 512) [0..<512]"
  let ?bad = "\<lambda>v. ENA_MAX_SQ \<le> unat v \<or> \<not> sq_used (sq s ! unat v) \<or> sq_is_tx (sq s ! unat v)"
  have idx: "map (\<lambda>i. ind_entry_cq_idx (dec_ena_admin_rss_ind_table_entry (drop (4 * i) bs))) [0..<128] = tbl"
    by (simp add: tbl bs_def [symmetric] get_arr_pair16_def dec_ena_admin_rss_ind_table_entry_def)
  have len: "length tbl = 128" by (simp add: tbl)
  have "list_ex (\<lambda>e. ?bad (ind_entry_cq_idx e)) (map (\<lambda>i. dec_ena_admin_rss_ind_table_entry (drop (4 * i) bs)) [0..<128]) =
      (\<exists>v \<in> set tbl. ?bad v)"
    unfolding idx [symmetric] by (auto simp: list_ex_iff)
  then have set: "ena_set_feature Q s cmd resp =
      (if \<exists>v \<in> set tbl. ?bad v then Inr (ENA_ADMIN_ILLEGAL_PARAMETER, emit (DmaRead buf 512) s, resp)
       else Inr (ENA_ADMIN_SUCCESS, (emit (DmaRead buf 512) s)\<lparr>rss := (rss s)\<lparr>rss_ind_tbl := tbl\<rparr>\<rparr>, resp))"
    using assms(1,6,7) buf idx
    by (simp add: set_feature_select set_ind_table_def Let_def ena_dma_read_def assms(5) [symmetric]
        ind_tbl_size ENA_RSS_IND_TBL_LOG_SIZE_def o_def bs_def [symmetric])
  let ?s' = "(emit (DmaRead buf 512) s)\<lparr>rss := (rss s)\<lparr>rss_ind_tbl := tbl\<rparr>\<rparr>"
  have enc: "map (\<lambda>i. pair16 (tbl ! i)) [0..<128] = map pair16 tbl"
    using len by (intro nth_equalityI) simp_all
  have "\<exists>r. ena_get_feature Q ?s' gcmd gresp =
      Inr (ENA_ADMIN_SUCCESS, emit (DmaWrite gbuf (concat (map pair16 tbl))) ?s', r)"
    using gbuf enc
    by (simp add: get_feature_select assms(3) get_ind_table_def Let_def ena_dma_write_def ind_tbl_size
        o_def ind_entry_pair16)
  then obtain r where get: "ena_get_feature Q ?s' gcmd gresp =
      Inr (ENA_ADMIN_SUCCESS, emit (DmaWrite gbuf (concat (map pair16 tbl))) ?s', r)" ..
  have reads: "get_arr_pair16 128 (concat (map pair16 tbl)) = tbl"
    using get_arr_pair16_enc [OF len, of "[]"] by simp
  have good: "(\<forall>v \<in> set tbl. unat v < ENA_MAX_SQ \<and> sq_used (sq s ! unat v) \<and> \<not> sq_is_tx (sq s ! unat v)) \<longleftrightarrow>
      \<not> (\<exists>v \<in> set tbl. ?bad v)" by (auto simp: not_le)
  show ?thesis
  proof (cases "\<exists>v \<in> set tbl. ?bad v")
    case True
    then show ?thesis unfolding good set by (simp only: if_True if_False not_True_eq_False)
  next
    case False
    have "rss_ind_tbl (rss ?s') = tbl" "length (concat (map pair16 tbl)) = 512" using len by simp_all
    with False get reads show ?thesis unfolding good set by (simp only: if_False not_False_eq_True if_True) blast
  qed
qed

definition rx_only_state :: EnaState where
  "rx_only_state = fresh_state\<lparr>cq := (cq fresh_state)[0 := sample_cq], sq := (sq fresh_state)[0 := sample_sq False 0x20000]\<rparr>"

lemma zero_bytes: "map (dma_byte (quiet_qemu (\<lambda>_. 0) llq) tr a n) [0..<m] = replicate m 0"
  by (simp add: quiet_qemu_def map_replicate_const)

theorem ind_table_roundtrip_witness:
  "\<exists>s'. ena_set_feature (quiet_qemu (\<lambda>_. 0) (\<lambda>_. 0)) rx_only_state
     (sample_feat_cmd ENA_ADMIN_RSS_INDIRECTION_TABLE_CONFIG (0 # 7 # 0xffffffff # replicate 8 0)) (replicate 64 0) =
     Inr (ENA_ADMIN_SUCCESS, s', replicate 64 0) \<and> rss_ind_tbl (rss s') = replicate 128 0"
proof -
  let ?raw = "0 # 7 # 0xffffffff # replicate 8 0" and ?Q = "quiet_qemu (\<lambda>_. 0) (\<lambda>_. 0)"
  let ?cmd = "sample_feat_cmd ENA_ADMIN_RSS_INDIRECTION_TABLE_CONFIG ?raw"
  note cmd = sample_feat_request [of ?raw ENA_ADMIN_RSS_INDIRECTION_TABLE_CONFIG] sample_feat_buffer [of ?raw 512]
  have tbl: "get_arr_pair16 128 (map (dma_byte ?Q (trace rx_only_state) 0x5000 512) [0..<512]) = replicate 128 0"
    unfolding zero_bytes by (rule nth_equalityI) (auto simp: get_arr_pair16_def get_le16_def)
  have u: "ind_table_size (dec_ena_admin_feature_rss_ind_table (drop 20 ?cmd)) = 7"
    "ind_table_inline_index (dec_ena_admin_feature_rss_ind_table (drop 20 ?cmd)) = 0xffffffff"
    by (simp_all add: sample_feat_union ena_codec le32_def get_le16_def get_le32_def)
  have q: "sq_used (sq rx_only_state ! 0)" "\<not> sq_is_tx (sq rx_only_state ! 0)" "0 < ENA_MAX_SQ"
    using fresh_inv by (simp_all add: rx_only_state_def sample_sq_def dev_invD zero_sq_def ena_const)
  show ?thesis
    using ind_table_roundtrip [OF _ _ _ _ refl u tbl [symmetric], where gcmd = ?cmd and gbuf = "0x5000" and
        resp = "replicate 64 0" and gresp = "replicate 64 0"] cmd q by auto
qed

text \<open>
  C28. The hash input: selections are cut to the fields the device supports for each protocol; if
  every cut is empty, the addresses, or the addresses with the ports, they are stored and read back
  together with the supported fields; otherwise nothing is stored.
\<close>

theorem hash_input_roundtrip:
  assumes "feature_request ENA_ADMIN_RSS_HASH_INPUT cmd" and "with_buffer cmd buf 256"
    and "feature_request ENA_ADMIN_RSS_HASH_INPUT gcmd" and "with_buffer gcmd gbuf 256"
    and hc: "hc = dec_ena_admin_feature_rss_hash_control (map (dma_byte Q (trace s) buf 256) [0..<256])"
    and sel: "sel = map (\<lambda>i. hash_ctrl_selected_fields hc ! i AND ena_rss_supported_fields i) [0..<16]"
  shows "if list_all fields_wf sel
    then \<exists>s' r bs. ena_set_feature Q s cmd resp = Inr (ENA_ADMIN_SUCCESS, s', resp) \<and> rss_fields (rss s') = sel \<and>
      ena_get_feature Q s' gcmd gresp = Inr (ENA_ADMIN_SUCCESS, emit (DmaWrite gbuf bs) s', r) \<and> length bs = 256 \<and>
      dec_ena_admin_feature_rss_hash_control bs =
        \<lparr>hash_ctrl_supported_fields = map ena_rss_supported_fields [0..<16], hash_ctrl_selected_fields = sel\<rparr>
    else ena_set_feature Q s cmd resp = Inr (ENA_ADMIN_ILLEGAL_PARAMETER, emit (DmaRead buf 256) s, resp)"
proof -
  note buf = with_buffer_ctrl_buf [OF assms(2)] and gbuf = with_buffer_ctrl_buf [OF assms(4)]
  let ?s' = "(emit (DmaRead buf 256) s)\<lparr>rss := (rss s)\<lparr>rss_fields := sel\<rparr>\<rparr>"
  have "list_ex (\<lambda>f. f \<noteq> 0 \<and> f \<noteq> ENA_RSS_L3_FIELDS \<and> f \<noteq> ENA_RSS_L3L4_FIELDS) sel = (\<not> list_all fields_wf sel)"
    by (auto simp: list_all_iff list_ex_iff fields_wf_def)
  then have set: "ena_set_feature Q s cmd resp =
      (if list_all fields_wf sel then Inr (ENA_ADMIN_SUCCESS, ?s', resp)
       else Inr (ENA_ADMIN_ILLEGAL_PARAMETER, emit (DmaRead buf 256) s, resp))"
    using assms(1) buf
    by (simp add: set_feature_select set_hash_input_def Let_def ena_dma_read_def ENA_ADMIN_RSS_PROTO_NUM_def
        hc [symmetric] sel [symmetric])
  let ?h = "\<lparr>hash_ctrl_supported_fields = map ena_rss_supported_fields [0..<16], hash_ctrl_selected_fields = sel\<rparr>"
  have len: "length sel = 16" by (simp add: sel)
  then have "map (\<lambda>i. sel ! i) [0..<16] = sel" by (metis map_nth)
  then have fill: "ena_fill_hash_ctrl ?s' = ?h"
    by (simp add: ena_fill_hash_ctrl_def ENA_ADMIN_RSS_PROTO_NUM_def)
  have "\<exists>r. ena_get_feature Q ?s' gcmd gresp =
      Inr (ENA_ADMIN_SUCCESS, emit (DmaWrite gbuf (enc_ena_admin_feature_rss_hash_control ?h)) ?s', r)"
    using gbuf by (simp add: get_feature_select assms(3) get_hash_input_def Let_def ena_dma_write_def fill)
  then obtain r where "ena_get_feature Q ?s' gcmd gresp =
      Inr (ENA_ADMIN_SUCCESS, emit (DmaWrite gbuf (enc_ena_admin_feature_rss_hash_control ?h)) ?s', r)" ..
  moreover have "wf_ena_admin_feature_rss_hash_control ?h"
    using len by (simp add: wf_ena_admin_feature_rss_hash_control_def)
  ultimately show ?thesis
    using set hash_ctrl.load_buffer hash_ctrl.enc_size by (auto intro!: exI [of _ ?s'])
qed

theorem hash_input_roundtrip_witness:
  "\<exists>s'. ena_set_feature (quiet_qemu (\<lambda>_. 0) (\<lambda>_. 0)) fresh_state
     (sample_feat_cmd ENA_ADMIN_RSS_HASH_INPUT (replicate 11 0)) (replicate 64 0) =
     Inr (ENA_ADMIN_SUCCESS, s', replicate 64 0) \<and> rss_fields (rss s') = replicate 16 0"
proof -
  let ?cmd = "sample_feat_cmd ENA_ADMIN_RSS_HASH_INPUT (replicate 11 0)"
  note cmd = sample_feat_request [of "replicate 11 0" ENA_ADMIN_RSS_HASH_INPUT] sample_feat_buffer [of "replicate 11 0" 256]
  let ?hc = "dec_ena_admin_feature_rss_hash_control
    (map (dma_byte (quiet_qemu (\<lambda>_. 0) (\<lambda>_. 0)) (trace fresh_state) 0x5000 256) [0..<256])"
  have "hash_ctrl_selected_fields ?hc ! i = 0" if "i < 16" for i
    using that unfolding zero_bytes
    by (simp add: dec_ena_admin_feature_rss_hash_control_def get_arr_pair16_def get_le16_def)
  then have sel: "map (\<lambda>i. hash_ctrl_selected_fields ?hc ! i AND ena_rss_supported_fields i) [0..<16] = replicate 16 0"
    by (intro nth_equalityI) simp_all
  show ?thesis
    using hash_input_roundtrip [OF _ _ _ _ refl sel [symmetric], of ?cmd ?cmd "0x5000" "replicate 64 0" "replicate 64 0"]
      cmd by (auto simp: list_all_iff fields_wf_def)
qed

lemma join_halves: "push_bit 32 (ucast (ucast (drop_bit 32 v) :: u32)) OR ucast (ucast v :: u32) = (v :: u64)"
  by (rule bit_word_eqI) (auto simp: bit_simps not_less)

text \<open>
  C29. The basic statistics: the response carries the device's six counters, each split into a low
  and a high word that together are the 64-bit counter; the device is not changed.
\<close>

theorem stats_report:
  assumes "length resp = 64" and "c = dec_ena_admin_aq_get_stats_cmd cmd"
    and "get_stats_cmd_type c = ENA_ADMIN_GET_STATS_TYPE_BASIC"
    and "get_stats_cmd_device_id c = 0 \<or> get_stats_cmd_device_id c = 0xffff"
  shows "\<exists>resp' b. ena_get_stats Q s cmd resp = Inr (ENA_ADMIN_SUCCESS, s, resp') \<and>
    b = dec_ena_admin_basic_stats (drop 8 resp') \<and>
    push_bit 32 (ucast (basic_stats_tx_bytes_high b)) OR ucast (basic_stats_tx_bytes_low b) = tx_bytes s \<and>
    push_bit 32 (ucast (basic_stats_tx_pkts_high b)) OR ucast (basic_stats_tx_pkts_low b) = tx_pkts s \<and>
    push_bit 32 (ucast (basic_stats_rx_bytes_high b)) OR ucast (basic_stats_rx_bytes_low b) = rx_bytes s \<and>
    push_bit 32 (ucast (basic_stats_rx_pkts_high b)) OR ucast (basic_stats_rx_pkts_low b) = rx_pkts s \<and>
    push_bit 32 (ucast (basic_stats_rx_drops_high b)) OR ucast (basic_stats_rx_drops_low b) = rx_drops s \<and>
    push_bit 32 (ucast (basic_stats_tx_drops_high b)) OR ucast (basic_stats_tx_drops_low b) = tx_drops s"
proof -
  have "dec_ena_admin_basic_stats (drop 8 (put_bytes 8 (enc_ena_admin_basic_stats b) resp)) = b" for b
    using basic_stats.load_store [of 8 resp b] assms(1) by simp
  then show ?thesis
    using assms(3,4) by (auto simp: ena_get_stats_def Let_def assms(2) [symmetric] join_halves)
qed

theorem stats_report_witness:
  "\<exists>resp'. ena_get_stats (quiet_qemu (\<lambda>_. 0) (\<lambda>_. 0)) fresh_state (replicate 64 0) (replicate 64 0) =
     Inr (ENA_ADMIN_SUCCESS, fresh_state, resp')"
  using stats_report [OF _ refl, of "replicate 64 0" "replicate 64 0" "quiet_qemu (\<lambda>_. 0) (\<lambda>_. 0)" fresh_state]
  by (auto simp: dec_ena_admin_aq_get_stats_cmd_def get_le16_def get8_def ENA_ADMIN_GET_STATS_TYPE_BASIC_def)

definition refused :: "EnaState \<Rightarrow> outcome \<Rightarrow> bool" where
  "refused s r \<longleftrightarrow> (\<forall>st s' resp'. r = Inr (st, s', resp') \<longrightarrow> st \<noteq> ENA_ADMIN_SUCCESS \<longrightarrow> s'\<lparr>trace := trace s\<rparr> = s)"

lemma refused_simps [simp]:
  "refused s (Inr (st, s, resp))" "refused s (Inr (st, emit e s, resp))" "refused s (Inr (ENA_ADMIN_SUCCESS, t, resp))"
  "refused s (Inl x)"
  by (simp_all add: refused_def emit_def)

lemma refused_bind: "(\<And>x. m = Inr x \<Longrightarrow> refused s (f x)) \<Longrightarrow> refused s (bindR m f)"
  by (cases m) simp_all

lemma refused_if: "refused s x \<Longrightarrow> refused s y \<Longrightarrow> refused s (if b then x else y)"
  by simp

lemma set_feature_refused:
  "refused s (set_aenq Q s cmd resp)" "refused s (set_mtu s cmd resp)" "refused s (set_llq s cmd resp)"
  "refused s (set_hash_function Q s cmd resp)" "refused s (set_hash_input Q s cmd resp)"
  "refused s (set_ind_table Q s cmd resp)"
  by (simp_all only: set_aenq_def set_mtu_def set_llq_def set_hash_function_def set_hash_input_def
      set_ind_table_def ena_dma_read_def Let_def prod.case)
     (intro refused_if refused_bind refused_simps)+

lemma set_host_attr_refused:
  assumes "set_host_attr Q s cmd resp = Inr (st, s', resp')" and "st \<noteq> ENA_ADMIN_SUCCESS"
    and "u = dec_ena_admin_set_feature_host_attr_desc (drop 20 cmd)"
  shows "s' = s\<lparr>host_info_addr := 0, debug_area_addr := ena_mem_addr (host_attr_debug_ba u),
    debug_area_size := host_attr_debug_area_size u\<rparr>"
proof (cases "ena_mem_addr (host_attr_os_info_ba u) = 0")
  case True
  then show ?thesis using assms(1) by (simp add: set_host_attr_def Let_def assms(3) [symmetric])
next
  case False
  then show ?thesis
    using assms(1,2) by (simp add: set_host_attr_def Let_def ena_dma_read_def assms(3) [symmetric] split: if_splits)
qed

text \<open>
  C30. A feature command that is refused changes nothing the device has configured: apart from the
  calls it made, the state is the one before, except that \<open>HOST_ATTR_CONFIG\<close> has already stored the
  three host attributes when it finds the address to be zero.
\<close>

theorem feature_errors_inert:
  assumes "ena_set_feature Q s cmd resp = Inr (st, s', resp')" and "st \<noteq> ENA_ADMIN_SUCCESS"
    and u: "u = dec_ena_admin_set_feature_host_attr_desc (drop 20 cmd)"
  shows "s'\<lparr>trace := trace s\<rparr> =
    (if feature_request ENA_ADMIN_HOST_ATTR_CONFIG cmd
     then s\<lparr>host_info_addr := 0, debug_area_addr := ena_mem_addr (host_attr_debug_ba u),
            debug_area_size := host_attr_debug_area_size u\<rparr>
     else s)"
proof (cases "feature_request ENA_ADMIN_HOST_ATTR_CONFIG cmd")
  case True
  then have "ena_set_feature Q s cmd resp = set_host_attr Q s cmd resp"
    by (simp add: feature_request_def ena_set_feature_def Let_def feature_id_defs)
  with assms(1) have "set_host_attr Q s cmd resp = Inr (st, s', resp')" by simp
  from set_host_attr_refused [OF this assms(2) u] True show ?thesis by simp
next
  case False
  have "refused s (ena_set_feature Q s cmd resp)"
  proof (cases "feat_common_feature_id (feat_cmd_feat_common (dec_ena_admin_get_feat_cmd cmd)) = ENA_ADMIN_HOST_ATTR_CONFIG")
    case True
    with False show ?thesis by (simp add: ena_set_feature_def feature_request_def Let_def)
  next
    case False
    show ?thesis
      unfolding ena_set_feature_def Let_def if_not_P [OF False] by (intro refused_if set_feature_refused refused_simps)
  qed
  with False assms(1,2) show ?thesis by (simp add: refused_def)
qed

theorem feature_errors_inert_witness:
  "case ena_set_feature (quiet_qemu (\<lambda>_. 0) (\<lambda>_. 0)) fresh_state (sample_feat_cmd ENA_ADMIN_MTU (0 # replicate 10 0)) (replicate 64 0) of
     Inl e \<Rightarrow> False | Inr (st, s', r) \<Rightarrow> st = ENA_ADMIN_ILLEGAL_PARAMETER \<and> s'\<lparr>trace := trace fresh_state\<rparr> = fresh_state"
proof -
  let ?cmd = "sample_feat_cmd ENA_ADMIN_MTU (0 # replicate 10 0)"
  have m: "feature_request ENA_ADMIN_MTU ?cmd" by (rule sample_feat_request) simp
  then have "\<not> feature_request ENA_ADMIN_HOST_ATTR_CONFIG ?cmd"
    by (simp add: feature_request_def Let_def feature_id_defs)
  moreover have "mtu_desc_mtu (dec_ena_admin_set_feature_mtu_desc (drop 20 ?cmd)) = 0"
    by (simp add: sample_feat_union dec_ena_admin_set_feature_mtu_desc_def)
  then have run: "ena_set_feature (quiet_qemu (\<lambda>_. 0) (\<lambda>_. 0)) fresh_state ?cmd (replicate 64 0) =
      Inr (ENA_ADMIN_ILLEGAL_PARAMETER, fresh_state, replicate 64 0)"
    using m by (simp add: set_feature_select set_mtu_def Let_def ENA_MIN_MTU_def)
  ultimately show ?thesis using feature_errors_inert [OF run _ refl] by simp
qed

end
