(* ===== verification/Ena_Admin.thy ===== *)
theory Ena_Admin
  imports Ena_Admin_Features
begin

text \<open>
  The admin queue (\<open>ena_admin_exec\<close> and \<open>ena_admin_process\<close> of \<open>src/hw/ena_admin.c\<close>): commands are
  fetched from the submission ring up to the doorbell, executed one after the other, and each is
  answered by one entry of the completion ring.
\<close>

section \<open>Operations\<close>

definition ena_admin_exec :: "qemu \<Rightarrow> EnaState \<Rightarrow> byte list \<Rightarrow> byte list \<Rightarrow> outcome" where
  "ena_admin_exec Q s cmd resp =
     (let opcode = aq_common_desc_opcode (dec_ena_admin_aq_common_desc cmd)
      in if opcode = ENA_ADMIN_CREATE_SQ then ena_create_sq Q s cmd resp
         else if opcode = ENA_ADMIN_DESTROY_SQ then ena_destroy_sq Q s cmd resp
         else if opcode = ENA_ADMIN_CREATE_CQ then ena_create_cq Q s cmd resp
         else if opcode = ENA_ADMIN_DESTROY_CQ then ena_destroy_cq Q s cmd resp
         else if opcode = ENA_ADMIN_GET_FEATURE then ena_get_feature Q s cmd resp
         else if opcode = ENA_ADMIN_SET_FEATURE then ena_set_feature Q s cmd resp
         else if opcode = ENA_ADMIN_GET_STATS then ena_get_stats Q s cmd resp
         else Inr (ENA_ADMIN_BAD_OPCODE, s, resp))"

definition acq_advance :: "u16 \<Rightarrow> EnaState \<Rightarrow> EnaState" where
  "acq_advance acq_depth s =
     (let t = acq_tail s + 1
      in s\<lparr>acq_tail := t, acq_phase := (if t mod acq_depth = 0 then \<not> acq_phase s else acq_phase s)\<rparr>)"

definition acq_finish_resp :: "EnaState \<Rightarrow> byte list \<Rightarrow> ena_admin_aq_completion_status \<Rightarrow> byte list \<Rightarrow> byte list" where
  "acq_finish_resp s cmd status resp =
     (let d = (dec_ena_admin_acq_common_desc resp)
                \<lparr>acq_common_desc_command := aq_common_desc_command_id (dec_ena_admin_aq_common_desc cmd)
                   AND ENA_ADMIN_ACQ_COMMON_DESC_COMMAND_ID_MASK,
                 acq_common_desc_status := status_code status,
                 acq_common_desc_flags := (if acq_phase s then 1 else 0),
                 acq_common_desc_sq_head_indx := aq_head s\<rparr>
      in put_bytes 0 (enc_ena_admin_acq_common_desc d) resp)"

text \<open>The fetch of one command, and one round of the loop.\<close>

definition admin_fetch :: "qemu \<Rightarrow> u64 \<Rightarrow> u16 \<Rightarrow> EnaState \<Rightarrow> byte list \<times> EnaState" where
  "admin_fetch Q aq_base aq_depth s =
     (let (cmd, ok, s) = ena_dma_read Q s (aq_base + ucast (aq_head s mod aq_depth) * 64) 64
      in (cmd, s\<lparr>aq_head := aq_head s + 1\<rparr>))"

definition admin_round :: "qemu \<Rightarrow> u64 \<Rightarrow> u64 \<Rightarrow> u16 \<Rightarrow> u16 \<Rightarrow> EnaState \<Rightarrow> EnaState result" where
  "admin_round Q aq_base acq_base aq_depth acq_depth s =
     (let (cmd, s) = admin_fetch Q aq_base aq_depth s
      in bindR (ena_admin_exec Q s cmd (replicate 64 0))
           (\<lambda>(status, s, resp).
              let s = ena_dma_write s (acq_base + ucast (acq_tail s mod acq_depth) * 64)
                        (acq_finish_resp s cmd status resp)
              in Inr (acq_advance acq_depth s)))"

section \<open>Execution of one command\<close>

interpretation exec: admin_handler ena_admin_exec
proof unfold_locales
  fix Q s cmd resp st s' resp'
  assume run: "ena_admin_exec Q s cmd resp = Inr (st, s', resp')"
  consider "ena_create_sq Q s cmd resp = Inr (st, s', resp')" | "ena_destroy_sq Q s cmd resp = Inr (st, s', resp')"
    | "ena_create_cq Q s cmd resp = Inr (st, s', resp')" | "ena_destroy_cq Q s cmd resp = Inr (st, s', resp')"
    | "ena_get_feature Q s cmd resp = Inr (st, s', resp')" | "ena_set_feature Q s cmd resp = Inr (st, s', resp')"
    | "ena_get_stats Q s cmd resp = Inr (st, s', resp')" | "s' = s" "resp' = resp"
    using run unfolding ena_admin_exec_def Let_def by (auto split: if_splits)
  note cases = this
  show "aq_head s' = aq_head s \<and> acq_tail s' = acq_tail s \<and> acq_phase s' = acq_phase s \<and>
      (\<forall>i. i \<noteq> 17 \<longrightarrow> reg s' ! i = reg s ! i)"
    by (rule cases) (auto dest: create_sq.rings destroy_sq.rings create_cq.rings destroy_cq.rings
        get_feature.rings set_feature.rings get_stats.rings)
  show "admin_step s s'"
    by (rule cases) (auto dest: create_sq.history destroy_sq.history create_cq.history destroy_cq.history
        get_feature.history set_feature.history get_stats.history)
  show "length resp' = 64" if "length (macaddr s) = 6" "length resp = 64"
    by (rule cases) (use that in \<open>auto dest: create_sq.resp_size destroy_sq.resp_size create_cq.resp_size
        destroy_cq.resp_size get_feature.resp_size set_feature.resp_size get_stats.resp_size\<close>)
  show "dev_inv s'" if "pow2_ok Q" "dev_inv s"
    by (rule cases) (use that in \<open>auto dest: create_sq.keeps_inv destroy_sq.keeps_inv create_cq.keeps_inv
        destroy_cq.keeps_inv get_feature.keeps_inv set_feature.keeps_inv get_stats.keeps_inv\<close>)
next
  fix Q s cmd resp e
  assume run: "ena_admin_exec Q s cmd resp = Inl e" and inv: "dev_inv s"
  then show "guest_abort e"
    unfolding ena_admin_exec_def Let_def
    by (auto split: if_splits dest: create_sq.only_guest_aborts destroy_sq.only_guest_aborts
        create_cq.only_guest_aborts destroy_cq.only_guest_aborts get_feature.only_guest_aborts
        set_feature.only_guest_aborts get_stats.only_guest_aborts)
qed

lemma admin_fetch_eq:
  "admin_fetch Q aq_base aq_depth s =
     (map (dma_byte Q (trace s) (aq_base + ucast (aq_head s mod aq_depth) * 64) 64) [0..<64],
      (emit (DmaRead (aq_base + ucast (aq_head s mod aq_depth) * 64) 64) s)\<lparr>aq_head := aq_head s + 1\<rparr>)"
  by (simp add: admin_fetch_def ena_dma_read_def)

lemma admin_roundE:
  assumes "admin_round Q aq_base acq_base aq_depth acq_depth s = Inr s'"
  obtains cmd s1 status s2 resp where "admin_fetch Q aq_base aq_depth s = (cmd, s1)"
    "ena_admin_exec Q s1 cmd (replicate 64 0) = Inr (status, s2, resp)"
    "s' = acq_advance acq_depth (emit (DmaWrite (acq_base + ucast (acq_tail s2 mod acq_depth) * 64)
       (acq_finish_resp s2 cmd status resp)) s2)"
  using assms by (auto simp: admin_round_def bindR_eq_Inr Let_def ena_dma_write_def split: prod.splits)

lemma acq_advance_simps [simp]:
  "aq_head (acq_advance d s) = aq_head s" "reg (acq_advance d s) = reg s" "trace (acq_advance d s) = trace s"
  "acq_tail (acq_advance d s) = acq_tail s + 1" "macaddr (acq_advance d s) = macaddr s"
  by (simp_all add: acq_advance_def Let_def)

lemma admin_round_head: "admin_round Q ab cb ad cd s = Inr s' \<Longrightarrow> aq_head s' = aq_head s + 1"
  by (elim admin_roundE) (auto simp: admin_fetch_eq dest: exec.rings)

section \<open>The loop\<close>

function admin_loop :: "qemu \<Rightarrow> u64 \<Rightarrow> u64 \<Rightarrow> u16 \<Rightarrow> u16 \<Rightarrow> u16 \<Rightarrow> EnaState \<times> bool \<Rightarrow> (EnaState \<times> bool) result" where
  "admin_loop Q aq_base acq_base aq_depth acq_depth tail (s, completed) =
     (if aq_head s = tail then Inr (s, completed)
      else bindR (admin_round Q aq_base acq_base aq_depth acq_depth s)
             (\<lambda>s. admin_loop Q aq_base acq_base aq_depth acq_depth tail (s, True)))"
  by pat_completeness auto

lemma unat_diff_Suc:
  fixes h t :: u16
  assumes "h \<noteq> t"
  shows "Suc (unat (t - (h + 1))) = unat (t - h)"
proof -
  have nz: "t - h \<noteq> 0" using assms by simp
  have "t - (h + 1) = (t - h) - 1" by (rule diff_diff_eq [symmetric])
  then have "unat (t - (h + 1)) = unat (t - h) - 1" by (simp only: unat_minus_one [OF nz])
  moreover have "0 < unat (t - h)" using nz by (simp add: unat_gt_0)
  ultimately show ?thesis by simp
qed

termination admin_loop
  by (relation "measure (\<lambda>(Q, ab, cb, ad, cd, tail, s, c). unat (tail - aq_head s))")
     (auto dest!: admin_round_head simp flip: unat_diff_Suc)

declare admin_loop.simps [simp del]

definition aq_depth :: "EnaState \<Rightarrow> u16" where
  "aq_depth s = ucast (REG s ENA_REGS_AQ_CAPS_OFF AND ENA_REGS_AQ_CAPS_AQ_DEPTH_MASK)"

definition acq_depth :: "EnaState \<Rightarrow> u16" where
  "acq_depth s = ucast (REG s ENA_REGS_ACQ_CAPS_OFF AND ENA_REGS_ACQ_CAPS_ACQ_DEPTH_MASK)"

definition ena_admin_process :: "qemu \<Rightarrow> EnaState \<Rightarrow> EnaState result" where
  "ena_admin_process Q s =
     (let aq_base = reg64 s ENA_REGS_AQ_BASE_HI_OFF ENA_REGS_AQ_BASE_LO_OFF;
          acq_base = reg64 s ENA_REGS_ACQ_BASE_HI_OFF ENA_REGS_ACQ_BASE_LO_OFF;
          tail = ucast (REG s ENA_REGS_AQ_DB_OFF) :: u16
      in if aq_base = 0 \<or> acq_base = 0 \<or> aq_depth s = 0 \<or> acq_depth s = 0 then Inr s
         else if aq_depth s < tail - aq_head s then Inr s
         else bindR (admin_loop Q aq_base acq_base (aq_depth s) (acq_depth s) tail (s, False))
           (\<lambda>(s, completed).
              let s = set_REG s ENA_REGS_ACQ_TAIL_OFF (ucast (acq_tail s))
              in if completed \<and> REG s ENA_REGS_INTR_MASK_OFF AND 1 = 0
                 then Inr (emit (MsixNotify ENA_ADMIN_MSIX_VECTOR) s) else Inr s))"

section \<open>The completion ring\<close>

interpretation acqr: phase_ring acq_tail acq_phase "\<lambda>s. unat d" "\<lambda>s. unat (acq_tail s mod d)" "acq_advance d"
  "\<lambda>s. is_ring_depth d" for d :: u16
proof unfold_locales
  assume "is_ring_depth d"
  then show "\<exists>k \<le> 15. unat d = 2 ^ k" by (elim is_ring_depthE) auto
next
  fix s :: EnaState
  show "acq_phase (acq_advance d s) = (if unat (acq_tail s + 1) mod unat d = 0 then \<not> acq_phase s else acq_phase s)"
    by (simp add: acq_advance_def Let_def flip: unat_mod unat_eq_0)
qed (simp_all add: unat_mod)

definition acq_counts :: "u16 \<Rightarrow> nat \<Rightarrow> EnaState \<Rightarrow> bool" where
  "acq_counts d n s \<longleftrightarrow> is_ring_depth d \<and> acq_tail s = of_nat n \<and> acq_phase s = even (n div unat d)"

lemma acq_counts_eq: "acq_counts d n s = acqr.counts d n s"
  unfolding acqr.counts_def by (simp add: acq_counts_def)

lemma dev_inv_aq [simp]: "dev_inv (s\<lparr>aq_head := h\<rparr>) = dev_inv s" "dev_inv (acq_advance d s) = dev_inv s"
  by (simp_all add: dev_inv_def cfg_inv_def irq_ok_def acq_advance_def Let_def)

lemma admin_round_spec:
  assumes "admin_round Q ab cb ad cd s = Inr s'"
  shows "acq_counts cd n s \<Longrightarrow> acq_counts cd (Suc n) s'"
    "pow2_ok Q \<Longrightarrow> dev_inv s \<Longrightarrow> dev_inv s'" "i \<noteq> 17 \<Longrightarrow> reg s' ! i = reg s ! i"
proof -
  obtain cmd s1 status s2 resp where r: "admin_fetch Q ab ad s = (cmd, s1)"
    "ena_admin_exec Q s1 cmd (replicate 64 0) = Inr (status, s2, resp)"
    "s' = acq_advance cd (emit (DmaWrite (cb + ucast (acq_tail s2 mod cd) * 64) (acq_finish_resp s2 cmd status resp)) s2)"
    by (rule admin_roundE [OF assms])
  have s1: "s1 = (emit (DmaRead (ab + ucast (aq_head s mod ad) * 64) 64) s)\<lparr>aq_head := aq_head s + 1\<rparr>"
    using r(1) by (simp add: admin_fetch_eq)
  note rings = exec.rings [OF r(2)]
  show "acq_counts cd (Suc n) s'" if "acq_counts cd n s"
  proof -
    have "acq_counts cd n s2" using that rings s1 by (simp add: acq_counts_def)
    then have "acqr.counts cd n (emit e s2)" for e
      unfolding acqr.counts_def by (simp add: acq_counts_def)
    then show ?thesis unfolding r(3) acq_counts_eq by (rule acqr.counts_push)
  qed
  show "dev_inv s'" if "pow2_ok Q" "dev_inv s"
    using that exec.keeps_inv [OF r(2)] by (simp add: r(3) s1 dev_inv_emit)
  show "reg s' ! i = reg s ! i" if "i \<noteq> 17" using that rings by (simp add: r(3) s1)
qed

lemma admin_round_abort: "admin_round Q ab cb ad cd s = Inl e \<Longrightarrow> dev_inv s \<Longrightarrow> guest_abort e"
  by (auto simp: admin_round_def admin_fetch_eq bindR_eq_Inl Let_def dev_inv_emit dest!: exec.only_guest_aborts)

lemma admin_loop_spec:
  assumes "admin_loop Q ab cb ad cd tail (s, c) = Inr (s', c')" and "acq_counts cd n s"
  shows "aq_head s' = tail \<and> acq_counts cd (n + unat (tail - aq_head s)) s' \<and> c' = (c \<or> aq_head s \<noteq> tail) \<and>
    (\<forall>i. i \<noteq> 17 \<longrightarrow> reg s' ! i = reg s ! i) \<and> (pow2_ok Q \<longrightarrow> dev_inv s \<longrightarrow> dev_inv s')"
  using assms
proof (induction Q ab cb ad cd tail "(s, c)" arbitrary: s c n rule: admin_loop.induct)
  case (1 Q ab cb ad cd tail s c)
  show ?case
  proof (cases "aq_head s = tail")
    case True
    with 1(2,3) show ?thesis by (simp add: admin_loop.simps)
  next
    case False
    with 1(2) obtain s1 where s1: "admin_round Q ab cb ad cd s = Inr s1"
        "admin_loop Q ab cb ad cd tail (s1, True) = Inr (s', c')"
      by (subst (asm) admin_loop.simps) (auto simp: bindR_eq_Inr)
    note spec = admin_round_spec [OF s1(1)] and head = admin_round_head [OF s1(1)]
    have "n + unat (tail - aq_head s) = Suc n + unat (tail - aq_head s1)"
      using unat_diff_Suc [OF False] head by simp
    with 1(1) [OF False s1 spec(1) [OF 1(3)]] spec False show ?thesis by auto
  qed
qed

lemma admin_round_calls:
  assumes "admin_round Q ab cb ad cd s = Inr s'"
  shows "admin_step s s'"
proof -
  obtain cmd s1 status s2 resp where r: "admin_fetch Q ab ad s = (cmd, s1)"
    "ena_admin_exec Q s1 cmd (replicate 64 0) = Inr (status, s2, resp)"
    "s' = acq_advance cd (emit (DmaWrite (cb + ucast (acq_tail s2 mod cd) * 64) (acq_finish_resp s2 cmd status resp)) s2)"
    by (rule admin_roundE [OF assms])
  have "admin_step s s1" using r(1) by (auto simp: admin_fetch_eq admin_step_def ext_by_def)
  moreover have "admin_step s1 s2" by (rule exec.history [OF r(2)])
  moreover have "admin_step s2 s'" by (simp add: r(3) admin_step_def ext_by_def acq_advance_def Let_def)
  ultimately show ?thesis by (blast intro: admin_step_trans)
qed

lemma admin_loop_calls:
  "admin_loop Q ab cb ad cd tail (s, c) = Inr (s', c') \<Longrightarrow> admin_step s s'"
proof (induction Q ab cb ad cd tail "(s, c)" arbitrary: s c rule: admin_loop.induct)
  case (1 Q ab cb ad cd tail s c)
  show ?case
  proof (cases "aq_head s = tail")
    case True
    with 1(2) show ?thesis by (simp add: admin_loop.simps)
  next
    case False
    with 1(2) obtain s1 where "admin_round Q ab cb ad cd s = Inr s1"
        "admin_loop Q ab cb ad cd tail (s1, True) = Inr (s', c')"
      by (subst (asm) admin_loop.simps) (auto simp: bindR_eq_Inr)
    with 1(1) [OF False] show ?thesis by (blast intro: admin_step_trans admin_round_calls)
  qed
qed

lemma admin_loop_abort:
  "admin_loop Q ab cb ad cd tail (s, c) = Inl e \<Longrightarrow> pow2_ok Q \<Longrightarrow> dev_inv s \<Longrightarrow> guest_abort e"
proof (induction Q ab cb ad cd tail "(s, c)" arbitrary: s c rule: admin_loop.induct)
  case (1 Q ab cb ad cd tail s c)
  from 1(2) have False: "aq_head s \<noteq> tail" by (subst (asm) admin_loop.simps) (auto split: if_splits)
  with 1(2) consider "admin_round Q ab cb ad cd s = Inl e"
    | s1 where "admin_round Q ab cb ad cd s = Inr s1" "admin_loop Q ab cb ad cd tail (s1, True) = Inl e"
    by (subst (asm) admin_loop.simps) (auto simp: bindR_eq_Inl)
  then show ?case
    using 1(1) [OF False] 1(3,4) by cases (auto dest: admin_round_abort admin_round_spec(2))
qed

section \<open>Properties of the admin queue\<close>

definition admin_ready :: "EnaState \<Rightarrow> bool" where
  "admin_ready s \<longleftrightarrow> reg64 s ENA_REGS_AQ_BASE_HI_OFF ENA_REGS_AQ_BASE_LO_OFF \<noteq> 0 \<and>
     reg64 s ENA_REGS_ACQ_BASE_HI_OFF ENA_REGS_ACQ_BASE_LO_OFF \<noteq> 0 \<and> aq_depth s \<noteq> 0 \<and> acq_depth s \<noteq> 0"

text \<open>The commands between the device's position and the doorbell.\<close>

definition admin_pending :: "EnaState \<Rightarrow> nat" where
  "admin_pending s = unat (ucast (REG s ENA_REGS_AQ_DB_OFF) - aq_head s :: u16)"

lemma dev_inv_acq_tail: "dev_inv s \<Longrightarrow> dev_inv (set_REG s ENA_REGS_ACQ_TAIL_OFF v)"
  by (simp add: dev_inv_def cfg_inv_def regs_wf_def irq_ok_def set_REG_def ENA_REGS_ACQ_TAIL_OFF_def)

text \<open>What follows the loop, and the whole operation once its checks are passed.\<close>

definition admin_finish :: "EnaState \<times> bool \<Rightarrow> EnaState result" where
  "admin_finish = (\<lambda>(s, completed).
     let s = set_REG s ENA_REGS_ACQ_TAIL_OFF (ucast (acq_tail s))
     in if completed \<and> REG s ENA_REGS_INTR_MASK_OFF AND 1 = 0
        then Inr (emit (MsixNotify ENA_ADMIN_MSIX_VECTOR) s) else Inr s)"

lemma admin_process_eq:
  "ena_admin_process Q s =
     (if admin_ready s \<and> admin_pending s \<le> unat (aq_depth s)
      then bindR (admin_loop Q (reg64 s ENA_REGS_AQ_BASE_HI_OFF ENA_REGS_AQ_BASE_LO_OFF)
        (reg64 s ENA_REGS_ACQ_BASE_HI_OFF ENA_REGS_ACQ_BASE_LO_OFF) (aq_depth s) (acq_depth s)
        (ucast (REG s ENA_REGS_AQ_DB_OFF)) (s, False)) admin_finish
      else Inr s)"
  by (auto simp: ena_admin_process_def Let_def admin_ready_def admin_pending_def word_less_nat_alt admin_finish_def)

lemma admin_finish_calls: "admin_finish (s, c) = Inr s' \<Longrightarrow> admin_step s s'"
  by (auto simp: admin_finish_def Let_def admin_step_def ext_by_def aenq_sync_set_REG ENA_ADMIN_MSIX_VECTOR_def
      ENA_REGS_ACQ_TAIL_OFF_def split: if_splits) (simp_all add: set_REG_def)

lemma admin_process_calls: "ena_admin_process Q s = Inr s' \<Longrightarrow> admin_step s s'"
  by (auto simp: admin_process_eq bindR_eq_Inr split: if_splits
      dest!: admin_loop_calls admin_finish_calls intro: admin_step_trans)

lemma admin_finish_spec:
  assumes "dev_inv s" and "acq_counts d n s"
  obtains s' where "admin_finish (s, c) = Inr s'" "aq_head s' = aq_head s" "acq_counts d n s'"
    "REG s' ENA_REGS_ACQ_TAIL_OFF = ucast (acq_tail s')" "dev_inv s'"
    "c \<and> REG s ENA_REGS_INTR_MASK_OFF AND 1 = 0 \<Longrightarrow> last (trace s') = MsixNotify 0"
proof -
  let ?t = "set_REG s ENA_REGS_ACQ_TAIL_OFF (ucast (acq_tail s))"
  have m: "REG ?t ENA_REGS_INTR_MASK_OFF = REG s ENA_REGS_INTR_MASK_OFF"
    by (simp add: REG_set_REG ENA_REGS_ACQ_TAIL_OFF_def ENA_REGS_INTR_MASK_OFF_def)
  have t: "REG ?t ENA_REGS_ACQ_TAIL_OFF = ucast (acq_tail s)"
    using dev_invD(5) [OF assms(1)] by (simp add: REG_set_REG ENA_REGS_ACQ_TAIL_OFF_def)
  have keep: "aq_head ?t = aq_head s" "acq_tail ?t = acq_tail s" "acq_counts d n ?t" "dev_inv ?t"
    using assms dev_inv_acq_tail [OF assms(1)] by (simp_all add: set_REG_def acq_counts_def)
  have "admin_finish (s, c) = Inr (if c \<and> REG s ENA_REGS_INTR_MASK_OFF AND 1 = 0 then emit (MsixNotify 0) ?t else ?t)"
    by (auto simp: admin_finish_def Let_def m ENA_ADMIN_MSIX_VECTOR_def)
  then show thesis
    using that keep t by (auto simp: dev_inv_emit acq_counts_def split: if_splits)
qed

lemma admin_process_pending:
  assumes "pow2_ok Q" and "dev_inv s" and "acq_counts (acq_depth s) m s"
    and "admin_ready s" and "admin_pending s \<le> unat (aq_depth s)"
  shows "case ena_admin_process Q s of
      Inl e \<Rightarrow> guest_abort e
    | Inr s' \<Rightarrow> aq_head s' = ucast (REG s ENA_REGS_AQ_DB_OFF) \<and>
        acq_counts (acq_depth s) (m + admin_pending s) s' \<and>
        REG s' ENA_REGS_ACQ_TAIL_OFF = ucast (acq_tail s') \<and> dev_inv s' \<and>
        (0 < admin_pending s \<and> REG s ENA_REGS_INTR_MASK_OFF AND 1 = 0 \<longrightarrow> last (trace s') = MsixNotify 0)"
proof -
  let ?tail = "ucast (REG s ENA_REGS_AQ_DB_OFF) :: u16"
  define loop where "loop = admin_loop Q (reg64 s ENA_REGS_AQ_BASE_HI_OFF ENA_REGS_AQ_BASE_LO_OFF)
    (reg64 s ENA_REGS_ACQ_BASE_HI_OFF ENA_REGS_ACQ_BASE_LO_OFF) (aq_depth s) (acq_depth s) ?tail (s, False)"
  have eq: "ena_admin_process Q s = bindR loop admin_finish"
    using assms(4,5) by (simp add: admin_process_eq loop_def)
  show ?thesis
  proof (cases loop)
    case (Inl e)
    then show ?thesis
      using eq admin_loop_abort [OF _ assms(1,2)] by (auto simp: loop_def)
  next
    case (Inr r)
    obtain s1 c where r: "r = (s1, c)" by (cases r)
    have s1: "aq_head s1 = ?tail" "acq_counts (acq_depth s) (m + admin_pending s) s1" "c = (0 < admin_pending s)"
        "REG s1 ENA_REGS_INTR_MASK_OFF = REG s ENA_REGS_INTR_MASK_OFF" "dev_inv s1"
      using admin_loop_spec [OF Inr [unfolded loop_def r] assms(3)] assms(1,2)
      by (auto simp: admin_pending_def unat_gt_0 REG_def ENA_REGS_INTR_MASK_OFF_def)
    obtain s' where "admin_finish (s1, c) = Inr s'" "aq_head s' = ?tail"
        "acq_counts (acq_depth s) (m + admin_pending s) s'" "REG s' ENA_REGS_ACQ_TAIL_OFF = ucast (acq_tail s')"
        "dev_inv s'" "c \<and> REG s ENA_REGS_INTR_MASK_OFF AND 1 = 0 \<longrightarrow> last (trace s') = MsixNotify 0"
      using admin_finish_spec [OF s1(5,2), of c] s1(1,4) by metis
    with eq Inr r s1(3) show ?thesis by simp
  qed
qed

text \<open>
  C4. Processing the admin queue always ends. If the queue is not set up or the doorbell runs
  ahead of the ring, nothing happens. Otherwise every pending command is consumed and answered by
  exactly one completion: the head reaches the doorbell, the completion ring has counted as many
  new entries as there were commands, the tail register shows its position, and the admin vector is
  notified last unless it is masked. The device invariant is kept, and the process only ends early
  for a request outside the supported contract.
\<close>

theorem admin_process_completes:
  assumes "pow2_ok Q" and "dev_inv s" and "acq_counts (acq_depth s) m s"
  shows "if admin_ready s \<and> admin_pending s \<le> unat (aq_depth s)
    then (case ena_admin_process Q s of
        Inl e \<Rightarrow> guest_abort e
      | Inr s' \<Rightarrow> aq_head s' = ucast (REG s ENA_REGS_AQ_DB_OFF) \<and>
          acq_counts (acq_depth s) (m + admin_pending s) s' \<and>
          REG s' ENA_REGS_ACQ_TAIL_OFF = ucast (acq_tail s') \<and> dev_inv s' \<and>
          (0 < admin_pending s \<and> REG s ENA_REGS_INTR_MASK_OFF AND 1 = 0 \<longrightarrow> last (trace s') = MsixNotify 0))
    else ena_admin_process Q s = Inr s"
  using admin_process_pending [OF assms] by (cases "admin_ready s \<and> admin_pending s \<le> unat (aq_depth s)")
    (simp, simp only: admin_process_eq if_False)

text \<open>The completion of a command: the common fields are filled in, the answer behind them stays.\<close>

lemma acq_finish_resp_fields:
  assumes "length resp = 64"
  shows "length (acq_finish_resp s cmd status resp) = 64"
    "drop 8 (acq_finish_resp s cmd status resp) = drop 8 resp"
    "acq_common_desc_status (dec_ena_admin_acq_common_desc (acq_finish_resp s cmd status resp)) = status_code status"
    "acq_common_desc_flags (dec_ena_admin_acq_common_desc (acq_finish_resp s cmd status resp)) = (if acq_phase s then 1 else 0)"
    "acq_common_desc_sq_head_indx (dec_ena_admin_acq_common_desc (acq_finish_resp s cmd status resp)) = aq_head s"
    "unat (acq_common_desc_command (dec_ena_admin_acq_common_desc (acq_finish_resp s cmd status resp))) =
       unat (aq_common_desc_command_id (dec_ena_admin_aq_common_desc cmd)) mod 4096"
proof -
  show "length (acq_finish_resp s cmd status resp) = 64" "drop 8 (acq_finish_resp s cmd status resp) = drop 8 resp"
    using assms by (simp_all add: acq_finish_resp_def Let_def acq_common_desc.enc_size drop_put_bytes_beyond)
  have "dec_ena_admin_acq_common_desc (acq_finish_resp s cmd status resp) = (dec_ena_admin_acq_common_desc resp)
      \<lparr>acq_common_desc_command := aq_common_desc_command_id (dec_ena_admin_aq_common_desc cmd)
         AND ENA_ADMIN_ACQ_COMMON_DESC_COMMAND_ID_MASK, acq_common_desc_status := status_code status,
       acq_common_desc_flags := (if acq_phase s then 1 else 0), acq_common_desc_sq_head_indx := aq_head s\<rparr>"
    using assms by (simp add: acq_finish_resp_def Let_def put_bytes_def acq_common_desc.dec_enc)
  moreover have "unat (x AND ENA_ADMIN_ACQ_COMMON_DESC_COMMAND_ID_MASK) = unat x mod 4096" for x
    using unat_and_pow2_mask [of 12 x]
    by (simp add: ENA_ADMIN_ACQ_COMMON_DESC_COMMAND_ID_MASK_def GENMASK_def mask_eq_exp_minus_1)
  ultimately show "acq_common_desc_status (dec_ena_admin_acq_common_desc (acq_finish_resp s cmd status resp)) = status_code status"
    "acq_common_desc_flags (dec_ena_admin_acq_common_desc (acq_finish_resp s cmd status resp)) = (if acq_phase s then 1 else 0)"
    "acq_common_desc_sq_head_indx (dec_ena_admin_acq_common_desc (acq_finish_resp s cmd status resp)) = aq_head s"
    "unat (acq_common_desc_command (dec_ena_admin_acq_common_desc (acq_finish_resp s cmd status resp))) =
       unat (aq_common_desc_command_id (dec_ena_admin_aq_common_desc cmd)) mod 4096"
    by simp_all
qed

text \<open>
  C23. One round of the admin loop. The command at the head of the ring is executed on a zeroed
  response, and after it the device writes one 64-byte completion to slot \<open>n mod depth\<close> of the
  completion ring. It carries the low 12 bits of the command id, the status code, the phase of the
  lap and the new head; bytes 8 to 63 are what the command answered.
\<close>

theorem admin_round_answers:
  assumes "admin_round Q ab cb ad cd s = Inr s'" and "acq_counts cd n s" and "length (macaddr s) = 6"
  shows "\<exists>cmd s1 status s2 resp out. admin_fetch Q ab ad s = (cmd, s1) \<and>
    ena_admin_exec Q s1 cmd (replicate 64 0) = Inr (status, s2, resp) \<and>
    trace s' = trace s2 @ [DmaWrite (cb + of_nat (n mod unat cd * 64)) out] \<and> length out = 64 \<and>
    unat (acq_common_desc_command (dec_ena_admin_acq_common_desc out)) =
      unat (aq_common_desc_command_id (dec_ena_admin_aq_common_desc cmd)) mod 4096 \<and>
    acq_common_desc_status (dec_ena_admin_acq_common_desc out) = status_code status \<and>
    acq_common_desc_flags (dec_ena_admin_acq_common_desc out) = (if even (n div unat cd) then 1 else 0) \<and>
    acq_common_desc_sq_head_indx (dec_ena_admin_acq_common_desc out) = aq_head s + 1 \<and>
    drop 8 out = drop 8 resp"
proof -
  obtain cmd s1 status s2 resp where r: "admin_fetch Q ab ad s = (cmd, s1)"
    "ena_admin_exec Q s1 cmd (replicate 64 0) = Inr (status, s2, resp)"
    "s' = acq_advance cd (emit (DmaWrite (cb + ucast (acq_tail s2 mod cd) * 64) (acq_finish_resp s2 cmd status resp)) s2)"
    by (rule admin_roundE [OF assms(1)])
  have s1: "s1 = (emit (DmaRead (ab + ucast (aq_head s mod ad) * 64) 64) s)\<lparr>aq_head := aq_head s + 1\<rparr>"
    using r(1) by (simp add: admin_fetch_eq)
  have s2: "acq_tail s2 = acq_tail s" "acq_phase s2 = acq_phase s" "aq_head s2 = aq_head s + 1"
    using exec.rings [OF r(2)] by (simp_all add: s1)
  have len: "length resp = 64" using exec.resp_size [OF r(2)] assms(3) by (simp add: s1)
  let ?out = "acq_finish_resp s2 cmd status resp"
  note out = acq_finish_resp_fields [OF len, of s2 cmd status]
  have "(of_nat (unat (acq_tail s2 mod cd)) :: u64) = of_nat (n mod unat cd)"
    using acqr.counts_slot [of cd n s] assms(2) by (simp only: acq_counts_eq s2(1))
  then have "trace s' = trace s2 @ [DmaWrite (cb + of_nat (n mod unat cd * 64)) ?out]"
    by (simp add: r(3))
  then show ?thesis
    using r(1,2) s2 out assms(2) by (auto simp: acq_counts_def)
qed

text \<open>A device whose driver has set up both rings of 8 entries and rung the doorbell for one command.\<close>

definition admin_state :: EnaState where
  "admin_state = fresh_state\<lparr>reg := (reg fresh_state)[4 := 0x1000, 6 := 0x400008, 8 := 0x2000, 10 := 0x400008, 11 := 1]\<rparr>"

lemma fresh_reg: "reg fresh_state = (replicate 28 0)[0 := reset_version, 1 := reset_controller_version, 2 := reset_caps, 22 := 1]"
  by (simp add: fresh_state_def ena_dev_reset_reg)

lemma admin_state_inv: "dev_inv admin_state"
proof -
  have "caps_wf 0" "caps_wf 0x400008" by (simp_all add: caps_wf_def)
  with fresh_inv show ?thesis
    by (simp add: admin_state_def dev_inv_def cfg_inv_def irq_ok_def regs_wf_def fresh_reg)
qed

lemma admin_state_sel:
  "aq_depth admin_state = 8" "acq_depth admin_state = 8" "admin_ready admin_state" "admin_pending admin_state = 1"
  "acq_counts 8 0 admin_state" "REG admin_state ENA_REGS_INTR_MASK_OFF = 0"
proof -
  have "acq_tail fresh_state = 0" "acq_phase fresh_state" "aq_head fresh_state = 0"
    by (simp_all add: fresh_state_def ena_dev_reset_sel)
  then show "admin_pending admin_state = 1" "acq_counts 8 0 admin_state"
    by (simp_all add: admin_state_def admin_pending_def REG_def fresh_reg acq_counts_def ENA_REGS_AQ_DB_OFF_def)
qed (simp_all add: admin_state_def aq_depth_def acq_depth_def admin_ready_def reg64_def REG_def fresh_reg ena_const)

theorem admin_process_completes_witness:
  "case ena_admin_process (quiet_qemu (\<lambda>_. 0) (\<lambda>_. 0)) admin_state of
     Inl e \<Rightarrow> guest_abort e | Inr s' \<Rightarrow> acq_counts 8 1 s' \<and> last (trace s') = MsixNotify 0"
proof -
  have "acq_counts (acq_depth admin_state) 0 admin_state" by (simp add: admin_state_sel)
  from admin_process_completes [OF quiet_pow2_ok admin_state_inv this, of "\<lambda>_. 0" "\<lambda>_. 0"] show ?thesis
    by (simp add: admin_state_sel split: sum.splits)
qed

theorem admin_round_answers_witness:
  "\<exists>s' out. admin_round (quiet_qemu (\<lambda>_. 0) (\<lambda>_. 0)) 0x1000 0x2000 8 8 admin_state = Inr s' \<and>
     last (trace s') = DmaWrite 0x2000 out \<and>
     acq_common_desc_status (dec_ena_admin_acq_common_desc out) = status_code ENA_ADMIN_BAD_OPCODE"
proof -
  let ?Q = "quiet_qemu (\<lambda>_. 0) (\<lambda>_. 0)"
  obtain cmd s1 where f: "admin_fetch ?Q 0x1000 8 admin_state = (cmd, s1)" by force
  then have "cmd = replicate 64 0" by (simp add: admin_fetch_eq zero_bytes)
  then have x: "ena_admin_exec ?Q s1 cmd (replicate 64 0) = Inr (ENA_ADMIN_BAD_OPCODE, s1, replicate 64 0)"
    by (simp add: ena_admin_exec_def dec_ena_admin_aq_common_desc_def get8_def ENA_ADMIN_CREATE_SQ_def
        ENA_ADMIN_DESTROY_SQ_def ENA_ADMIN_CREATE_CQ_def ENA_ADMIN_DESTROY_CQ_def ENA_ADMIN_GET_FEATURE_def
        ENA_ADMIN_SET_FEATURE_def ENA_ADMIN_GET_STATS_def)
  then obtain s' where r: "admin_round ?Q 0x1000 0x2000 8 8 admin_state = Inr s'"
    by (simp add: admin_round_def f)
  from admin_round_answers [OF r admin_state_sel(5)] dev_invD(6) [OF admin_state_inv] f x r show ?thesis
    by auto
qed

end
