(* ===== verification/Ena_Datapath.thy ===== *)
theory Ena_Datapath
  imports Ena_Admin
begin

text \<open>
  What the operations of the datapath have in common: they keep the configuration and the interrupt
  invariant, send no notification a vector was not armed for, and only take descriptors off the submission queues. The contract is the locale
  \<open>device_op\<close>; the receive and the transmit path are interpretations of it.
\<close>

definition dp_step :: "EnaState \<Rightarrow> EnaState \<Rightarrow> bool" where
  "dp_step s s' \<longleftrightarrow> cfg s' = cfg s \<and> (irq_ok s \<longrightarrow> irq_ok s' \<and> one_shot s s') \<and>
     (\<forall>i < 16. sq_posted (sq s' ! i) \<le> sq_posted (sq s ! i)) \<and>
     (\<forall>c < 16. cq_sync (cq s ! c) \<longrightarrow> cq_sync (cq s' ! c))"

lemma dp_step_refl [simp]: "dp_step s s"
  by (simp add: dp_step_def)

lemma dp_step_trans: "dp_step s t \<Longrightarrow> dp_step t u \<Longrightarrow> dp_step s u"
  by (auto simp: dp_step_def intro: le_trans one_shot_trans)

lemma dp_step_inv: "dev_inv s \<Longrightarrow> dp_step s s' \<Longrightarrow> dev_inv s'"
  unfolding dp_step_def by (rule dev_inv_cfg [of s]) (simp_all add: dev_invD)

lemma dp_step_emit: "quiet e \<Longrightarrow> dp_step s (emit e s)"
  by (simp add: dp_step_def one_shot_emit)

lemma dp_step_quiet:
  "cfg s' = cfg s \<Longrightarrow> irq s' = irq s \<Longrightarrow> ext_by quiet s s' \<Longrightarrow>
     (\<And>i. i < 16 \<Longrightarrow> sq_posted (sq s' ! i) \<le> sq_posted (sq s ! i)) \<Longrightarrow>
     (\<And>c. c < 16 \<Longrightarrow> cq_sync (cq s ! c) \<Longrightarrow> cq_sync (cq s' ! c)) \<Longrightarrow> dp_step s s'"
  by (simp add: dp_step_def irq_ok_quiet one_shot_quiet)

lemma dp_step_stats:
  "dp_step s (s\<lparr>rx_drops := n\<rparr>)" "dp_step s (s\<lparr>tx_drops := n\<rparr>)" "dp_step s (s\<lparr>rx_pkt := f\<rparr>)"
  "dp_step s (s\<lparr>tx_pkts := n, tx_bytes := m\<rparr>)" "dp_step s (s\<lparr>rx_pkts := n, rx_bytes := m\<rparr>)"
  by (simp_all add: dp_step_def irq_ok_def one_shot_same)

lemma dp_step_intr: "dp_step s (ena_cq_intr Q s c t)"
  using irq_frameD(1,2) [OF irq_frame_intr, of Q s c t] by (simp add: dp_step_def ena_cq_intr_ok ena_cq_intr_one_shot)

lemma dp_step_set_cq:
  assumes "cfg_cq q = cfg_cq (cq s ! c)" and "cq_sync (cq s ! c) \<Longrightarrow> cq_sync q"
  shows "dp_step s (s\<lparr>cq := (cq s)[c := q]\<rparr>)"
proof -
  have "cq_sync ((cq s)[c := q] ! j)" if "cq_sync (cq s ! j)" for j
    using that assms(2) by (cases "c < length (cq s)"; cases "c = j") (simp_all add: list_update_beyond)
  then show ?thesis using assms(1) by (simp add: dp_step_def irq_ok_def one_shot_same)
qed

lemma dp_step_push:
  assumes "ena_cq_push s c d = Inr s'"
  shows "dp_step s s'"
proof -
  let ?t = "emit (DmaWrite (ena_cq_slot_addr (cq s ! c)) (take (unat (cq_entry_size (cq s ! c))) d)) s"
  have s': "s' = ?t\<lparr>cq := (cq ?t)[c := ena_cq_advance (cq ?t ! c)]\<rparr>"
    using assms by (simp add: ena_cq_push_def Let_def ena_dma_write_def split: if_splits)
  have "dp_step ?t s'" unfolding s' by (rule dp_step_set_cq) (simp_all add: cq_sync_advance)
  with dp_step_emit show ?thesis by (rule dp_step_trans) simp
qed

lemma sq_posted_advance:
  assumes "n \<le> sq_posted q"
  shows "sq_posted (q\<lparr>sq_head := sq_head q + of_nat n\<rparr>) = sq_posted q - n"
proof -
  have "unat (sq_tail q - sq_head q) < 2 ^ LENGTH(16)" by (rule unsigned_less)
  with assms have "unat (of_nat n :: u16) = n"
    by (intro unat_of_nat_small) (simp add: sq_posted_def)
  moreover from this assms have "(of_nat n :: u16) \<le> sq_tail q - sq_head q"
    by (simp add: word_le_nat_alt sq_posted_def)
  ultimately show ?thesis
    by (simp add: sq_posted_def unat_sub diff_diff_eq [symmetric])
qed

lemma dp_step_set_sq:
  assumes "cfg_sq q = cfg_sq (sq s ! i)" and "sq_posted q \<le> sq_posted (sq s ! i)"
  shows "dp_step s (s\<lparr>sq := (sq s)[i := q]\<rparr>)"
proof -
  have "sq_posted ((sq s)[i := q] ! j) \<le> sq_posted (sq s ! j)" for j
    using assms(2) by (cases "i < length (sq s)"; cases "i = j") (simp_all add: list_update_beyond)
  then show ?thesis using assms(1) by (simp add: dp_step_def irq_ok_def one_shot_same)
qed

lemma dp_step_advance:
  "n \<le> sq_posted (sq s ! i) \<Longrightarrow>
     dp_step s (s\<lparr>sq := (sq s)[i := (sq s ! i)\<lparr>sq_head := sq_head (sq s ! i) + of_nat n\<rparr>]\<rparr>)"
  by (rule dp_step_set_sq) (simp_all add: sq_posted_advance)

text \<open>An operation of the datapath runs to its end from every state of the invariant.\<close>

locale device_op =
  fixes pre :: "EnaState \<Rightarrow> bool"
    and f :: "EnaState \<Rightarrow> EnaState result"
  assumes runs: "dev_inv s \<Longrightarrow> pre s \<Longrightarrow> \<exists>s'. f s = Inr s' \<and> dp_step s s'"
begin

lemma no_abort: "dev_inv s \<Longrightarrow> pre s \<Longrightarrow> f s \<noteq> Inl e"
  using runs by force

lemma keeps_inv: "dev_inv s \<Longrightarrow> pre s \<Longrightarrow> f s = Inr s' \<Longrightarrow> dev_inv s'"
  using runs [of s] dp_step_inv by force

lemma keeps_config: "dev_inv s \<Longrightarrow> pre s \<Longrightarrow> f s = Inr s' \<Longrightarrow> cfg s' = cfg s"
  using runs [of s] by (force simp: dp_step_def)

end

end
