(* ===== verification/Ena_Rx.thy ===== *)
theory Ena_Rx
  imports Ena_Datapath
begin

text \<open>
  The receive path (\<open>src/hw/ena_rx.c\<close>): filtering, receive-side scaling, the descriptors that cover
  a frame, and the completions that describe its pieces.
\<close>

section \<open>Receive-side scaling\<close>

definition ENA_RX_MAX_FRAME :: nat where
  [ena_const]: "ENA_RX_MAX_FRAME = ENA_MAX_MTU + 14 + 4"

definition ENA_RSS_L4_PORTS :: u16 where
  "ENA_RSS_L4_PORTS = ENA_ADMIN_RSS_L4_DP OR ENA_ADMIN_RSS_L4_SP"

definition ena_rss_key :: "EnaState \<Rightarrow> byte list" where
  "ena_rss_key s =
     concat (map (\<lambda>i. be32 (rss_key (rss s) ! (ENA_ADMIN_RSS_KEY_PARTS - 1 - i))) [0..<ENA_ADMIN_RSS_KEY_PARTS])"

definition ena_rss_proto :: "bool \<Rightarrow> bool \<Rightarrow> EthL4HdrProto \<Rightarrow> nat" where
  "ena_rss_proto hasip4 frag l4 =
     (if hasip4
      then if frag then ENA_ADMIN_RSS_IP4_FRAG
           else case l4 of
                  ETH_L4_HDR_PROTO_TCP \<Rightarrow> ENA_ADMIN_RSS_TCP4
                | ETH_L4_HDR_PROTO_UDP \<Rightarrow> ENA_ADMIN_RSS_UDP4
                | _ \<Rightarrow> ENA_ADMIN_RSS_IP4
      else case l4 of
             ETH_L4_HDR_PROTO_TCP \<Rightarrow> ENA_ADMIN_RSS_TCP6
           | ETH_L4_HDR_PROTO_UDP \<Rightarrow> ENA_ADMIN_RSS_UDP6
           | _ \<Rightarrow> ENA_ADMIN_RSS_IP6)"

definition ena_rss_hash :: "qemu \<Rightarrow> EnaState \<Rightarrow> u32" where
  "ena_rss_hash Q s =
     (let (hasip4, hasip6, l4) = net_rx_pkt_get_protocols Q (rx_pkt s)
      in if \<not> hasip4 \<and> \<not> hasip6 then 0
         else
           let frag = hasip4 \<and> net_rx_pkt_ip4_fragment Q (rx_pkt s);
               fields = rss_fields (rss s) ! ena_rss_proto hasip4 frag l4
           in if fields = 0 then 0
              else
                let l4 = (if fields AND ENA_RSS_L4_PORTS = 0 then ETH_L4_HDR_PROTO_INVALID else l4);
                    type = (if hasip4
                            then if l4 = ETH_L4_HDR_PROTO_TCP then NetPktRssIpV4Tcp
                                 else if l4 = ETH_L4_HDR_PROTO_UDP then NetPktRssIpV4Udp else NetPktRssIpV4
                            else if l4 = ETH_L4_HDR_PROTO_TCP then NetPktRssIpV6Tcp
                                 else if l4 = ETH_L4_HDR_PROTO_UDP then NetPktRssIpV6Udp else NetPktRssIpV6)
                in rss_init_val (rss s) XOR net_rx_pkt_calc_rss_hash Q (rx_pkt s) type (ena_rss_key s))"

definition rx_usable :: "EnaSq \<Rightarrow> bool" where
  "rx_usable q \<longleftrightarrow> sq_used q \<and> \<not> sq_is_tx q"

definition ena_rx_sq :: "EnaState \<Rightarrow> u32 \<Rightarrow> nat option" where
  "ena_rx_sq s hash =
     (let idx = unat (rss_ind_tbl (rss s) ! unat (hash AND (of_nat ENA_RSS_IND_TBL_SIZE - 1)))
      in if idx < ENA_MAX_SQ \<and> rx_usable (sq s ! idx) then Some idx
         else find (\<lambda>i. rx_usable (sq s ! i)) [0..<ENA_MAX_SQ])"

section \<open>Completion status\<close>

definition ena_rx_status :: "qemu \<Rightarrow> EnaState \<Rightarrow> u32" where
  "ena_rx_status Q s =
     (let (hasip4, hasip6, l4) = net_rx_pkt_get_protocols Q (rx_pkt s);
          status = ENA_ETH_IO_RX_CDESC_BASE_BUFFER_MASK;
          status =
            (if hasip4
             then let status = status OR ENA_ETH_IO_L3_PROTO_IPV4;
                      status = (if net_rx_pkt_ip4_fragment Q (rx_pkt s)
                                then status OR ENA_ETH_IO_RX_CDESC_BASE_IPV4_FRAG_MASK else status);
                      (done, valid) = net_rx_pkt_validate_l3_csum Q (rx_pkt s)
                  in if done \<and> \<not> valid then status OR ENA_ETH_IO_RX_CDESC_BASE_L3_CSUM_ERR_MASK else status
             else if hasip6 then status OR ENA_ETH_IO_L3_PROTO_IPV6 else status)
      in if l4 = ETH_L4_HDR_PROTO_TCP \<or> l4 = ETH_L4_HDR_PROTO_UDP
         then let idx = (if l4 = ETH_L4_HDR_PROTO_TCP then ENA_ETH_IO_L4_PROTO_TCP else ENA_ETH_IO_L4_PROTO_UDP);
                  status = status OR push_bit ENA_ETH_IO_RX_CDESC_BASE_L4_PROTO_IDX_SHIFT idx;
                  (done, valid) = net_rx_pkt_validate_l4_csum Q (rx_pkt s)
              in if done
                 then let status = status OR ENA_ETH_IO_RX_CDESC_BASE_L4_CSUM_CHECKED_MASK
                      in if \<not> valid then status OR ENA_ETH_IO_RX_CDESC_BASE_L4_CSUM_ERR_MASK else status
                 else status
         else status)"

section \<open>Descriptors\<close>

definition ena_rx_desc_size :: "ena_eth_io_rx_desc \<Rightarrow> nat" where
  "ena_rx_desc_size d = (if rx_desc_length d \<noteq> 0 then unat (rx_desc_length d) else 65536)"

definition ena_rx_desc_addr :: "ena_eth_io_rx_desc \<Rightarrow> u64" where
  "ena_rx_desc_addr d = ucast (rx_desc_buff_addr_lo d) OR push_bit 32 (ucast (rx_desc_buff_addr_hi d))"

definition ena_rx_desc_valid :: "EnaSq \<Rightarrow> ena_eth_io_rx_desc \<Rightarrow> bool" where
  "ena_rx_desc_valid q d \<longleftrightarrow>
     (let need = ENA_ETH_IO_RX_DESC_FIRST_MASK OR ENA_ETH_IO_RX_DESC_LAST_MASK OR ENA_ETH_IO_RX_DESC_COMP_REQ_MASK
      in rx_desc_ctrl d AND need = need \<and> rx_desc_req_id d < sq_depth q)"

definition rx_ring_addr :: "EnaSq \<Rightarrow> nat \<Rightarrow> u64" where
  "rx_ring_addr q n = sq_base q + ucast ((ucast (sq_head q) + of_nat n) AND (ucast (sq_depth q) - 1) :: u32) * 16"

lemma ena_rx_desc_size_pos: "0 < ena_rx_desc_size d"
  by (simp add: ena_rx_desc_size_def unat_gt_0)

text \<open>
  The descriptors that cover the frame, collected in order. The result is \<open>None\<close> where the code
  returns \<open>-1\<close>; a bad descriptor is consumed with those before it.
\<close>

function ena_rx_collect :: "qemu \<Rightarrow> nat \<Rightarrow> nat \<Rightarrow> nat \<Rightarrow> ena_eth_io_rx_desc list \<Rightarrow> EnaState \<Rightarrow>
    ena_eth_io_rx_desc list option \<times> EnaState" where
  "ena_rx_collect Q i len cap descs s =
     (if len \<le> cap then (Some descs, s)
      else
        let q = sq s ! i; avail = sq_tail q - sq_head q; n = length descs
        in if n = unat avail \<or> n = ENA_MAX_PKT_DESCS then (None, s)
           else
             let (bs, ok, s) = ena_dma_read Q s (rx_ring_addr q n) 16;
                 d = dec_ena_eth_io_rx_desc bs
             in if \<not> ok \<or> \<not> ena_rx_desc_valid q d
                then (None, s\<lparr>sq := (sq s)[i := q\<lparr>sq_head := sq_head q + of_nat (n + 1)\<rparr>]\<rparr>)
                else ena_rx_collect Q i len (cap + ena_rx_desc_size d) (descs @ [d]) s)"
  by pat_completeness auto

termination ena_rx_collect
  by (relation "measure (\<lambda>(Q, i, len, cap, descs, s). len - cap)") (auto intro: diff_less_mono2 simp: ena_rx_desc_size_pos)

declare ena_rx_collect.simps [simp del]

section \<open>Delivery\<close>

definition rx_cdesc :: "bool \<Rightarrow> u32 \<Rightarrow> u16 \<Rightarrow> u16 \<Rightarrow> u32 \<Rightarrow> u16 \<Rightarrow> u64 \<Rightarrow> ena_eth_io_rx_cdesc_ext" where
  "rx_cdesc phase status len req_id hash sub_qid addr = \<lparr>
     rx_cdesc_ext_base = \<lparr>
       rx_cdesc_base_status = (if phase then status OR ENA_ETH_IO_RX_CDESC_BASE_PHASE_MASK else status),
       rx_cdesc_base_length = len, rx_cdesc_base_req_id = req_id, rx_cdesc_base_hash = hash,
       rx_cdesc_base_sub_qid = sub_qid, rx_cdesc_base_offset = 0, rx_cdesc_base_reserved = 0\<rparr>,
     rx_cdesc_ext_buff_addr_lo = ucast addr, rx_cdesc_ext_buff_addr_hi = ucast (drop_bit 32 addr),
     rx_cdesc_ext_reserved16 = 0, rx_cdesc_ext_timestamp_low = 0, rx_cdesc_ext_timestamp_high = 0\<rparr>"

definition ena_rx_push_cdesc :: "EnaState \<Rightarrow> nat \<Rightarrow> u32 \<Rightarrow> u16 \<Rightarrow> u16 \<Rightarrow> u32 \<Rightarrow> u16 \<Rightarrow> u64 \<Rightarrow> EnaState result" where
  "ena_rx_push_cdesc s c status len req_id hash sub_qid addr =
     (if 32 < unat (cq_entry_size (cq s ! c)) then Inl (AssertFailed A_rx_entry_size)
      else ena_cq_push s c (enc_ena_eth_io_rx_cdesc_ext
             (rx_cdesc (cq_phase (cq s ! c)) status len req_id hash sub_qid addr)))"

text \<open>One round of the loop over the collected descriptors: \<open>i\<close> is the round, \<open>n\<close> their number.\<close>

definition rx_bits :: "u32 \<Rightarrow> nat \<Rightarrow> nat \<Rightarrow> u32" where
  "rx_bits status n i =
     (let bits = (if i = 0 then status OR ENA_ETH_IO_RX_CDESC_BASE_FIRST_MASK else status)
      in if i = n - 1 then bits OR ENA_ETH_IO_RX_CDESC_BASE_LAST_MASK else bits)"

definition rx_deliver_one :: "EnaState \<Rightarrow> nat \<Rightarrow> nat \<Rightarrow> u32 \<Rightarrow> u32 \<Rightarrow> byte list \<Rightarrow> nat \<Rightarrow> nat \<Rightarrow> nat \<Rightarrow>
    ena_eth_io_rx_desc \<Rightarrow> (nat \<times> EnaState) result" where
  "rx_deliver_one s c sqi status hash frame n i off d =
     (let chunk = min (ena_rx_desc_size d) (length frame - off);
          s = ena_dma_write s (ena_rx_desc_addr d) (take chunk (drop off frame));
          bits = rx_bits status n i
      in bindR (ena_rx_push_cdesc s c bits (of_nat chunk) (rx_desc_req_id d) hash (of_nat sqi) (ena_rx_desc_addr d))
           (\<lambda>s. Inr (off + chunk, s)))"

fun rx_deliver :: "EnaState \<Rightarrow> nat \<Rightarrow> nat \<Rightarrow> u32 \<Rightarrow> u32 \<Rightarrow> byte list \<Rightarrow> nat \<Rightarrow> nat \<Rightarrow> nat \<Rightarrow>
    ena_eth_io_rx_desc list \<Rightarrow> (nat \<times> EnaState) result" where
  "rx_deliver s c sqi status hash frame n i off [] = Inr (off, s)"
| "rx_deliver s c sqi status hash frame n i off (d # ds) =
     bindR (rx_deliver_one s c sqi status hash frame n i off d)
       (\<lambda>(off, s). rx_deliver s c sqi status hash frame n (i + 1) off ds)"

definition rx_drop :: "EnaState \<Rightarrow> EnaState" where
  "rx_drop s = s\<lparr>rx_drops := rx_drops s + 1\<rparr>"

text \<open>
  \<open>rx_accept\<close> is the part of \<open>ena_rx_receive_iov\<close> after the filter, on the linear frame; every path of
  the function returns the length of the frame.
\<close>

definition rx_accept :: "qemu \<Rightarrow> EnaState \<Rightarrow> byte list \<Rightarrow> EnaState result" where
  "rx_accept Q s frame =
     (let s = s\<lparr>rx_pkt := frame\<rparr>;
          hash = ena_rss_hash Q s
      in case ena_rx_sq s hash of
           None \<Rightarrow> Inr (rx_drop s)
         | Some i \<Rightarrow>
             let c = unat (sq_cq_idx (sq s ! i))
             in if \<not> cq_used (cq s ! c) then Inr (rx_drop s)
                else
                  case ena_rx_collect Q i (length frame) 0 [] s of
                    (None, s) \<Rightarrow> Inr (rx_drop s)
                  | (Some descs, s) \<Rightarrow>
                      bindR (rx_deliver s c i (ena_rx_status Q s) hash frame (length descs) 0 0 descs)
                        (\<lambda>(off, s).
                           if off \<noteq> length frame then Inl (AssertFailed A_rx_all_delivered)
                           else
                             let q = sq s ! i;
                                 s = s\<lparr>sq := (sq s)[i := q\<lparr>sq_head := sq_head q + of_nat (length descs)\<rparr>],
                                       rx_pkts := rx_pkts s + 1,
                                       rx_bytes := rx_bytes s + of_nat (length frame)\<rparr>
                             in Inr (ena_cq_intr Q s c False)))"

definition ena_rx_receive_iov :: "qemu \<Rightarrow> EnaState \<Rightarrow> byte list list \<Rightarrow> (nat \<times> EnaState) result" where
  "ena_rx_receive_iov Q s iov =
     (let len = iov_size Q iov
      in if unat (mtu s + 14 + 4) < len then Inr (len, rx_drop s)
         else if ENA_RX_MAX_FRAME < len then Inl OutOfBounds
         else
           let frame = iov_to_buf Q iov 0 len
           in if len < 14 \<or> frame ! 0 AND 1 = 0 \<and> take 6 frame \<noteq> macaddr s then Inr (len, s)
              else bindR (rx_accept Q s frame) (\<lambda>s. Inr (len, s)))"

definition ena_rx_can_receive :: "EnaState \<Rightarrow> bool" where
  "ena_rx_can_receive s =
     (list_ex (\<lambda>i. rx_usable (sq s ! i) \<and> sq_head (sq s ! i) \<noteq> sq_tail (sq s ! i)) [0..<ENA_MAX_SQ] \<or>
      \<not> list_ex (\<lambda>i. rx_usable (sq s ! i)) [0..<ENA_MAX_SQ])"

text \<open>Frames the network layer hands over one after the other.\<close>

fun rx_frames :: "qemu \<Rightarrow> EnaState \<Rightarrow> byte list list list \<Rightarrow> EnaState result" where
  "rx_frames Q s [] = Inr s"
| "rx_frames Q s (f # fs) = bindR (ena_rx_receive_iov Q s f) (\<lambda>(n, s). rx_frames Q s fs)"

definition net_incoming :: "qemu \<Rightarrow> EnaState \<Rightarrow> EnaState result" where
  "net_incoming Q s = rx_frames Q s (incoming Q (trace s))"

definition ena_rx_doorbell :: "qemu \<Rightarrow> EnaState \<Rightarrow> nat \<Rightarrow> EnaState result" where
  "ena_rx_doorbell Q s i =
     (if sq_is_tx (sq s ! i) then Inl (AssertFailed A_rx_doorbell)
      else net_incoming Q (emit FlushQueuedPackets s))"

section \<open>Collecting descriptors\<close>

text \<open>Descriptor reads are the only trace of a collection.\<close>

definition rx_reads :: "EnaState \<Rightarrow> EnaState \<Rightarrow> bool" where
  "rx_reads s t \<longleftrightarrow> (\<exists>as. t = s\<lparr>trace := trace s @ map (\<lambda>a. DmaRead a 16) as\<rparr>)"

lemma rx_reads_refl [simp]: "rx_reads s s"
  unfolding rx_reads_def by (rule exI [of _ "[]"]) simp

lemma rx_reads_emit: "rx_reads (emit (DmaRead a 16) s) t \<Longrightarrow> rx_reads s t"
  by (auto simp: rx_reads_def emit_def) (metis append_Cons append_Nil list.simps(9))

lemma rx_reads_sel:
  assumes "rx_reads s t"
  shows "sq t = sq s" "cq t = cq s" "irq t = irq s" "rss t = rss s" "rx_pkt t = rx_pkt s" "rx_pkts t = rx_pkts s"
    "rx_bytes t = rx_bytes s" "rx_drops t = rx_drops s" "tx_pkts t = tx_pkts s" "tx_bytes t = tx_bytes s"
    "tx_drops t = tx_drops s" "cfg t = cfg s"
  using assms by (auto simp: rx_reads_def)

lemma rx_reads_quiet: "rx_reads s t \<Longrightarrow> ext_by quiet s t"
  by (auto simp: rx_reads_def ext_by_def list_all_iff)

lemma rx_reads_dp: "rx_reads s t \<Longrightarrow> dp_step s t"
  by (intro dp_step_quiet) (simp_all add: rx_reads_sel rx_reads_quiet)

text \<open>The descriptors cover the frame, and none of them is superfluous.\<close>

fun rx_covers :: "nat \<Rightarrow> nat \<Rightarrow> ena_eth_io_rx_desc list \<Rightarrow> bool" where
  "rx_covers cap len [] \<longleftrightarrow> len \<le> cap"
| "rx_covers cap len (d # ds) \<longleftrightarrow> cap < len \<and> rx_covers (cap + ena_rx_desc_size d) len ds"

definition rx_consume :: "nat \<Rightarrow> nat \<Rightarrow> EnaState \<Rightarrow> EnaState" where
  "rx_consume i n s = s\<lparr>sq := (sq s)[i := (sq s ! i)\<lparr>sq_head := sq_head (sq s ! i) + of_nat n\<rparr>]\<rparr>"

definition rx_collected :: "nat \<Rightarrow> nat \<Rightarrow> nat \<Rightarrow> ena_eth_io_rx_desc list \<Rightarrow> EnaState \<Rightarrow>
    ena_eth_io_rx_desc list option \<times> EnaState \<Rightarrow> bool" where
  "rx_collected i len cap descs s r \<longleftrightarrow>
     (case r of
        (Some ds, s') \<Rightarrow> rx_reads s s' \<and> length ds \<le> sq_posted (sq s ! i) \<and> length ds \<le> ENA_MAX_PKT_DESCS \<and>
          (\<exists>new. ds = descs @ new \<and> list_all (ena_rx_desc_valid (sq s ! i)) new \<and> rx_covers cap len new)
      | (None, s') \<Rightarrow> \<exists>t n. rx_reads s t \<and> n \<le> sq_posted (sq s ! i) \<and> s' = rx_consume i n t)"

lemma rx_consume_0: "rx_consume i 0 s = s"
  by (simp add: rx_consume_def)

lemma rx_collected_step:
  assumes "rx_collected i len (cap + ena_rx_desc_size d) (descs @ [d]) (emit (DmaRead a 16) s) r"
    and "cap < len" and "ena_rx_desc_valid (sq s ! i) d"
  shows "rx_collected i len cap descs s r"
proof -
  obtain o' s' where r: "r = (o', s')" by (cases r)
  show ?thesis
  proof (cases o')
    case None
    with assms r show ?thesis by (auto simp: rx_collected_def intro: rx_reads_emit)
  next
    case (Some ds)
    with assms(1) r obtain new where new: "rx_reads s s'" "length ds \<le> sq_posted (sq s ! i)"
        "length ds \<le> ENA_MAX_PKT_DESCS" "ds = descs @ (d # new)"
        "list_all (ena_rx_desc_valid (sq s ! i)) new" "rx_covers (cap + ena_rx_desc_size d) len new"
      using rx_reads_emit [of a s s'] by (auto simp: rx_collected_def)
    with assms(2,3) have "list_all (ena_rx_desc_valid (sq s ! i)) (d # new)" "rx_covers cap len (d # new)"
      by simp_all
    with new(1-4) show ?thesis unfolding r Some rx_collected_def by auto
  qed
qed

lemma ena_rx_collect_more:
  assumes "cap < len" and "length descs \<noteq> sq_posted (sq s ! i)" and "length descs \<noteq> ENA_MAX_PKT_DESCS"
    and "a = rx_ring_addr (sq s ! i) (length descs)" and "dma_ok Q (trace s) a 16"
    and "d = dec_ena_eth_io_rx_desc (map (dma_byte Q (trace s) a 16) [0..<16])" and "ena_rx_desc_valid (sq s ! i) d"
  shows "ena_rx_collect Q i len cap descs s =
    ena_rx_collect Q i len (cap + ena_rx_desc_size d) (descs @ [d]) (emit (DmaRead a 16) s)"
  using assms by (subst ena_rx_collect.simps) (simp add: sq_posted_def ena_dma_read_def Let_def)

lemma ena_rx_collect_spec:
  "length descs \<le> sq_posted (sq s ! i) \<Longrightarrow> length descs \<le> ENA_MAX_PKT_DESCS \<Longrightarrow>
     rx_collected i len cap descs s (ena_rx_collect Q i len cap descs s)"
proof (induction Q i len cap descs s rule: ena_rx_collect.induct)
  case (1 Q i len cap descs s)
  let ?q = "sq s ! i" and ?n = "length descs"
  let ?a = "rx_ring_addr ?q ?n"
  let ?bs = "map (dma_byte Q (trace s) ?a 16) [0..<16]" and ?s = "emit (DmaRead ?a 16) s"
  let ?d = "dec_ena_eth_io_rx_desc ?bs"
  note unf = ena_rx_collect.simps [of Q i len cap descs s]
  consider (covered) "len \<le> cap" | (stop) "cap < len" "?n = sq_posted ?q \<or> ?n = ENA_MAX_PKT_DESCS"
    | (bad) "cap < len" "?n \<noteq> sq_posted ?q" "?n \<noteq> ENA_MAX_PKT_DESCS"
        "\<not> dma_ok Q (trace s) ?a 16 \<or> \<not> ena_rx_desc_valid ?q ?d"
    | (more) "cap < len" "?n \<noteq> sq_posted ?q" "?n \<noteq> ENA_MAX_PKT_DESCS"
        "dma_ok Q (trace s) ?a 16" "ena_rx_desc_valid ?q ?d"
    by fastforce
  then show ?case
  proof cases
    case covered
    with 1 show ?thesis by (subst unf) (auto simp: rx_collected_def)
  next
    case stop
    then have "ena_rx_collect Q i len cap descs s = (None, s)"
      by (subst unf) (auto simp: sq_posted_def)
    moreover have "\<exists>t n. rx_reads s t \<and> n \<le> sq_posted ?q \<and> s = rx_consume i n t"
      by (intro exI [of _ s] exI [of _ 0]) (simp add: rx_consume_0)
    ultimately show ?thesis by (simp add: rx_collected_def)
  next
    case bad
    then have "ena_rx_collect Q i len cap descs s = (None, rx_consume i (?n + 1) ?s)"
      by (subst unf) (auto simp: sq_posted_def ena_dma_read_def Let_def rx_consume_def)
    moreover have "rx_reads s ?s" by (rule rx_reads_emit [OF rx_reads_refl])
    moreover have "?n + 1 \<le> sq_posted ?q" using bad(2) 1(2) by simp
    ultimately show ?thesis unfolding rx_collected_def by auto
  next
    case more
    then have "ena_rx_collect Q i len cap descs s =
        ena_rx_collect Q i len (cap + ena_rx_desc_size ?d) (descs @ [?d]) ?s"
      by (intro ena_rx_collect_more) simp_all
    moreover have "rx_collected i len (cap + ena_rx_desc_size ?d) (descs @ [?d]) ?s
        (ena_rx_collect Q i len (cap + ena_rx_desc_size ?d) (descs @ [?d]) ?s)"
      using more 1(2,3) by (intro 1(1)) (auto simp: sq_posted_def ena_dma_read_def)
    ultimately show ?thesis using more(1,5) by (simp add: rx_collected_step)
  qed
qed

section \<open>Delivering a frame\<close>

text \<open>The pieces of the frame, one per descriptor.\<close>

fun rx_pieces :: "byte list \<Rightarrow> ena_eth_io_rx_desc list \<Rightarrow> byte list list" where
  "rx_pieces f [] = []"
| "rx_pieces f (d # ds) = take (ena_rx_desc_size d) f # rx_pieces (drop (ena_rx_desc_size d) f) ds"

lemma length_rx_pieces [simp]: "length (rx_pieces f ds) = length ds"
  by (induction ds arbitrary: f) simp_all

lemma rx_pieces_cover:
  "rx_covers cap len ds \<Longrightarrow> length f = len - cap \<Longrightarrow> concat (rx_pieces f ds) = f \<and> [] \<notin> set (rx_pieces f ds)"
proof (induction ds arbitrary: cap f)
  case (Cons d ds)
  have "length (drop (ena_rx_desc_size d) f) = len - (cap + ena_rx_desc_size d)"
    using Cons.prems(2) by simp
  with Cons show ?case using ena_rx_desc_size_pos [of d] by auto
qed simp

lemma rx_pieces_fit: "k < length ds \<Longrightarrow> length (rx_pieces f ds ! k) \<le> ena_rx_desc_size (ds ! k)"
  by (induction ds arbitrary: f k) (auto simp: nth_Cons split: nat.split)

text \<open>The two writes of round \<open>k\<close>: the piece into its buffer, then the completion into the ring.\<close>

definition rx_round_cdesc :: "EnaCq \<Rightarrow> nat \<Rightarrow> nat \<Rightarrow> u32 \<Rightarrow> u32 \<Rightarrow> nat \<Rightarrow> nat \<Rightarrow> ena_eth_io_rx_desc \<Rightarrow> byte list \<Rightarrow>
    ena_eth_io_rx_cdesc_ext" where
  "rx_round_cdesc q m sqi status hash n k d piece =
     rx_cdesc (even (m div unat (cq_depth q))) (rx_bits status n k) (of_nat (length piece)) (rx_desc_req_id d)
       hash (of_nat sqi) (ena_rx_desc_addr d)"

fun rx_writes :: "EnaCq \<Rightarrow> nat \<Rightarrow> nat \<Rightarrow> u32 \<Rightarrow> u32 \<Rightarrow> nat \<Rightarrow> nat \<Rightarrow> ena_eth_io_rx_desc list \<Rightarrow> byte list list \<Rightarrow> trace" where
  "rx_writes q m sqi status hash n k (d # ds) (p # ps) =
     DmaWrite (ena_rx_desc_addr d) p #
     DmaWrite (cq_entry_addr q m)
       (take (unat (cq_entry_size q)) (enc_ena_eth_io_rx_cdesc_ext (rx_round_cdesc q m sqi status hash n k d p))) #
     rx_writes q (Suc m) sqi status hash n (Suc k) ds ps"
| "rx_writes q m sqi status hash n k _ _ = []"

lemma rx_writes_advance [simp]: "rx_writes (ena_cq_advance q) m sqi status hash n k ds ps = rx_writes q m sqi status hash n k ds ps"
  by (induction q m sqi status hash n k ds ps rule: rx_writes.induct)
     (simp_all add: rx_round_cdesc_def)

lemma rx_deliver_one_spec:
  assumes "cq_counts m (cq s ! c)" and "c < length (cq s)" and "cq_used (cq s ! c)"
    and "unat (cq_entry_size (cq s ! c)) \<le> 32" and "off \<le> length frame"
    and p_def: "p = take (ena_rx_desc_size d) (drop off frame)"
  obtains s' where "rx_deliver_one s c sqi status hash frame n k off d = Inr (off + length p, s')"
    "trace s' = trace s @ rx_writes (cq s ! c) m sqi status hash n k [d] [p]"
    "s' = s\<lparr>cq := (cq s)[c := ena_cq_advance (cq s ! c)], trace := trace s'\<rparr>"
    "cq_counts (Suc m) (cq s' ! c)"
proof -
  let ?chunk = "min (ena_rx_desc_size d) (length frame - off)"
  let ?s = "emit (DmaWrite (ena_rx_desc_addr d) p) s"
  have p: "?chunk = length p" "take (length p) (drop off frame) = p"
    by (auto simp: p_def min_def)
  have ph: "cq_phase (cq s ! c) = even (m div unat (cq_depth (cq s ! c)))"
    using assms(1) by (simp add: cq_counts_def)
  let ?e = "enc_ena_eth_io_rx_cdesc_ext (rx_round_cdesc (cq s ! c) m sqi status hash n k d p)"
  have push: "rx_deliver_one s c sqi status hash frame n k off d =
      bindR (ena_cq_push ?s c ?e) (\<lambda>s. Inr (off + length p, s))"
    using assms(4) ph
    by (simp add: rx_deliver_one_def Let_def p ena_dma_write_def ena_rx_push_cdesc_def rx_round_cdesc_def)
  obtain s' where s': "ena_cq_push ?s c ?e = Inr s'"
      "trace s' = trace ?s @ [DmaWrite (cq_entry_addr (cq s ! c) m) (take (unat (cq_entry_size (cq s ! c))) ?e)]"
      "cq_counts (Suc m) (cq s' ! c)"
    by (rule ena_cq_push_spec [of m ?s c ?e]) (use assms(1-3) in simp_all)
  have fr: "s' = s\<lparr>cq := (cq s)[c := ena_cq_advance (cq s ! c)], trace := trace s'\<rparr>"
    using s'(1) assms(3) unfolding ena_cq_push_def Let_def ena_dma_write_def emit_def by fastforce
  show thesis
  proof (rule that [OF _ _ fr s'(3)])
    show "rx_deliver_one s c sqi status hash frame n k off d = Inr (off + length p, s')"
      by (simp add: push s'(1))
    show "trace s' = trace s @ rx_writes (cq s ! c) m sqi status hash n k [d] [p]"
      by (simp add: s'(2))
  qed
qed

lemma rx_deliver_spec:
  assumes "cq_counts m (cq s ! c)" and "c < length (cq s)" and "cq_used (cq s ! c)"
    and "unat (cq_entry_size (cq s ! c)) \<le> 32" and "off \<le> length frame"
    and "ps = rx_pieces (drop off frame) ds"
  shows "\<exists>s'. rx_deliver s c sqi status hash frame n k off ds = Inr (off + length (concat ps), s') \<and>
    trace s' = trace s @ rx_writes (cq s ! c) m sqi status hash n k ds ps \<and>
    s' = s\<lparr>cq := (cq s)[c := (ena_cq_advance ^^ length ds) (cq s ! c)], trace := trace s'\<rparr>"
  using assms
proof (induction ds arbitrary: s m k off ps)
  case Nil
  then show ?case by simp
next
  case (Cons d ds)
  let ?p = "take (ena_rx_desc_size d) (drop off frame)"
  obtain t where t: "rx_deliver_one s c sqi status hash frame n k off d = Inr (off + length ?p, t)"
      "trace t = trace s @ rx_writes (cq s ! c) m sqi status hash n k [d] [?p]"
      "t = s\<lparr>cq := (cq s)[c := ena_cq_advance (cq s ! c)], trace := trace t\<rparr>" "cq_counts (Suc m) (cq t ! c)"
    using rx_deliver_one_spec [OF Cons.prems(1-5) refl, of sqi status hash n k d] by blast
  have tc: "cq t = (cq s)[c := ena_cq_advance (cq s ! c)]" by (subst t(3)) simp
  have off: "drop (off + length ?p) frame = drop (ena_rx_desc_size d) (drop off frame)"
    by (cases "off + ena_rx_desc_size d \<le> length frame") (simp_all add: add.commute min_def)
  have t3: "t\<lparr>cq := y, trace := z\<rparr> = s\<lparr>cq := y, trace := z\<rparr>" for y z by (subst t(3)) simp
  let ?ps = "rx_pieces (drop (off + length ?p) frame) ds"
  have ps: "ps = ?p # ?ps" using Cons.prems(6) by (simp only: off rx_pieces.simps)
  have "\<exists>s'. rx_deliver t c sqi status hash frame n (Suc k) (off + length ?p) ds =
        Inr (off + length ?p + length (concat ?ps), s') \<and>
      trace s' = trace t @ rx_writes (cq t ! c) (Suc m) sqi status hash n (Suc k) ds ?ps \<and>
      s' = t\<lparr>cq := (cq t)[c := (ena_cq_advance ^^ length ds) (cq t ! c)], trace := trace s'\<rparr>"
    using t(4) Cons.prems(2-5) by (intro Cons.IH refl) (simp_all add: tc)
  then obtain s' where s': "rx_deliver t c sqi status hash frame n (Suc k) (off + length ?p) ds =
        Inr (off + length ?p + length (concat ?ps), s')"
      "trace s' = trace t @ rx_writes (cq t ! c) (Suc m) sqi status hash n (Suc k) ds ?ps"
      "s' = t\<lparr>cq := (cq t)[c := (ena_cq_advance ^^ length ds) (cq t ! c)], trace := trace s'\<rparr>"
    by blast
  have q: "cq t ! c = ena_cq_advance (cq s ! c)" using Cons.prems(2) by (simp add: tc)
  have "s' = s\<lparr>cq := (cq s)[c := (ena_cq_advance ^^ length (d # ds)) (cq s ! c)], trace := trace s'\<rparr>"
    by (subst s'(3)) (simp only: t3 q, simp only: tc list_update_overwrite funpow_Suc_right o_apply list.size
        add_0_right add_Suc_right)
  moreover have "rx_deliver s c sqi status hash frame n k off (d # ds) = Inr (off + length (concat ps), s')"
    unfolding ps using t(1) s'(1) by (simp add: add.assoc)
  moreover have "trace s' = trace s @ rx_writes (cq s ! c) m sqi status hash n k (d # ds) ps"
    unfolding ps s'(2) t(2) q by simp
  ultimately show ?case by blast
qed

section \<open>Receiving keeps the invariant\<close>

text \<open>The interrupt makes no DMA access.\<close>

definition dma_free :: "trace \<Rightarrow> bool" where
  "dma_free tr = list_all (\<lambda>e. case e of DmaRead a n \<Rightarrow> False | DmaWrite a bs \<Rightarrow> False | LlqRead a n \<Rightarrow> False | _ \<Rightarrow> True) tr"

lemma trace_schedule: "\<exists>es. trace (ena_irq_schedule Q s v d) = trace s @ es \<and> dma_free es"
  by (simp add: ena_irq_schedule_def ena_irq_fire_def qemu_clock_get_us_def Let_def dma_free_def)

lemma trace_intr: "\<exists>es. trace (ena_cq_intr Q s c t) = trace s @ es \<and> dma_free es"
  using trace_schedule [of Q s] by (simp add: ena_cq_intr_def Let_def) (simp add: dma_free_def)

text \<open>The calls of the receive path.\<close>

fun rx_effect :: "effect \<Rightarrow> bool" where
  "rx_effect (DmaRead a n) = True"
| "rx_effect (DmaWrite a bs) = True"
| "rx_effect (MsixNotify v) = True"
| "rx_effect (TimerDel t) = True"
| "rx_effect (TimerModAnticipate t n) = True"
| "rx_effect ClockGetUs = True"
| "rx_effect _ = False"

text \<open>A receive step leaves the transmit queues and the transmit counters alone.\<close>

definition rx_step :: "EnaState \<Rightarrow> EnaState \<Rightarrow> bool" where
  "rx_step s s' \<longleftrightarrow> dp_step s s' \<and> (\<forall>i. sq_is_tx (sq s ! i) \<longrightarrow> sq s' ! i = sq s ! i) \<and>
     tx_pkts s' = tx_pkts s \<and> tx_bytes s' = tx_bytes s \<and> tx_drops s' = tx_drops s \<and> ext_by rx_effect s s'"

lemma rx_step_refl [simp]: "rx_step s s"
  by (simp add: rx_step_def)

lemma rx_step_trans: "rx_step s t \<Longrightarrow> rx_step t u \<Longrightarrow> rx_step s u"
  by (auto simp: rx_step_def intro: dp_step_trans ext_by_trans)

lemma rx_step_same:
  "dp_step s s' \<Longrightarrow> sq s' = sq s \<Longrightarrow> tx_pkts s' = tx_pkts s \<Longrightarrow> tx_bytes s' = tx_bytes s \<Longrightarrow>
     tx_drops s' = tx_drops s \<Longrightarrow> ext_by rx_effect s s' \<Longrightarrow> rx_step s s'"
  by (simp add: rx_step_def)

lemma rx_step_attach: "rx_step s (s\<lparr>rx_pkt := f\<rparr>)"
  by (rule rx_step_same) (simp_all add: dp_step_stats ext_by_same)

lemma rx_step_drop: "rx_step s (rx_drop s)"
  by (rule rx_step_same) (simp_all add: dp_step_stats rx_drop_def ext_by_same)

lemma rx_reads_ext: "rx_reads s t \<Longrightarrow> ext_by rx_effect s t"
  by (auto simp: rx_reads_def ext_by_def list_all_iff)

lemma rx_step_reads: "rx_reads s t \<Longrightarrow> rx_step s t"
  by (rule rx_step_same) (simp_all add: rx_reads_dp rx_reads_sel rx_reads_ext)

lemma rx_ext_intr: "ext_by rx_effect s (ena_cq_intr Q s c t)"
  by (simp add: ena_cq_intr_def ena_irq_schedule_def ena_irq_fire_def qemu_clock_get_us_def Let_def ext_by_def)

lemma rx_step_intr: "rx_step s (ena_cq_intr Q s c t)"
  using irq_frameD(1,8-10) [OF irq_frame_intr, of Q s c t] by (intro rx_step_same dp_step_intr rx_ext_intr) simp_all

lemma rx_step_consume:
  assumes "n \<le> sq_posted (sq s ! i)" and "\<not> sq_is_tx (sq s ! i)"
  shows "rx_step s (rx_consume i n s)"
proof -
  have "sq (rx_consume i n s) ! j = sq s ! j" if "sq_is_tx (sq s ! j)" for j
    using that assms(2) by (cases "i = j") (auto simp: rx_consume_def)
  with assms(1) show ?thesis
    using dp_step_advance [of n s i] by (simp add: rx_step_def) (simp add: rx_consume_def ext_by_same)
qed

lemma rx_step_deliver:
  assumes "s' = s\<lparr>cq := (cq s)[c := (ena_cq_advance ^^ n) (cq s ! c)], trace := trace s'\<rparr>"
    and "trace s' = trace s @ rx_writes q m sqi status hash n' k ds ps"
  shows "rx_step s s'"
proof -
  have adv: "cfg_cq ((ena_cq_advance ^^ n) q) = cfg_cq q" for n q
    by (induction n) simp_all
  have "cq_sync (cq s ! c) \<Longrightarrow> cq_sync ((ena_cq_advance ^^ n) (cq s ! c))"
    by (induction n) (auto intro: cq_sync_advance)
  then have "dp_step s (s\<lparr>cq := (cq s)[c := (ena_cq_advance ^^ n) (cq s ! c)]\<rparr>)"
    by (intro dp_step_set_cq adv)
  moreover have "list_all quiet (rx_writes q m sqi status hash n' k ds ps)"
    by (induction q m sqi status hash n' k ds ps rule: rx_writes.induct) auto
  with assms(2) have "ext_by quiet s s'" by (simp add: ext_by_def)
  moreover have "list_all rx_effect (rx_writes q m sqi status hash n' k ds ps)"
    by (induction q m sqi status hash n' k ds ps rule: rx_writes.induct) auto
  with assms(2) have "ext_by rx_effect s s'" by (simp add: ext_by_def)
  moreover have sel: "sq s' = sq s" "irq s' = irq s" "cfg s' = cfg s"
      "cq s' = (cq s)[c := (ena_cq_advance ^^ n) (cq s ! c)]"
     "tx_pkts s' = tx_pkts s"
      "tx_bytes s' = tx_bytes s" "tx_drops s' = tx_drops s"
    by (subst assms(1), simp add: adv)+
  ultimately show ?thesis
    using irq_ok_quiet [of s s'] one_shot_quiet [of s' s] by (auto simp: rx_step_def dp_step_def)
qed

subsection \<open>The queue a frame goes to\<close>

lemma max_sq: "ENA_MAX_SQ = 16"
  by (simp add: ena_const)

lemma ena_rx_sq_usable: "ena_rx_sq s h = Some i \<Longrightarrow> i < 16 \<and> rx_usable (sq s ! i)"
  by (auto simp: ena_rx_sq_def Let_def find_Some_iff ena_const split: if_splits)

lemma rx_queue_wf:
  assumes "dev_inv s" and "ena_rx_sq s h = Some i" and "c = unat (sq_cq_idx (sq s ! i))"
  shows "i < 16" "\<not> sq_is_tx (sq s ! i)" "c < 16" "cq_used (cq s ! c)" "16 \<le> unat (cq_entry_size (cq s ! c))"
    "unat (cq_entry_size (cq s ! c)) \<le> 32" "valid_depth (cq_depth (cq s ! c))" "is_ring_depth (cq_depth (cq s ! c))"
proof -
  show i: "i < 16" and "\<not> sq_is_tx (sq s ! i)"
    using ena_rx_sq_usable [OF assms(2)] by (simp_all add: rx_usable_def)
  then have wf: "sq_wf (cq s) (sq s ! i)" and u: "rx_usable (sq s ! i)"
    using dev_invD(7) [OF assms(1)] ena_rx_sq_usable [OF assms(2)] by simp_all
  then show c: "c < 16" and cu: "cq_used (cq s ! c)" and "16 \<le> unat (cq_entry_size (cq s ! c))"
    by (simp_all add: sq_wf_def rx_usable_def assms(3) ena_const)
  have "cq_wf (cq s ! c)" using dev_invD(8) [OF assms(1)] c by simp
  with cu show "unat (cq_entry_size (cq s ! c)) \<le> 32" "valid_depth (cq_depth (cq s ! c))"
      "is_ring_depth (cq_depth (cq s ! c))"
    by (auto simp: cq_wf_def valid_depth_def)
qed

subsection \<open>The outcomes of an accepted frame\<close>

text \<open>The state after the frame was written out: head, counters and the interrupt.\<close>

definition rx_done :: "qemu \<Rightarrow> nat \<Rightarrow> nat \<Rightarrow> nat \<Rightarrow> nat \<Rightarrow> EnaState \<Rightarrow> EnaState" where
  "rx_done Q i c n len v =
     ena_cq_intr Q ((rx_consume i n v)\<lparr>rx_pkts := rx_pkts v + 1, rx_bytes := rx_bytes v + of_nat len\<rparr>) c False"

lemma rx_accept_cases:
  assumes "dev_inv s"
  obtains (no_queue) "ena_rx_sq s (ena_rss_hash Q (s\<lparr>rx_pkt := frame\<rparr>)) = None"
      "rx_accept Q s frame = Inr (rx_drop (s\<lparr>rx_pkt := frame\<rparr>))"
  | (no_buffers) i u where "ena_rx_sq s (ena_rss_hash Q (s\<lparr>rx_pkt := frame\<rparr>)) = Some i"
      "ena_rx_collect Q i (length frame) 0 [] (s\<lparr>rx_pkt := frame\<rparr>) = (None, u)"
      "rx_accept Q s frame = Inr (rx_drop u)"
  | (delivered) i c ds u v where "ena_rx_sq s (ena_rss_hash Q (s\<lparr>rx_pkt := frame\<rparr>)) = Some i"
      "c = unat (sq_cq_idx (sq s ! i))"
      "ena_rx_collect Q i (length frame) 0 [] (s\<lparr>rx_pkt := frame\<rparr>) = (Some ds, u)"
      "rx_reads (s\<lparr>rx_pkt := frame\<rparr>) u" "length ds \<le> sq_posted (sq s ! i)" "length ds \<le> ENA_MAX_PKT_DESCS"
      "list_all (ena_rx_desc_valid (sq s ! i)) ds" "rx_covers 0 (length frame) ds"
      "trace v = trace u @ rx_writes (cq s ! c) (unat (cq_tail (cq s ! c))) i (ena_rx_status Q u)
        (ena_rss_hash Q (s\<lparr>rx_pkt := frame\<rparr>)) (length ds) 0 ds (rx_pieces frame ds)"
      "v = u\<lparr>cq := (cq u)[c := (ena_cq_advance ^^ length ds) (cq u ! c)], trace := trace v\<rparr>"
      "rx_accept Q s frame = Inr (rx_done Q i c (length ds) (length frame) v)"
proof -
  let ?s = "s\<lparr>rx_pkt := frame\<rparr>"
  let ?h = "ena_rss_hash Q ?s"
  have sel: "ena_rx_sq ?s h = ena_rx_sq s h" for h by (simp add: ena_rx_sq_def Let_def)
  show thesis
  proof (cases "ena_rx_sq s ?h")
    case None
    then show thesis by (intro no_queue) (simp_all add: rx_accept_def Let_def sel)
  next
    case (Some i)
    define c where "c = unat (sq_cq_idx (sq s ! i))"
    note wf = rx_queue_wf [OF assms Some c_def]
    obtain r u where r: "ena_rx_collect Q i (length frame) 0 [] ?s = (r, u)" by fastforce
    have col: "rx_collected i (length frame) 0 [] ?s (r, u)"
      using ena_rx_collect_spec [of "[]" ?s i "length frame" 0 Q] r by simp
    show thesis
    proof (cases r)
      case None
      with Some r wf(4) show thesis
        by (intro no_buffers [of i u]) (simp_all add: rx_accept_def Let_def sel c_def)
    next
      case ds: (Some ds)
      from col ds have c1: "rx_reads ?s u" "length ds \<le> sq_posted (sq s ! i)" "length ds \<le> ENA_MAX_PKT_DESCS"
          "list_all (ena_rx_desc_valid (sq s ! i)) ds" "rx_covers 0 (length frame) ds"
        by (simp_all add: rx_collected_def)
      have cqu: "cq u = cq s" using rx_reads_sel(2) [OF c1(1)] by simp
      have 1: "cq_counts (unat (cq_tail (cq s ! c))) (cq u ! c)"
        using dev_invD(9) [OF assms wf(3,4)] by (simp add: cq_sync_def cqu)
      have 2: "c < length (cq u)" using wf(3) dev_invD(4) [OF assms] by (simp add: cqu)
      have 3: "cq_used (cq u ! c)" "unat (cq_entry_size (cq u ! c)) \<le> 32" using wf(4,6) by (simp_all add: cqu)
      obtain v where v: "rx_deliver u c i (ena_rx_status Q u) ?h frame (length ds) 0 0 ds =
            Inr (length (concat (rx_pieces frame ds)), v)"
          "trace v = trace u @ rx_writes (cq s ! c) (unat (cq_tail (cq s ! c))) i (ena_rx_status Q u)
            ?h (length ds) 0 ds (rx_pieces frame ds)"
          "v = u\<lparr>cq := (cq u)[c := (ena_cq_advance ^^ length ds) (cq u ! c)], trace := trace v\<rparr>"
        using rx_deliver_spec [OF 1 2 3, of 0 frame "rx_pieces frame ds" ds i "ena_rx_status Q u" ?h "length ds" 0]
        unfolding drop_0 add_0 cqu by blast
      have full: "length (concat (rx_pieces frame ds)) = length frame"
        using rx_pieces_cover [OF c1(5), of frame] by simp
      have "rx_accept Q s frame = Inr (rx_done Q i c (length ds) (length frame) v)"
        using Some r ds wf(4) v(1) full
        by (simp add: rx_accept_def Let_def sel rx_done_def rx_consume_def flip: c_def)
      with delivered Some c_def r ds c1 v(2,3) show thesis by blast
    qed
  qed
qed

lemma rx_done_step:
  assumes "n \<le> sq_posted (sq v ! i)" and "\<not> sq_is_tx (sq v ! i)"
  shows "rx_step v (rx_done Q i c n len v)"
proof -
  let ?w = "rx_consume i n v"
  have "rx_step ?w (?w\<lparr>rx_pkts := rx_pkts v + 1, rx_bytes := rx_bytes v + of_nat len\<rparr>)"
    by (rule rx_step_same) (simp_all add: dp_step_stats ext_by_same)
  then show ?thesis
    unfolding rx_done_def
    by (rule rx_step_trans [OF rx_step_trans [OF rx_step_consume [OF assms]] rx_step_intr])
qed

lemma rx_accept_runs:
  assumes "dev_inv s"
  shows "\<exists>s'. rx_accept Q s frame = Inr s' \<and> rx_step s s'"
  using assms
proof (cases rule: rx_accept_cases [where Q = Q and frame = frame])
  case no_queue
  then show ?thesis by (simp add: rx_step_trans [OF rx_step_attach rx_step_drop])
next
  case (no_buffers i u)
  have "rx_collected i (length frame) 0 [] (s\<lparr>rx_pkt := frame\<rparr>) (None, u)"
    using ena_rx_collect_spec [of "[]" "s\<lparr>rx_pkt := frame\<rparr>" i "length frame" 0 Q] no_buffers(2) by simp
  then obtain t n where t: "rx_reads (s\<lparr>rx_pkt := frame\<rparr>) t" "n \<le> sq_posted (sq s ! i)" "u = rx_consume i n t"
    by (auto simp: rx_collected_def)
  have "rx_step t u"
    unfolding t(3) using t(2) rx_reads_sel(1) [OF t(1)] rx_queue_wf(2) [OF assms no_buffers(1) refl]
    by (intro rx_step_consume) simp_all
  then have "rx_step s (rx_drop u)"
    by (rule rx_step_trans [OF rx_step_trans [OF rx_step_trans [OF rx_step_attach rx_step_reads [OF t(1)]]] rx_step_drop])
  with no_buffers(3) show ?thesis by simp
next
  case (delivered i c ds u v)
  have sq: "sq u = sq s" "sq v = sq u"
    using rx_reads_sel(1) [OF delivered(4)] by (simp, subst delivered(10), simp)
  have "rx_step u v" using delivered(10,9) by (rule rx_step_deliver)
  moreover have "rx_step v (rx_done Q i c (length ds) (length frame) v)"
    using delivered(5) rx_queue_wf(2) [OF assms delivered(1) refl] by (intro rx_done_step) (simp_all add: sq)
  ultimately have "rx_step s (rx_done Q i c (length ds) (length frame) v)"
    by (rule rx_step_trans [OF rx_step_trans [OF rx_step_trans [OF rx_step_attach rx_step_reads [OF delivered(4)]]]])
  with delivered(11) show ?thesis by simp
qed

subsection \<open>The filter\<close>

definition rx_admits :: "EnaState \<Rightarrow> byte list \<Rightarrow> bool" where
  "rx_admits s frame \<longleftrightarrow> 14 \<le> length frame \<and> length frame \<le> unat (mtu s) + 18 \<and>
     (frame ! 0 AND 1 \<noteq> 0 \<or> take 6 frame = macaddr s)"

lemma rx_limit:
  assumes "dev_inv s"
  shows "unat (mtu s + 14 + 4) = unat (mtu s) + 18" "unat (mtu s) + 18 \<le> ENA_RX_MAX_FRAME"
proof -
  have m: "unat (mtu s) \<le> 9000" using assms by (simp add: dev_inv_def cfg_inv_def ena_const)
  then have "unat (mtu s + 18) = unat (mtu s) + unat (18 :: u32)"
    by (subst unat_plus_if') simp
  then show "unat (mtu s + 14 + 4) = unat (mtu s) + 18" by (simp add: add.assoc)
  show "unat (mtu s) + 18 \<le> ENA_RX_MAX_FRAME" using m by (simp add: ena_const)
qed

lemma ena_rx_receive_iov_eq:
  assumes "iov_ok Q" and "dev_inv s" and "frame = concat iov"
  shows "ena_rx_receive_iov Q s iov =
    (if unat (mtu s) + 18 < length frame then Inr (length frame, rx_drop s)
     else if rx_admits s frame then bindR (rx_accept Q s frame) (\<lambda>s. Inr (length frame, s))
     else Inr (length frame, s))"
proof -
  have "iov_size Q iov = length frame" "iov_to_buf Q iov 0 (length frame) = frame"
    using assms(1,3) by (simp_all add: iov_ok_def)
  moreover have "\<not> unat (mtu s) + 18 < length frame \<Longrightarrow> \<not> ENA_RX_MAX_FRAME < length frame"
    using rx_limit(2) [OF assms(2)] by simp
  ultimately show ?thesis
    unfolding ena_rx_receive_iov_def Let_def rx_admits_def by (simp only: rx_limit(1) [OF assms(2)]) auto
qed

lemma ena_rx_receive_iov_runs:
  assumes "iov_ok Q" and "dev_inv s"
  shows "\<exists>s'. ena_rx_receive_iov Q s iov = Inr (length (concat iov), s') \<and> rx_step s s'"
  using rx_accept_runs [OF assms(2), of Q "concat iov"]
  by (auto simp: ena_rx_receive_iov_eq [OF assms refl] rx_step_drop)

lemma rx_frames_run:
  assumes "iov_ok Q" and "dev_inv s"
  shows "\<exists>s'. rx_frames Q s fs = Inr s' \<and> rx_step s s'"
  using assms(2)
proof (induction fs arbitrary: s)
  case (Cons f fs)
  obtain t where t: "ena_rx_receive_iov Q s f = Inr (length (concat f), t)" "rx_step s t"
    using ena_rx_receive_iov_runs [OF assms(1) Cons.prems] by blast
  then have "dev_inv t" using Cons.prems dp_step_inv by (auto simp: rx_step_def)
  from Cons.IH [OF this] t show ?case by (auto intro: rx_step_trans)
qed simp

lemma net_incoming_runs:
  "iov_ok Q \<Longrightarrow> dev_inv s \<Longrightarrow> \<exists>s'. net_incoming Q s = Inr s' \<and> rx_step s s'"
  by (simp add: net_incoming_def rx_frames_run)

interpretation rx_in: device_op "\<lambda>s. iov_ok Q" "\<lambda>s. bindR (ena_rx_receive_iov Q s iov) (\<lambda>(n, s). Inr s)" for Q iov
proof unfold_locales
  fix s
  assume "dev_inv s" "iov_ok Q"
  from ena_rx_receive_iov_runs [OF this(2,1), of iov]
  show "\<exists>s'. bindR (ena_rx_receive_iov Q s iov) (\<lambda>(n, s). Inr s) = Inr s' \<and> dp_step s s'"
    by (auto simp: rx_step_def)
qed

interpretation rx_db: device_op "\<lambda>s. iov_ok Q \<and> \<not> sq_is_tx (sq s ! i)" "\<lambda>s. ena_rx_doorbell Q s i" for Q i
proof unfold_locales
  fix s
  let ?s = "emit FlushQueuedPackets s"
  assume inv: "dev_inv s" and pre: "iov_ok Q \<and> \<not> sq_is_tx (sq s ! i)"
  have "dev_inv ?s" using inv by (simp add: dev_inv_emit)
  then obtain s' where "net_incoming Q ?s = Inr s'" "dp_step ?s s'"
    using net_incoming_runs [of Q ?s] pre by (auto simp: rx_step_def)
  then show "\<exists>s'. ena_rx_doorbell Q s i = Inr s' \<and> dp_step s s'"
    using pre dp_step_trans [OF dp_step_emit [of FlushQueuedPackets s]] by (auto simp: ena_rx_doorbell_def)
qed

section \<open>What the driver gets\<close>

lemma rx_done_sel:
  assumes "i < length (sq v)"
  shows "sq (rx_done Q i c n len v) = (sq v)[i := (sq v ! i)\<lparr>sq_head := sq_head (sq v ! i) + of_nat n\<rparr>]"
    "cq (rx_done Q i c n len v) = cq v" "rx_pkts (rx_done Q i c n len v) = rx_pkts v + 1"
    "rx_bytes (rx_done Q i c n len v) = rx_bytes v + of_nat len" "rx_drops (rx_done Q i c n len v) = rx_drops v"
    "\<exists>es. trace (rx_done Q i c n len v) = trace v @ es \<and> dma_free es"
proof -
  let ?w = "(rx_consume i n v)\<lparr>rx_pkts := rx_pkts v + 1, rx_bytes := rx_bytes v + of_nat len\<rparr>"
  note f = irq_frameD [OF irq_frame_intr, of Q ?w c False]
  show "sq (rx_done Q i c n len v) = (sq v)[i := (sq v ! i)\<lparr>sq_head := sq_head (sq v ! i) + of_nat n\<rparr>]"
    "cq (rx_done Q i c n len v) = cq v" "rx_pkts (rx_done Q i c n len v) = rx_pkts v + 1"
    "rx_bytes (rx_done Q i c n len v) = rx_bytes v + of_nat len" "rx_drops (rx_done Q i c n len v) = rx_drops v"
    unfolding rx_done_def f by (simp_all add: rx_consume_def)
  show "\<exists>es. trace (rx_done Q i c n len v) = trace v @ es \<and> dma_free es"
    using trace_intr [of Q ?w c False] by (simp add: rx_done_def) (simp add: rx_consume_def)
qed

text \<open>
  C2. Delivery of a frame. When the descriptors the driver has posted cover an admitted frame, the
  device cuts the frame into one non-empty piece per descriptor, none larger than its buffer, whose
  concatenation is the frame; for each it writes the piece and then a completion at the next slot of
  the completion ring, in order, and nothing else. The descriptors are consumed, the ring has counted
  the completions, and the frame is counted once.
\<close>

theorem rx_frame_delivered:
  assumes "iov_ok Q" and "dev_inv s" and "frame = concat iov" and "rx_admits s frame"
    and "hash = ena_rss_hash Q (s\<lparr>rx_pkt := frame\<rparr>)" and "ena_rx_sq s hash = Some i"
    and "q = cq s ! unat (sq_cq_idx (sq s ! i))"
    and "ena_rx_collect Q i (length frame) 0 [] (s\<lparr>rx_pkt := frame\<rparr>) = (Some ds, u)"
  shows "\<exists>s' ps es. ena_rx_receive_iov Q s iov = Inr (length frame, s') \<and> length ps = length ds \<and>
    concat ps = frame \<and> [] \<notin> set ps \<and> (\<forall>k < length ds. length (ps ! k) \<le> ena_rx_desc_size (ds ! k)) \<and>
    trace s' = trace u @ rx_writes q (unat (cq_tail q)) i (ena_rx_status Q u) hash (length ds) 0 ds ps @ es \<and>
    dma_free es \<and> sq_posted (sq s' ! i) + length ds = sq_posted (sq s ! i) \<and>
    cq_counts (unat (cq_tail q) + length ds) (cq s' ! unat (sq_cq_idx (sq s ! i))) \<and>
    rx_pkts s' = rx_pkts s + 1 \<and> rx_bytes s' = rx_bytes s + of_nat (length frame) \<and> rx_drops s' = rx_drops s"
  using assms(2)
proof (cases rule: rx_accept_cases [where Q = Q and frame = frame])
  case no_queue
  with assms(5,6) show ?thesis by simp
next
  case (no_buffers i' u')
  with assms(5,6,8) show ?thesis by simp
next
  case (delivered i' c ds' u' v)
  have [simp]: "i' = i" "ds' = ds" "u' = u" using delivered(1,3) assms(5,6,8) by auto
  have ci: "c = unat (sq_cq_idx (sq s ! i))" using delivered(2) by simp
  have c: "q = cq s ! c" by (simp add: assms(7) ci)
  note wf = rx_queue_wf [OF assms(2,6) ci]
  let ?s' = "rx_done Q i c (length ds) (length frame) v"
  have u: "sq u = sq s" "cq u = cq s" "rx_pkts u = rx_pkts s" "rx_bytes u = rx_bytes s" "rx_drops u = rx_drops s"
    using rx_reads_sel [OF delivered(4)] by simp_all
  have v: "sq v = sq s" "cq v = (cq s)[c := (ena_cq_advance ^^ length ds) q]" "rx_pkts v = rx_pkts s"
      "rx_bytes v = rx_bytes s" "rx_drops v = rx_drops s"
    by (subst delivered(10), simp add: u c)+
  have i: "i < length (sq v)" and cl: "c < length (cq s)"
    using wf(1,3) dev_invD(3,4) [OF assms(2)] by (simp_all add: v)
  obtain es where es: "trace ?s' = trace v @ es" "dma_free es" using rx_done_sel(6) [OF i] by blast
  have "cq_counts (unat (cq_tail q)) q"
    using dev_invD(9) [OF assms(2) wf(3,4)] by (simp add: cq_sync_def c)
  then have cnt: "cq_counts (unat (cq_tail q) + length ds) (cq ?s' ! c)"
    using cl by (simp add: rx_done_sel [OF i] v cq_counts_eq cqr.counts_pushes)
  have post: "sq_posted (sq ?s' ! i) + length ds = sq_posted (sq s ! i)"
    using delivered(5) i sq_posted_advance [of "length ds" "sq s ! i"] by (simp add: rx_done_sel [OF i] v)
  have run: "ena_rx_receive_iov Q s iov = Inr (length frame, ?s')"
    using ena_rx_receive_iov_eq [OF assms(1-3)] delivered(11) assms(4) by (simp add: rx_admits_def)
  have pieces: "concat (rx_pieces frame ds) = frame \<and> [] \<notin> set (rx_pieces frame ds)"
    using rx_pieces_cover [OF delivered(8), of frame] by simp
  show ?thesis
    by (rule exI [of _ ?s'], rule exI [of _ "rx_pieces frame ds"], rule exI [of _ es])
      (use run pieces rx_pieces_fit es cnt post delivered(9) in
        \<open>simp add: rx_done_sel [OF i] v c assms(5) flip: ci\<close>)
qed

text \<open>
  C16. Every frame has one of three outcomes, and the device always returns its full length and keeps
  its invariant. A frame above the MTU is only counted as dropped; one that is too short or not for
  this device changes nothing; any other is either delivered and counted once, or counted as one drop
  after descriptor reads only, with no completion and no interrupt.
\<close>

theorem rx_outcomes:
  assumes "iov_ok Q" and "dev_inv s" and "frame = concat iov"
  shows "\<exists>s'. ena_rx_receive_iov Q s iov = Inr (length frame, s') \<and> dev_inv s' \<and> cfg s' = cfg s \<and>
    (if unat (mtu s) + 18 < length frame then s' = s\<lparr>rx_drops := rx_drops s + 1\<rparr>
     else if \<not> rx_admits s frame then s' = s
     else rx_pkts s' = rx_pkts s + 1 \<and> rx_bytes s' = rx_bytes s + of_nat (length frame) \<and> rx_drops s' = rx_drops s \<or>
       rx_pkts s' = rx_pkts s \<and> rx_bytes s' = rx_bytes s \<and> rx_drops s' = rx_drops s + 1 \<and>
       cq s' = cq s \<and> irq s' = irq s \<and> (\<exists>as. trace s' = trace s @ map (\<lambda>a. DmaRead a 16) as))"
proof -
  obtain s' where s': "ena_rx_receive_iov Q s iov = Inr (length frame, s')" "rx_step s s'"
    using ena_rx_receive_iov_runs [OF assms(1,2), of iov] assms(3) by auto
  have keep: "dev_inv s'" "cfg s' = cfg s"
    using s'(2) dp_step_inv [OF assms(2)] by (auto simp: rx_step_def dp_step_def)
  note eq = ena_rx_receive_iov_eq [OF assms] s'(1)
  show ?thesis
  proof (cases "rx_admits s frame")
    case False
    then show ?thesis using eq s'(1) keep by (auto simp: rx_drop_def split: if_splits)
  next
    case True
    then have len: "\<not> unat (mtu s) + 18 < length frame" by (simp add: rx_admits_def)
    then have "bindR (rx_accept Q s frame) (\<lambda>s. Inr (length frame, s)) = Inr (length frame, s')"
      using True eq by simp
    then have acc: "rx_accept Q s frame = Inr s'" by (auto simp: bindR_eq_Inr)
    have "rx_pkts s' = rx_pkts s + 1 \<and> rx_bytes s' = rx_bytes s + of_nat (length frame) \<and> rx_drops s' = rx_drops s \<or>
       rx_pkts s' = rx_pkts s \<and> rx_bytes s' = rx_bytes s \<and> rx_drops s' = rx_drops s + 1 \<and>
       cq s' = cq s \<and> irq s' = irq s \<and> (\<exists>as. trace s' = trace s @ map (\<lambda>a. DmaRead a 16) as)"
      using assms(2)
    proof (cases rule: rx_accept_cases [where Q = Q and frame = frame])
      case no_queue
      then show ?thesis using acc by (auto simp: rx_drop_def)
    next
      case (no_buffers i u)
      have "rx_collected i (length frame) 0 [] (s\<lparr>rx_pkt := frame\<rparr>) (None, u)"
        using ena_rx_collect_spec [of "[]" "s\<lparr>rx_pkt := frame\<rparr>" i "length frame" 0 Q] no_buffers(2) by simp
      then show ?thesis
        using no_buffers(3) acc by (auto simp: rx_collected_def rx_reads_def rx_consume_def rx_drop_def)
    next
      case (delivered i c ds u v)
      have "sq u = sq s" "rx_pkts u = rx_pkts s" "rx_bytes u = rx_bytes s" "rx_drops u = rx_drops s"
        using rx_reads_sel [OF delivered(4)] by simp_all
      then have v: "sq v = sq s" "rx_pkts v = rx_pkts s" "rx_bytes v = rx_bytes s" "rx_drops v = rx_drops s"
        by (subst delivered(10), simp)+
      have "i < length (sq v)"
        using rx_queue_wf(1) [OF assms(2) delivered(1) refl] dev_invD(3) [OF assms(2)] by (simp add: v)
      from rx_done_sel [OF this, of Q c "length ds" "length frame"] show ?thesis
        using acc delivered(11) by (simp add: v)
    qed
    with s'(1) keep True len show ?thesis by auto
  qed
qed

lemmas rx_status_masks = ENA_ETH_IO_RX_CDESC_BASE_BUFFER_MASK_def ENA_ETH_IO_L3_PROTO_IPV4_def
  ENA_ETH_IO_L3_PROTO_IPV6_def ENA_ETH_IO_RX_CDESC_BASE_IPV4_FRAG_MASK_def
  ENA_ETH_IO_RX_CDESC_BASE_L3_CSUM_ERR_MASK_def ENA_ETH_IO_L4_PROTO_TCP_def ENA_ETH_IO_L4_PROTO_UDP_def
  ENA_ETH_IO_RX_CDESC_BASE_L4_PROTO_IDX_SHIFT_def ENA_ETH_IO_RX_CDESC_BASE_L4_CSUM_CHECKED_MASK_def
  ENA_ETH_IO_RX_CDESC_BASE_L4_CSUM_ERR_MASK_def

lemma rx_status_bits:
  assumes "b = 24 \<or> b = 26 \<or> b = 27"
  shows "\<not> bit (ena_rx_status Q s) b"
proof -
  have b: "\<not> bit (8 :: u32) b" "\<not> bit (11 :: u32) b" "\<not> bit (push_bit 8 12 :: u32) b" "\<not> bit (push_bit 8 13 :: u32) b"
    "b \<noteq> 30" "b \<noteq> 13" "b \<noteq> 14" "b \<noteq> 15" "b \<noteq> 16"
    using assms by auto
  have if_bit: "bit (if c then x else y) b = (if c then bit x b else bit y b)" for c and x y :: u32
    by simp
  have let_bit: "bit (case p of (d, v) \<Rightarrow> f d v) b = (case p of (d, v) \<Rightarrow> bit (f d v) b)" for p and f :: "bool \<Rightarrow> bool \<Rightarrow> u32"
    by (cases p) simp
  obtain ip4 ip6 l4 where "net_rx_pkt_get_protocols Q (rx_pkt s) = (ip4, ip6, l4)" by (cases rule: prod_cases3)
  then show ?thesis
    unfolding ena_rx_status_def Let_def
    using b assms
    by (simp only: prod.case if_bit let_bit bit_or_iff bit_BIT rx_status_masks) (auto split: prod.splits)
qed

lemma flag_cut: "drop_bit n ((w :: 'a::len word) AND BIT n) = of_bool (bit w n)"
  by (rule bit_word_eqI) (auto simp: bit_simps dest: bit_imp_le_length)

lemma rx_bits_bit:
  "bit (rx_bits status n k) b \<longleftrightarrow> bit status b \<or> k = 0 \<and> b = 26 \<or> k = n - 1 \<and> b = 27"
  by (auto simp: rx_bits_def Let_def bit_or_iff ENA_ETH_IO_RX_CDESC_BASE_FIRST_MASK_def ENA_ETH_IO_RX_CDESC_BASE_LAST_MASK_def)

lemma rx_cdesc_base_read:
  assumes "16 \<le> e"
  shows "dec_ena_eth_io_rx_cdesc_base (take e (enc_ena_eth_io_rx_cdesc_ext x)) = rx_cdesc_ext_base x"
proof -
  have "length (enc_ena_eth_io_rx_cdesc_base (rx_cdesc_ext_base x)) = 16"
    by (simp add: rx_cdesc_base.enc_size)
  with assms show ?thesis
    by (simp add: enc_ena_eth_io_rx_cdesc_ext_def rx_cdesc_base.dec_enc)
qed

text \<open>
  C31. What a receive completion says. Read back by the driver, entry \<open>k\<close> of \<open>n\<close> carries the length
  of its piece and the request id of its descriptor, has \<open>FIRST\<close> exactly for the first and \<open>LAST\<close>
  exactly for the last piece, the phase of the lap it is written on, and the hash and the index of
  the submission queue.
\<close>

theorem rx_completion_fields:
  assumes "16 \<le> e" and "k < n" and "length piece < 65536"
    and "d = dec_ena_eth_io_rx_cdesc_base (take e (enc_ena_eth_io_rx_cdesc_ext
      (rx_round_cdesc q m i (ena_rx_status Q u) hash n k desc piece)))"
  shows "unat (rx_cdesc_base_length d) = length piece \<and> rx_cdesc_base_req_id d = rx_desc_req_id desc \<and>
    rx_cdesc_base_hash d = hash \<and> rx_cdesc_base_sub_qid d = of_nat i \<and>
    get_ena_eth_io_rx_cdesc_base_first d = of_bool (k = 0) \<and>
    get_ena_eth_io_rx_cdesc_base_last d = of_bool (Suc k = n) \<and>
    get_ena_eth_io_rx_cdesc_base_phase d = of_bool (even (m div unat (cq_depth q)))"
proof -
  let ?p = "even (m div unat (cq_depth q))" and ?st = "rx_bits (ena_rx_status Q u) n k"
  have d: "d = \<lparr>rx_cdesc_base_status = (if ?p then ?st OR ENA_ETH_IO_RX_CDESC_BASE_PHASE_MASK else ?st),
      rx_cdesc_base_length = of_nat (length piece), rx_cdesc_base_req_id = rx_desc_req_id desc,
      rx_cdesc_base_hash = hash, rx_cdesc_base_sub_qid = of_nat i, rx_cdesc_base_offset = 0,
      rx_cdesc_base_reserved = 0\<rparr>"
    by (simp add: assms(4) rx_cdesc_base_read [OF assms(1)] rx_round_cdesc_def rx_cdesc_def)
  have st: "bit (rx_cdesc_base_status d) b \<longleftrightarrow> bit ?st b \<or> ?p \<and> b = 24" for b
    by (simp add: d bit_or_iff ENA_ETH_IO_RX_CDESC_BASE_PHASE_MASK_def)
  have last: "k = n - 1 \<longleftrightarrow> Suc k = n" using assms(2) by auto
  note clear = rx_status_bits [of 24 Q u] rx_status_bits [of 26 Q u] rx_status_bits [of 27 Q u]
  have "get_ena_eth_io_rx_cdesc_base_first d = of_bool (k = 0)"
    unfolding get_ena_eth_io_rx_cdesc_base_first_def ENA_ETH_IO_RX_CDESC_BASE_FIRST_MASK_def
      ENA_ETH_IO_RX_CDESC_BASE_FIRST_SHIFT_def flag_cut st rx_bits_bit using clear by simp
  moreover have "get_ena_eth_io_rx_cdesc_base_last d = of_bool (Suc k = n)"
    unfolding get_ena_eth_io_rx_cdesc_base_last_def ENA_ETH_IO_RX_CDESC_BASE_LAST_MASK_def
      ENA_ETH_IO_RX_CDESC_BASE_LAST_SHIFT_def flag_cut st rx_bits_bit last using clear by simp
  moreover have "get_ena_eth_io_rx_cdesc_base_phase d = of_bool ?p"
    unfolding get_ena_eth_io_rx_cdesc_base_phase_def ENA_ETH_IO_RX_CDESC_BASE_PHASE_MASK_def
      ENA_ETH_IO_RX_CDESC_BASE_PHASE_SHIFT_def flag_cut st rx_bits_bit using clear by simp
  moreover have "unat (rx_cdesc_base_length d) = length piece"
    using assms(3) by (simp add: d unat_of_nat_small)
  moreover have "rx_cdesc_base_req_id d = rx_desc_req_id desc" "rx_cdesc_base_hash d = hash"
      "rx_cdesc_base_sub_qid d = of_nat i"
    by (simp_all add: d)
  ultimately show ?thesis by blast
qed

text \<open>
  C32. Receive-side scaling picks a queue that can take the frame: the one the indirection table
  names for the low seven bits of the hash if it is a used receive queue, otherwise the receive queue
  with the lowest index; there is no queue exactly when the device has no receive queue.
\<close>

theorem rx_steering:
  assumes "dev_inv s" and "e = unat (rss_ind_tbl (rss s) ! (unat hash mod 128))"
  shows "case ena_rx_sq s hash of
      None \<Rightarrow> \<forall>i < 16. \<not> rx_usable (sq s ! i)
    | Some i \<Rightarrow> i < 16 \<and> rx_usable (sq s ! i) \<and>
        (if rx_usable (sq s ! e) then i = e else \<forall>j < i. \<not> rx_usable (sq s ! j))"
proof -
  have idx: "unat (hash AND (of_nat ENA_RSS_IND_TBL_SIZE - 1)) = unat hash mod 128"
    using unat_and_pow2_mask [of 7 hash] by (simp add: ena_const)
  have "length (rss_ind_tbl (rss s)) = 128" "list_all (\<lambda>i. unat i < ENA_MAX_SQ) (rss_ind_tbl (rss s))"
    using assms(1) by (simp_all add: dev_inv_def cfg_inv_def rss_wf_def ENA_RSS_IND_TBL_SIZE_def ena_const)
  then have e: "e < ENA_MAX_SQ" by (simp add: assms(2) list_all_length)
  show ?thesis
    using e by (auto simp: ena_rx_sq_def Let_def idx max_sq find_None_iff find_Some_iff
        simp flip: assms(2) split: option.splits)
qed

text \<open>
  C33. Flow control is sound: while the device reports that it cannot receive, no receive queue has a
  posted descriptor, and a frame for the device that were handed to it would be dropped and counted.
\<close>

theorem rx_can_receive_sound:
  assumes "iov_ok Q" and "dev_inv s" and "frame = concat iov" and "rx_admits s frame" and "\<not> ena_rx_can_receive s"
  shows "\<exists>s'. ena_rx_receive_iov Q s iov = Inr (length frame, s') \<and> rx_drops s' = rx_drops s + 1 \<and>
    rx_pkts s' = rx_pkts s \<and> rx_bytes s' = rx_bytes s \<and> cq s' = cq s"
proof -
  have empty: "sq_posted (sq s ! i) = 0" if "i < 16" "rx_usable (sq s ! i)" for i
    using that assms(5) by (simp add: ena_rx_can_receive_def list_ex_iff max_sq sq_posted_def)
  have acc: "ena_rx_receive_iov Q s iov = bindR (rx_accept Q s frame) (\<lambda>s. Inr (length frame, s))"
    using ena_rx_receive_iov_eq [OF assms(1-3)] assms(4) by (simp add: rx_admits_def)
  show ?thesis
    using assms(2)
  proof (cases rule: rx_accept_cases [where Q = Q and frame = frame])
    case no_queue
    then show ?thesis by (simp add: acc rx_drop_def)
  next
    case (no_buffers i u)
    have "rx_collected i (length frame) 0 [] (s\<lparr>rx_pkt := frame\<rparr>) (None, u)"
      using ena_rx_collect_spec [of "[]" "s\<lparr>rx_pkt := frame\<rparr>" i "length frame" 0 Q] no_buffers(2) by simp
    then show ?thesis
      using no_buffers(3) by (auto simp: acc rx_collected_def rx_reads_def rx_consume_def rx_drop_def)
  next
    case (delivered i c ds u v)
    have "ds = []" using empty [of i] ena_rx_sq_usable [OF delivered(1)] delivered(5) by simp
    with delivered(8) assms(4) show ?thesis by (simp add: rx_admits_def)
  qed
qed

text \<open>
  The Toeplitz key stream is the key as the driver wrote it to memory, read backwards: the bytes
  of the little-endian words from the last to the first.
\<close>

theorem rss_key_stream:
  assumes "dev_inv s"
  shows "ena_rss_key s = rev (concat (map le32 (rss_key (rss s)))) \<and> length (ena_rss_key s) = 40"
proof -
  have len: "length (rss_key (rss s)) = 10"
    using assms by (simp add: dev_inv_def cfg_inv_def rss_wf_def ENA_ADMIN_RSS_KEY_PARTS_def)
  have "map (\<lambda>i. be32 (rss_key (rss s) ! (10 - 1 - i))) [0..<10] = map be32 (rev (rss_key (rss s)))"
    using len by (intro nth_equalityI) (auto simp: rev_nth simp del: upt_conv_Cons)
  then have "ena_rss_key s = concat (map be32 (rev (rss_key (rss s))))"
    by (simp only: ena_rss_key_def ENA_ADMIN_RSS_KEY_PARTS_def)
  moreover have "be32 = (\<lambda>v. rev (le32 v))" by (rule ext) (simp add: be32_def)
  ultimately show ?thesis
    using len by (simp add: rev_concat rev_map be32_def o_def length_concat sum_list_triv)
qed

section \<open>A concrete frame\<close>

text \<open>
  The queues of \<open>queue_state\<close> with two 16-byte buffers posted on the receive queue, and a broadcast
  frame of 20 bytes.
\<close>

definition rx_state :: EnaState where
  "rx_state = queue_state\<lparr>sq := (sq queue_state)[1 := (sample_sq False 0x20000)\<lparr>sq_tail := 2\<rparr>]\<rparr>"

definition rx_ring :: "byte list" where
  "rx_ring = [16, 0, 0, 28, 0, 0, 0, 0, 0, 0, 3, 0, 0, 0, 0, 0, 16, 0, 0, 28, 1, 0, 0, 0, 0, 0, 4, 0, 0, 0, 0, 0]"

definition rx_mem :: "u64 \<Rightarrow> byte" where
  "rx_mem a = (let k = unat (a - 0x20000) in if k < 32 then rx_ring ! k else 0)"

definition rx_frame :: "byte list" where
  "rx_frame = [0xff, 0xff, 0xff, 0xff, 0xff, 0xff, 2, 0, 0, 0, 0, 2, 8, 6, 7, 7, 7, 7, 7, 7]"

abbreviation rx_qemu :: qemu where
  "rx_qemu \<equiv> quiet_qemu rx_mem (\<lambda>_. 0)"

definition rx_slot :: "u16 \<Rightarrow> u32 \<Rightarrow> ena_eth_io_rx_desc" where
  "rx_slot req lo = \<lparr>rx_desc_length = 16, rx_desc_reserved2 = 0, rx_desc_ctrl = 28, rx_desc_req_id = req,
     rx_desc_reserved6 = 0, rx_desc_buff_addr_lo = lo, rx_desc_buff_addr_hi = 0, rx_desc_reserved16_w3 = 0\<rparr>"

lemma rx_ring_read:
  "dec_ena_eth_io_rx_desc (map (dma_byte rx_qemu tr 0x20000 16) [0..<16]) = rx_slot 0 0x30000"
  "dec_ena_eth_io_rx_desc (map (dma_byte rx_qemu tr 0x20010 16) [0..<16]) = rx_slot 1 0x40000"
  by (simp_all add: rx_slot_def dec_ena_eth_io_rx_desc_def get_le16_def get_le32_def get8_def quiet_qemu_def
      rx_mem_def rx_ring_def)

lemma rx_state_sel:
  "cq rx_state = cq queue_state" "sq rx_state ! Suc 0 = (sample_sq False 0x20000)\<lparr>sq_tail := 2\<rparr>"
  "sq rx_state ! 0 = sample_sq True 0x10000" "rss rx_state = rss queue_state" "mtu rx_state = mtu queue_state"
  "rx_pkts rx_state = rx_pkts queue_state"
  using dev_invD(3) [OF queue_state_inv] by (simp_all add: rx_state_def)

lemma rx_state_inv: "dev_inv rx_state"
proof -
  have "sq_wf (cq queue_state) (sq queue_state ! 1)"
    by (rule dev_invD(7) [OF queue_state_inv]) simp
  then have "sq_wf (cq queue_state) ((sample_sq False 0x20000)\<lparr>sq_tail := 2\<rparr>)"
    by (simp add: sq_wf_def)
  then show ?thesis
    unfolding rx_state_def
    by (intro dev_inv_set_sq queue_state_inv) (simp_all add: sample_sq_def zero_sq_def sq_posted_def)
qed

lemma rx_state_hash: "ena_rss_hash rx_qemu s = 0"
  by (simp add: ena_rss_hash_def quiet_qemu_def)

lemma rx_state_queue: "ena_rx_sq rx_state 0 = Some 1"
proof -
  have 0: "\<not> rx_usable (sq rx_state ! 0)" by (simp add: rx_usable_def rx_state_sel sample_sq_def zero_sq_def)
  have 1: "rx_usable (sq rx_state ! 1)" by (simp add: rx_usable_def rx_state_sel sample_sq_def zero_sq_def)
  have "rss_ind_tbl (rss rx_state) = replicate 128 0"
    by (simp add: rx_state_sel queue_state_def fresh_state_def ena_dev_reset_sel ena_rss_reset_def ind_tbl_size)
  moreover have "[0..<16] = 0 # 1 # [2..<16]" by (simp add: upt_conv_Cons)
  ultimately show ?thesis
    using 0 1 by (simp add: ena_rx_sq_def Let_def max_sq)
qed

lemma rx_state_collect:
  "ena_rx_collect rx_qemu 1 20 0 [] (rx_state\<lparr>rx_pkt := rx_frame\<rparr>) =
     (Some [rx_slot 0 0x30000, rx_slot 1 0x40000],
      emit (DmaRead 0x20010 16) (emit (DmaRead 0x20000 16) (rx_state\<lparr>rx_pkt := rx_frame\<rparr>)))"
proof -
  let ?q = "(sample_sq False 0x20000)\<lparr>sq_tail := 2\<rparr>"
  have addr: "rx_ring_addr ?q 0 = 0x20000" "rx_ring_addr ?q (Suc 0) = 0x20010"
    by (simp_all add: rx_ring_addr_def sample_sq_def zero_sq_def)
  have valid: "ena_rx_desc_valid ?q (rx_slot 0 a)" "ena_rx_desc_valid ?q (rx_slot 1 a)" for a
    by (simp_all add: ena_rx_desc_valid_def rx_slot_def sample_sq_def zero_sq_def BIT_def
        ENA_ETH_IO_RX_DESC_FIRST_MASK_def ENA_ETH_IO_RX_DESC_LAST_MASK_def ENA_ETH_IO_RX_DESC_COMP_REQ_MASK_def)
  have size: "ena_rx_desc_size (rx_slot r a) = 16" for r a
    by (simp add: ena_rx_desc_size_def rx_slot_def)
  have ok: "dma_ok rx_qemu tr a n" for tr a n by (simp add: quiet_qemu_def)
  have av: "sq_posted ?q = 2" by (simp add: sq_posted_def sample_sq_def zero_sq_def)
  have md: "ENA_MAX_PKT_DESCS = 17" by (simp add: ena_const)
  let ?s = "rx_state\<lparr>rx_pkt := rx_frame\<rparr>"
  have "ena_rx_collect rx_qemu 1 20 0 [] ?s =
      ena_rx_collect rx_qemu 1 20 16 [rx_slot 0 0x30000] (emit (DmaRead 0x20000 16) ?s)"
    by (subst ena_rx_collect_more [OF _ _ _ refl _ refl])
      (simp_all add: rx_state_sel addr rx_ring_read valid size ok av md)
  also have "\<dots> = ena_rx_collect rx_qemu 1 20 32 [rx_slot 0 0x30000, rx_slot 1 0x40000]
      (emit (DmaRead 0x20010 16) (emit (DmaRead 0x20000 16) ?s))"
    by (subst ena_rx_collect_more [OF _ _ _ refl _ refl])
      (simp_all add: rx_state_sel addr rx_ring_read valid size ok av md)
  also have "\<dots> = (Some [rx_slot 0 0x30000, rx_slot 1 0x40000],
      emit (DmaRead 0x20010 16) (emit (DmaRead 0x20000 16) ?s))"
    by (subst ena_rx_collect.simps) simp
  finally show ?thesis .
qed

lemma rx_state_admits: "rx_admits rx_state rx_frame"
proof -
  have "128 \<le> unat (mtu rx_state)" using rx_state_inv by (simp add: dev_inv_def cfg_inv_def ena_const)
  then show ?thesis by (simp add: rx_admits_def rx_frame_def)
qed

theorem rx_frame_delivered_witness:
  "\<exists>s' ps. ena_rx_receive_iov rx_qemu rx_state [rx_frame] = Inr (20, s') \<and> concat ps = rx_frame \<and>
     length ps = Suc 1 \<and> rx_pkts s' = rx_pkts rx_state + 1"
proof -
  have len: "length rx_frame = 20" by (simp add: rx_frame_def)
  let ?ds = "[rx_slot 0 0x30000, rx_slot 1 0x40000]"
  let ?u = "emit (DmaRead 0x20010 16) (emit (DmaRead 0x20000 16) (rx_state\<lparr>rx_pkt := rx_frame\<rparr>))"
  have "rx_frame = concat [rx_frame]" by simp
  from rx_frame_delivered [OF quiet_iov_ok rx_state_inv this rx_state_admits rx_state_hash [symmetric]
      rx_state_queue refl, of ?ds ?u] rx_state_collect
  have "\<exists>s' ps es. ena_rx_receive_iov rx_qemu rx_state [rx_frame] = Inr (length rx_frame, s') \<and>
      length ps = length ?ds \<and> concat ps = rx_frame \<and> rx_pkts s' = rx_pkts rx_state + 1"
    unfolding len by blast
  then show ?thesis by (auto simp: len)
qed

theorem rx_outcomes_witness:
  "\<exists>s'. ena_rx_receive_iov rx_qemu rx_state [replicate 10 0] = Inr (10, s') \<and> s' = rx_state"
proof -
  have "\<not> rx_admits rx_state (replicate 10 0)" by (simp add: rx_admits_def)
  then show ?thesis
    using rx_outcomes [OF quiet_iov_ok rx_state_inv refl, of rx_mem "\<lambda>_. 0" "[replicate 10 0]"] by simp
qed

theorem rx_completion_fields_witness:
  "get_ena_eth_io_rx_cdesc_base_last (dec_ena_eth_io_rx_cdesc_base (take 16 (enc_ena_eth_io_rx_cdesc_ext
     (rx_round_cdesc sample_cq 5 1 (ena_rx_status rx_qemu rx_state) 0 2 1 (rx_slot 1 0x40000) [7, 7, 7, 7])))) = 1"
  using rx_completion_fields [of 16 1 2 "[7, 7, 7, 7]" _ sample_cq 5 1 rx_qemu rx_state 0 "rx_slot 1 0x40000", OF _ _ _ refl]
  by simp

theorem rx_steering_witness:
  "case ena_rx_sq rx_state 0 of None \<Rightarrow> False | Some i \<Rightarrow> rx_usable (sq rx_state ! i)"
  using rx_steering [OF rx_state_inv refl, of 0] by (simp add: rx_state_queue)

theorem rx_can_receive_sound_witness:
  "\<exists>s'. ena_rx_receive_iov rx_qemu queue_state [rx_frame] = Inr (20, s') \<and> rx_drops s' = rx_drops queue_state + 1"
proof -
  have len: "length rx_frame = 20" by (simp add: rx_frame_def)
  have "rx_admits queue_state rx_frame"
    using rx_state_admits by (simp add: rx_admits_def rx_state_sel rx_frame_def)
  moreover have "\<not> ena_rx_can_receive queue_state"
  proof -
    have other: "\<not> sq_used (sq queue_state ! i)" if "i < 16" "i \<noteq> 0" "i \<noteq> 1" for i
      using that dev_invD(3) [OF fresh_inv] by (simp add: queue_state_def fresh_state_def ena_dev_reset_sel zero_sq_def max_sq)
    have "sq_head (sq queue_state ! i) = sq_tail (sq queue_state ! i)" if "i < 16" "rx_usable (sq queue_state ! i)" for i
      using that other [of i]
      by (cases "i = 0"; cases "i = 1") (auto simp: rx_usable_def sample_sq_def zero_sq_def)
    moreover have "\<exists>i \<in> {0..<16}. rx_usable (sq queue_state ! i)"
      by (rule bexI [of _ 1]) (simp_all add: rx_usable_def sample_sq_def zero_sq_def)
    ultimately show ?thesis by (auto simp: ena_rx_can_receive_def list_ex_iff max_sq)
  qed
  ultimately show ?thesis
    using rx_can_receive_sound [OF quiet_iov_ok queue_state_inv refl, of "[rx_frame]" rx_mem "\<lambda>_. 0"]
    by (auto simp: len)
qed

theorem rss_key_stream_witness: "length (ena_rss_key rx_state) = 40"
  by (rule rss_key_stream [OF rx_state_inv, THEN conjunct2])

end
