(* ===== verification/Ena_Tx.thy ===== *)
theory Ena_Tx
  imports Ena_Rx
begin

text \<open>
  The transmit path (\<open>src/hw/ena_tx.c\<close>): descriptors in host memory or in the low-latency queue
  memory of the device, the parser that groups them into packets, the frame with its offloads, and
  the completions. A submission queue is named by its index.
\<close>

section \<open>Descriptor slots\<close>

definition ENA_TX_DESC_SIZE :: nat where
  [ena_const]: "ENA_TX_DESC_SIZE = 16"

definition ENA_LLQ_HEADER_OFF :: nat where
  [ena_const]: "ENA_LLQ_HEADER_OFF = ENA_LLQ_DESCS_BEFORE_HEADER * ENA_TX_DESC_SIZE"

definition ENA_LLQ_MAX_HEADER :: nat where
  [ena_const]: "ENA_LLQ_MAX_HEADER = ENA_LLQ_LARGE_ENTRY_SIZE - ENA_LLQ_HEADER_OFF"

definition ENA_TX_MAX_PKT :: nat where
  [ena_const]: "ENA_TX_MAX_PKT = 65536 + ENA_LLQ_MAX_HEADER"

text \<open>The packet under construction; \<open>ndesc\<close> is the number of descriptors collected.\<close>

record EnaTxPkt =
  pkt_desc :: "ena_eth_io_tx_desc list"
  pkt_slots :: nat
  pkt_have_meta :: bool
  pkt_meta :: EnaTxMeta

definition zero_pkt :: EnaTxPkt where
  "zero_pkt = \<lparr>pkt_desc = [], pkt_slots = 0, pkt_have_meta = False, pkt_meta = zero_meta\<rparr>"

definition ena_llq_descs_per_entry :: "EnaSq \<Rightarrow> nat" where
  "ena_llq_descs_per_entry q = unat (sq_entry_size q) div ENA_TX_DESC_SIZE"

definition ena_llq_slot_line :: "EnaSq \<Rightarrow> nat \<Rightarrow> nat" where
  "ena_llq_slot_line q slot =
     (if slot < ENA_LLQ_DESCS_BEFORE_HEADER then 0
      else 1 + (slot - ENA_LLQ_DESCS_BEFORE_HEADER) div ena_llq_descs_per_entry q)"

definition ena_llq_slot_off :: "EnaSq \<Rightarrow> nat \<Rightarrow> nat" where
  "ena_llq_slot_off q slot =
     (if slot < ENA_LLQ_DESCS_BEFORE_HEADER then slot * ENA_TX_DESC_SIZE
      else (slot - ENA_LLQ_DESCS_BEFORE_HEADER) mod ena_llq_descs_per_entry q * ENA_TX_DESC_SIZE)"

definition ena_tx_pkt_entries :: "EnaSq \<Rightarrow> nat \<Rightarrow> nat result" where
  "ena_tx_pkt_entries q slots =
     (if slots = 0 then Inl (AssertFailed A_pkt_entries)
      else Inr (if sq_llq q then ena_llq_slot_line q (slots - 1) + 1 else slots))"

text \<open>A read of the LLQ memory, a RAM of \<open>ENA_MEM_BAR_SIZE\<close> bytes that the guest writes to.\<close>

definition ena_llq_mem :: "EnaSq \<Rightarrow> nat \<Rightarrow> nat result" where
  "ena_llq_mem q i = (if \<not> sq_llq q then Inl (AssertFailed A_llq_mem) else Inr (i * ENA_LLQ_QUEUE_BYTES))"

definition llq_read :: "qemu \<Rightarrow> EnaState \<Rightarrow> nat \<Rightarrow> nat \<Rightarrow> (byte list \<times> EnaState) result" where
  "llq_read Q s off n =
     (if ENA_MEM_BAR_SIZE < off + n then Inl OutOfBounds
      else Inr (map (\<lambda>k. llq_byte Q (trace s) (off + k)) [0..<n], emit (LlqRead off n) s))"

definition ena_tx_read_slot :: "qemu \<Rightarrow> EnaState \<Rightarrow> nat \<Rightarrow> nat \<Rightarrow> (byte list \<times> EnaState) result" where
  "ena_tx_read_slot Q s i slot =
     (let q = sq s ! i; mask = sq_depth q - 1
      in if sq_llq q
         then let line = (sq_head q + of_nat (ena_llq_slot_line q slot)) AND mask
              in bindR (ena_llq_mem q i)
                   (\<lambda>base. llq_read Q s (base + unat line * unat (sq_entry_size q) + ena_llq_slot_off q slot)
                             ENA_TX_DESC_SIZE)
         else let (bs, ok, s) = ena_dma_read Q s
                    (sq_base q + ucast ((ucast (sq_head q) + of_nat slot) AND ucast mask :: u32) * 16) ENA_TX_DESC_SIZE
              in Inr (bs, s))"

definition ena_tx_llq_header :: "EnaState \<Rightarrow> nat \<Rightarrow> nat result" where
  "ena_tx_llq_header s i =
     (let q = sq s ! i; line = sq_head q AND (sq_depth q - 1)
      in bindR (ena_llq_mem q i)
           (\<lambda>base. Inr (base + unat line * unat (sq_entry_size q) + ENA_LLQ_HEADER_OFF)))"

section \<open>Parsing\<close>

definition ena_tx_read_meta :: "EnaTxPkt \<Rightarrow> ena_eth_io_tx_meta_desc \<Rightarrow> EnaTxPkt" where
  "ena_tx_read_meta p m =
     (let len_ctrl = tx_meta_desc_len_ctrl m; word2 = tx_meta_desc_word2 m
      in p\<lparr>pkt_have_meta := True,
           pkt_meta := \<lparr>
             meta_mss = ucast (drop_bit ENA_ETH_IO_TX_META_DESC_MSS_LO_SHIFT
                          (word2 AND ENA_ETH_IO_TX_META_DESC_MSS_LO_MASK) OR
                        push_bit 10 (drop_bit ENA_ETH_IO_TX_META_DESC_MSS_HI_SHIFT
                          (len_ctrl AND ENA_ETH_IO_TX_META_DESC_MSS_HI_MASK))),
             meta_l3_hdr_len = ucast (word2 AND ENA_ETH_IO_TX_META_DESC_L3_HDR_LEN_MASK),
             meta_l3_hdr_off = ucast (drop_bit ENA_ETH_IO_TX_META_DESC_L3_HDR_OFF_SHIFT
                          (word2 AND ENA_ETH_IO_TX_META_DESC_L3_HDR_OFF_MASK)),
             meta_l4_hdr_len_words = ucast (drop_bit ENA_ETH_IO_TX_META_DESC_L4_HDR_LEN_IN_WORDS_SHIFT
                          (word2 AND ENA_ETH_IO_TX_META_DESC_L4_HDR_LEN_IN_WORDS_MASK))\<rparr>\<rparr>)"

definition ena_tx_slot_posted :: "EnaSq \<Rightarrow> nat \<Rightarrow> u16 \<Rightarrow> bool" where
  "ena_tx_slot_posted q slot avail \<longleftrightarrow> (if sq_llq q then ena_llq_slot_line q slot else slot) < unat avail"

text \<open>The loop of \<open>ena_tx_parse\<close> from a slot on; \<open>None\<close> is a malformed packet.\<close>

function tx_parse_loop :: "qemu \<Rightarrow> nat \<Rightarrow> u16 \<Rightarrow> nat \<Rightarrow> EnaTxPkt \<Rightarrow> EnaState \<Rightarrow> (EnaTxPkt option \<times> EnaState) result" where
  "tx_parse_loop Q i avail slot p s =
     (if ENA_MAX_PKT_DESCS + 1 \<le> slot then Inr (None, s)
      else if \<not> ena_tx_slot_posted (sq s ! i) slot avail then Inr (None, s)
      else bindR (ena_tx_read_slot Q s i slot) (\<lambda>(bs, s).
        let d = dec_ena_eth_io_tx_desc bs; len_ctrl = tx_desc_len_ctrl d
        in if len_ctrl AND ENA_ETH_IO_TX_DESC_META_DESC_MASK \<noteq> 0
           then if slot \<noteq> 0 \<or> len_ctrl AND ENA_ETH_IO_TX_META_DESC_EXT_VALID_MASK = 0 then Inr (None, s)
                else tx_parse_loop Q i avail (slot + 1) (ena_tx_read_meta p (dec_ena_eth_io_tx_meta_desc bs)) s
           else if pkt_desc p = [] \<and> \<not> pkt_have_meta p \<and> len_ctrl AND ENA_ETH_IO_TX_DESC_FIRST_MASK = 0
           then Inr (None, s)
           else if length (pkt_desc p) = ENA_MAX_PKT_DESCS then Inr (None, s)
           else let p = p\<lparr>pkt_desc := pkt_desc p @ [d]\<rparr>
                in if len_ctrl AND ENA_ETH_IO_TX_DESC_LAST_MASK \<noteq> 0 then Inr (Some (p\<lparr>pkt_slots := slot + 1\<rparr>), s)
                   else tx_parse_loop Q i avail (slot + 1) p s))"
  by pat_completeness auto

termination tx_parse_loop
  by (relation "measure (\<lambda>(Q, i, avail, slot, p, s). ENA_MAX_PKT_DESCS + 1 - slot)") auto

declare tx_parse_loop.simps [simp del]

definition ena_tx_parse :: "qemu \<Rightarrow> EnaState \<Rightarrow> nat \<Rightarrow> (EnaTxPkt option \<times> EnaState) result" where
  "ena_tx_parse Q s i =
     (let q = sq s ! i; avail = sq_tail q - sq_head q in tx_parse_loop Q i avail 0 zero_pkt s)"

section \<open>Frames\<close>

definition ENA_TX_OFFLOAD_MASK :: u32 where
  "ENA_TX_OFFLOAD_MASK = ENA_ETH_IO_TX_DESC_TSO_EN_MASK OR ENA_ETH_IO_TX_DESC_L3_CSUM_EN_MASK OR
     ENA_ETH_IO_TX_DESC_L4_CSUM_EN_MASK"

text \<open>
  The protocols of the linear frame: whether it is IPv4 and the L4 protocol number. \<open>ip_p\<close> is byte 9
  of the IPv4 header and \<open>ip6_nxt\<close> byte 6 of the IPv6 header.
\<close>

definition ena_tx_frame_protos :: "qemu \<Rightarrow> byte list \<Rightarrow> bool \<times> u8" where
  "ena_tx_frame_protos Q buf =
     (if length buf < 14 + 4 then (False, 0)
      else let l2 = eth_get_l2_hdr_length Q buf; proto = eth_get_l3_proto Q buf l2
           in if proto = 0x0800 \<and> l2 + 20 \<le> length buf
              then let ip = drop l2 buf; ihl = ip_hdr_get_len Q ip
                   in if ip_header_version Q ip = 4 \<and> 20 \<le> ihl \<and> l2 + ihl \<le> length buf
                      then (True, ip ! 9) else (False, 0)
              else if proto = 0x86dd \<and> l2 + 40 \<le> length buf then (False, drop l2 buf ! 6)
              else (False, 0))"

definition ena_tx_ip4_csum :: "qemu \<Rightarrow> byte list \<Rightarrow> byte list" where
  "ena_tx_ip4_csum Q buf =
     (let l2 = eth_get_l2_hdr_length Q buf;
          buf = put_bytes (l2 + 10) [0, 0] buf;
          ip = drop l2 buf
      in put_bytes (l2 + 10) (be16 (net_raw_checksum Q (take (ip_hdr_get_len Q ip) ip))) buf)"

definition tx_build_vheader :: "qemu \<Rightarrow> EnaState \<Rightarrow> bool \<Rightarrow> bool \<Rightarrow> u16 \<Rightarrow> bool \<times> EnaState" where
  "tx_build_vheader Q s tso csum mss =
     (let s = emit (NetTxBuildVheader tso csum mss) s in (net_tx_pkt_build_vheader Q (trace s), s))"

definition ena_tx_offloads :: "qemu \<Rightarrow> EnaState \<Rightarrow> u32 \<Rightarrow> u16 \<Rightarrow> bool \<times> EnaState" where
  "ena_tx_offloads Q s offloads mss =
     (if offloads AND ENA_ETH_IO_TX_DESC_TSO_EN_MASK \<noteq> 0
      then let (ok, s) = tx_build_vheader Q s True True mss
           in if \<not> ok then (False, s) else (True, emit NetTxUpdateIpChecksums s)
      else tx_build_vheader Q s False True 0)"

definition ena_tx_desc_len :: "ena_eth_io_tx_desc \<Rightarrow> nat" where
  "ena_tx_desc_len d = unat (tx_desc_len_ctrl d AND ENA_ETH_IO_TX_DESC_LENGTH_MASK)"

definition ena_tx_desc_addr :: "ena_eth_io_tx_desc \<Rightarrow> u64" where
  "ena_tx_desc_addr d =
     ucast (tx_desc_buff_addr_lo d) OR
     push_bit 32 (ucast (tx_desc_buff_addr_hi_hdr_sz d AND ENA_ETH_IO_TX_DESC_ADDR_HI_MASK))"

definition tx_hdr_len :: "ena_eth_io_tx_desc \<Rightarrow> u32" where
  "tx_hdr_len d = drop_bit ENA_ETH_IO_TX_DESC_HEADER_LENGTH_SHIFT
     (tx_desc_buff_addr_hi_hdr_sz d AND ENA_ETH_IO_TX_DESC_HEADER_LENGTH_MASK)"

text \<open>The copy of the buffers behind the header; \<open>None\<close> when a read fails.\<close>

fun tx_copy :: "qemu \<Rightarrow> byte list \<Rightarrow> ena_eth_io_tx_desc list \<Rightarrow> EnaState \<Rightarrow> byte list option \<times> EnaState" where
  "tx_copy Q buf [] s = (Some buf, s)"
| "tx_copy Q buf (d # ds) s =
     (let (bs, ok, s) = ena_dma_read Q s (ena_tx_desc_addr d) (ena_tx_desc_len d)
      in if \<not> ok then (None, s) else tx_copy Q (buf @ bs) ds s)"

definition tx_drop :: "EnaState \<Rightarrow> EnaState" where
  "tx_drop s = s\<lparr>tx_drops := tx_drops s + 1\<rparr>"

text \<open>The offloads that apply to the frame, and the frame with its IPv4 checksum filled in.\<close>

definition tx_apply_offloads :: "qemu \<Rightarrow> u32 \<Rightarrow> byte list \<Rightarrow> u32 \<times> byte list" where
  "tx_apply_offloads Q offloads buf =
     (let (ip4, l4) = ena_tx_frame_protos Q buf;
          offloads = (if offloads AND ENA_ETH_IO_TX_DESC_L3_CSUM_EN_MASK \<noteq> 0 \<and> \<not> ip4
                      then offloads AND NOT ENA_ETH_IO_TX_DESC_L3_CSUM_EN_MASK else offloads);
          offloads = (if offloads AND ENA_ETH_IO_TX_DESC_L4_CSUM_EN_MASK \<noteq> 0 \<and> l4 \<noteq> 6 \<and> l4 \<noteq> 17
                      then offloads AND NOT ENA_ETH_IO_TX_DESC_L4_CSUM_EN_MASK else offloads)
      in if offloads AND ENA_ETH_IO_TX_DESC_L3_CSUM_EN_MASK \<noteq> 0 \<and> offloads AND ENA_ETH_IO_TX_DESC_TSO_EN_MASK = 0
         then (offloads AND NOT ENA_ETH_IO_TX_DESC_L3_CSUM_EN_MASK, ena_tx_ip4_csum Q buf)
         else (offloads, buf))"

definition tx_send_raw :: "qemu \<Rightarrow> EnaState \<Rightarrow> byte list \<Rightarrow> EnaState result" where
  "tx_send_raw Q s buf =
     bindR (net_incoming Q (emit (SendPacket buf) s))
       (\<lambda>s. Inr (s\<lparr>tx_pkts := tx_pkts s + 1, tx_bytes := tx_bytes s + of_nat (length buf)\<rparr>))"

definition tx_send_offload :: "qemu \<Rightarrow> EnaState \<Rightarrow> u32 \<Rightarrow> u16 \<Rightarrow> byte list \<Rightarrow> EnaState result" where
  "tx_send_offload Q s offloads mss buf =
     (let s = emit NetTxParse (emit (NetTxAddRawFragment buf) s);
          (ok, s) = (if net_tx_pkt_parse Q (trace s) then ena_tx_offloads Q s offloads mss else (False, s))
      in bindR (if \<not> ok then Inr (tx_drop s)
                else let s = emit NetTxSend s; sent = net_tx_pkt_send Q (trace s)
                     in bindR (net_incoming Q s)
                          (\<lambda>s. Inr (if sent then s\<lparr>tx_pkts := tx_pkts s + 1,
                                                  tx_bytes := tx_bytes s + net_tx_pkt_get_total_len Q (trace s)\<rparr>
                                   else s)))
           (\<lambda>s. Inr (emit NetTxReset s)))"

text \<open>\<open>ena_tx_xmit\<close> after the copy: the checks on the frame and the way it goes out.\<close>

definition tx_frame_out :: "qemu \<Rightarrow> EnaState \<Rightarrow> nat \<Rightarrow> u32 \<Rightarrow> byte list \<Rightarrow> EnaState result" where
  "tx_frame_out Q s i meta_ctrl buf =
     (if length buf < 14 \<or> take 6 (drop 6 buf) \<noteq> macaddr s then Inr s
      else
        let offloads = meta_ctrl AND ENA_TX_OFFLOAD_MASK; mss = meta_mss (sq_meta (sq s ! i))
        in if offloads AND ENA_ETH_IO_TX_DESC_TSO_EN_MASK = 0 \<and> unat (mtu s + 14 + 4) < length buf
           then Inr (tx_drop s)
           else if offloads AND ENA_ETH_IO_TX_DESC_TSO_EN_MASK \<noteq> 0 \<and>
                   (mss = 0 \<or> snd (ena_tx_frame_protos Q buf) \<noteq> 6)
           then Inr (tx_drop s)
           else let (offloads, buf) = tx_apply_offloads Q offloads buf
                in if offloads = 0 then tx_send_raw Q s buf else tx_send_offload Q s offloads mss buf)"

definition ena_tx_xmit :: "qemu \<Rightarrow> EnaState \<Rightarrow> nat \<Rightarrow> EnaTxPkt \<Rightarrow> EnaState result" where
  "ena_tx_xmit Q s i p =
     (let q = sq s ! i; d0 = pkt_desc p ! 0; hdr_len = tx_hdr_len d0
      in if \<not> sq_llq q \<and> hdr_len \<noteq> 0 then Inr s
         else if (ucast (sq_entry_size q) - of_nat ENA_LLQ_HEADER_OFF :: u64) < ucast hdr_len then Inr s
         else
           let total = unat hdr_len + sum_list (map ena_tx_desc_len (pkt_desc p))
           in if total = 0 \<or> ENA_TX_MAX_PKT < total then Inr s
              else bindR (if hdr_len \<noteq> 0
                          then bindR (ena_tx_llq_header s i) (\<lambda>off. llq_read Q s off (unat hdr_len))
                          else Inr ([], s)) (\<lambda>(hdr, s).
                case tx_copy Q hdr (pkt_desc p) s of
                  (None, s) \<Rightarrow> Inr (tx_drop s)
                | (Some buf, s) \<Rightarrow> tx_frame_out Q s i (tx_desc_meta_ctrl d0) buf))"

section \<open>Completion and the doorbell\<close>

definition ena_tx_complete :: "qemu \<Rightarrow> EnaState \<Rightarrow> nat \<Rightarrow> u16 \<Rightarrow> EnaState result" where
  "ena_tx_complete Q s i req_id =
     (let q = sq s ! i; c = unat (sq_cq_idx q)
      in if ENA_MAX_CQ_ENTRY_SIZE < unat (cq_entry_size (cq s ! c)) then Inl (AssertFailed A_tx_entry_size)
         else
           let entry = enc_ena_eth_io_tx_cdesc \<lparr>tx_cdesc_req_id = req_id, tx_cdesc_status = 0,
                         tx_cdesc_flags = (if cq_phase (cq s ! c) then ENA_ETH_IO_TX_CDESC_PHASE_MASK else 0),
                         tx_cdesc_sub_qid = of_nat i, tx_cdesc_sq_head_idx = sq_head q\<rparr>
                       @ replicate (ENA_MAX_CQ_ENTRY_SIZE - 8) 0
           in bindR (ena_cq_push s c entry) (\<lambda>s. Inr (ena_cq_intr Q s c True)))"

definition tx_req_id :: "ena_eth_io_tx_desc \<Rightarrow> u16" where
  "tx_req_id d = ucast
     (drop_bit ENA_ETH_IO_TX_DESC_REQ_ID_LO_SHIFT (tx_desc_meta_ctrl d AND ENA_ETH_IO_TX_DESC_REQ_ID_LO_MASK) OR
      push_bit 10 (drop_bit ENA_ETH_IO_TX_DESC_REQ_ID_HI_SHIFT
        (tx_desc_len_ctrl d AND ENA_ETH_IO_TX_DESC_REQ_ID_HI_MASK)))"

definition tx_set_head :: "nat \<Rightarrow> u16 \<Rightarrow> EnaState \<Rightarrow> EnaState" where
  "tx_set_head i h s = s\<lparr>sq := (sq s)[i := (sq s ! i)\<lparr>sq_head := h\<rparr>]\<rparr>"

definition tx_set_meta :: "nat \<Rightarrow> EnaTxMeta \<Rightarrow> EnaState \<Rightarrow> EnaState" where
  "tx_set_meta i m s = s\<lparr>sq := (sq s)[i := (sq s ! i)\<lparr>sq_meta := m\<rparr>]\<rparr>"

text \<open>One round of the doorbell loop; the flag says that the loop returns.\<close>

definition tx_round :: "qemu \<Rightarrow> nat \<Rightarrow> EnaState \<Rightarrow> (bool \<times> EnaState) result" where
  "tx_round Q i s =
     bindR (ena_tx_parse Q s i) (\<lambda>(r, s).
       case r of
         Some p \<Rightarrow>
           if pkt_desc p = [] then Inr (True, tx_set_head i (sq_tail (sq s ! i)) (tx_drop s))
           else
             let s = (if pkt_have_meta p then tx_set_meta i (pkt_meta p) s else s); d0 = pkt_desc p ! 0
             in bindR (ena_tx_xmit Q s i p) (\<lambda>s.
                  bindR (ena_tx_pkt_entries (sq s ! i) (pkt_slots p)) (\<lambda>n.
                    let s = tx_set_head i (sq_head (sq s ! i) + of_nat n) s
                    in if tx_desc_len_ctrl d0 AND ENA_ETH_IO_TX_DESC_COMP_REQ_MASK \<noteq> 0
                       then bindR (ena_tx_complete Q s i (tx_req_id d0)) (\<lambda>s. Inr (False, s))
                       else Inr (False, s)))
       | None \<Rightarrow> Inr (True, tx_set_head i (sq_tail (sq s ! i)) (tx_drop s)))"

text \<open>
  The loop with a bound on its rounds. Every round takes at least one entry off the queue, so the
  number of posted entries is enough; running out of rounds is \<open>Diverges\<close>.
\<close>

fun tx_loop :: "qemu \<Rightarrow> nat \<Rightarrow> nat \<Rightarrow> EnaState \<Rightarrow> EnaState result" where
  "tx_loop Q i fuel s =
     (if sq_head (sq s ! i) = sq_tail (sq s ! i) then Inr s
      else case fuel of
             0 \<Rightarrow> Inl Diverges
           | Suc n \<Rightarrow> bindR (tx_round Q i s) (\<lambda>(stop, s). if stop then Inr s else tx_loop Q i n s))"

declare tx_loop.simps [simp del]

definition ena_tx_doorbell :: "qemu \<Rightarrow> EnaState \<Rightarrow> nat \<Rightarrow> EnaState result" where
  "ena_tx_doorbell Q s i =
     (if \<not> sq_is_tx (sq s ! i) then Inl (AssertFailed A_tx_doorbell)
      else if \<not> cq_used (cq s ! unat (sq_cq_idx (sq s ! i))) then Inr s
      else tx_loop Q i (sq_posted (sq s ! i)) s)"

section \<open>Calls of the transmit path\<close>

text \<open>
  What transmitting on queue \<open>i\<close> may do: read descriptors and buffers, read its own slice of the LLQ
  memory, hand over frames with the device's source address, plain ones within the MTU, and whatever
  the receive path does while frames come back.
\<close>

definition llq_slice :: "nat \<Rightarrow> nat \<Rightarrow> nat \<Rightarrow> bool" where
  "llq_slice i off n \<longleftrightarrow> i * ENA_LLQ_QUEUE_BYTES \<le> off \<and> off + n \<le> (i + 1) * ENA_LLQ_QUEUE_BYTES"

definition own_frame :: "byte list \<Rightarrow> byte list \<Rightarrow> bool" where
  "own_frame mac f \<longleftrightarrow> 14 \<le> length f \<and> take 6 (drop 6 f) = mac"

fun tx_read :: "nat \<Rightarrow> effect \<Rightarrow> bool" where
  "tx_read i (DmaRead a n) = True"
| "tx_read i (LlqRead off n) = llq_slice i off n"
| "tx_read i _ = False"

fun tx_effect :: "nat \<Rightarrow> byte list \<Rightarrow> nat \<Rightarrow> effect \<Rightarrow> bool" where
  "tx_effect i mac lim (SendPacket f) \<longleftrightarrow> own_frame mac f \<and> length f \<le> lim"
| "tx_effect i mac lim (NetTxAddRawFragment f) \<longleftrightarrow> own_frame mac f"
| "tx_effect i mac lim NetTxParse \<longleftrightarrow> True"
| "tx_effect i mac lim (NetTxBuildVheader a b c) \<longleftrightarrow> True"
| "tx_effect i mac lim NetTxUpdateIpChecksums \<longleftrightarrow> True"
| "tx_effect i mac lim NetTxSend \<longleftrightarrow> True"
| "tx_effect i mac lim NetTxReset \<longleftrightarrow> True"
| "tx_effect i mac lim e \<longleftrightarrow> tx_read i e \<or> rx_effect e"

lemma tx_effect_read: "tx_read i e \<Longrightarrow> tx_effect i mac lim e"
  by (cases e) simp_all

lemma tx_effect_rx: "rx_effect e \<Longrightarrow> tx_effect i mac lim e"
  by (cases e) simp_all

lemma tx_read_quiet: "tx_read i e \<Longrightarrow> quiet e"
  by (cases e) simp_all

text \<open>Only calls: the state is otherwise the same.\<close>

definition only_calls :: "(effect \<Rightarrow> bool) \<Rightarrow> EnaState \<Rightarrow> EnaState \<Rightarrow> bool" where
  "only_calls P s t \<longleftrightarrow> (\<exists>es. t = s\<lparr>trace := trace s @ es\<rparr> \<and> list_all P es)"

lemma only_calls_refl [simp]: "only_calls P s s"
  unfolding only_calls_def by (rule exI [of _ "[]"]) simp

lemma only_calls_emit: "P e \<Longrightarrow> only_calls P s (emit e s)"
  by (auto simp: only_calls_def emit_def)

lemma only_calls_trans: "only_calls P s t \<Longrightarrow> only_calls P t u \<Longrightarrow> only_calls P s u"
  by (fastforce simp: only_calls_def)

lemma only_calls_sel:
  assumes "only_calls P s t"
  shows "sq t = sq s" "cq t = cq s" "irq t = irq s" "cfg t = cfg s" "macaddr t = macaddr s" "mtu t = mtu s"
    "tx_pkts t = tx_pkts s" "tx_bytes t = tx_bytes s" "tx_drops t = tx_drops s" "ext_by P s t"
  using assms by (auto simp: only_calls_def ext_by_def)

lemma only_reads_dp:
  assumes "only_calls (tx_read i) s t"
  shows "dp_step s t"
proof -
  have "ext_by quiet s t" using only_calls_sel(10) [OF assms] tx_read_quiet by (rule ext_by_mono)
  then show ?thesis by (intro dp_step_quiet) (simp_all add: only_calls_sel [OF assms])
qed

section \<open>Slots in the LLQ memory\<close>

text \<open>A transmit queue in use, as the invariant has it.\<close>

lemma tx_queue_wf:
  assumes "dev_inv s" and "i < 16" and "sq_used (sq s ! i)" and "c = unat (sq_cq_idx (sq s ! i))"
  shows "is_ring_depth (sq_depth (sq s ! i))" "c < 16" "cq_used (cq s ! c)" "unat (cq_entry_size (cq s ! c)) \<le> 32"
    "8 \<le> unat (cq_entry_size (cq s ! c))"
    "sq_llq (sq s ! i) \<Longrightarrow> sq_entry_size (sq s ! i) = 128 \<or> sq_entry_size (sq s ! i) = 256"
    "sq_llq (sq s ! i) \<Longrightarrow> unat (sq_depth (sq s ! i)) * unat (sq_entry_size (sq s ! i)) \<le> ENA_LLQ_QUEUE_BYTES"
    "\<not> sq_llq (sq s ! i) \<Longrightarrow> sq_entry_size (sq s ! i) = 0"
proof -
  have wf: "sq_wf (cq s) (sq s ! i)" using dev_invD(7) [OF assms(1,2)] .
  then show "is_ring_depth (sq_depth (sq s ! i))" and c: "c < 16" and u: "cq_used (cq s ! c)"
      and "\<not> sq_llq (sq s ! i) \<Longrightarrow> sq_entry_size (sq s ! i) = 0"
      and "sq_llq (sq s ! i) \<Longrightarrow> unat (sq_depth (sq s ! i)) * unat (sq_entry_size (sq s ! i)) \<le> ENA_LLQ_QUEUE_BYTES"
    using assms(3,4) by (simp_all add: sq_wf_def valid_depth_def ENA_MAX_CQ_def ENA_MAX_IO_QUEUES_def)
  have "cq_wf (cq s ! c)" using dev_invD(8) [OF assms(1) c] .
  with u show "unat (cq_entry_size (cq s ! c)) \<le> 32" "8 \<le> unat (cq_entry_size (cq s ! c))"
    by (auto simp: cq_wf_def)
  show "sq_entry_size (sq s ! i) = 128 \<or> sq_entry_size (sq s ! i) = 256" if "sq_llq (sq s ! i)"
    using wf that assms(3) by (auto simp: sq_wf_def llq_size_wf_def word_unat_eq_iff ena_const)
qed

lemma llq_slot_fits:
  assumes "sq_entry_size q = 128 \<or> sq_entry_size q = 256"
  shows "ena_llq_slot_off q slot + 16 \<le> unat (sq_entry_size q)"
proof -
  have "k mod 8 * 16 + 16 \<le> 128" "k mod 16 * 16 + 16 \<le> 256" for k :: nat
    using mod_less_divisor [of 8 k] mod_less_divisor [of 16 k] by linarith+
  with assms show ?thesis
    by (auto simp: ena_llq_slot_off_def ena_llq_descs_per_entry_def ena_const)
qed

lemma llq_line_in_slice:
  assumes "line < depth" and "off + n \<le> e" and "depth * e \<le> ENA_LLQ_QUEUE_BYTES"
  shows "llq_slice i (i * ENA_LLQ_QUEUE_BYTES + line * e + off) n"
proof -
  have "Suc line * e \<le> depth * e" using assms(1) by (intro mult_right_mono) simp_all
  with assms(2,3) show ?thesis by (simp add: llq_slice_def)
qed

lemma llq_slice_bar: "i < 16 \<Longrightarrow> llq_slice i off n \<Longrightarrow> off + n \<le> ENA_MEM_BAR_SIZE"
proof -
  assume "i < 16" and s: "llq_slice i off n"
  then have "(i + 1) * ENA_LLQ_QUEUE_BYTES \<le> ENA_MAX_SQ * ENA_LLQ_QUEUE_BYTES"
    by (intro mult_right_mono) (simp_all add: max_sq)
  with s show ?thesis by (simp add: llq_slice_def ENA_MEM_BAR_SIZE_def)
qed

lemma llq_read_runs:
  "i < 16 \<Longrightarrow> llq_slice i off n \<Longrightarrow>
     llq_read Q s off n = Inr (map (\<lambda>k. llq_byte Q (trace s) (off + k)) [0..<n], emit (LlqRead off n) s)"
  using llq_slice_bar [of i off n] by (simp add: llq_read_def)

lemma ena_tx_read_slot_runs:
  assumes "dev_inv s" and "i < 16" and "sq_used (sq s ! i)"
  obtains bs t where "ena_tx_read_slot Q s i slot = Inr (bs, t)" "only_calls (tx_read i) s t" "length bs = 16"
proof (cases "sq_llq (sq s ! i)")
  case False
  with that show thesis
    by (simp add: ena_tx_read_slot_def Let_def ena_dma_read_def ENA_TX_DESC_SIZE_def only_calls_emit)
next
  case True
  let ?q = "sq s ! i"
  let ?line = "(sq_head ?q + of_nat (ena_llq_slot_line ?q slot)) AND (sq_depth ?q - 1)"
  note wf = tx_queue_wf [OF assms refl]
  have "0 < unat (sq_depth ?q)" using wf(1) by (elim is_ring_depthE) simp
  then have "unat ?line < unat (sq_depth ?q)" by (simp add: and_depth_mask wf(1))
  then have sl: "llq_slice i (i * ENA_LLQ_QUEUE_BYTES + unat ?line * unat (sq_entry_size ?q) + ena_llq_slot_off ?q slot) 16"
    using llq_slot_fits [OF wf(6) [OF True]] wf(7) [OF True] by (rule llq_line_in_slice)
  with True show thesis
    using that llq_read_runs [OF assms(2) sl, of Q s]
    by (simp add: ena_tx_read_slot_def Let_def ena_llq_mem_def ENA_TX_DESC_SIZE_def only_calls_emit)
qed

section \<open>What the parser accepts\<close>

definition tx_flag :: "u32 \<Rightarrow> ena_eth_io_tx_desc \<Rightarrow> bool" where
  "tx_flag m d \<longleftrightarrow> tx_desc_len_ctrl d AND m \<noteq> 0"

text \<open>A packet prefix: no descriptor has closed it yet.\<close>

definition tx_prefix :: "nat \<Rightarrow> EnaTxPkt \<Rightarrow> bool" where
  "tx_prefix slot p \<longleftrightarrow> slot = length (pkt_desc p) + (if pkt_have_meta p then 1 else 0) \<and>
     length (pkt_desc p) \<le> ENA_MAX_PKT_DESCS \<and>
     list_all (\<lambda>d. \<not> tx_flag ENA_ETH_IO_TX_DESC_META_DESC_MASK d \<and> \<not> tx_flag ENA_ETH_IO_TX_DESC_LAST_MASK d) (pkt_desc p) \<and>
     (pkt_desc p \<noteq> [] \<longrightarrow> \<not> pkt_have_meta p \<longrightarrow> tx_flag ENA_ETH_IO_TX_DESC_FIRST_MASK (hd (pkt_desc p)))"

definition tx_packet :: "EnaSq \<Rightarrow> EnaTxPkt \<Rightarrow> bool" where
  "tx_packet q p \<longleftrightarrow> pkt_desc p \<noteq> [] \<and> length (pkt_desc p) \<le> ENA_MAX_PKT_DESCS \<and>
     pkt_slots p = length (pkt_desc p) + (if pkt_have_meta p then 1 else 0) \<and>
     list_all (\<lambda>d. \<not> tx_flag ENA_ETH_IO_TX_DESC_META_DESC_MASK d) (pkt_desc p) \<and>
     list_all (\<lambda>d. \<not> tx_flag ENA_ETH_IO_TX_DESC_LAST_MASK d) (butlast (pkt_desc p)) \<and>
     tx_flag ENA_ETH_IO_TX_DESC_LAST_MASK (last (pkt_desc p)) \<and>
     (\<not> pkt_have_meta p \<longrightarrow> tx_flag ENA_ETH_IO_TX_DESC_FIRST_MASK (hd (pkt_desc p))) \<and>
     (\<exists>n. ena_tx_pkt_entries q (pkt_slots p) = Inr n \<and> 0 < n \<and> n \<le> sq_posted q)"

lemma tx_prefix_zero: "tx_prefix 0 zero_pkt"
  by (simp add: tx_prefix_def zero_pkt_def)

lemma tx_prefix_meta: "tx_prefix 0 p \<Longrightarrow> tx_prefix (Suc 0) (ena_tx_read_meta p m)"
  by (auto simp: tx_prefix_def ena_tx_read_meta_def Let_def)

lemma tx_prefix_snoc:
  assumes "tx_prefix slot p" and "\<not> tx_flag ENA_ETH_IO_TX_DESC_META_DESC_MASK d" and "\<not> tx_flag ENA_ETH_IO_TX_DESC_LAST_MASK d"
    and "pkt_desc p = [] \<longrightarrow> \<not> pkt_have_meta p \<longrightarrow> tx_flag ENA_ETH_IO_TX_DESC_FIRST_MASK d"
    and "length (pkt_desc p) \<noteq> ENA_MAX_PKT_DESCS"
  shows "tx_prefix (Suc slot) (p\<lparr>pkt_desc := pkt_desc p @ [d]\<rparr>)"
  using assms by (auto simp: tx_prefix_def hd_append)

lemma tx_packet_snoc:
  assumes "tx_prefix slot p" and "\<not> tx_flag ENA_ETH_IO_TX_DESC_META_DESC_MASK d" and "tx_flag ENA_ETH_IO_TX_DESC_LAST_MASK d"
    and "pkt_desc p = [] \<longrightarrow> \<not> pkt_have_meta p \<longrightarrow> tx_flag ENA_ETH_IO_TX_DESC_FIRST_MASK d"
    and "length (pkt_desc p) \<noteq> ENA_MAX_PKT_DESCS" and "ena_tx_slot_posted q slot (sq_tail q - sq_head q)"
  shows "tx_packet q (p\<lparr>pkt_desc := pkt_desc p @ [d], pkt_slots := Suc slot\<rparr>)"
proof -
  have "\<exists>n. ena_tx_pkt_entries q (Suc slot) = Inr n \<and> 0 < n \<and> n \<le> sq_posted q"
    using assms(6) by (auto simp: ena_tx_pkt_entries_def ena_tx_slot_posted_def sq_posted_def split: if_splits)
  with assms(1-5) show ?thesis
    by (auto simp: tx_packet_def tx_prefix_def hd_append list_all_iff)
qed

lemma tx_parse_loop_spec:
  assumes "dev_inv s" and "i < 16" and "sq_used (sq s ! i)" and "tx_prefix slot p"
    and "avail = sq_tail (sq s ! i) - sq_head (sq s ! i)"
  shows "\<exists>r t. tx_parse_loop Q i avail slot p s = Inr (r, t) \<and> only_calls (tx_read i) s t \<and>
    (\<forall>p'. r = Some p' \<longrightarrow> tx_packet (sq s ! i) p')"
  using assms
proof (induction Q i avail slot p s rule: tx_parse_loop.induct)
  case (1 Q i avail slot p s)
  let ?goal = "\<lambda>res. \<exists>r t. res = Inr (r, t) \<and> only_calls (tx_read i) s t \<and> (\<forall>p'. r = Some p' \<longrightarrow> tx_packet (sq s ! i) p')"
  note unf = tx_parse_loop.simps [of Q i avail slot p s]
  show ?case
  proof (cases "ENA_MAX_PKT_DESCS + 1 \<le> slot \<or> \<not> ena_tx_slot_posted (sq s ! i) slot avail")
    case True
    then show ?thesis by (subst unf) auto
  next
    case go: False
    obtain bs t where t: "ena_tx_read_slot Q s i slot = Inr (bs, t)" "only_calls (tx_read i) s t"
      using ena_tx_read_slot_runs [OF 1(3-5), of Q slot] by metis
    have inv: "dev_inv t" "sq t = sq s"
      using dp_step_inv [OF 1(3) only_reads_dp [OF t(2)]] only_calls_sel(1) [OF t(2)] by simp_all
    let ?d = "dec_ena_eth_io_tx_desc bs" and ?m = "dec_ena_eth_io_tx_meta_desc bs"
    have cont: "?goal (tx_parse_loop Q i avail (slot + 1) p' t)"
      if "\<exists>r u. tx_parse_loop Q i avail (slot + 1) p' t = Inr (r, u) \<and> only_calls (tx_read i) t u \<and>
        (\<forall>p''. r = Some p'' \<longrightarrow> tx_packet (sq t ! i) p'')" for p'
      using that only_calls_trans [OF t(2)] by (auto simp: inv)
    show ?thesis
    proof (cases "tx_flag ENA_ETH_IO_TX_DESC_META_DESC_MASK ?d")
      case meta: True
      show ?thesis
      proof (cases "slot \<noteq> 0 \<or> tx_desc_len_ctrl ?d AND ENA_ETH_IO_TX_META_DESC_EXT_VALID_MASK = 0")
        case True
        with go t meta show ?thesis by (subst unf) (auto simp: tx_flag_def Let_def)
      next
        case False
        then have "?goal (tx_parse_loop Q i avail (slot + 1) (ena_tx_read_meta p ?m) t)"
          using go t meta inv 1(4-7)
          by (intro cont 1(1) [OF _ _ t(1) refl refl refl]) (auto simp: tx_flag_def tx_prefix_meta)
        with go t meta False show ?thesis by (subst unf) (simp add: tx_flag_def Let_def)
      qed
    next
      case buf: False
      let ?bad = "pkt_desc p = [] \<and> \<not> pkt_have_meta p \<and> \<not> tx_flag ENA_ETH_IO_TX_DESC_FIRST_MASK ?d \<or>
        length (pkt_desc p) = ENA_MAX_PKT_DESCS"
      let ?p = "p\<lparr>pkt_desc := pkt_desc p @ [?d]\<rparr>"
      consider (bad) ?bad | (last) "\<not> ?bad" "tx_flag ENA_ETH_IO_TX_DESC_LAST_MASK ?d"
        | (more) "\<not> ?bad" "\<not> tx_flag ENA_ETH_IO_TX_DESC_LAST_MASK ?d" by blast
      then show ?thesis
      proof cases
        case bad
        with go t buf show ?thesis by (subst unf) (auto simp: tx_flag_def Let_def)
      next
        case last
        then have "tx_packet (sq s ! i) (?p\<lparr>pkt_slots := Suc slot\<rparr>)"
          using tx_packet_snoc [OF 1(6) buf] go 1(7) by auto
        with go t buf last show ?thesis by (subst unf) (auto simp: tx_flag_def Let_def)
      next
        case more
        then have "tx_prefix (slot + 1) ?p" using tx_prefix_snoc [OF 1(6) buf] by auto
        then have "?goal (tx_parse_loop Q i avail (slot + 1) ?p t)"
          using go t buf more inv 1(4,5,7)
          by (intro cont 1(2) [OF _ _ t(1) refl refl refl]) (auto simp: tx_flag_def)
        with go t buf more show ?thesis by (subst unf) (auto simp: tx_flag_def Let_def)
      qed
    qed
  qed
qed

lemma ena_tx_parse_spec:
  assumes "dev_inv s" and "i < 16" and "sq_used (sq s ! i)"
  obtains r t where "ena_tx_parse Q s i = Inr (r, t)" "only_calls (tx_read i) s t"
    "\<And>p. r = Some p \<Longrightarrow> tx_packet (sq s ! i) p"
  using tx_parse_loop_spec [OF assms tx_prefix_zero refl, of Q] that by (auto simp: ena_tx_parse_def Let_def)

section \<open>The parser against the layout of a packet\<close>

text \<open>The raw descriptor slots the parser reads one after the other, and what a packet in them looks like.\<close>

fun tx_slots :: "qemu \<Rightarrow> nat \<Rightarrow> nat \<Rightarrow> nat \<Rightarrow> EnaState \<Rightarrow> (byte list list \<times> EnaState) result" where
  "tx_slots Q i slot 0 s = Inr ([], s)"
| "tx_slots Q i slot (Suc n) s =
     bindR (ena_tx_read_slot Q s i slot) (\<lambda>(bs, s).
       bindR (tx_slots Q i (Suc slot) n s) (\<lambda>(raws, s). Inr (bs # raws, s)))"

definition raw_flag :: "u32 \<Rightarrow> byte list \<Rightarrow> bool" where
  "raw_flag m bs = tx_flag m (dec_ena_eth_io_tx_desc bs)"

definition tx_buffers :: "byte list list \<Rightarrow> bool" where
  "tx_buffers raws \<longleftrightarrow> raws \<noteq> [] \<and> list_all (\<lambda>bs. \<not> raw_flag ENA_ETH_IO_TX_DESC_META_DESC_MASK bs) raws \<and>
     list_all (\<lambda>bs. \<not> raw_flag ENA_ETH_IO_TX_DESC_LAST_MASK bs) (butlast raws) \<and>
     raw_flag ENA_ETH_IO_TX_DESC_LAST_MASK (last raws)"

definition tx_layout :: "byte list list \<Rightarrow> bool" where
  "tx_layout raws \<longleftrightarrow> raws \<noteq> [] \<and>
     (if raw_flag ENA_ETH_IO_TX_DESC_META_DESC_MASK (hd raws)
      then raw_flag ENA_ETH_IO_TX_META_DESC_EXT_VALID_MASK (hd raws) \<and> tx_buffers (tl raws) \<and>
        length (tl raws) \<le> ENA_MAX_PKT_DESCS
      else raw_flag ENA_ETH_IO_TX_DESC_FIRST_MASK (hd raws) \<and> tx_buffers raws \<and> length raws \<le> ENA_MAX_PKT_DESCS)"

definition tx_decode :: "byte list list \<Rightarrow> EnaTxPkt" where
  "tx_decode raws =
     (if raw_flag ENA_ETH_IO_TX_DESC_META_DESC_MASK (hd raws)
      then (ena_tx_read_meta zero_pkt (dec_ena_eth_io_tx_meta_desc (hd raws)))
             \<lparr>pkt_desc := map dec_ena_eth_io_tx_desc (tl raws), pkt_slots := length raws\<rparr>
      else zero_pkt\<lparr>pkt_desc := map dec_ena_eth_io_tx_desc raws, pkt_slots := length raws\<rparr>)"

lemma ena_llq_slot_line_mono: "a \<le> b \<Longrightarrow> ena_llq_slot_line q a \<le> ena_llq_slot_line q b"
  by (auto simp: ena_llq_slot_line_def intro: div_le_mono)

lemma slot_posted_mono: "ena_tx_slot_posted q b n \<Longrightarrow> a \<le> b \<Longrightarrow> ena_tx_slot_posted q a n"
  using ena_llq_slot_line_mono [of a b q] by (auto simp: ena_tx_slot_posted_def split: if_splits)

lemma ena_tx_read_slot_sq: "ena_tx_read_slot Q s i slot = Inr (bs, t) \<Longrightarrow> sq t = sq s"
  by (auto simp: ena_tx_read_slot_def Let_def ena_dma_read_def llq_read_def bindR_eq_Inr split: if_splits)

lemma tx_parse_buffers:
  assumes "tx_slots Q i slot (length raws) s = Inr (raws, u)" and "tx_buffers raws"
    and "length (pkt_desc p) + length raws \<le> ENA_MAX_PKT_DESCS" and "slot \<le> length (pkt_desc p) + 1"
    and "ena_tx_slot_posted (sq s ! i) (slot + length raws - 1) avail"
    and "pkt_desc p \<noteq> [] \<or> pkt_have_meta p \<or> raw_flag ENA_ETH_IO_TX_DESC_FIRST_MASK (hd raws)"
  shows "tx_parse_loop Q i avail slot p s =
    Inr (Some (p\<lparr>pkt_desc := pkt_desc p @ map dec_ena_eth_io_tx_desc raws, pkt_slots := slot + length raws\<rparr>), u)"
  using assms
proof (induction raws arbitrary: slot p s)
  case Nil
  then show ?case by (simp add: tx_buffers_def)
next
  case (Cons bs raws)
  obtain t where t: "ena_tx_read_slot Q s i slot = Inr (bs, t)" "tx_slots Q i (Suc slot) (length raws) t = Inr (raws, u)"
    using Cons.prems(1) by (auto simp: bindR_eq_Inr)
  let ?d = "dec_ena_eth_io_tx_desc bs"
  let ?p = "p\<lparr>pkt_desc := pkt_desc p @ [?d]\<rparr>"
  have post: "ena_tx_slot_posted (sq s ! i) slot avail" by (rule slot_posted_mono [OF Cons.prems(5)]) simp
  have go: "\<not> ENA_MAX_PKT_DESCS + 1 \<le> slot" "length (pkt_desc p) \<noteq> ENA_MAX_PKT_DESCS"
    using Cons.prems(3,4) by simp_all
  have flags: "tx_desc_len_ctrl ?d AND ENA_ETH_IO_TX_DESC_META_DESC_MASK = 0"
      "\<not> (pkt_desc p = [] \<and> \<not> pkt_have_meta p \<and> tx_desc_len_ctrl ?d AND ENA_ETH_IO_TX_DESC_FIRST_MASK = 0)"
    using Cons.prems(2,6) by (auto simp: tx_buffers_def raw_flag_def tx_flag_def)
  have step: "tx_parse_loop Q i avail slot p s =
      (if raw_flag ENA_ETH_IO_TX_DESC_LAST_MASK bs then Inr (Some (?p\<lparr>pkt_slots := slot + 1\<rparr>), t)
       else tx_parse_loop Q i avail (slot + 1) ?p t)"
    using post go flags t(1)
    by (subst tx_parse_loop.simps) (auto simp: Let_def raw_flag_def tx_flag_def)
  show ?case
  proof (cases raws)
    case Nil
    with Cons.prems(2) t(2) show ?thesis by (simp add: step tx_buffers_def)
  next
    case (Cons b rs)
    with Cons.prems(2) have last: "\<not> raw_flag ENA_ETH_IO_TX_DESC_LAST_MASK bs" and bufs: "tx_buffers raws"
      by (simp_all add: tx_buffers_def)
    have "tx_parse_loop Q i avail (Suc slot) ?p t =
        Inr (Some (?p\<lparr>pkt_desc := pkt_desc ?p @ map dec_ena_eth_io_tx_desc raws, pkt_slots := Suc slot + length raws\<rparr>), u)"
      using Cons.prems(3-5) t(2) bufs ena_tx_read_slot_sq [OF t(1)] by (intro Cons.IH) simp_all
    with last show ?thesis by (simp add: step)
  qed
qed

lemma tx_parse_complete:
  assumes "tx_slots Q i 0 n s = Inr (raws, u)" and "n = length raws" and "tx_layout raws"
    and "ena_tx_slot_posted (sq s ! i) (length raws - 1) (sq_tail (sq s ! i) - sq_head (sq s ! i))"
  shows "ena_tx_parse Q s i = Inr (Some (tx_decode raws), u)"
proof (cases "raw_flag ENA_ETH_IO_TX_DESC_META_DESC_MASK (hd raws)")
  case False
  then show ?thesis
    using assms tx_parse_buffers [of Q i 0 raws s u zero_pkt]
    by (simp add: ena_tx_parse_def Let_def tx_layout_def tx_decode_def zero_pkt_def)
next
  case True
  let ?avail = "sq_tail (sq s ! i) - sq_head (sq s ! i)"
  obtain bs rs where raws: "raws = bs # rs" using assms(3) by (cases raws) (simp_all add: tx_layout_def)
  obtain t where t: "ena_tx_read_slot Q s i 0 = Inr (bs, t)" "tx_slots Q i (Suc 0) (length rs) t = Inr (rs, u)"
    using assms(1,2) by (auto simp: raws bindR_eq_Inr)
  let ?p = "ena_tx_read_meta zero_pkt (dec_ena_eth_io_tx_meta_desc bs)"
  have "ena_tx_slot_posted (sq s ! i) 0 ?avail" by (rule slot_posted_mono [OF assms(4)]) simp
  then have step: "ena_tx_parse Q s i = tx_parse_loop Q i ?avail (0 + 1) ?p t"
    unfolding ena_tx_parse_def Let_def using assms(3) True t(1)
    by (subst tx_parse_loop.simps) (simp add: Let_def raw_flag_def tx_flag_def raws tx_layout_def)
  have p: "pkt_desc ?p = []" "pkt_have_meta ?p" by (simp_all add: ena_tx_read_meta_def Let_def zero_pkt_def)
  have "tx_parse_loop Q i ?avail (Suc 0) ?p t =
      Inr (Some (?p\<lparr>pkt_desc := pkt_desc ?p @ map dec_ena_eth_io_tx_desc rs, pkt_slots := Suc 0 + length rs\<rparr>), u)"
    using t(2) assms(3,4) True p ena_tx_read_slot_sq [OF t(1)]
    by (intro tx_parse_buffers) (auto simp: raws tx_layout_def)
  with True show ?thesis by (simp add: step tx_decode_def raws p)
qed


lemma tx_parse_loop_Some:
  assumes "tx_parse_loop Q i avail slot p s = Inr (Some p', u)"
  obtains (meta) bs t where "ena_tx_read_slot Q s i slot = Inr (bs, t)" "slot = 0"
      "raw_flag ENA_ETH_IO_TX_DESC_META_DESC_MASK bs" "raw_flag ENA_ETH_IO_TX_META_DESC_EXT_VALID_MASK bs"
      "tx_parse_loop Q i avail (slot + 1) (ena_tx_read_meta p (dec_ena_eth_io_tx_meta_desc bs)) t = Inr (Some p', u)"
  | (last) bs where "ena_tx_read_slot Q s i slot = Inr (bs, u)" "\<not> raw_flag ENA_ETH_IO_TX_DESC_META_DESC_MASK bs"
      "raw_flag ENA_ETH_IO_TX_DESC_LAST_MASK bs" "length (pkt_desc p) \<noteq> ENA_MAX_PKT_DESCS"
      "pkt_desc p \<noteq> [] \<or> pkt_have_meta p \<or> raw_flag ENA_ETH_IO_TX_DESC_FIRST_MASK bs"
      "ena_tx_slot_posted (sq s ! i) slot avail"
      "p' = p\<lparr>pkt_desc := pkt_desc p @ [dec_ena_eth_io_tx_desc bs], pkt_slots := slot + 1\<rparr>"
  | (more) bs t where "ena_tx_read_slot Q s i slot = Inr (bs, t)" "\<not> raw_flag ENA_ETH_IO_TX_DESC_META_DESC_MASK bs"
      "\<not> raw_flag ENA_ETH_IO_TX_DESC_LAST_MASK bs" "length (pkt_desc p) \<noteq> ENA_MAX_PKT_DESCS"
      "pkt_desc p \<noteq> [] \<or> pkt_have_meta p \<or> raw_flag ENA_ETH_IO_TX_DESC_FIRST_MASK bs"
      "tx_parse_loop Q i avail (slot + 1) (p\<lparr>pkt_desc := pkt_desc p @ [dec_ena_eth_io_tx_desc bs]\<rparr>) t = Inr (Some p', u)"
proof -
  have "\<not> ENA_MAX_PKT_DESCS + 1 \<le> slot" and post: "ena_tx_slot_posted (sq s ! i) slot avail"
    using assms by (subst (asm) tx_parse_loop.simps, simp split: if_splits)+
  with assms obtain bs t where r: "ena_tx_read_slot Q s i slot = Inr (bs, t)"
    by (subst (asm) tx_parse_loop.simps) (auto simp: bindR_eq_Inr)
  note run = assms [unfolded tx_parse_loop.simps [of Q i avail slot p s] r]
  show thesis
  proof (cases "raw_flag ENA_ETH_IO_TX_DESC_META_DESC_MASK bs")
    case True
    with run r show thesis
      by (intro meta [of bs t]) (auto simp: Let_def raw_flag_def tx_flag_def split: if_splits)
  next
    case False
    show thesis
    proof (cases "raw_flag ENA_ETH_IO_TX_DESC_LAST_MASK bs")
      case True
      have "u = t" using run False True by (auto simp: Let_def raw_flag_def tx_flag_def split: if_splits)
      with False True run r post show thesis
        by (intro last [of bs]) (auto simp: Let_def raw_flag_def tx_flag_def split: if_splits)
    next
      case nl: False
      with False run r show thesis
        by (intro more [of bs t]) (auto simp: Let_def raw_flag_def tx_flag_def split: if_splits)
    qed
  qed
qed

lemma tx_parse_buffers_sound:
  assumes "tx_parse_loop Q i avail slot p s = Inr (Some p', u)" and "0 < slot" and "length (pkt_desc p) \<le> ENA_MAX_PKT_DESCS"
  shows "\<exists>raws. tx_slots Q i slot (length raws) s = Inr (raws, u) \<and> tx_buffers raws \<and>
    p' = p\<lparr>pkt_desc := pkt_desc p @ map dec_ena_eth_io_tx_desc raws, pkt_slots := slot + length raws\<rparr> \<and>
    length (pkt_desc p) + length raws \<le> ENA_MAX_PKT_DESCS \<and> ena_tx_slot_posted (sq s ! i) (slot + length raws - 1) avail"
  using assms
proof (induction "ENA_MAX_PKT_DESCS - length (pkt_desc p)" arbitrary: slot p s rule: less_induct)
  case less
  show ?case
    using less.prems(1)
  proof (cases rule: tx_parse_loop_Some)
    case meta
    with less.prems(2) show ?thesis by simp
  next
    case (last bs)
    with less.prems(3) show ?thesis by (intro exI [of _ "[bs]"]) (simp add: tx_buffers_def)
  next
    case (more bs t)
    let ?p = "p\<lparr>pkt_desc := pkt_desc p @ [dec_ena_eth_io_tx_desc bs]\<rparr>"
    have "ENA_MAX_PKT_DESCS - length (pkt_desc ?p) < ENA_MAX_PKT_DESCS - length (pkt_desc p)"
        "length (pkt_desc ?p) \<le> ENA_MAX_PKT_DESCS"
      using more(4) less.prems(3) by simp_all
    from less.hyps [OF this(1) more(6) _ this(2)] obtain raws where
      raws: "tx_slots Q i (slot + 1) (length raws) t = Inr (raws, u)" "tx_buffers raws"
        "p' = ?p\<lparr>pkt_desc := pkt_desc ?p @ map dec_ena_eth_io_tx_desc raws, pkt_slots := slot + 1 + length raws\<rparr>"
        "length (pkt_desc ?p) + length raws \<le> ENA_MAX_PKT_DESCS"
        "ena_tx_slot_posted (sq t ! i) (slot + 1 + length raws - 1) avail"
      by auto
    with more(1-3) show ?thesis
      using ena_tx_read_slot_sq [OF more(1)] by (intro exI [of _ "bs # raws"]) (simp add: tx_buffers_def)
  qed
qed

lemma tx_parse_sound:
  assumes "ena_tx_parse Q s i = Inr (Some p, u)"
  shows "\<exists>raws. tx_slots Q i 0 (length raws) s = Inr (raws, u) \<and> tx_layout raws \<and> p = tx_decode raws \<and>
    ena_tx_slot_posted (sq s ! i) (length raws - 1) (sq_tail (sq s ! i) - sq_head (sq s ! i))"
proof -
  let ?avail = "sq_tail (sq s ! i) - sq_head (sq s ! i)"
  have run: "tx_parse_loop Q i ?avail 0 zero_pkt s = Inr (Some p, u)" using assms by (simp add: ena_tx_parse_def Let_def)
  have z: "pkt_desc zero_pkt = []" "\<not> pkt_have_meta zero_pkt" by (simp_all add: zero_pkt_def)
  show ?thesis
    using run
  proof (cases rule: tx_parse_loop_Some)
    case (meta bs t)
    let ?p = "ena_tx_read_meta zero_pkt (dec_ena_eth_io_tx_meta_desc bs)"
    have m: "pkt_desc ?p = []" by (simp add: ena_tx_read_meta_def Let_def z)
    from tx_parse_buffers_sound [OF meta(5)] m obtain raws where
      "tx_slots Q i (Suc 0) (length raws) t = Inr (raws, u)" "tx_buffers raws" "length raws \<le> ENA_MAX_PKT_DESCS"
      "p = ?p\<lparr>pkt_desc := map dec_ena_eth_io_tx_desc raws, pkt_slots := Suc (length raws)\<rparr>"
      "ena_tx_slot_posted (sq t ! i) (length raws) ?avail"
      by auto
    with meta(1,3,4) show ?thesis
      using ena_tx_read_slot_sq [OF meta(1)] by (intro exI [of _ "bs # raws"]) (simp add: tx_layout_def tx_decode_def)
  next
    case (last bs)
    then show ?thesis
      by (intro exI [of _ "[bs]"]) (simp add: tx_layout_def tx_decode_def tx_buffers_def z ENA_MAX_PKT_DESCS_def)
  next
    case (more bs t)
    let ?p = "zero_pkt\<lparr>pkt_desc := pkt_desc zero_pkt @ [dec_ena_eth_io_tx_desc bs]\<rparr>"
    have "length (pkt_desc ?p) \<le> ENA_MAX_PKT_DESCS" by (simp add: z ENA_MAX_PKT_DESCS_def)
    from tx_parse_buffers_sound [OF more(6) _ this] obtain raws where
      "tx_slots Q i (Suc 0) (length raws) t = Inr (raws, u)" "tx_buffers raws" "Suc (length raws) \<le> ENA_MAX_PKT_DESCS"
      "p = ?p\<lparr>pkt_desc := dec_ena_eth_io_tx_desc bs # map dec_ena_eth_io_tx_desc raws, pkt_slots := Suc (length raws)\<rparr>"
      "ena_tx_slot_posted (sq t ! i) (length raws) ?avail"
      by (auto simp: z)
    with more(1-3,5) show ?thesis
      using ena_tx_read_slot_sq [OF more(1)]
      by (intro exI [of _ "bs # raws"]) (simp add: tx_layout_def tx_decode_def tx_buffers_def z)
  qed
qed

section \<open>Sending keeps the invariant\<close>

text \<open>Sending a frame leaves every transmit queue alone.\<close>

definition xmit_step :: "nat \<Rightarrow> EnaState \<Rightarrow> EnaState \<Rightarrow> bool" where
  "xmit_step i s s' \<longleftrightarrow> dp_step s s' \<and> (\<forall>j. sq_is_tx (sq s ! j) \<longrightarrow> sq s' ! j = sq s ! j) \<and>
     ext_by (tx_effect i (macaddr s) (unat (mtu s) + 18)) s s'"

lemma dp_step_config: "dp_step s t \<Longrightarrow> macaddr t = macaddr s \<and> mtu t = mtu s"
  using cfgD(1,9) [of t s] by (simp add: dp_step_def)

lemma xmit_step_refl [simp]: "xmit_step i s s"
  by (simp add: xmit_step_def)

lemma xmit_step_trans: "xmit_step i s t \<Longrightarrow> xmit_step i t u \<Longrightarrow> xmit_step i s u"
  using dp_step_config [of s t] by (auto simp: xmit_step_def intro: dp_step_trans ext_by_trans)

lemma xmit_step_rx: "rx_step s t \<Longrightarrow> xmit_step i s t"
  by (auto simp: rx_step_def xmit_step_def intro: ext_by_mono tx_effect_rx)

lemma xmit_step_reads: "only_calls (tx_read i) s t \<Longrightarrow> xmit_step i s t"
  using only_calls_sel(1,10) [of "tx_read i" s t] only_reads_dp [of i s t]
  by (auto simp: xmit_step_def intro: ext_by_mono tx_effect_read)

lemma xmit_step_emit:
  "tx_effect i (macaddr s) (unat (mtu s) + 18) e \<Longrightarrow> quiet e \<Longrightarrow> xmit_step i s (emit e s)"
  by (simp add: xmit_step_def dp_step_emit ext_by_emit)

lemma xmit_step_stats:
  "xmit_step i s (tx_drop s)" "xmit_step i s (s\<lparr>tx_pkts := n, tx_bytes := m\<rparr>)"
  by (simp_all add: xmit_step_def tx_drop_def dp_step_stats ext_by_same)

lemma xmit_step_inv: "dev_inv s \<Longrightarrow> xmit_step i s t \<Longrightarrow> dev_inv t"
  by (auto simp: xmit_step_def intro: dp_step_inv)

subsection \<open>The two ways out\<close>

lemma tx_send_raw_runs:
  assumes "iov_ok Q" and "dev_inv s" and "own_frame (macaddr s) f" and "length f \<le> unat (mtu s) + 18"
  shows "\<exists>t. tx_send_raw Q s f = Inr t \<and> xmit_step i s t"
proof -
  let ?s = "emit (SendPacket f) s"
  have "dev_inv ?s" using assms(2) by (simp add: dev_inv_emit)
  then obtain u where u: "net_incoming Q ?s = Inr u" "rx_step ?s u"
    using net_incoming_runs [OF assms(1)] by blast
  have "xmit_step i s ?s" using assms(3,4) by (intro xmit_step_emit) simp_all
  then have "xmit_step i s u" using xmit_step_rx [OF u(2)] by (rule xmit_step_trans)
  then show ?thesis
    using xmit_step_trans [OF _ xmit_step_stats(2)] u(1) by (auto simp: tx_send_raw_def)
qed

lemma ena_tx_offloads_step:
  "ena_tx_offloads Q s o' mss = (ok, t) \<Longrightarrow> dev_inv s \<Longrightarrow> xmit_step i s t"
  by (auto simp: ena_tx_offloads_def tx_build_vheader_def Let_def intro!: xmit_step_emit
      xmit_step_trans [OF xmit_step_emit xmit_step_emit] split: if_splits)

lemma tx_send_offload_runs:
  assumes "iov_ok Q" and "dev_inv s" and "own_frame (macaddr s) f"
  shows "\<exists>t. tx_send_offload Q s o' mss f = Inr t \<and> xmit_step i s t"
proof -
  let ?s = "emit NetTxParse (emit (NetTxAddRawFragment f) s)"
  have s1: "xmit_step i s ?s"
    using assms(3) by (intro xmit_step_trans [OF xmit_step_emit xmit_step_emit]) simp_all
  obtain ok u where u: "(if net_tx_pkt_parse Q (trace ?s) then ena_tx_offloads Q ?s o' mss else (False, ?s)) = (ok, u)"
    by fastforce
  then have "xmit_step i ?s u"
    using ena_tx_offloads_step [of Q ?s o' mss ok u i] xmit_step_inv [OF assms(2) s1] by (auto split: if_splits)
  with s1 have su: "xmit_step i s u" by (rule xmit_step_trans)
  have reset: "xmit_step i v (emit NetTxReset v)" for v by (rule xmit_step_emit) simp_all
  show ?thesis
  proof (cases ok)
    case False
    have "xmit_step i s (emit NetTxReset (tx_drop u))"
      by (rule xmit_step_trans [OF xmit_step_trans [OF su xmit_step_stats(1)] reset])
    with False u show ?thesis by (simp add: tx_send_offload_def Let_def)
  next
    case True
    let ?u = "emit NetTxSend u"
    have uu: "xmit_step i u ?u" by (rule xmit_step_emit) simp_all
    obtain v where v: "net_incoming Q ?u = Inr v" "rx_step ?u v"
      using net_incoming_runs [OF assms(1) xmit_step_inv [OF assms(2) xmit_step_trans [OF su uu]]] by blast
    have sv: "xmit_step i s v"
      by (rule xmit_step_trans [OF xmit_step_trans [OF su uu] xmit_step_rx [OF v(2)]])
    let ?w = "if net_tx_pkt_send Q (trace ?u)
      then v\<lparr>tx_pkts := tx_pkts v + 1, tx_bytes := tx_bytes v + net_tx_pkt_get_total_len Q (trace v)\<rparr> else v"
    have "xmit_step i s ?w" using sv xmit_step_trans [OF sv xmit_step_stats(2)] by auto
    then have "xmit_step i s (emit NetTxReset ?w)" using reset by (rule xmit_step_trans)
    with True u v(1) show ?thesis by (simp add: tx_send_offload_def Let_def)
  qed
qed

subsection \<open>Offloads leave length and addresses alone\<close>

lemma and_not_BIT: "m \<noteq> n \<Longrightarrow> (x AND NOT (BIT m)) AND BIT n = (x :: 'a::len word) AND BIT n"
  by (rule bit_word_eqI) (auto simp: bit_simps)

lemma ip4_frame_long:
  assumes "fst (ena_tx_frame_protos Q buf)"
  shows "eth_get_l2_hdr_length Q buf + 20 \<le> length buf"
  using assms by (auto simp: ena_tx_frame_protos_def Let_def split: if_splits)

lemma ip4_csum_keeps:
  assumes "l2_ok Q" and "eth_get_l2_hdr_length Q buf + 20 \<le> length buf"
  shows "length (ena_tx_ip4_csum Q buf) = length buf"
    "n \<le> 24 \<Longrightarrow> take n (ena_tx_ip4_csum Q buf) = take n buf"
proof -
  let ?l2 = "eth_get_l2_hdr_length Q buf"
  have l2: "14 \<le> ?l2" using assms(1) by (simp add: l2_ok_def)
  have be: "length (be16 v) = 2" for v by (simp add: be16_def le16_def)
  show "length (ena_tx_ip4_csum Q buf) = length buf"
    using assms(2) by (simp add: ena_tx_ip4_csum_def Let_def be)
  show "take n (ena_tx_ip4_csum Q buf) = take n buf" if "n \<le> 24"
    using assms(2) l2 that by (simp add: ena_tx_ip4_csum_def Let_def)
qed

lemma own_frame_cong: "length f' = length f \<Longrightarrow> take 12 f' = take 12 f \<Longrightarrow> own_frame mac f' = own_frame mac f"
proof -
  assume len: "length f' = length f" and t: "take 12 f' = take 12 f"
  have "take 6 (drop 6 g) = drop 6 (take 12 g)" for g :: "byte list" by (simp add: drop_take)
  with len t show ?thesis by (simp add: own_frame_def)
qed

lemma tx_apply_offloads_keeps:
  assumes "l2_ok Q" and "tx_apply_offloads Q o' buf = (o2, buf2)"
  shows "length buf2 = length buf" "take 12 buf2 = take 12 buf"
    "o2 AND ENA_ETH_IO_TX_DESC_TSO_EN_MASK = o' AND ENA_ETH_IO_TX_DESC_TSO_EN_MASK"
proof -
  obtain ip4 l4 where pr: "ena_tx_frame_protos Q buf = (ip4, l4)" by fastforce
  have csum: "ip4 \<Longrightarrow> length (ena_tx_ip4_csum Q buf) = length buf \<and> take 12 (ena_tx_ip4_csum Q buf) = take 12 buf"
    using ip4_csum_keeps [OF assms(1) ip4_frame_long [of Q buf]] pr by simp
  have not3: "(x AND NOT ENA_ETH_IO_TX_DESC_L3_CSUM_EN_MASK) AND ENA_ETH_IO_TX_DESC_L3_CSUM_EN_MASK = 0"
      "(x AND NOT ENA_ETH_IO_TX_DESC_L3_CSUM_EN_MASK) AND ENA_ETH_IO_TX_DESC_TSO_EN_MASK = x AND ENA_ETH_IO_TX_DESC_TSO_EN_MASK"
      "(x AND NOT ENA_ETH_IO_TX_DESC_L4_CSUM_EN_MASK) AND ENA_ETH_IO_TX_DESC_TSO_EN_MASK = x AND ENA_ETH_IO_TX_DESC_TSO_EN_MASK"
      "(x AND NOT ENA_ETH_IO_TX_DESC_L4_CSUM_EN_MASK) AND ENA_ETH_IO_TX_DESC_L3_CSUM_EN_MASK = x AND ENA_ETH_IO_TX_DESC_L3_CSUM_EN_MASK"
    for x :: u32
    unfolding ENA_ETH_IO_TX_DESC_L3_CSUM_EN_MASK_def ENA_ETH_IO_TX_DESC_TSO_EN_MASK_def ENA_ETH_IO_TX_DESC_L4_CSUM_EN_MASK_def
    by (simp_all only: and_not_BIT, (rule bit_word_eqI, auto simp: bit_simps)?)
  show "length buf2 = length buf" "take 12 buf2 = take 12 buf"
    using assms(2) csum by (auto simp: tx_apply_offloads_def Let_def pr not3 split: if_splits)
  show "o2 AND ENA_ETH_IO_TX_DESC_TSO_EN_MASK = o' AND ENA_ETH_IO_TX_DESC_TSO_EN_MASK"
    using assms(2) by (auto simp: tx_apply_offloads_def Let_def pr not3 split: if_splits)
qed

lemma tx_frame_out_runs:
  assumes "iov_ok Q" and "l2_ok Q" and "dev_inv s"
  shows "\<exists>t. tx_frame_out Q s i meta_ctrl buf = Inr t \<and> xmit_step i s t"
proof -
  let ?o = "meta_ctrl AND ENA_TX_OFFLOAD_MASK" and ?mss = "meta_mss (sq_meta (sq s ! i))"
  let ?tso = "ENA_ETH_IO_TX_DESC_TSO_EN_MASK"
  obtain o2 buf2 where ap: "tx_apply_offloads Q ?o buf = (o2, buf2)" by fastforce
  note keeps = tx_apply_offloads_keeps [OF assms(2) ap]
  note lim = rx_limit(1) [OF assms(3)]
  have own: "own_frame (macaddr s) buf2" if "\<not> (length buf < 14 \<or> take 6 (drop 6 buf) \<noteq> macaddr s)"
    using that own_frame_cong [OF keeps(1,2)] by (simp add: own_frame_def)
  consider (foreign) "length buf < 14 \<or> take 6 (drop 6 buf) \<noteq> macaddr s"
    | (dropped) "\<not> (length buf < 14 \<or> take 6 (drop 6 buf) \<noteq> macaddr s)"
        "?o AND ?tso = 0 \<and> unat (mtu s + 14 + 4) < length buf \<or>
         ?o AND ?tso \<noteq> 0 \<and> (?mss = 0 \<or> snd (ena_tx_frame_protos Q buf) \<noteq> 6)"
    | (out) "\<not> (length buf < 14 \<or> take 6 (drop 6 buf) \<noteq> macaddr s)"
        "\<not> (?o AND ?tso = 0 \<and> unat (mtu s + 14 + 4) < length buf)"
        "\<not> (?o AND ?tso \<noteq> 0 \<and> (?mss = 0 \<or> snd (ena_tx_frame_protos Q buf) \<noteq> 6))"
    by blast
  then show ?thesis
  proof cases
    case foreign
    then show ?thesis unfolding tx_frame_out_def by simp
  next
    case dropped
    then have "tx_frame_out Q s i meta_ctrl buf = Inr (tx_drop s)"
      unfolding tx_frame_out_def Let_def by (simp only: if_False) (auto split: if_splits)
    then show ?thesis by (simp add: xmit_step_stats)
  next
    case out
    then have eq: "tx_frame_out Q s i meta_ctrl buf =
        (if o2 = 0 then tx_send_raw Q s buf2 else tx_send_offload Q s o2 ?mss buf2)"
      unfolding tx_frame_out_def Let_def by (simp only: if_False ap prod.case)
    show ?thesis
    proof (cases "o2 = 0")
      case True
      then have "?o AND ?tso = 0" using keeps(3) by simp
      with out(2) lim have "length buf2 \<le> unat (mtu s) + 18" by (simp only: keeps(1)) auto
      with eq True show ?thesis using tx_send_raw_runs [OF assms(1,3) own [OF out(1)], of i] by simp
    next
      case False
      with eq show ?thesis using tx_send_offload_runs [OF assms(1,3) own [OF out(1)], of o2 ?mss i] by simp
    qed
  qed
qed

lemma tx_copy_reads:
  "\<exists>r t. tx_copy Q buf ds s = (r, t) \<and> only_calls (tx_read i) s t \<and>
     (\<forall>b. r = Some b \<longrightarrow> length b = length buf + sum_list (map ena_tx_desc_len ds) \<and> take (length buf) b = buf)"
proof (induction ds arbitrary: buf s)
  case (Cons d ds)
  let ?s = "emit (DmaRead (ena_tx_desc_addr d) (ena_tx_desc_len d)) s"
  let ?bs = "map (dma_byte Q (trace s) (ena_tx_desc_addr d) (ena_tx_desc_len d)) [0..<ena_tx_desc_len d]"
  have e: "only_calls (tx_read i) s ?s" by (rule only_calls_emit) simp
  obtain r t where t: "tx_copy Q (buf @ ?bs) ds ?s = (r, t)" "only_calls (tx_read i) ?s t"
      "\<And>b. r = Some b \<Longrightarrow> length b = length (buf @ ?bs) + sum_list (map ena_tx_desc_len ds) \<and>
        take (length (buf @ ?bs)) b = buf @ ?bs"
    using Cons.IH [of "buf @ ?bs" ?s] by blast
  have "take (length buf) b = buf" if "r = Some b" for b
  proof -
    have "take (length buf) (take (length (buf @ ?bs)) b) = take (length buf) (buf @ ?bs)"
      using t(3) [OF that] by simp
    then show ?thesis by (simp add: take_take)
  qed
  with t e only_calls_trans [OF e t(2)] show ?case
    by (simp add: ena_dma_read_def Let_def)
qed simp

lemma tx_hdr_room:
  assumes "e = 128 \<or> e = (256 :: u16)" and "\<not> (ucast e - of_nat ENA_LLQ_HEADER_OFF :: u64) < ucast (h :: u32)"
  shows "32 + unat h \<le> unat e"
proof -
  have "(ucast h :: u64) \<le> ucast e - 32" using assms(2) by (simp add: ena_const)
  then have "unat (ucast h :: u64) \<le> unat (ucast e - 32 :: u64)" by (simp only: word_le_nat_alt)
  moreover have "unat (ucast h :: u64) = unat h" by transfer simp
  ultimately show ?thesis using assms(1) by auto
qed

text \<open>
  What the driver laid out for a packet, read buffer by buffer: the reads of the buffers, what each of them
  finds in guest memory at its time, and whether all of them succeed.
\<close>

definition tx_reads :: "ena_eth_io_tx_desc list \<Rightarrow> trace" where
  "tx_reads ds = map (\<lambda>d. DmaRead (ena_tx_desc_addr d) (ena_tx_desc_len d)) ds"

definition tx_buffer :: "qemu \<Rightarrow> trace \<Rightarrow> ena_eth_io_tx_desc list \<Rightarrow> nat \<Rightarrow> byte list" where
  "tx_buffer Q tr ds k =
     map (dma_byte Q (tr @ tx_reads (take k ds)) (ena_tx_desc_addr (ds ! k)) (ena_tx_desc_len (ds ! k)))
       [0..<ena_tx_desc_len (ds ! k)]"

definition tx_readable :: "qemu \<Rightarrow> trace \<Rightarrow> ena_eth_io_tx_desc list \<Rightarrow> bool" where
  "tx_readable Q tr ds \<longleftrightarrow> (\<forall>k < length ds.
     dma_ok Q (tr @ tx_reads (take k ds)) (ena_tx_desc_addr (ds ! k)) (ena_tx_desc_len (ds ! k)))"

definition tx_gather :: "qemu \<Rightarrow> trace \<Rightarrow> ena_eth_io_tx_desc list \<Rightarrow> byte list" where
  "tx_gather Q tr ds = concat (map (tx_buffer Q tr ds) [0..<length ds])"

lemma tx_gather_Cons:
  "tx_gather Q tr (d # ds) =
     map (dma_byte Q tr (ena_tx_desc_addr d) (ena_tx_desc_len d)) [0..<ena_tx_desc_len d] @
     tx_gather Q (tr @ [DmaRead (ena_tx_desc_addr d) (ena_tx_desc_len d)]) ds"
proof -
  have "tx_buffer Q tr (d # ds) (Suc k) = tx_buffer Q (tr @ [DmaRead (ena_tx_desc_addr d) (ena_tx_desc_len d)]) ds k" for k
    by (simp add: tx_buffer_def tx_reads_def)
  then show ?thesis
    by (simp add: tx_gather_def upt_conv_Cons map_Suc_upt [symmetric] comp_def del: upt_Suc)
      (simp add: tx_buffer_def tx_reads_def)
qed

lemma tx_readable_Cons:
  "tx_readable Q tr (d # ds) \<longleftrightarrow> dma_ok Q tr (ena_tx_desc_addr d) (ena_tx_desc_len d) \<and>
     tx_readable Q (tr @ [DmaRead (ena_tx_desc_addr d) (ena_tx_desc_len d)]) ds"
  by (simp add: tx_readable_def tx_reads_def All_less_Suc2)

lemma tx_copy_gather:
  "tx_readable Q (trace s) ds \<Longrightarrow>
     tx_copy Q buf ds s = (Some (buf @ tx_gather Q (trace s) ds), s\<lparr>trace := trace s @ tx_reads ds\<rparr>)"
  "\<not> tx_readable Q (trace s) ds \<Longrightarrow> fst (tx_copy Q buf ds s) = None"
proof (induction ds arbitrary: buf s)
  case (Cons d ds)
  { case 1 then show ?case using Cons.IH(1) [of "emit (DmaRead (ena_tx_desc_addr d) (ena_tx_desc_len d)) s"]
      by (simp add: tx_readable_Cons tx_gather_Cons ena_dma_read_def Let_def) (simp add: emit_def tx_reads_def)
  next
    case 2 then show ?case using Cons.IH(2) [of "emit (DmaRead (ena_tx_desc_addr d) (ena_tx_desc_len d)) s"]
      by (auto simp: tx_readable_Cons ena_dma_read_def Let_def) }
qed (simp_all add: tx_readable_def tx_gather_def tx_reads_def)

lemma tx_gather_length: "length (tx_gather Q tr ds) = sum_list (map ena_tx_desc_len ds)"
  by (induction ds arbitrary: tr) (simp_all add: tx_gather_Cons, simp add: tx_gather_def)


text \<open>The header a packet in device memory starts with: the bytes behind the descriptors of its first line.\<close>

definition tx_header_off :: "EnaState \<Rightarrow> nat \<Rightarrow> nat" where
  "tx_header_off s i = i * ENA_LLQ_QUEUE_BYTES +
     unat (sq_head (sq s ! i)) mod unat (sq_depth (sq s ! i)) * unat (sq_entry_size (sq s ! i)) + 32"

definition tx_header_reads :: "EnaState \<Rightarrow> nat \<Rightarrow> nat \<Rightarrow> trace" where
  "tx_header_reads s i h = (if h = 0 then [] else [LlqRead (tx_header_off s i) h])"

definition tx_layout_frame :: "qemu \<Rightarrow> EnaState \<Rightarrow> nat \<Rightarrow> nat \<Rightarrow> ena_eth_io_tx_desc list \<Rightarrow> byte list" where
  "tx_layout_frame Q s i h ds = map (\<lambda>k. llq_byte Q (trace s) (tx_header_off s i + k)) [0..<h] @
     tx_gather Q (trace s @ tx_header_reads s i h) ds"

lemma tx_header_read:
  assumes "dev_inv s" and "i < 16" and "sq_used (sq s ! i)" and "sq_llq (sq s ! i)"
    and "32 + unat h \<le> unat (sq_entry_size (sq s ! i))"
  shows "bindR (ena_tx_llq_header s i) (\<lambda>off. llq_read Q s off (unat h)) =
      Inr (map (\<lambda>k. llq_byte Q (trace s) (tx_header_off s i + k)) [0..<unat h],
        emit (LlqRead (tx_header_off s i) (unat h)) s)"
    "llq_slice i (tx_header_off s i) (unat h)"
proof -
  let ?q = "sq s ! i"
  let ?line = "sq_head ?q AND (sq_depth ?q - 1)"
  note wf = tx_queue_wf [OF assms(1-3) refl]
  have line: "unat ?line = unat (sq_head ?q) mod unat (sq_depth ?q)" by (simp add: and_depth_mask wf(1))
  have "0 < unat (sq_depth ?q)" using wf(1) by (elim is_ring_depthE) simp
  then have "unat ?line < unat (sq_depth ?q)" by (simp add: line)
  then show sl: "llq_slice i (tx_header_off s i) (unat h)"
    using assms(5) wf(7) [OF assms(4)] unfolding tx_header_off_def line [symmetric] by (rule llq_line_in_slice)
  then show "bindR (ena_tx_llq_header s i) (\<lambda>off. llq_read Q s off (unat h)) =
      Inr (map (\<lambda>k. llq_byte Q (trace s) (tx_header_off s i + k)) [0..<unat h],
        emit (LlqRead (tx_header_off s i) (unat h)) s)"
    using assms(4) llq_read_runs [OF assms(2) sl, of Q s]
    by (simp add: ena_tx_llq_header_def Let_def ena_llq_mem_def tx_header_off_def line ENA_LLQ_HEADER_OFF_def
        ENA_LLQ_DESCS_BEFORE_HEADER_def ENA_TX_DESC_SIZE_def)
qed

lemma tx_header_runs:
  assumes "dev_inv s" and "i < 16" and "sq_used (sq s ! i)" and "sq_llq (sq s ! i)"
    and "32 + unat h \<le> unat (sq_entry_size (sq s ! i))"
  shows "\<exists>hdr t. bindR (ena_tx_llq_header s i) (\<lambda>off. llq_read Q s off (unat h)) = Inr (hdr, t) \<and>
    only_calls (tx_read i) s t \<and> length hdr = unat h"
  using tx_header_read(1) [OF assms, of Q] tx_header_read(2) [OF assms] by (simp add: only_calls_emit)

lemma ena_tx_xmit_runs:
  assumes "iov_ok Q" and "l2_ok Q" and "dev_inv s" and "i < 16" and "sq_used (sq s ! i)"
  shows "\<exists>t. ena_tx_xmit Q s i p = Inr t \<and> xmit_step i s t"
proof -
  let ?q = "sq s ! i" and ?d0 = "pkt_desc p ! 0"
  let ?h = "tx_hdr_len ?d0"
  let ?total = "unat ?h + sum_list (map ena_tx_desc_len (pkt_desc p))"
  consider (refused) "\<not> sq_llq ?q \<and> ?h \<noteq> 0 \<or> (ucast (sq_entry_size ?q) - of_nat ENA_LLQ_HEADER_OFF :: u64) < ucast ?h \<or>
      ?total = 0 \<or> ENA_TX_MAX_PKT < ?total"
    | (ok) "\<not> (\<not> sq_llq ?q \<and> ?h \<noteq> 0)" "\<not> (ucast (sq_entry_size ?q) - of_nat ENA_LLQ_HEADER_OFF :: u64) < ucast ?h"
      "\<not> (?total = 0 \<or> ENA_TX_MAX_PKT < ?total)" by blast
  then show ?thesis
  proof cases
    case refused
    then have "ena_tx_xmit Q s i p = Inr s" unfolding ena_tx_xmit_def Let_def by (auto split: if_splits)
    then show ?thesis by simp
  next
    case ok
    let ?hdr = "if ?h \<noteq> 0 then bindR (ena_tx_llq_header s i) (\<lambda>off. llq_read Q s off (unat ?h)) else Inr ([], s)"
    have "\<exists>hdr t. ?hdr = Inr (hdr, t) \<and> only_calls (tx_read i) s t"
    proof (cases "?h = 0")
      case True
      then show ?thesis by simp
    next
      case False
      with ok(1) have "sq_llq ?q" by simp
      with False ok(2) show ?thesis
        using tx_header_runs [OF assms(3-5), of ?h Q] tx_hdr_room [of "sq_entry_size ?q" ?h]
          tx_queue_wf(6) [OF assms(3-5) refl] by auto
    qed
    then obtain hdr t where hdr: "?hdr = Inr (hdr, t)" "only_calls (tx_read i) s t" by blast
    obtain r u where u: "tx_copy Q hdr (pkt_desc p) t = (r, u)" "only_calls (tx_read i) t u"
      using tx_copy_reads by blast
    have su: "xmit_step i s u" using only_calls_trans [OF hdr(2) u(2)] by (rule xmit_step_reads)
    have eq: "ena_tx_xmit Q s i p = (case r of None \<Rightarrow> Inr (tx_drop u)
        | Some buf \<Rightarrow> tx_frame_out Q u i (tx_desc_meta_ctrl ?d0) buf)"
      using ok hdr(1) u(1) unfolding ena_tx_xmit_def Let_def
      by (cases r) (simp_all only: if_False if_True simp_thms bindR_simps prod.case option.case)
    show ?thesis
    proof (cases r)
      case None
      then show ?thesis using eq xmit_step_trans [OF su xmit_step_stats(1)] by simp
    next
      case (Some buf)
      then show ?thesis
        using eq tx_frame_out_runs [OF assms(1,2) xmit_step_inv [OF assms(3) su], of i "tx_desc_meta_ctrl ?d0" buf]
          xmit_step_trans [OF su] by auto
    qed
  qed
qed

text \<open>A packet that passes the first checks is collected from header and buffers, or dropped at a failed read.\<close>

lemma tx_xmit_collects:
  assumes "dev_inv s" and "i < 16" and "sq_used (sq s ! i)"
    and "h = unat (tx_hdr_len (pkt_desc p ! 0))"
    and "h = 0 \<or> sq_llq (sq s ! i) \<and> 32 + h \<le> unat (sq_entry_size (sq s ! i))"
    and "f = tx_layout_frame Q s i h (pkt_desc p)" and "0 < length f" and "length f \<le> ENA_TX_MAX_PKT"
    and "tr = trace s @ tx_header_reads s i h"
  shows "tx_readable Q tr (pkt_desc p) \<Longrightarrow> ena_tx_xmit Q s i p =
      tx_frame_out Q (s\<lparr>trace := tr @ tx_reads (pkt_desc p)\<rparr>) i (tx_desc_meta_ctrl (pkt_desc p ! 0)) f"
    "\<not> tx_readable Q tr (pkt_desc p) \<Longrightarrow> \<exists>t. ena_tx_xmit Q s i p = Inr (tx_drop t) \<and> only_calls (tx_read i) s t"
    "only_calls (tx_read i) s (s\<lparr>trace := tr @ tx_reads (pkt_desc p)\<rparr>)"
proof -
  let ?q = "sq s ! i" and ?h = "tx_hdr_len (pkt_desc p ! 0)"
  let ?hdr = "map (\<lambda>k. llq_byte Q (trace s) (tx_header_off s i + k)) [0..<h]" and ?t = "s\<lparr>trace := tr\<rparr>"
  have f: "f = ?hdr @ tx_gather Q tr (pkt_desc p)" by (simp add: assms(6,9) tx_layout_frame_def)
  then have len: "length f = unat ?h + sum_list (map ena_tx_desc_len (pkt_desc p))" by (simp add: tx_gather_length assms(4))
  have ok: "\<not> (\<not> sq_llq ?q \<and> ?h \<noteq> 0)" using assms(4,5) by (auto simp: unat_eq_0)
  have room: "\<not> (ucast (sq_entry_size ?q) - of_nat ENA_LLQ_HEADER_OFF :: u64) < ucast ?h"
  proof (cases "h = 0")
    case False
    then have "32 + unat ?h \<le> unat (sq_entry_size ?q)" "sq_entry_size ?q = 128 \<or> sq_entry_size ?q = 256"
      using assms(4,5) tx_queue_wf(6) [OF assms(1-3) refl] by auto
    moreover have "unat (ucast x :: u64) = unat x" for x :: u32 by transfer simp
    ultimately show ?thesis by (auto simp: ena_const word_less_nat_alt)
  qed (simp add: assms(4) unat_eq_0)
  have tot: "\<not> (unat ?h + sum_list (map ena_tx_desc_len (pkt_desc p)) = 0 \<or>
      ENA_TX_MAX_PKT < unat ?h + sum_list (map ena_tx_desc_len (pkt_desc p)))"
    using assms(7,8) unfolding len by linarith
  have hdr: "(if ?h \<noteq> 0 then bindR (ena_tx_llq_header s i) (\<lambda>off. llq_read Q s off (unat ?h)) else Inr ([], s)) = Inr (?hdr, ?t)"
    using assms(4,5,9) tx_header_read(1) [OF assms(1-3), of ?h Q]
    by (auto simp: tx_header_reads_def unat_eq_0 emit_def)
  have ht: "only_calls (tx_read i) s ?t"
  proof (cases "h = 0")
    case False
    then have "llq_slice i (tx_header_off s i) h" using tx_header_read(2) [OF assms(1-3), of ?h] assms(4,5) by simp
    moreover have "?t = emit (LlqRead (tx_header_off s i) h) s" using False by (simp add: assms(9) tx_header_reads_def emit_def)
    ultimately show ?thesis by (simp add: only_calls_emit)
  qed (simp add: assms(9) tx_header_reads_def)
  have eq: "ena_tx_xmit Q s i p = (case tx_copy Q ?hdr (pkt_desc p) ?t of (None, u) \<Rightarrow> Inr (tx_drop u)
      | (Some buf, u) \<Rightarrow> tx_frame_out Q u i (tx_desc_meta_ctrl (pkt_desc p ! 0)) buf)"
    using ok room tot hdr unfolding ena_tx_xmit_def Let_def
    by (simp only: if_False if_True simp_thms bindR_simps prod.case)
  show "ena_tx_xmit Q s i p = tx_frame_out Q (s\<lparr>trace := tr @ tx_reads (pkt_desc p)\<rparr>) i (tx_desc_meta_ctrl (pkt_desc p ! 0)) f"
    if "tx_readable Q tr (pkt_desc p)" using that tx_copy_gather(1) [of Q ?t "pkt_desc p" ?hdr] eq f by simp
  show "\<exists>t. ena_tx_xmit Q s i p = Inr (tx_drop t) \<and> only_calls (tx_read i) s t" if "\<not> tx_readable Q tr (pkt_desc p)"
  proof -
    obtain r t where t: "tx_copy Q ?hdr (pkt_desc p) ?t = (r, t)" "only_calls (tx_read i) ?t t"
      using tx_copy_reads by blast
    with that tx_copy_gather(2) [of Q ?t "pkt_desc p" ?hdr] have "r = None" by simp
    with t eq only_calls_trans [OF ht t(2)] show ?thesis by auto
  qed
  show "only_calls (tx_read i) s (s\<lparr>trace := tr @ tx_reads (pkt_desc p)\<rparr>)"
    using ht
  proof (rule only_calls_trans)
    show "only_calls (tx_read i) ?t (s\<lparr>trace := tr @ tx_reads (pkt_desc p)\<rparr>)"
      unfolding only_calls_def by (rule exI [of _ "tx_reads (pkt_desc p)"]) (simp add: tx_reads_def list_all_iff)
  qed
qed

section \<open>The doorbell drains the queue\<close>

definition tx_step :: "nat \<Rightarrow> EnaState \<Rightarrow> EnaState \<Rightarrow> bool" where
  "tx_step i s s' \<longleftrightarrow> dp_step s s' \<and> (\<forall>j. j \<noteq> i \<longrightarrow> sq_is_tx (sq s ! j) \<longrightarrow> sq s' ! j = sq s ! j) \<and>
     ext_by (tx_effect i (macaddr s) (unat (mtu s) + 18)) s s'"

lemma tx_step_refl [simp]: "tx_step i s s"
  by (simp add: tx_step_def)

lemma tx_step_trans: "tx_step i s t \<Longrightarrow> tx_step i t u \<Longrightarrow> tx_step i s u"
  using dp_step_config [of s t] by (auto simp: tx_step_def intro: dp_step_trans ext_by_trans)

lemma tx_step_xmit: "xmit_step i s t \<Longrightarrow> tx_step i s t"
  by (simp add: xmit_step_def tx_step_def)

lemma tx_step_inv: "dev_inv s \<Longrightarrow> tx_step i s t \<Longrightarrow> dev_inv t"
  by (auto simp: tx_step_def intro: dp_step_inv)

lemma dp_step_queue:
  assumes "dev_inv s" and "dp_step s t" and "i < 16"
  shows "sq_used (sq t ! i) = sq_used (sq s ! i)" "sq_is_tx (sq t ! i) = sq_is_tx (sq s ! i)"
    "sq_tail (sq t ! i) = sq_tail (sq s ! i)" "sq_cq_idx (sq t ! i) = sq_cq_idx (sq s ! i)"
    "sq_llq (sq t ! i) = sq_llq (sq s ! i)" "sq_entry_size (sq t ! i) = sq_entry_size (sq s ! i)"
proof -
  have "cfg_sq (sq t ! i) = cfg_sq (sq s ! i)"
    using assms dev_invD(3) [OF assms(1)] by (intro cfg_sq_nth) (simp_all add: dp_step_def)
  from cfg_sqD [OF this] show "sq_used (sq t ! i) = sq_used (sq s ! i)" "sq_is_tx (sq t ! i) = sq_is_tx (sq s ! i)"
    "sq_tail (sq t ! i) = sq_tail (sq s ! i)" "sq_cq_idx (sq t ! i) = sq_cq_idx (sq s ! i)"
    "sq_llq (sq t ! i) = sq_llq (sq s ! i)" "sq_entry_size (sq t ! i) = sq_entry_size (sq s ! i)"
    by simp_all
qed

lemma tx_step_set_sq:
  assumes "cfg_sq q = cfg_sq (sq s ! i)" and "sq_posted q \<le> sq_posted (sq s ! i)"
  shows "tx_step i s (s\<lparr>sq := (sq s)[i := q]\<rparr>)"
  using dp_step_set_sq [OF assms] by (simp add: tx_step_def ext_by_same)

lemma tx_step_set_meta: "tx_step i s (tx_set_meta i m s)"
  unfolding tx_set_meta_def by (rule tx_step_set_sq) (simp_all add: sq_posted_def)

lemma tx_step_set_head:
  "n \<le> sq_posted (sq s ! i) \<Longrightarrow> tx_step i s (tx_set_head i (sq_head (sq s ! i) + of_nat n) s)"
  unfolding tx_set_head_def by (rule tx_step_set_sq) (simp_all add: sq_posted_advance)

lemma tx_step_drain: "tx_step i s (tx_set_head i (sq_tail (sq s ! i)) s)"
  unfolding tx_set_head_def by (rule tx_step_set_sq) (simp_all add: sq_posted_def)

lemma sq_posted_0: "sq_posted q = 0 \<longleftrightarrow> sq_head q = sq_tail q"
  by (auto simp: sq_posted_def unat_eq_0)

lemma ena_cq_push_ext: "ena_cq_push s c d = Inr t \<Longrightarrow> ext_by rx_effect s t"
  by (auto simp: ena_cq_push_def Let_def ena_dma_write_def ext_by_def split: if_splits)

lemma ena_tx_complete_runs:
  assumes "dev_inv s" and "i < 16" and "sq_used (sq s ! i)"
  shows "\<exists>t. ena_tx_complete Q s i req = Inr t \<and> tx_step i s t \<and> sq t = sq s"
proof -
  define c where "c = unat (sq_cq_idx (sq s ! i))"
  note wf = tx_queue_wf [OF assms c_def]
  obtain e where e: "ena_tx_complete Q s i req = bindR (ena_cq_push s c e) (\<lambda>s. Inr (ena_cq_intr Q s c True))"
    using wf(4) by (simp add: ena_tx_complete_def Let_def ENA_MAX_CQ_ENTRY_SIZE_def flip: c_def)
  obtain u where u: "ena_cq_push s c e = Inr u" using ena_cq_push_ok [OF wf(3)] by blast
  note fr = ena_cq_push_frame [OF u, THEN conjunct1]
  have "rx_step s u"
    using u fr ena_cq_push_frame [OF u] by (intro rx_step_same dp_step_push ena_cq_push_ext) simp_all
  then have "rx_step s (ena_cq_intr Q u c True)" using rx_step_intr by (rule rx_step_trans)
  then show ?thesis
    using e u fr irq_frameD(1) [OF irq_frame_intr, of Q u c True] tx_step_xmit [OF xmit_step_rx] by auto
qed

lemma tx_round_runs:
  assumes "iov_ok Q" and "l2_ok Q" and "dev_inv s" and "i < 16" and "sq_used (sq s ! i)" and "sq_is_tx (sq s ! i)"
  shows "\<exists>stop t. tx_round Q i s = Inr (stop, t) \<and> tx_step i s t \<and>
    (if stop then sq_posted (sq t ! i) = 0 else sq_posted (sq t ! i) < sq_posted (sq s ! i))"
proof -
  obtain r u where u: "ena_tx_parse Q s i = Inr (r, u)" "only_calls (tx_read i) s u"
      "\<And>p. r = Some p \<Longrightarrow> tx_packet (sq s ! i) p"
    using ena_tx_parse_spec [OF assms(3-5), of Q] by metis
  have su: "tx_step i s u" by (intro tx_step_xmit xmit_step_reads u(2))
  have squ: "sq u = sq s" by (rule only_calls_sel(1) [OF u(2)])
  have len: "i < length (sq s)" using assms(4) dev_invD(3) [OF assms(3)] by simp
  show ?thesis
  proof (cases r)
    case None
    let ?t = "tx_set_head i (sq_tail (sq u ! i)) (tx_drop u)"
    have "tx_step i u (tx_drop u)" by (intro tx_step_xmit xmit_step_stats)
    moreover have "sq (tx_drop u) = sq u" by (simp add: tx_drop_def)
    ultimately have "tx_step i s ?t"
      using su tx_step_drain [of i "tx_drop u"] by (simp add: tx_step_trans [of i s u])
        (meson tx_step_trans)
    moreover have "sq_posted (sq ?t ! i) = 0"
      using len by (simp add: sq_posted_0 tx_set_head_def tx_drop_def squ)
    ultimately show ?thesis
      using u(1) None by (intro exI [of _ True] exI [of _ ?t]) (simp add: tx_round_def)
  next
    case (Some p)
    note pkt = u(3) [OF Some]
    have ne: "pkt_desc p \<noteq> []" using pkt by (simp add: tx_packet_def)
    let ?m = "if pkt_have_meta p then tx_set_meta i (pkt_meta p) u else u" and ?d0 = "pkt_desc p ! 0"
    have sm: "tx_step i s ?m" using su tx_step_trans [OF su tx_step_set_meta] by auto
    have im: "dev_inv ?m" by (rule tx_step_inv [OF assms(3) sm])
    have qm: "sq_used (sq ?m ! i)" "sq_is_tx (sq ?m ! i)" "sq_posted (sq ?m ! i) = sq_posted (sq s ! i)"
      using assms(5,6) len by (auto simp: tx_set_meta_def squ sq_posted_def)
    obtain v where v: "ena_tx_xmit Q ?m i p = Inr v" "xmit_step i ?m v"
      using ena_tx_xmit_runs [OF assms(1,2) im assms(4) qm(1), of p] by blast
    have sv: "tx_step i s v" by (rule tx_step_trans [OF sm tx_step_xmit [OF v(2)]])
    have iv: "dev_inv v" by (rule tx_step_inv [OF assms(3) sv])
    have qv: "sq v ! i = sq ?m ! i" using v(2) qm(2) by (simp add: xmit_step_def)
    have same: "ena_tx_pkt_entries (sq v ! i) n = ena_tx_pkt_entries (sq s ! i) n" for n
      using dp_step_queue(5,6) [OF assms(3) _ assms(4), of v] sv
      by (simp add: tx_step_def ena_tx_pkt_entries_def ena_llq_slot_line_def ena_llq_descs_per_entry_def)
    obtain n where n: "ena_tx_pkt_entries (sq v ! i) (pkt_slots p) = Inr n" "0 < n" "n \<le> sq_posted (sq v ! i)"
      using pkt same qv qm(3) by (auto simp: tx_packet_def)
    let ?w = "tx_set_head i (sq_head (sq v ! i) + of_nat n) v"
    have sw: "tx_step i s ?w" by (rule tx_step_trans [OF sv tx_step_set_head [OF n(3)]])
    have lv: "i < length (sq v)" using dev_invD(3) [OF iv] assms(4) by simp
    have pw: "sq_posted (sq ?w ! i) < sq_posted (sq s ! i)"
      using n(2,3) lv sq_posted_advance [OF n(3)] qv qm(3) by (simp add: tx_set_head_def)
    have uw: "sq_used (sq ?w ! i)" using qv qm(1) lv by (simp add: tx_set_head_def)
    show ?thesis
    proof (cases "tx_desc_len_ctrl ?d0 AND ENA_ETH_IO_TX_DESC_COMP_REQ_MASK \<noteq> 0")
      case False
      with u(1) Some ne v(1) n(1) sw pw show ?thesis
        by (intro exI [of _ False] exI [of _ ?w]) (simp add: tx_round_def Let_def)
    next
      case True
      obtain x where x: "ena_tx_complete Q ?w i (tx_req_id ?d0) = Inr x" "tx_step i ?w x" "sq x = sq ?w"
        using ena_tx_complete_runs [OF tx_step_inv [OF assms(3) sw] assms(4) uw] by blast
      with True u(1) Some ne v(1) n(1) tx_step_trans [OF sw x(2)] pw show ?thesis
        by (intro exI [of _ False] exI [of _ x]) (simp add: tx_round_def Let_def)
    qed
  qed
qed

lemma tx_loop_runs:
  assumes "iov_ok Q" and "l2_ok Q" and "i < 16" and "dev_inv s" and "sq_used (sq s ! i)" and "sq_is_tx (sq s ! i)"
    and "sq_posted (sq s ! i) \<le> fuel"
  shows "\<exists>t. tx_loop Q i fuel s = Inr t \<and> tx_step i s t \<and> sq_posted (sq t ! i) = 0"
  using assms(4-7)
proof (induction fuel arbitrary: s)
  case 0
  then show ?case by (subst tx_loop.simps) (simp add: sq_posted_0)
next
  case (Suc n)
  show ?case
  proof (cases "sq_head (sq s ! i) = sq_tail (sq s ! i)")
    case True
    then show ?thesis by (subst tx_loop.simps) (simp add: sq_posted_0)
  next
    case False
    obtain stop t where t: "tx_round Q i s = Inr (stop, t)" "tx_step i s t"
        "if stop then sq_posted (sq t ! i) = 0 else sq_posted (sq t ! i) < sq_posted (sq s ! i)"
      using tx_round_runs [OF assms(1,2) Suc.prems(1) assms(3) Suc.prems(2,3)] by blast
    have eq: "tx_loop Q i (Suc n) s = (if stop then Inr t else tx_loop Q i n t)"
      using False t(1) by (subst tx_loop.simps) simp
    show ?thesis
    proof (cases stop)
      case True
      with eq t show ?thesis by simp
    next
      case False
      note q = dp_step_queue(1,2) [OF Suc.prems(1) _ assms(3), of t]
      have "\<exists>u. tx_loop Q i n t = Inr u \<and> tx_step i t u \<and> sq_posted (sq u ! i) = 0"
        using t False Suc.prems q tx_step_inv [OF Suc.prems(1) t(2)]
        by (intro Suc.IH) (simp_all add: tx_step_def)
      with eq False tx_step_trans [OF t(2)] show ?thesis by auto
    qed
  qed
qed

lemma ena_tx_doorbell_runs:
  assumes "iov_ok Q" and "l2_ok Q" and "i < 16" and "dev_inv s" and "sq_used (sq s ! i)" and "sq_is_tx (sq s ! i)"
  shows "\<exists>t. ena_tx_doorbell Q s i = Inr t \<and> tx_step i s t \<and> sq_posted (sq t ! i) = 0"
  using tx_loop_runs [OF assms le_refl] tx_queue_wf(3) [OF assms(4,3,5) refl] assms(6)
  by (simp add: ena_tx_doorbell_def)

interpretation tx_db: device_op "\<lambda>s. iov_ok Q \<and> l2_ok Q \<and> i < 16 \<and> sq_used (sq s ! i) \<and> sq_is_tx (sq s ! i)"
    "\<lambda>s. ena_tx_doorbell Q s i" for Q i
proof unfold_locales
  fix s
  assume "dev_inv s" "iov_ok Q \<and> l2_ok Q \<and> i < 16 \<and> sq_used (sq s ! i) \<and> sq_is_tx (sq s ! i)"
  then show "\<exists>s'. ena_tx_doorbell Q s i = Inr s' \<and> dp_step s s'"
    using ena_tx_doorbell_runs [of Q i s] by (auto simp: tx_step_def)
qed

section \<open>Guarantees of the transmit path\<close>

text \<open>
  C3. A doorbell on a used transmit queue always returns with the queue drained: every entry up to
  the tail the driver wrote is consumed, whatever the descriptors say, the configuration is untouched
  and the invariant is kept.
\<close>

theorem tx_doorbell_drains:
  assumes "iov_ok Q" and "l2_ok Q" and "dev_inv s" and "i < 16" and "sq_used (sq s ! i)" and "sq_is_tx (sq s ! i)"
  shows "\<exists>s'. ena_tx_doorbell Q s i = Inr s' \<and> dev_inv s' \<and> cfg s' = cfg s \<and>
    sq_head (sq s' ! i) = sq_tail (sq s ! i)"
proof -
  obtain t where t: "ena_tx_doorbell Q s i = Inr t" "tx_step i s t" "sq_posted (sq t ! i) = 0"
    using ena_tx_doorbell_runs [OF assms(1,2,4,3,5,6)] by blast
  then have "dp_step s t" by (simp add: tx_step_def)
  from dp_step_queue(3) [OF assms(3) this assms(4)] dp_step_inv [OF assms(3) this] this t show ?thesis
    by (auto simp: sq_posted_0 dp_step_def)
qed

text \<open>
  C5. What transmitting can do to the outside. Every read of the LLQ memory stays in the slice of the
  queue; every frame that leaves the device carries its own source address and, if it goes out as it
  is, fits the MTU with one VLAN tag; the other transmit queues are not touched.
\<close>

theorem tx_confined:
  assumes "iov_ok Q" and "l2_ok Q" and "dev_inv s" and "i < 16" and "sq_used (sq s ! i)"
    and "ena_tx_doorbell Q s i = Inr s'"
  shows "\<exists>es. trace s' = trace s @ es \<and>
    (\<forall>off n. LlqRead off n \<in> set es \<longrightarrow> llq_slice i off n) \<and>
    (\<forall>f. SendPacket f \<in> set es \<longrightarrow> own_frame (macaddr s) f \<and> length f \<le> unat (mtu s) + 18) \<and>
    (\<forall>f. NetTxAddRawFragment f \<in> set es \<longrightarrow> own_frame (macaddr s) f) \<and>
    (\<forall>j. j \<noteq> i \<longrightarrow> sq_is_tx (sq s ! j) \<longrightarrow> sq s' ! j = sq s ! j)"
proof -
  have "sq_is_tx (sq s ! i)" using assms(6) by (auto simp: ena_tx_doorbell_def split: if_splits)
  then have "tx_step i s s'" using ena_tx_doorbell_runs [OF assms(1,2,4,3,5)] assms(6) by auto
  then obtain es where es: "trace s' = trace s @ es"
      "\<And>e. e \<in> set es \<Longrightarrow> tx_effect i (macaddr s) (unat (mtu s) + 18) e"
      "\<forall>j. j \<noteq> i \<longrightarrow> sq_is_tx (sq s ! j) \<longrightarrow> sq s' ! j = sq s ! j"
    by (auto simp: tx_step_def ext_by_def list_all_iff)
  with es(2) [of "LlqRead _ _"] es(2) [of "SendPacket _"] es(2) [of "NetTxAddRawFragment _"] show ?thesis by auto
qed

text \<open>
  C34. The parser accepts exactly the well-formed packets: descriptors read from the head on that
  consist of at most one meta descriptor (first and marked \<open>EXT_VALID\<close>) and one to seventeen buffer
  descriptors up to the first \<open>LAST\<close>, with \<open>FIRST\<close> on the first one if there is no meta descriptor, and that
  lie within the posted entries. It returns them decoded, and it rejects only when there is no such
  packet. Parsing itself only reads.
\<close>

theorem tx_parse_accepts:
  assumes "dev_inv s" and "i < 16" and "sq_used (sq s ! i)"
  shows "\<exists>r t. ena_tx_parse Q s i = Inr (r, t) \<and> only_calls (tx_read i) s t \<and>
    (case r of
       None \<Rightarrow> \<forall>raws u. tx_slots Q i 0 (length raws) s = Inr (raws, u) \<and> tx_layout raws \<longrightarrow>
         \<not> ena_tx_slot_posted (sq s ! i) (length raws - 1) (sq_tail (sq s ! i) - sq_head (sq s ! i))
     | Some p \<Rightarrow> tx_packet (sq s ! i) p \<and>
         (\<exists>raws. tx_slots Q i 0 (length raws) s = Inr (raws, t) \<and> tx_layout raws \<and> p = tx_decode raws))"
proof -
  obtain r t where r: "ena_tx_parse Q s i = Inr (r, t)" "only_calls (tx_read i) s t"
    "\<And>p. r = Some p \<Longrightarrow> tx_packet (sq s ! i) p"
    by (rule ena_tx_parse_spec [OF assms, of Q]) blast
  show ?thesis
  proof (cases r)
    case None
    then show ?thesis using r tx_parse_complete [OF _ refl] by fastforce
  next
    case (Some p)
    then show ?thesis using r tx_parse_sound [of Q s i p t] by auto
  qed
qed

text \<open>
  C35. A malformed burst is discarded as a whole: if the packet at the head cannot be parsed, the
  doorbell only reads, counts one drop and moves the head to the tail; nothing is sent or completed.
\<close>

theorem tx_malformed_discards:
  assumes "sq_is_tx (sq s ! i)" and "cq_used (cq s ! unat (sq_cq_idx (sq s ! i)))"
    and "sq_head (sq s ! i) \<noteq> sq_tail (sq s ! i)" and "ena_tx_parse Q s i = Inr (None, u)"
    and "dev_inv s" and "i < 16" and "sq_used (sq s ! i)"
  shows "\<exists>s'. ena_tx_doorbell Q s i = Inr s' \<and> sq_head (sq s' ! i) = sq_tail (sq s ! i) \<and>
    tx_drops s' = tx_drops s + 1 \<and> tx_pkts s' = tx_pkts s \<and> cq s' = cq s \<and> ext_by (tx_read i) s s'"
proof -
  obtain n where n: "sq_posted (sq s ! i) = Suc n" using assms(3) sq_posted_0 by (metis not0_implies_Suc)
  have ro: "only_calls (tx_read i) s u"
    by (rule ena_tx_parse_spec [OF assms(5-7), of Q]) (use assms(4) in simp)
  let ?t = "tx_set_head i (sq_tail (sq u ! i)) (tx_drop u)"
  have "tx_round Q i s = Inr (True, ?t)" using assms(4) by (simp add: tx_round_def)
  then have run: "ena_tx_doorbell Q s i = Inr ?t"
    using assms(1-3) n by (simp add: ena_tx_doorbell_def) (subst tx_loop.simps, simp)
  have "i < length (sq s)" using dev_invD(3) [OF assms(5)] assms(6) by simp
  with only_calls_sel [OF ro] show ?thesis
    using run by (intro exI [of _ ?t]) (simp add: tx_set_head_def tx_drop_def ext_by_def)
qed

text \<open>
  C36. What becomes of a packet without offloads. The frame is the header in device memory, if the packet has
  one, followed by the contents of the buffers in the order of the descriptors, each byte as the device
  finds it. If a buffer cannot be read the packet is dropped and counted. A frame that does not carry the
  address of the device as its source is discarded, one above the MTU is dropped and counted; any other
  frame is handed to the network unchanged, right after the reads, and counted with its length.
\<close>

theorem tx_frame_verbatim:
  assumes "iov_ok Q" and "dev_inv s" and "i < 16" and "sq_used (sq s ! i)"
    and "h = unat (tx_hdr_len (pkt_desc p ! 0))"
    and "h = 0 \<or> sq_llq (sq s ! i) \<and> 32 + h \<le> unat (sq_entry_size (sq s ! i))"
    and "tx_desc_meta_ctrl (pkt_desc p ! 0) AND ENA_TX_OFFLOAD_MASK = 0"
    and "f = tx_layout_frame Q s i h (pkt_desc p)" and "0 < length f" and "length f \<le> ENA_TX_MAX_PKT"
    and "tr = trace s @ tx_header_reads s i h" and "u = s\<lparr>trace := tr @ tx_reads (pkt_desc p)\<rparr>"
  shows "if \<not> tx_readable Q tr (pkt_desc p)
    then \<exists>t. ena_tx_xmit Q s i p = Inr (tx_drop t) \<and> only_calls (tx_read i) s t
    else if \<not> own_frame (macaddr s) f then ena_tx_xmit Q s i p = Inr u
    else if unat (mtu s) + 18 < length f then ena_tx_xmit Q s i p = Inr (tx_drop u)
    else \<exists>v. net_incoming Q (emit (SendPacket f) u) = Inr v \<and>
      ena_tx_xmit Q s i p = Inr (v\<lparr>tx_pkts := tx_pkts s + 1, tx_bytes := tx_bytes s + of_nat (length f)\<rparr>)"
proof (cases "tx_readable Q tr (pkt_desc p)")
  case False
  with tx_xmit_collects(2) [OF assms(2-6,8-11)] show ?thesis by simp
next
  case True
  have ro: "only_calls (tx_read i) s u" using tx_xmit_collects(3) [OF assms(2-6,8-11)] by (simp only: assms(12))
  note sel = only_calls_sel [OF ro] and lim = rx_limit(1) [OF assms(2)]
  have eq: "ena_tx_xmit Q s i p = tx_frame_out Q u i (tx_desc_meta_ctrl (pkt_desc p ! 0)) f"
    using tx_xmit_collects(1) [OF assms(2-6,8-11) True] by (simp only: assms(12))
  have ap: "tx_apply_offloads Q 0 f = (0, f)" by (simp add: tx_apply_offloads_def Let_def split: prod.split)
  have out: "tx_frame_out Q u i (tx_desc_meta_ctrl (pkt_desc p ! 0)) f =
      (if \<not> own_frame (macaddr s) f then Inr u else if unat (mtu s) + 18 < length f then Inr (tx_drop u)
       else tx_send_raw Q u f)"
    unfolding tx_frame_out_def Let_def assms(7) sel(5,6) lim by (simp add: ap own_frame_def not_le)
  have "dev_inv (emit (SendPacket f) u)"
    using dp_step_inv [OF assms(2) only_reads_dp [OF ro]] by (simp add: dev_inv_emit)
  then obtain v where v: "net_incoming Q (emit (SendPacket f) u) = Inr v" "rx_step (emit (SendPacket f) u) v"
    using net_incoming_runs [OF assms(1)] by blast
  have "tx_send_raw Q u f = Inr (v\<lparr>tx_pkts := tx_pkts s + 1, tx_bytes := tx_bytes s + of_nat (length f)\<rparr>)"
    using v sel(7,8) by (simp add: tx_send_raw_def rx_step_def)
  with True eq out v(1) show ?thesis by simp
qed

text \<open>
  C37. A transmit completion occupies the next slot of the completion ring and tells the driver the
  request id, the phase of the lap, the submission queue and its new head.
\<close>

theorem tx_completion_entry:
  assumes "dev_inv s" and "i < 16" and "sq_used (sq s ! i)" and "c = unat (sq_cq_idx (sq s ! i))"
    and "m = unat (cq_tail (cq s ! c))"
  shows "\<exists>s' e es. ena_tx_complete Q s i req_id = Inr s' \<and>
    trace s' = trace s @ DmaWrite (cq_entry_addr (cq s ! c) m) e # es \<and> dma_free es \<and>
    length e = unat (cq_entry_size (cq s ! c)) \<and> cq_counts (Suc m) (cq s' ! c) \<and>
    dec_ena_eth_io_tx_cdesc e = \<lparr>tx_cdesc_req_id = req_id, tx_cdesc_status = 0,
      tx_cdesc_flags = of_bool (even (m div unat (cq_depth (cq s ! c)))), tx_cdesc_sub_qid = of_nat i,
      tx_cdesc_sq_head_idx = sq_head (sq s ! i)\<rparr>"
proof -
  note wf = tx_queue_wf [OF assms(1-4)]
  let ?x = "\<lparr>tx_cdesc_req_id = req_id, tx_cdesc_status = 0,
      tx_cdesc_flags = (if cq_phase (cq s ! c) then ENA_ETH_IO_TX_CDESC_PHASE_MASK else 0),
      tx_cdesc_sub_qid = of_nat i, tx_cdesc_sq_head_idx = sq_head (sq s ! i)\<rparr>"
  let ?n = "unat (cq_entry_size (cq s ! c))"
  let ?e = "enc_ena_eth_io_tx_cdesc ?x @ replicate 24 0"
  have cnt: "cq_counts m (cq s ! c)"
    using dev_invD(9) [OF assms(1) wf(2,3)] by (simp add: cq_sync_def assms(5))
  have c: "c < length (cq s)" using dev_invD(4) [OF assms(1)] wf(2) by simp
  obtain u where u: "ena_cq_push s c ?e = Inr u" "trace u = trace s @ [DmaWrite (cq_entry_addr (cq s ! c) m) (take ?n ?e)]"
      "cq_counts (Suc m) (cq u ! c)"
    using ena_cq_push_spec [OF cnt c wf(3), of ?e] by metis
  have run: "ena_tx_complete Q s i req_id = Inr (ena_cq_intr Q u c True)"
    using wf(4) u(1) by (simp add: ena_tx_complete_def Let_def ENA_MAX_CQ_ENTRY_SIZE_def flip: assms(4))
  obtain es where es: "trace (ena_cq_intr Q u c True) = trace u @ es" "dma_free es" using trace_intr by blast
  have len: "length (enc_ena_eth_io_tx_cdesc ?x) = 8" by (simp add: tx_cdesc.enc_size)
  define e where "e = take ?n ?e"
  have "e = enc_ena_eth_io_tx_cdesc ?x @ take (?n - 8) (replicate 24 0)" using wf(5) len by (simp add: e_def)
  then have dec: "dec_ena_eth_io_tx_cdesc e = ?x" by (simp add: tx_cdesc.dec_enc)
  have le: "length e = ?n" using wf(4) len by (simp add: e_def)
  have ph: "cq_phase (cq s ! c) = even (m div unat (cq_depth (cq s ! c)))" using cnt by (simp add: cq_counts_def)
  have fl: "(if b then ENA_ETH_IO_TX_CDESC_PHASE_MASK else 0) = of_bool b" for b
    by (simp add: ENA_ETH_IO_TX_CDESC_PHASE_MASK_def BIT_def)
  have cq': "cq (ena_cq_intr Q u c True) = cq u" by (rule irq_frameD(2) [OF irq_frame_intr])
  have tr: "trace (ena_cq_intr Q u c True) = trace s @ DmaWrite (cq_entry_addr (cq s ! c) m) e # es"
    using es(1) u(2) by (simp add: e_def)
  show ?thesis
    using run tr es(2) le u(3) dec unfolding fl ph cq'
    by (intro exI [of _ "ena_cq_intr Q u c True"] exI [of _ e] exI [of _ es] conjI) (simp_all only: cq')
qed

text \<open>
  C38. The layout of a packet in the LLQ memory. Every descriptor slot lies inside its entry, the ones
  before the header end where the pushed header starts, and two slots of a packet never overlap.
\<close>

theorem llq_slot_layout:
  assumes "sq_entry_size q = 128 \<or> sq_entry_size q = 256"
  shows "ena_llq_slot_off q a + ENA_TX_DESC_SIZE \<le> unat (sq_entry_size q) \<and>
    (ena_llq_slot_line q a = 0 \<longrightarrow> ena_llq_slot_off q a + ENA_TX_DESC_SIZE \<le> ENA_LLQ_HEADER_OFF) \<and>
    (a \<noteq> b \<longrightarrow> ena_llq_slot_line q a \<noteq> ena_llq_slot_line q b \<or>
      ena_llq_slot_off q a + ENA_TX_DESC_SIZE \<le> ena_llq_slot_off q b \<or>
      ena_llq_slot_off q b + ENA_TX_DESC_SIZE \<le> ena_llq_slot_off q a)"
proof -
  have apart: "x * 16 + 16 \<le> y * 16 \<or> y * 16 + 16 \<le> x * 16" if "x \<noteq> y" for x y :: nat
    using that by linarith
  have "(a - 2) mod k \<noteq> (b - 2) mod k" if "a \<noteq> b" "2 \<le> a" "2 \<le> b" "(a - 2) div k = (b - 2) div k" for k
    using that div_mult_mod_eq [of "a - 2" k] div_mult_mod_eq [of "b - 2" k] by auto
  with apart show ?thesis
    using llq_slot_fits [OF assms, of a]
    by (auto simp: ena_llq_slot_line_def ena_llq_slot_off_def ENA_LLQ_HEADER_OFF_def ENA_TX_DESC_SIZE_def
        ENA_LLQ_DESCS_BEFORE_HEADER_def)
qed

text \<open>The fields of one word of a transmit descriptor that the device reads together.\<close>

interpretation tx_len_req: disjoint_bitfields get_ena_eth_io_tx_desc_length set_ena_eth_io_tx_desc_length
    tx_desc_len_ctrl 15 0 get_ena_eth_io_tx_desc_req_id_hi set_ena_eth_io_tx_desc_req_id_hi 21 16
  by unfold_locales simp

definition zero_tx_desc :: ena_eth_io_tx_desc where
  "zero_tx_desc = \<lparr>tx_desc_len_ctrl = 0, tx_desc_meta_ctrl = 0, tx_desc_buff_addr_lo = 0,
     tx_desc_buff_addr_hi_hdr_sz = 0\<rparr>"

definition zero_tx_meta_desc :: ena_eth_io_tx_meta_desc where
  "zero_tx_meta_desc = \<lparr>tx_meta_desc_len_ctrl = 0, tx_meta_desc_word1 = 0, tx_meta_desc_word2 = 0,
     tx_meta_desc_reserved = 0\<rparr>"

text \<open>
  The request id survives its split over two words: a descriptor the driver fills with the
  accessors of the ABI gives the device the same 16-bit id, and the id does not disturb the buffer
  length in the same word.
\<close>

theorem tx_req_id_roundtrip:
  fixes r :: u16 and len :: u32
  shows "tx_req_id (set_ena_eth_io_tx_desc_req_id_hi (set_ena_eth_io_tx_desc_req_id_lo
      (set_ena_eth_io_tx_desc_length zero_tx_desc len) (ucast r)) (drop_bit 10 (ucast r))) = r \<and>
    ena_tx_desc_len (set_ena_eth_io_tx_desc_req_id_hi (set_ena_eth_io_tx_desc_req_id_lo
      (set_ena_eth_io_tx_desc_length zero_tx_desc len) (ucast r)) (drop_bit 10 (ucast r))) = unat len mod 2 ^ 16"
proof -
  let ?a = "set_ena_eth_io_tx_desc_length zero_tx_desc len"
  let ?b = "set_ena_eth_io_tx_desc_req_id_lo ?a (ucast r)"
  let ?d = "set_ena_eth_io_tx_desc_req_id_hi ?b (drop_bit 10 (ucast r))"
  have lo0: "get_ena_eth_io_tx_desc_req_id_lo ?a = 0"
    by (simp add: get_ena_eth_io_tx_desc_req_id_lo_def set_ena_eth_io_tx_desc_length_def zero_tx_desc_def)
  have hi0: "get_ena_eth_io_tx_desc_req_id_hi ?b = 0"
    using tx_len_req.get2_set1 [of zero_tx_desc len]
    by (simp add: get_ena_eth_io_tx_desc_req_id_hi_def set_ena_eth_io_tx_desc_req_id_lo_def zero_tx_desc_def)
  have "get_ena_eth_io_tx_desc_req_id_lo ?d = get_ena_eth_io_tx_desc_req_id_lo ?b"
    by (simp add: get_ena_eth_io_tx_desc_req_id_lo_def set_ena_eth_io_tx_desc_req_id_hi_def)
  then have lo: "get_ena_eth_io_tx_desc_req_id_lo ?d = take_bit 10 (ucast r)"
    by (simp add: bf_ena_eth_io_tx_desc_req_id_lo.get_set_clear [OF lo0])
  have hi: "get_ena_eth_io_tx_desc_req_id_hi ?d = take_bit 6 (drop_bit 10 (ucast r))"
    by (simp add: bf_ena_eth_io_tx_desc_req_id_hi.get_set_clear [OF hi0])
  have "tx_req_id ?d = ucast (get_ena_eth_io_tx_desc_req_id_lo ?d OR push_bit 10 (get_ena_eth_io_tx_desc_req_id_hi ?d))"
    by (simp add: tx_req_id_def get_ena_eth_io_tx_desc_req_id_lo_def get_ena_eth_io_tx_desc_req_id_hi_def)
  also have "\<dots> = r"
    unfolding lo hi by (rule bit_word_eqI) (auto simp: bit_simps)
  finally have "tx_req_id ?d = r" .
  moreover have "get_ena_eth_io_tx_desc_length ?d = take_bit 16 len"
  proof -
    have "get_ena_eth_io_tx_desc_length ?d = get_ena_eth_io_tx_desc_length ?b" by (rule tx_len_req.get1_set2)
    also have "\<dots> = get_ena_eth_io_tx_desc_length ?a"
      by (simp add: get_ena_eth_io_tx_desc_length_def set_ena_eth_io_tx_desc_req_id_lo_def)
    also have "\<dots> = take_bit 16 len"
      by (subst bf_ena_eth_io_tx_desc_length.get_set_clear)
        (simp_all add: get_ena_eth_io_tx_desc_length_def zero_tx_desc_def)
    finally show ?thesis .
  qed
  then have "tx_desc_len_ctrl ?d AND ENA_ETH_IO_TX_DESC_LENGTH_MASK = take_bit 16 len"
    by (simp only: get_ena_eth_io_tx_desc_length_def)
  then have "ena_tx_desc_len ?d = unat len mod 2 ^ 16"
    by (simp only: ena_tx_desc_len_def unsigned_take_bit_eq) (simp add: take_bit_eq_mod)
  ultimately show ?thesis by blast
qed

text \<open>
  The metadata of a packet survives its encoding: the segment size with 14 bits over two words,
  the header length and offset with 8 and the L4 header length with 6 bits.
\<close>

theorem tx_meta_roundtrip:
  fixes mss len off words :: u32
  shows "ena_tx_read_meta p (set_ena_eth_io_tx_meta_desc_mss_hi (set_ena_eth_io_tx_meta_desc_mss_lo
      (set_ena_eth_io_tx_meta_desc_l4_hdr_len_in_words (set_ena_eth_io_tx_meta_desc_l3_hdr_off
      (set_ena_eth_io_tx_meta_desc_l3_hdr_len zero_tx_meta_desc len) off) words) mss) (drop_bit 10 mss)) = p\<lparr>pkt_have_meta := True, pkt_meta := \<lparr>meta_mss = ucast (take_bit 14 mss),
      meta_l3_hdr_len = ucast len, meta_l3_hdr_off = ucast off, meta_l4_hdr_len_words = ucast (take_bit 6 words)\<rparr>\<rparr>"
proof -
  define m where "m = set_ena_eth_io_tx_meta_desc_mss_hi (set_ena_eth_io_tx_meta_desc_mss_lo
      (set_ena_eth_io_tx_meta_desc_l4_hdr_len_in_words (set_ena_eth_io_tx_meta_desc_l3_hdr_off
      (set_ena_eth_io_tx_meta_desc_l3_hdr_len zero_tx_meta_desc len) off) words) mss) (drop_bit 10 mss)"
  have lc: "tx_meta_desc_len_ctrl m = push_bit 16 (drop_bit 10 mss) AND GENMASK 19 16"
    by (simp add: m_def zero_tx_meta_desc_def set_ena_eth_io_tx_meta_desc_mss_hi_def set_ena_eth_io_tx_meta_desc_mss_lo_def
        set_ena_eth_io_tx_meta_desc_l4_hdr_len_in_words_def set_ena_eth_io_tx_meta_desc_l3_hdr_off_def
        set_ena_eth_io_tx_meta_desc_l3_hdr_len_def ENA_ETH_IO_TX_META_DESC_MSS_HI_SHIFT_def ENA_ETH_IO_TX_META_DESC_MSS_HI_MASK_def)
  have w2: "tx_meta_desc_word2 m = len AND GENMASK 7 0 OR push_bit 8 off AND GENMASK 15 8 OR
      push_bit 16 words AND GENMASK 21 16 OR push_bit 22 mss AND GENMASK 31 22"
    by (simp add: m_def zero_tx_meta_desc_def set_ena_eth_io_tx_meta_desc_mss_hi_def set_ena_eth_io_tx_meta_desc_mss_lo_def
        set_ena_eth_io_tx_meta_desc_l4_hdr_len_in_words_def set_ena_eth_io_tx_meta_desc_l3_hdr_off_def
        set_ena_eth_io_tx_meta_desc_l3_hdr_len_def ENA_ETH_IO_TX_META_DESC_MSS_LO_SHIFT_def
        ENA_ETH_IO_TX_META_DESC_MSS_LO_MASK_def ENA_ETH_IO_TX_META_DESC_L3_HDR_LEN_MASK_def
        ENA_ETH_IO_TX_META_DESC_L3_HDR_OFF_SHIFT_def ENA_ETH_IO_TX_META_DESC_L3_HDR_OFF_MASK_def
        ENA_ETH_IO_TX_META_DESC_L4_HDR_LEN_IN_WORDS_SHIFT_def ENA_ETH_IO_TX_META_DESC_L4_HDR_LEN_IN_WORDS_MASK_def or.assoc)
  have mss: "ucast (drop_bit 22 (tx_meta_desc_word2 m AND GENMASK 31 22) OR
      push_bit 10 (drop_bit 16 (tx_meta_desc_len_ctrl m AND GENMASK 19 16))) = (ucast (take_bit 14 mss) :: u16)"
  proof (rule bit_word_eqI)
    fix n :: nat
    have "n < 10 \<or> 10 + (n - 10) = n" by arith
    then show "bit (ucast (drop_bit 22 (tx_meta_desc_word2 m AND GENMASK 31 22) OR
        push_bit 10 (drop_bit 16 (tx_meta_desc_len_ctrl m AND GENMASK 19 16))) :: u16) n =
        bit (ucast (take_bit 14 mss) :: u16) n"
      unfolding lc w2 by (auto simp: bit_simps bit_GENMASK)
  qed
  have l3: "ucast (tx_meta_desc_word2 m AND GENMASK 7 0) = (ucast len :: u8)"
    unfolding w2 by (rule bit_word_eqI) (auto simp: bit_simps bit_GENMASK)
  have lo: "ucast (drop_bit 8 (tx_meta_desc_word2 m AND GENMASK 15 8)) = (ucast off :: u8)"
    unfolding w2 by (rule bit_word_eqI) (auto simp: bit_simps bit_GENMASK)
  have l4: "ucast (drop_bit 16 (tx_meta_desc_word2 m AND GENMASK 21 16)) = (ucast (take_bit 6 words) :: u8)"
    unfolding w2 by (rule bit_word_eqI) (auto simp: bit_simps bit_GENMASK)
  show ?thesis
    unfolding m_def [symmetric]
    by (simp only: ena_tx_read_meta_def Let_def ENA_ETH_IO_TX_META_DESC_MSS_LO_SHIFT_def
        ENA_ETH_IO_TX_META_DESC_MSS_LO_MASK_def ENA_ETH_IO_TX_META_DESC_MSS_HI_SHIFT_def ENA_ETH_IO_TX_META_DESC_MSS_HI_MASK_def
        ENA_ETH_IO_TX_META_DESC_L3_HDR_LEN_MASK_def ENA_ETH_IO_TX_META_DESC_L3_HDR_OFF_SHIFT_def
        ENA_ETH_IO_TX_META_DESC_L3_HDR_OFF_MASK_def ENA_ETH_IO_TX_META_DESC_L4_HDR_LEN_IN_WORDS_SHIFT_def
        ENA_ETH_IO_TX_META_DESC_L4_HDR_LEN_IN_WORDS_MASK_def mss l3 lo l4)
qed

section \<open>A concrete packet\<close>

text \<open>
  The queues of \<open>queue_state\<close> with one entry posted on the transmit queue. The memory \<open>tx_mem\<close> holds a
  descriptor for a 20-byte broadcast frame from the device's address.
\<close>

definition tx_state :: EnaState where
  "tx_state = queue_state\<lparr>sq := (sq queue_state)[0 := (sample_sq True 0x10000)\<lparr>sq_tail := 1\<rparr>]\<rparr>"

definition tx_frame :: "byte list" where
  "tx_frame = [0xff, 0xff, 0xff, 0xff, 0xff, 0xff, 2, 0, 0, 0, 0, 1, 8, 6, 7, 7, 7, 7, 7, 7]"

definition tx_mem :: "u64 \<Rightarrow> byte" where
  "tx_mem a = (let k = unat (a - 0x50000) in if k < 20 then tx_frame ! k else 0)"

abbreviation tx_qemu :: qemu where
  "tx_qemu \<equiv> quiet_qemu tx_mem (\<lambda>_. 0)"

definition tx_sample_pkt :: EnaTxPkt where
  "tx_sample_pkt = zero_pkt\<lparr>pkt_slots := 1, pkt_desc := [\<lparr>tx_desc_len_ctrl = 0x1c000014, tx_desc_meta_ctrl = 0x01400000,
     tx_desc_buff_addr_lo = 0x50000, tx_desc_buff_addr_hi_hdr_sz = 0\<rparr>]\<rparr>"

lemma tx_state_sel:
  "cq tx_state = cq queue_state" "sq tx_state ! 0 = (sample_sq True 0x10000)\<lparr>sq_tail := 1\<rparr>"
  "macaddr tx_state = [2, 0, 0, 0, 0, 1]" "mtu tx_state = mtu queue_state"
  using dev_invD(3) [OF queue_state_inv]
  by (simp_all add: tx_state_def queue_state_def fresh_state_def ena_dev_reset_sel ena_realize_def)

lemma tx_state_inv: "dev_inv tx_state"
proof -
  have "sq_wf (cq queue_state) (sq queue_state ! 0)"
    by (rule dev_invD(7) [OF queue_state_inv]) simp
  then have "sq_wf (cq queue_state) ((sample_sq True 0x10000)\<lparr>sq_tail := 1\<rparr>)"
    by (simp add: sq_wf_def)
  then show ?thesis
    unfolding tx_state_def
    by (intro dev_inv_set_sq queue_state_inv) (simp_all add: sample_sq_def zero_sq_def sq_posted_def)
qed

lemma tx_state_queue: "sq_used (sq tx_state ! 0)" "sq_is_tx (sq tx_state ! 0)" "\<not> sq_llq (sq tx_state ! 0)"
  by (simp_all add: tx_state_sel sample_sq_def zero_sq_def)

theorem tx_doorbell_drains_witness:
  "\<exists>s'. ena_tx_doorbell tx_qemu tx_state 0 = Inr s' \<and> dev_inv s' \<and> sq_head (sq s' ! 0) = 1"
  using tx_doorbell_drains [OF quiet_iov_ok quiet_l2_ok tx_state_inv _ tx_state_queue(1,2)]
  by (auto simp: tx_state_sel)

theorem tx_confined_witness:
  "\<exists>s' es. ena_tx_doorbell tx_qemu tx_state 0 = Inr s' \<and> trace s' = trace tx_state @ es \<and>
     (\<forall>f. SendPacket f \<in> set es \<longrightarrow> own_frame [2, 0, 0, 0, 0, 1] f)"
proof -
  obtain t where "ena_tx_doorbell tx_qemu tx_state 0 = Inr t"
    using ena_tx_doorbell_runs [OF quiet_iov_ok quiet_l2_ok _ tx_state_inv tx_state_queue(1,2)] by auto
  with tx_confined [OF quiet_iov_ok quiet_l2_ok tx_state_inv _ tx_state_queue(1), of tx_mem "\<lambda>_. 0" t]
  show ?thesis unfolding tx_state_sel by auto
qed

definition tx_ring_desc :: ena_eth_io_tx_desc where
  "tx_ring_desc = \<lparr>tx_desc_len_ctrl = 0x1c000014, tx_desc_meta_ctrl = 0x01400000,
     tx_desc_buff_addr_lo = 0x50000, tx_desc_buff_addr_hi_hdr_sz = 0\<rparr>"

definition tx_ring_mem :: "u64 \<Rightarrow> byte" where
  "tx_ring_mem a = (let k = unat (a - 0x10000) in if k < 16 then enc_ena_eth_io_tx_desc tx_ring_desc ! k else 0)"

lemma tx_ring_slot:
  "tx_slots (quiet_qemu tx_ring_mem llq) 0 0 1 tx_state =
     Inr ([enc_ena_eth_io_tx_desc tx_ring_desc], emit (DmaRead 0x10000 16) tx_state)"
proof -
  have len: "length (enc_ena_eth_io_tx_desc tx_ring_desc) = 16" by (simp add: tx_desc.enc_size)
  have "map (dma_byte (quiet_qemu tx_ring_mem llq) tr 0x10000 16) [0..<16] = enc_ena_eth_io_tx_desc tx_ring_desc" for tr
    using len by (intro nth_equalityI) (simp_all add: quiet_qemu_def tx_ring_mem_def Let_def unat_of_nat_small)
  then show ?thesis
    using tx_state_queue
    by (simp add: ena_tx_read_slot_def ena_dma_read_def Let_def ENA_TX_DESC_SIZE_def tx_state_sel sample_sq_def zero_sq_def)
qed

lemma tx_ring_layout: "tx_layout [enc_ena_eth_io_tx_desc tx_ring_desc]"
proof -
  have "dec_ena_eth_io_tx_desc (enc_ena_eth_io_tx_desc tx_ring_desc) = tx_ring_desc"
    using tx_desc.dec_enc [of tx_ring_desc "[]"] by simp
  then show ?thesis
    by (simp add: tx_layout_def tx_buffers_def raw_flag_def tx_flag_def)
      (simp add: tx_ring_desc_def ENA_ETH_IO_TX_DESC_META_DESC_MASK_def ENA_ETH_IO_TX_DESC_FIRST_MASK_def
        ENA_ETH_IO_TX_DESC_LAST_MASK_def BIT_def ENA_MAX_PKT_DESCS_def)
qed

theorem tx_parse_accepts_witness:
  "\<exists>p t. ena_tx_parse (quiet_qemu tx_ring_mem (\<lambda>_. 0)) tx_state 0 = Inr (Some p, t) \<and> only_calls (tx_read 0) tx_state t \<and>
     tx_packet (sq tx_state ! 0) p"
proof -
  let ?Q = "quiet_qemu tx_ring_mem (\<lambda>_. 0)" and ?raws = "[enc_ena_eth_io_tx_desc tx_ring_desc]"
  have post: "ena_tx_slot_posted (sq tx_state ! 0) 0 (sq_tail (sq tx_state ! 0) - sq_head (sq tx_state ! 0))"
    by (simp add: ena_tx_slot_posted_def tx_state_sel sample_sq_def zero_sq_def)
  have raws: "tx_slots ?Q 0 0 (length ?raws) tx_state = Inr (?raws, emit (DmaRead 0x10000 16) tx_state)"
    using tx_ring_slot [of "\<lambda>_. 0"] by simp
  obtain r t where "ena_tx_parse ?Q tx_state 0 = Inr (r, t)" "only_calls (tx_read 0) tx_state t"
    "case r of None \<Rightarrow> \<forall>raws u. tx_slots ?Q 0 0 (length raws) tx_state = Inr (raws, u) \<and> tx_layout raws \<longrightarrow>
         \<not> ena_tx_slot_posted (sq tx_state ! 0) (length raws - 1) (sq_tail (sq tx_state ! 0) - sq_head (sq tx_state ! 0))
     | Some p \<Rightarrow> tx_packet (sq tx_state ! 0) p \<and>
         (\<exists>raws. tx_slots ?Q 0 0 (length raws) tx_state = Inr (raws, t) \<and> tx_layout raws \<and> p = tx_decode raws)"
    using tx_parse_accepts [OF tx_state_inv _ tx_state_queue(1), of ?Q] by auto
  with raws tx_ring_layout post show ?thesis by (cases r) force+
qed

theorem tx_malformed_discards_witness:
  "\<exists>s'. ena_tx_doorbell (quiet_qemu (\<lambda>_. 0) (\<lambda>_. 0)) tx_state 0 = Inr s' \<and> tx_drops s' = tx_drops tx_state + 1"
proof -
  let ?Q = "quiet_qemu (\<lambda>_. 0) (\<lambda>_. 0)"
  have "dec_ena_eth_io_tx_desc (map (dma_byte ?Q tr a 16) [0..<16]) = zero_tx_desc" for tr a
    by (simp add: dec_ena_eth_io_tx_desc_def get_le32_def zero_tx_desc_def quiet_qemu_def)
  then have "\<exists>u. ena_tx_parse ?Q tx_state 0 = Inr (None, u)"
    using tx_state_queue
    by (simp add: ena_tx_parse_def Let_def, subst tx_parse_loop.simps)
      (simp add: ena_tx_slot_posted_def ena_tx_read_slot_def ena_dma_read_def Let_def ENA_TX_DESC_SIZE_def
        zero_pkt_def zero_tx_desc_def)
  then obtain u where u: "ena_tx_parse ?Q tx_state 0 = Inr (None, u)" ..
  have "cq_used (cq tx_state ! unat (sq_cq_idx (sq tx_state ! 0)))"
    by (rule tx_queue_wf(3) [OF tx_state_inv _ tx_state_queue(1) refl]) simp
  moreover have "sq_head (sq tx_state ! 0) \<noteq> sq_tail (sq tx_state ! 0)"
    by (simp add: tx_state_sel sample_sq_def zero_sq_def)
  ultimately show ?thesis
    using tx_malformed_discards [OF tx_state_queue(2) _ _ u tx_state_inv _ tx_state_queue(1)] by auto
qed

theorem tx_frame_verbatim_witness:
  "\<exists>s' u. ena_tx_xmit tx_qemu tx_state 0 tx_sample_pkt = Inr s' \<and> tx_pkts s' = tx_pkts tx_state + 1 \<and>
     net_incoming tx_qemu (emit (SendPacket tx_frame) u) = Inr (emit (SendPacket tx_frame) u)"
proof -
  let ?ds = "pkt_desc tx_sample_pkt"
  have len: "length tx_frame = 20" by (simp add: tx_frame_def)
  have mem: "map (dma_byte tx_qemu tr 0x50000 20) [0..<20] = tx_frame" for tr
    using len by (intro nth_equalityI) (simp_all add: quiet_qemu_def tx_mem_def Let_def unat_of_nat_small)
  have d: "length ?ds = 1" "ena_tx_desc_addr (?ds ! 0) = 0x50000" "ena_tx_desc_len (?ds ! 0) = 20"
    by (simp_all add: tx_sample_pkt_def ena_tx_desc_addr_def ena_tx_desc_len_def
        ENA_ETH_IO_TX_DESC_LENGTH_MASK_def ENA_ETH_IO_TX_DESC_ADDR_HI_MASK_def GENMASK_def mask_eq_exp_minus_1)
  have f: "tx_layout_frame tx_qemu tx_state 0 0 ?ds = tx_frame"
    using mem d by (simp add: tx_layout_frame_def tx_gather_def tx_buffer_def)
  have rd: "tx_readable tx_qemu tr ?ds" for tr by (simp add: tx_readable_def quiet_qemu_def)
  have hdr: "unat (tx_hdr_len (?ds ! 0)) = 0"
    by (simp add: tx_hdr_len_def tx_sample_pkt_def)
  have plain: "tx_desc_meta_ctrl (?ds ! 0) AND ENA_TX_OFFLOAD_MASK = 0"
    by (simp add: tx_sample_pkt_def ENA_TX_OFFLOAD_MASK_def ENA_ETH_IO_TX_DESC_TSO_EN_MASK_def
        ENA_ETH_IO_TX_DESC_L3_CSUM_EN_MASK_def ENA_ETH_IO_TX_DESC_L4_CSUM_EN_MASK_def BIT_def)
  have own: "own_frame (macaddr tx_state) tx_frame" by (simp add: own_frame_def tx_frame_def tx_state_sel)
  have mtu: "\<not> unat (mtu tx_state) + 18 < length tx_frame"
    using tx_state_inv by (simp add: dev_inv_def cfg_inv_def ena_const tx_frame_def)
  have "0 < length tx_frame" "length tx_frame \<le> ENA_TX_MAX_PKT" by (simp_all add: len ena_const)
  with tx_frame_verbatim [OF quiet_iov_ok tx_state_inv _ tx_state_queue(1) hdr [symmetric] _ plain f [symmetric] _ _ refl refl]
    own mtu rd show ?thesis by (auto simp: net_incoming_def quiet_qemu_def)
qed

theorem tx_completion_entry_witness:
  "\<exists>s' e. ena_tx_complete tx_qemu tx_state 0 5 = Inr s' \<and> tx_cdesc_req_id (dec_ena_eth_io_tx_cdesc e) = 5"
proof -
  have "(0 :: nat) < 16" by simp
  from tx_completion_entry [OF tx_state_inv this tx_state_queue(1) refl refl, of tx_qemu 5]
  show ?thesis
    apply (elim exE conjE)
    subgoal for s' e es by (intro exI [of _ s'] exI [of _ e]) simp
    done
qed

theorem llq_slot_layout_witness:
  "ena_llq_slot_off (zero_sq\<lparr>sq_entry_size := 128\<rparr>) 5 + ENA_TX_DESC_SIZE \<le> 128"
  using llq_slot_layout [of "zero_sq\<lparr>sq_entry_size := 128\<rparr>" 5 6] by simp

end
