(* ===== verification/Ena_Device.thy ===== *)
theory Ena_Device
  imports Ena_Tx
begin

text \<open>
  The device as a whole (\<open>src/hw/ena.c\<close>): the register interface that dispatches to the components,
  the callbacks QEMU invokes, and the states a guest, the network and the clock can drive it to.
\<close>

section \<open>The register interface\<close>

definition ena_reg_read :: "EnaState \<Rightarrow> nat \<Rightarrow> u32" where
  "ena_reg_read s addr = ena_reg_file_read s addr"

text \<open>The offsets whose writes are ignored and those that are plain storage.\<close>

definition reg_read_only :: "nat \<Rightarrow> bool" where
  "reg_read_only addr \<longleftrightarrow> addr = ENA_REGS_VERSION_OFF \<or> addr = ENA_REGS_CONTROLLER_VERSION_OFF \<or>
     addr = ENA_REGS_CAPS_OFF \<or> addr = ENA_REGS_CAPS_EXT_OFF \<or> addr = ENA_REGS_ACQ_TAIL_OFF \<or>
     addr = ENA_REGS_AENQ_TAIL_OFF \<or> addr = ENA_REGS_DEV_STS_OFF"

definition reg_plain :: "nat \<Rightarrow> bool" where
  "reg_plain addr \<longleftrightarrow> addr = ENA_REGS_MMIO_RESP_LO_OFF \<or> addr = ENA_REGS_MMIO_RESP_HI_OFF \<or>
     addr = ENA_REGS_AQ_BASE_LO_OFF \<or> addr = ENA_REGS_AQ_BASE_HI_OFF \<or>
     addr = ENA_REGS_ACQ_BASE_LO_OFF \<or> addr = ENA_REGS_ACQ_BASE_HI_OFF \<or>
     addr = ENA_REGS_AENQ_BASE_LO_OFF \<or> addr = ENA_REGS_AENQ_BASE_HI_OFF \<or> addr = ENA_REGS_AENQ_HEAD_DB_OFF"

definition reg_file_write :: "qemu \<Rightarrow> EnaState \<Rightarrow> nat \<Rightarrow> u32 \<Rightarrow> EnaState result" where
  "reg_file_write Q s addr val =
     (if reg_read_only addr then Inr s
      else if addr = ENA_REGS_DEV_CTL_OFF then ena_dev_ctl_write s val
      else if addr = ENA_REGS_MMIO_REG_READ_OFF then Inr (ena_mmio_readless (set_REG s addr val) val)
      else if addr = ENA_REGS_AQ_DB_OFF then ena_admin_process Q (set_REG s addr val)
      else if addr = ENA_REGS_AQ_CAPS_OFF
      then bindR (ena_check_queue_caps Q val) (\<lambda>_. Inr ((set_REG s addr val)\<lparr>aq_head := 0\<rparr>))
      else if addr = ENA_REGS_ACQ_CAPS_OFF
      then bindR (ena_check_queue_caps Q val)
             (\<lambda>_. Inr (set_REG ((set_REG s addr val)\<lparr>acq_tail := 0, acq_phase := True\<rparr>) ENA_REGS_ACQ_TAIL_OFF 0))
      else if addr = ENA_REGS_AENQ_CAPS_OFF
      then bindR (ena_check_queue_caps Q val)
             (\<lambda>_. Inr (set_REG ((set_REG s addr val)\<lparr>aenq_tail := 0, aenq_phase := True\<rparr>) ENA_REGS_AENQ_TAIL_OFF 0))
      else if reg_plain addr then Inr (set_REG s addr val)
      else if addr = ENA_REGS_INTR_MASK_OFF
      then if val AND NOT 1 \<noteq> 0 then Inl (Unsupported U_intr_mask) else Inr (set_REG s addr val)
      else Inl (Unsupported U_register))"

definition sq_doorbell :: "qemu \<Rightarrow> EnaState \<Rightarrow> nat \<Rightarrow> u32 \<Rightarrow> EnaState result" where
  "sq_doorbell Q s i val =
     (let q = sq s ! i
      in if \<not> sq_used q then Inr s
         else if sq_depth q < ucast val - sq_head q then Inr s
         else let s = s\<lparr>sq := (sq s)[i := q\<lparr>sq_tail := ucast val\<rparr>]\<rparr>
              in if sq_is_tx q then ena_tx_doorbell Q s i else ena_rx_doorbell Q s i)"

definition ena_reg_write :: "qemu \<Rightarrow> EnaState \<Rightarrow> nat \<Rightarrow> u32 \<Rightarrow> EnaState result" where
  "ena_reg_write Q s addr val =
     (if ENA_REG_SQ_DB_BASE \<le> addr \<and> addr < ENA_REG_SQ_DB_BASE + ENA_MAX_SQ * 4
      then sq_doorbell Q s ((addr - ENA_REG_SQ_DB_BASE) div 4) val
      else if ENA_REG_CQ_UNMASK_BASE \<le> addr \<and> addr < ENA_REG_CQ_UNMASK_BASE + ENA_MAX_CQ * 4
      then Inr (ena_cq_unmask_write Q s ((addr - ENA_REG_CQ_UNMASK_BASE) div 4) val)
      else if ENA_REG_FILE_SIZE \<le> addr then Inl (Unsupported U_bar0_offset)
      else reg_file_write Q s addr val)"

section \<open>Callbacks\<close>

definition ena_nc_can_receive :: "EnaState \<Rightarrow> bool" where
  "ena_nc_can_receive s = ena_rx_can_receive s"

definition ena_nc_receive_iov :: "qemu \<Rightarrow> EnaState \<Rightarrow> byte list list \<Rightarrow> (nat \<times> EnaState) result" where
  "ena_nc_receive_iov Q s iov = ena_rx_receive_iov Q s iov"

definition ena_nc_receive :: "qemu \<Rightarrow> EnaState \<Rightarrow> byte list \<Rightarrow> (nat \<times> EnaState) result" where
  "ena_nc_receive Q s buf = ena_rx_receive_iov Q s [buf]"

definition ena_nc_link_status_changed :: "qemu \<Rightarrow> EnaState \<Rightarrow> EnaState result" where
  "ena_nc_link_status_changed Q s = ena_post_link_change Q s"

definition ena_qdev_reset_hold :: "EnaState \<Rightarrow> EnaState" where
  "ena_qdev_reset_hold s = ena_dev_reset s"

section \<open>Events\<close>

text \<open>
  Everything that can happen to the device. QEMU runs the callbacks one at a time; a timer callback
  runs only while the timer is armed, and disarms it.
\<close>

datatype event =
    RegRead nat
  | RegWrite nat u32
  | Receive "byte list"
  | ReceiveIov "byte list list"
  | LinkStatusChanged
  | KeepAliveFires
  | ModerationFires nat
  | SystemReset

fun enabled :: "event \<Rightarrow> EnaState \<Rightarrow> bool" where
  "enabled KeepAliveFires s \<longleftrightarrow> timer_armed KeepAliveTimer (trace s)"
| "enabled (ModerationFires v) s \<longleftrightarrow> v < ENA_MSIX_VECTORS \<and> timer_armed (ModerTimer (irq_vector (irq s ! v))) (trace s)"
| "enabled _ s \<longleftrightarrow> True"

fun dev_handle :: "qemu \<Rightarrow> event \<Rightarrow> EnaState \<Rightarrow> EnaState result" where
  "dev_handle Q (RegRead addr) s = Inr s"
| "dev_handle Q (RegWrite addr val) s = ena_reg_write Q s addr val"
| "dev_handle Q (Receive buf) s = bindR (ena_nc_receive Q s buf) (\<lambda>(n, s). Inr s)"
| "dev_handle Q (ReceiveIov iov) s = bindR (ena_nc_receive_iov Q s iov) (\<lambda>(n, s). Inr s)"
| "dev_handle Q LinkStatusChanged s = ena_nc_link_status_changed Q s"
| "dev_handle Q KeepAliveFires s = ena_keep_alive Q (emit (TimerFired KeepAliveTimer) s)"
| "dev_handle Q (ModerationFires v) s =
     Inr (ena_irq_moder_timer (emit (TimerFired (ModerTimer (irq_vector (irq s ! v)))) s) v)"
| "dev_handle Q SystemReset s = Inr (ena_qdev_reset_hold s)"

inductive dev_step :: "qemu \<Rightarrow> EnaState \<Rightarrow> event \<Rightarrow> EnaState \<Rightarrow> bool" for Q where
  step: "enabled e s \<Longrightarrow> dev_handle Q e s = Inr s' \<Longrightarrow> dev_step Q s e s'"

inductive reachable :: "qemu \<Rightarrow> byte list \<Rightarrow> bool \<Rightarrow> EnaState \<Rightarrow> bool" for Q mac large where
  init: "reachable Q mac large (ena_qdev_reset_hold (ena_realize mac large))"
| step: "reachable Q mac large s \<Longrightarrow> dev_step Q s e s' \<Longrightarrow> reachable Q mac large s'"

inductive_cases dev_stepE: "dev_step Q s e s'"

section \<open>Registers keep the invariant\<close>

lemma set_REG_sel:
  "sq (set_REG s a v) = sq s" "cq (set_REG s a v) = cq s" "irq (set_REG s a v) = irq s"
  "trace (set_REG s a v) = trace s" "macaddr (set_REG s a v) = macaddr s" "mtu (set_REG s a v) = mtu s"
  "rss (set_REG s a v) = rss s" "llq_enabled (set_REG s a v) = llq_enabled s"
  "llq_entry_size (set_REG s a v) = llq_entry_size s" "acq_tail (set_REG s a v) = acq_tail s"
  "acq_phase (set_REG s a v) = acq_phase s" "aq_head (set_REG s a v) = aq_head s"
  "reg (set_REG s a v) = (reg s)[a div 4 := v]"
  by (simp_all add: set_REG_def)

lemma regs_wf_update: "regs_wf r \<Longrightarrow> n \<notin> {6, 10, 13} \<or> caps_wf v \<Longrightarrow> regs_wf (r[n := v])"
  by (cases "n < length r")
     (auto simp: regs_wf_def nth_list_update ENA_REG_COUNT_def ENA_REG_FILE_SIZE_def list_update_beyond)

lemma dev_inv_set_REG:
  assumes "dev_inv s" and "a div 4 \<notin> {6, 10, 13} \<or> caps_wf v"
  shows "dev_inv (set_REG s a v)"
proof -
  have "regs_wf ((reg s)[a div 4 := v])"
    using assms by (intro regs_wf_update) (auto simp: dev_inv_def cfg_inv_def)
  then show ?thesis using assms(1) by (simp add: dev_inv_def cfg_inv_def irq_ok_def set_REG_sel)
qed

lemma dev_inv_rings:
  "dev_inv (s\<lparr>acq_tail := t, acq_phase := p\<rparr>) = dev_inv s" "dev_inv (s\<lparr>aenq_tail := t, aenq_phase := p\<rparr>) = dev_inv s"
  by (simp_all add: dev_inv_def cfg_inv_def irq_ok_def)

lemma check_queue_caps_wf:
  assumes "pow2_ok Q" and "ena_check_queue_caps Q val = Inr u"
  shows "caps_wf val"
proof -
  let ?d = "ucast (val AND 0xffff) :: u16"
  have "is_power_of_2 Q (ucast ?d)"
    using assms(2) by (simp add: ena_check_queue_caps_def Let_def ena_const GENMASK_def mask_eq_exp_minus_1 split: if_splits)
  then obtain k where "unat (ucast ?d :: u64) = 2 ^ k" using assms(1) by (auto simp: pow2_ok_def)
  moreover have "unat (ucast ?d :: u64) = unat ?d" by transfer simp
  ultimately have k: "unat ?d = 2 ^ k" by simp
  have "unat ?d < 2 ^ 16" using unsigned_less [of ?d] by simp
  with k have "(2 :: nat) ^ k < 2 ^ 16" by simp
  then have "k < 16" by (rule power_less_imp_less_exp [rotated]) simp
  moreover from k this have "?d = 2 ^ k" by (simp only: word_unat_eq_iff) (simp add: unat_pow2)
  ultimately show ?thesis by (auto simp: caps_wf_def is_ring_depth_def list_ex_iff)
qed

lemma check_queue_caps_abort: "ena_check_queue_caps Q val = Inl e \<Longrightarrow> guest_abort e"
  by (auto simp: ena_check_queue_caps_def Let_def split: if_splits)

lemma dev_inv_irq_frame:
  assumes "dev_inv s" and "irq_frame s' = irq_frame s" and "irq_ok s'"
  shows "dev_inv s'"
  using assms irq_frameD [OF assms(2)] by (simp add: dev_inv_def cfg_inv_def)

lemma ena_mmio_readless_inv: "dev_inv s \<Longrightarrow> dev_inv (ena_mmio_readless s req)"
  by (simp add: ena_mmio_readless_def Let_def ena_dma_write_def dev_inv_emit)

section \<open>The invariant of the whole device\<close>

text \<open>The admin completion ring is in step with the driver as soon as it has a depth.\<close>

definition acq_sync :: "EnaState \<Rightarrow> bool" where
  "acq_sync s \<longleftrightarrow> acq_depth s = 0 \<or> acq_counts (acq_depth s) (unat (acq_tail s)) s"

definition device_inv :: "EnaState \<Rightarrow> bool" where
  "device_inv s \<longleftrightarrow> dev_inv s \<and> acq_sync s \<and> aenq_sync s"

definition env_ok :: "qemu \<Rightarrow> bool" where
  "env_ok Q \<longleftrightarrow> pow2_ok Q \<and> iov_ok Q \<and> l2_ok Q"

lemma acq_depth_reg: "acq_depth s = ucast (reg s ! 10 AND 0xffff)"
  by (simp add: acq_depth_def REG_def ena_const GENMASK_def mask_eq_exp_minus_1)

lemma acq_sync_cong:
  "acq_tail s' = acq_tail s \<Longrightarrow> acq_phase s' = acq_phase s \<Longrightarrow> reg s' ! 10 = reg s ! 10 \<Longrightarrow> acq_sync s' = acq_sync s"
  by (simp add: acq_sync_def acq_counts_def acq_depth_reg)

lemma device_inv_dp: "device_inv s \<Longrightarrow> dp_step s s' \<Longrightarrow> device_inv s'"
  using cfgD(2,4-7) [of s' s] acq_sync_cong [of s' s] aenq_sync_cong [of s' s]
  by (auto simp: device_inv_def dp_step_def intro: dp_step_inv)

lemma device_inv_aenq:
  assumes "device_inv s" and "aenq_frame s' = aenq_frame s" and "ext_by admin_call s s'" and "aenq_sync s \<Longrightarrow> aenq_sync s'"
  shows "device_inv s'"
  using assms(1,4) dev_inv_aenq [OF _ assms(2,3)] aenq_frameD(10,11,14) [OF assms(2)] acq_sync_cong [of s' s]
  by (simp add: device_inv_def)

lemma device_inv_irq:
  assumes "device_inv s" and "irq_frame s' = irq_frame s" and "irq_ok s'"
  shows "device_inv s'"
  using assms(1) dev_inv_irq_frame [OF _ assms(2,3)] irq_frameD [OF assms(2)] acq_sync_cong [of s' s] aenq_sync_cong [of s' s]
  by (simp add: device_inv_def)

lemma device_inv_set_REG:
  assumes "device_inv s" and "a div 4 \<notin> {6, 10, 13} \<or> a div 4 = 6 \<and> caps_wf v"
  shows "device_inv (set_REG s a v)"
proof -
  have "dev_inv (set_REG s a v)" using assms by (intro dev_inv_set_REG) (auto simp: device_inv_def)
  moreover have a: "a div 4 \<noteq> 10" "a div 4 \<noteq> 13" using assms(2) by auto
  then have "acq_sync (set_REG s a v) = acq_sync s" by (intro acq_sync_cong) (simp_all add: set_REG_sel)
  ultimately show ?thesis using assms(1) a by (simp add: device_inv_def aenq_sync_set_REG)
qed

lemma device_inv_reset: "irq_ok s \<Longrightarrow> length (macaddr s) = 6 \<Longrightarrow> device_inv (ena_dev_reset s)"
  by (simp add: device_inv_def dev_reset_inv acq_sync_def acq_depth_reg aenq_sync_def aenq_depth_def REG_def
      ena_dev_reset_reg ENA_REG_COUNT_def ENA_REG_FILE_SIZE_def ENA_REGS_AENQ_CAPS_OFF_def)

subsection \<open>The admin queue\<close>

lemma admin_process_device:
  assumes "pow2_ok Q" and "device_inv s" and "ena_admin_process Q s = Inr s'"
  shows "device_inv s'"
proof (cases "admin_ready s \<and> admin_pending s \<le> unat (aq_depth s)")
  case False
  then have "ena_admin_process Q s = Inr s" by (simp only: admin_process_eq if_False)
  with assms show ?thesis by simp
next
  case True
  let ?d = "acq_depth s"
  have inv: "dev_inv s" and d: "?d \<noteq> 0" using assms(2) True by (auto simp: device_inv_def admin_ready_def)
  with assms(2) have cnt: "acq_counts ?d (unat (acq_tail s)) s" by (simp add: device_inv_def acq_sync_def)
  define loop where "loop = admin_loop Q (reg64 s ENA_REGS_AQ_BASE_HI_OFF ENA_REGS_AQ_BASE_LO_OFF)
    (reg64 s ENA_REGS_ACQ_BASE_HI_OFF ENA_REGS_ACQ_BASE_LO_OFF) (aq_depth s) ?d (ucast (REG s ENA_REGS_AQ_DB_OFF)) (s, False)"
  have "ena_admin_process Q s = bindR loop admin_finish" using True by (simp add: admin_process_eq loop_def)
  then have "bindR loop admin_finish = Inr s'" using assms(3) by simp
  then obtain s1 c where s1: "loop = Inr (s1, c)" "admin_finish (s1, c) = Inr s'"
    by (auto simp: bindR_eq_Inr)
  obtain n where n: "acq_counts ?d n s1" "dev_inv s1" "reg s1 ! 10 = reg s ! 10"
    using admin_loop_spec [OF s1(1) [unfolded loop_def] cnt] inv assms(1) by auto
  have reg: "reg s' ! 10 = reg s1 ! 10"
    using s1(2) by (auto simp: admin_finish_def Let_def set_REG_def ENA_REGS_ACQ_TAIL_OFF_def split: if_splits)
  from admin_finish_spec [OF n(2,1), of c] s1(2) have "acq_counts ?d n s'" "dev_inv s'" by auto
  moreover have "acq_depth s' = ?d" using reg n(3) by (simp add: acq_depth_reg)
  moreover have "aenq_sync s'"
    using admin_process_calls [OF assms(3)] assms(2) by (simp add: admin_step_def device_inv_def)
  ultimately show ?thesis
    by (simp add: device_inv_def acq_sync_def acq_counts_eq acqr.counts_tail)
qed

lemma admin_process_abort:
  "pow2_ok Q \<Longrightarrow> dev_inv s \<Longrightarrow> ena_admin_process Q s = Inl e \<Longrightarrow> guest_abort e"
  by (auto simp: admin_process_eq bindR_eq_Inl admin_finish_def Let_def split: if_splits dest: admin_loop_abort)

text \<open>The configuration a driver has set up, as the datapath sees it.\<close>

definition driver_view :: "EnaState \<Rightarrow> EnaSq list \<times> EnaCq list \<times> u32 \<times> EnaRss \<times> byte list \<times> bool \<times> u16" where
  "driver_view s = (map (\<lambda>q. q\<lparr>sq_tail := 0\<rparr>) (map cfg_sq (sq s)), map cfg_cq (cq s), mtu s, rss s, macaddr s,
     llq_enabled s, llq_entry_size s)"

lemma driver_view_cong:
  "cfg s' = cfg s \<Longrightarrow> driver_view s' = driver_view s"
  "aenq_frame s' = aenq_frame s \<Longrightarrow> driver_view s' = driver_view s"
  "irq_frame s' = irq_frame s \<Longrightarrow> driver_view s' = driver_view s"
  by (simp only: driver_view_def cfgD [of s' s]) (simp_all only: driver_view_def aenq_frameD [of s' s] irq_frameD [of s' s])

subsection \<open>The doorbells\<close>

lemma doorbell_tail_inv:
  assumes "device_inv s" and "i < 16" and "sq_used (sq s ! i)" and "\<not> sq_depth (sq s ! i) < ucast val - sq_head (sq s ! i)"
  shows "dev_inv (s\<lparr>sq := (sq s)[i := (sq s ! i)\<lparr>sq_tail := ucast val\<rparr>]\<rparr>)"
    "(sq s)[i := (sq s ! i)\<lparr>sq_tail := ucast val\<rparr>] ! i = (sq s ! i)\<lparr>sq_tail := ucast val\<rparr>"
proof -
  let ?q = "(sq s ! i)\<lparr>sq_tail := ucast val\<rparr>"
  have inv: "dev_inv s" using assms(1) by (simp add: device_inv_def)
  have "sq_wf (cq s) ?q" using dev_invD(7) [OF inv assms(2)] by (simp add: sq_wf_def)
  moreover have "sq_posted ?q \<le> unat (sq_depth ?q)" using assms(4) by (simp add: sq_posted_def word_less_nat_alt)
  ultimately show "dev_inv (s\<lparr>sq := (sq s)[i := ?q]\<rparr>)" using inv assms(2) by (intro dev_inv_set_sq) simp_all
  show "(sq s)[i := ?q] ! i = ?q" using dev_invD(3) [OF inv] assms(2) by simp
qed

lemma sq_doorbell_runs:
  assumes "env_ok Q" and "device_inv s" and "i < 16"
  shows "\<exists>s'. sq_doorbell Q s i val = Inr s' \<and> device_inv s' \<and> driver_view s' = driver_view s"
proof (cases "sq_used (sq s ! i) \<and> \<not> sq_depth (sq s ! i) < ucast val - sq_head (sq s ! i)")
  case False
  then have "sq_doorbell Q s i val = Inr s" by (auto simp: sq_doorbell_def Let_def)
  with assms(2) show ?thesis by simp
next
  case True
  let ?q = "(sq s ! i)\<lparr>sq_tail := ucast val\<rparr>"
  let ?s = "s\<lparr>sq := (sq s)[i := ?q]\<rparr>"
  have dev: "device_inv ?s"
    using assms(2,3) True doorbell_tail_inv [of s i val] acq_sync_cong [of ?s s] aenq_sync_cong [of ?s s]
    by (simp add: device_inv_def)
  have q: "sq ?s ! i = ?q" using assms(2,3) True by (simp add: doorbell_tail_inv)
  have "\<exists>s'. (if sq_is_tx (sq s ! i) then ena_tx_doorbell Q ?s i else ena_rx_doorbell Q ?s i) = Inr s' \<and> dp_step ?s s'"
    using tx_db.runs [of ?s Q i] rx_db.runs [of ?s Q i] dev True assms(1,3) q
    by (auto simp: device_inv_def env_ok_def)
  then obtain s' where s': "(if sq_is_tx (sq s ! i) then ena_tx_doorbell Q ?s i else ena_rx_doorbell Q ?s i) = Inr s'"
      "dp_step ?s s'"
    by blast
  have "driver_view ?s = driver_view s"
    using q by (simp add: driver_view_def list_eq_iff_nth_eq nth_list_update cfg_sq_def)
  then have "driver_view s' = driver_view s"
    using driver_view_cong(1) [of s' ?s] s'(2) by (simp only: dp_step_def)
  moreover have "sq_doorbell Q s i val = Inr s'" using True s'(1) by (simp add: sq_doorbell_def Let_def)
  ultimately show ?thesis using device_inv_dp [OF dev s'(2)] by blast
qed

section \<open>Every event keeps the invariant\<close>

lemma reg_file_write_inv:
  assumes "env_ok Q" and "device_inv s" and "reg_file_write Q s addr val = Inr s'"
  shows "device_inv s'"
proof -
  have pow: "pow2_ok Q" using assms(1) by (simp add: env_ok_def)
  have ok: "irq_ok s" "length (macaddr s) = 6" using assms(2) dev_invD(2,6) by (simp_all add: device_inv_def)
  have plain: "device_inv (set_REG s a v)" if "a div 4 \<notin> {6, 10, 13}" for a v
    using assms(2) that by (intro device_inv_set_REG) auto
  consider (ro) "reg_read_only addr" | (ctl) "addr = ENA_REGS_DEV_CTL_OFF" | (rd) "addr = ENA_REGS_MMIO_REG_READ_OFF"
    | (db) "addr = ENA_REGS_AQ_DB_OFF" | (aq) "addr = ENA_REGS_AQ_CAPS_OFF" | (acq) "addr = ENA_REGS_ACQ_CAPS_OFF"
    | (aenq) "addr = ENA_REGS_AENQ_CAPS_OFF" | (store) "reg_plain addr \<or> addr = ENA_REGS_INTR_MASK_OFF"
    using assms(3) by (auto simp: reg_file_write_def split: if_splits)
  then show ?thesis
  proof cases
    case ro
    with assms show ?thesis by (simp add: reg_file_write_def)
  next
    case ctl
    then have "ena_dev_ctl_write s val = Inr s'"
      using assms(3) by (simp add: reg_file_write_def reg_read_only_def ena_const)
    then show ?thesis
      using device_inv_reset [OF ok] assms(2)
      by (auto simp: ena_dev_ctl_write_def Let_def ENA_REGS_DEV_CTL_OFF_def ENA_REGS_DEV_STS_OFF_def
          intro!: device_inv_set_REG split: if_splits)
  next
    case rd
    then have s': "s' = ena_mmio_readless (set_REG s addr val) val"
      using assms(3) by (simp add: reg_file_write_def reg_read_only_def ena_const)
    have "device_inv (set_REG s addr val)" using plain [of addr val] rd by (simp add: ENA_REGS_MMIO_REG_READ_OFF_def)
    then show ?thesis
      unfolding s' device_inv_def
      by (simp add: ena_mmio_readless_inv) (simp add: ena_mmio_readless_def Let_def ena_dma_write_def
          acq_sync_def acq_counts_def acq_depth_reg)
  next
    case db
    then have "ena_admin_process Q (set_REG s addr val) = Inr s'"
      using assms(3) by (simp add: reg_file_write_def reg_read_only_def ena_const)
    moreover have "device_inv (set_REG s addr val)" using plain [of addr val] db by (simp add: ENA_REGS_AQ_DB_OFF_def)
    ultimately show ?thesis using admin_process_device [OF pow] by blast
  next
    case aq
    then have wf: "caps_wf val" and s': "s' = (set_REG s addr val)\<lparr>aq_head := 0\<rparr>"
      using assms(3) check_queue_caps_wf [OF pow, of val]
      by (auto simp: reg_file_write_def reg_read_only_def ena_const bindR_eq_Inr)
    have "device_inv (set_REG s addr val)"
      using assms(2) wf aq by (intro device_inv_set_REG) (simp_all add: ENA_REGS_AQ_CAPS_OFF_def)
    then show ?thesis by (simp add: s' device_inv_def acq_sync_def acq_counts_def acq_depth_reg)
  next
    case acq
    then have wf: "caps_wf val" and
      s': "s' = set_REG ((set_REG s addr val)\<lparr>acq_tail := 0, acq_phase := True\<rparr>) ENA_REGS_ACQ_TAIL_OFF 0"
      using assms(3) check_queue_caps_wf [OF pow, of val]
      by (auto simp: reg_file_write_def reg_read_only_def ena_const bindR_eq_Inr)
    have "dev_inv (set_REG s addr val)" using assms(2) wf by (intro dev_inv_set_REG) (simp_all add: device_inv_def)
    then have "dev_inv s'" unfolding s' by (intro dev_inv_set_REG) (simp_all add: dev_inv_rings ENA_REGS_ACQ_TAIL_OFF_def)
    moreover have "reg s' ! 10 = val"
      using assms(2) dev_invD(5) acq by (simp add: s' set_REG_sel device_inv_def ENA_REGS_ACQ_TAIL_OFF_def ENA_REGS_ACQ_CAPS_OFF_def)
    moreover have "aenq_sync s'"
      using assms(2) acq by (simp add: s' device_inv_def aenq_sync_set_REG ENA_REGS_ACQ_TAIL_OFF_def ENA_REGS_ACQ_CAPS_OFF_def)
    ultimately show ?thesis
      using wf by (auto simp: device_inv_def acq_sync_def acq_depth_reg acq_counts_def caps_wf_def s' set_REG_sel)
  next
    case aenq
    then have wf: "caps_wf val" and
      s': "s' = set_REG ((set_REG s addr val)\<lparr>aenq_tail := 0, aenq_phase := True\<rparr>) ENA_REGS_AENQ_TAIL_OFF 0"
      using assms(3) check_queue_caps_wf [OF pow, of val]
      by (auto simp: reg_file_write_def reg_read_only_def ena_const bindR_eq_Inr)
    have "dev_inv (set_REG s addr val)" using assms(2) wf by (intro dev_inv_set_REG) (simp_all add: device_inv_def)
    then have "dev_inv s'" unfolding s' by (intro dev_inv_set_REG) (simp_all add: dev_inv_rings ENA_REGS_AENQ_TAIL_OFF_def)
    moreover have "acq_sync s' = acq_sync s" using aenq
      by (intro acq_sync_cong) (simp_all add: s' set_REG_sel ENA_REGS_AENQ_TAIL_OFF_def ENA_REGS_AENQ_CAPS_OFF_def)
    moreover have "aenq_depth s' = ucast (val AND 0xffff)"
      using assms(2) dev_invD(5) aenq
      by (simp add: s' device_inv_def aenq_depth_def REG_def set_REG_sel ena_const GENMASK_def mask_eq_exp_minus_1)
    then have "aenq_sync s'" using wf by (auto simp: aenq_sync_def aenq_counts_def caps_wf_def) (simp_all add: s')
    ultimately show ?thesis using assms(2) by (simp add: device_inv_def)
  next
    case store
    then have "s' = set_REG s addr val"
      using assms(3) by (auto simp: reg_file_write_def reg_read_only_def reg_plain_def ena_const split: if_splits)
    moreover have "addr div 4 \<notin> {6, 10, 13}" using store by (auto simp: reg_plain_def ena_const)
    ultimately show ?thesis using plain by simp
  qed
qed


lemma reg_file_write_abort:
  assumes "env_ok Q" and "device_inv s" and "reg_file_write Q s addr val = Inl e"
  shows "guest_abort e"
proof -
  have pow: "pow2_ok Q" using assms(1) by (simp add: env_ok_def)
  have "dev_inv (set_REG s ENA_REGS_AQ_DB_OFF val)"
    using assms(2) by (intro dev_inv_set_REG) (simp_all add: device_inv_def ENA_REGS_AQ_DB_OFF_def)
  note db = admin_process_abort [OF pow this]
  show ?thesis
    using assms(3)
    by (auto simp: reg_file_write_def bindR_eq_Inl ena_dev_ctl_write_def Let_def split: if_splits
        dest: check_queue_caps_abort db)
qed

text \<open>
  The events that reach the device without a register of the register file: the doorbells, the
  unmask registers, frames, the link, the timers, and a system reset.
\<close>

fun datapath_event :: "event \<Rightarrow> bool" where
  "datapath_event (RegWrite addr val) \<longleftrightarrow>
     ENA_REG_SQ_DB_BASE \<le> addr \<and> addr < ENA_REG_SQ_DB_BASE + ENA_MAX_SQ * 4 \<or>
     ENA_REG_CQ_UNMASK_BASE \<le> addr \<and> addr < ENA_REG_CQ_UNMASK_BASE + ENA_MAX_CQ * 4"
| "datapath_event _ \<longleftrightarrow> True"


lemma receive_runs:
  assumes "env_ok Q" and "device_inv s"
  shows "\<exists>s'. bindR (ena_rx_receive_iov Q s iov) (\<lambda>(n, s). Inr s) = Inr s' \<and> device_inv s' \<and> driver_view s' = driver_view s"
proof -
  obtain s' where s': "bindR (ena_rx_receive_iov Q s iov) (\<lambda>(n, s). Inr s) = Inr s'" "dp_step s s'"
    using rx_in.runs [of s Q iov] assms unfolding env_ok_def device_inv_def by blast
  moreover have "cfg s' = cfg s" using s'(2) by (simp add: dp_step_def)
  ultimately show ?thesis using device_inv_dp [OF assms(2)] driver_view_cong(1) by blast
qed

lemma timer_fired_frame:
  assumes "device_inv s" and "timer_wf t"
  shows "device_inv (emit (TimerFired t) s) \<and> driver_view (emit (TimerFired t) s) = driver_view s"
proof -
  have "irq_ok (emit (TimerFired t) s)"
    using assms by (auto simp: device_inv_def dev_inv_def irq_ok_def)
  with assms(1) show ?thesis by (auto simp: driver_view_def intro: device_inv_irq)
qed

lemma doorbell_index: "ENA_REG_SQ_DB_BASE \<le> a \<Longrightarrow> a < ENA_REG_SQ_DB_BASE + ENA_MAX_SQ * 4 \<Longrightarrow> (a - ENA_REG_SQ_DB_BASE) div 4 < 16"
  by (simp add: ENA_MAX_SQ_def ENA_MAX_IO_QUEUES_def div_less_iff_less_mult less_diff_conv2)

lemma reg_write_runs:
  assumes env: "env_ok Q" and inv: "device_inv s" and "datapath_event (RegWrite addr val)"
  shows "\<exists>s'. ena_reg_write Q s addr val = Inr s' \<and> device_inv s' \<and> driver_view s' = driver_view s"
proof (cases "ENA_REG_SQ_DB_BASE \<le> addr \<and> addr < ENA_REG_SQ_DB_BASE + ENA_MAX_SQ * 4")
  case True
  then have "(addr - ENA_REG_SQ_DB_BASE) div 4 < 16" by (intro doorbell_index) simp_all
  from sq_doorbell_runs [OF env inv this] show ?thesis
    using True by (simp only: ena_reg_write_def if_True simp_thms)
next
  case False
  let ?s = "ena_cq_unmask_write Q s ((addr - ENA_REG_CQ_UNMASK_BASE) div 4) val"
  have "irq_ok s" using inv dev_invD(2) by (simp add: device_inv_def)
  then have "device_inv ?s" by (intro device_inv_irq [OF inv] irq_frame_unmask ena_cq_unmask_ok)
  moreover have "ena_reg_write Q s addr val = Inr ?s"
    using False assms(3) by (simp only: datapath_event.simps ena_reg_write_def if_False if_True simp_thms)
  moreover have "driver_view ?s = driver_view s" by (intro driver_view_cong(3) irq_frame_unmask)
  ultimately show ?thesis by blast
qed

lemma link_change_runs:
  assumes "device_inv s"
  shows "\<exists>s'. ena_post_link_change Q s = Inr s' \<and> device_inv s' \<and> driver_view s' = driver_view s"
proof -
  obtain s' where "ena_post_link_change Q s = Inr s'" "aenq_frame s' = aenq_frame s" "ext_by admin_call s s'"
    by (rule ena_post_link_change_frame)
  then show ?thesis using device_inv_aenq [OF assms] driver_view_cong(2) aenq_events_sync(1) by blast
qed

lemma keep_alive_runs:
  assumes "device_inv s"
  shows "\<exists>s'. ena_keep_alive Q s = Inr s' \<and> device_inv s' \<and> driver_view s' = driver_view s"
proof -
  obtain s' where "ena_keep_alive Q s = Inr s'" "aenq_frame s' = aenq_frame s" "ext_by admin_call s s'"
    by (rule ena_keep_alive_frame)
  then show ?thesis using device_inv_aenq [OF assms] driver_view_cong(2) aenq_events_sync(2) by blast
qed

lemma moder_timer_frame:
  assumes "device_inv s" and "v < 9"
  shows "device_inv (ena_irq_moder_timer s v)" "driver_view (ena_irq_moder_timer s v) = driver_view s"
proof -
  have "irq_ok s" using assms(1) dev_invD(2) by (simp add: device_inv_def)
  then show "device_inv (ena_irq_moder_timer s v)"
    unfolding ena_irq_moder_timer_def using assms(2) by (intro device_inv_irq [OF assms(1)] irq_frame_fire ena_irq_fire_ok)
  show "driver_view (ena_irq_moder_timer s v) = driver_view s"
    unfolding ena_irq_moder_timer_def by (intro driver_view_cong(3) irq_frame_fire)
qed

lemma datapath_runs:
  assumes env: "env_ok Q" and inv: "device_inv s" and en: "enabled e s" and dp: "datapath_event e"
  shows "\<exists>s'. dev_handle Q e s = Inr s' \<and> device_inv s' \<and> (e \<noteq> SystemReset \<longrightarrow> driver_view s' = driver_view s)"
proof (cases e)
  case (RegWrite addr val)
  then show ?thesis using reg_write_runs [OF env inv, of addr val] dp by auto
next
  case (Receive buf)
  then show ?thesis
    using receive_runs [OF env inv, of "[buf]"] by (auto simp: ena_nc_receive_def)
next
  case (ReceiveIov iov)
  then show ?thesis
    using receive_runs [OF env inv, of iov] by (auto simp: ena_nc_receive_iov_def)
next
  case LinkStatusChanged
  then show ?thesis using link_change_runs [OF inv, of Q] by (auto simp: ena_nc_link_status_changed_def)
next
  case KeepAliveFires
  then show ?thesis
    using keep_alive_runs [of "emit (TimerFired KeepAliveTimer) s" Q] timer_fired_frame [OF inv, of KeepAliveTimer] by auto
next
  case (ModerationFires v)
  let ?t = "emit (TimerFired (ModerTimer (irq_vector (irq s ! v)))) s"
  have v: "v < 9" using en by (simp add: ModerationFires vectors9)
  moreover have "irq_vector (irq s ! v) = of_nat v"
    using inv dev_invD(2) [of s] v by (simp add: device_inv_def irq_okD)
  then have "timer_wf (ModerTimer (irq_vector (irq s ! v)))" using v by (simp add: vectors9)
  ultimately show ?thesis
    using moder_timer_frame [of ?t v] timer_fired_frame [OF inv, of "ModerTimer (irq_vector (irq s ! v))"]
    by (simp add: ModerationFires)
next
  case SystemReset
  then show ?thesis
    using inv device_inv_reset [of s] dev_invD(2,6) [of s] by (simp add: ena_qdev_reset_hold_def device_inv_def)
qed (use inv in simp)

lemma register_write_cases:
  assumes "\<not> datapath_event e"
  obtains addr val where "e = RegWrite addr val"
    "dev_handle Q e s = (if ENA_REG_FILE_SIZE \<le> addr then Inl (Unsupported U_bar0_offset) else reg_file_write Q s addr val)"
  using assms by (cases e) (auto simp: ena_reg_write_def)

lemma handle_inv:
  assumes "env_ok Q" and "device_inv s" and "enabled e s" and "dev_handle Q e s = Inr s'"
  shows "device_inv s'"
proof (cases "datapath_event e")
  case True
  then show ?thesis using datapath_runs [OF assms(1,2,3)] assms(4) by auto
next
  case False
  then show ?thesis
    using assms(4) reg_file_write_inv [OF assms(1,2)] by (elim register_write_cases [of e Q s]) (auto split: if_splits)
qed

lemma handle_abort:
  assumes "env_ok Q" and "device_inv s" and "enabled e s" and "dev_handle Q e s = Inl a"
  shows "guest_abort a"
proof (cases "datapath_event e")
  case True
  then show ?thesis using datapath_runs [OF assms(1,2,3)] assms(4) by auto
next
  case False
  then show ?thesis
    using assms(4) reg_file_write_abort [OF assms(1,2)] by (elim register_write_cases [of e Q s]) (auto split: if_splits)
qed

lemma realize_inv: "length mac = 6 \<Longrightarrow> device_inv (ena_qdev_reset_hold (ena_realize mac large))"
  unfolding ena_qdev_reset_hold_def by (intro device_inv_reset irq_ok_realize) (simp add: ena_realize_def)

lemma reachable_device_inv:
  assumes "reachable Q mac large s" and "env_ok Q" and "length mac = 6"
  shows "device_inv s"
  using assms by (induction rule: reachable.induct) (auto simp: realize_inv elim!: dev_stepE intro: handle_inv)

section \<open>Properties of the device\<close>

text \<open>
  C1. Whatever sequence of register writes, frames, link changes, timer expiries and resets the
  device handles, its state keeps the invariant: register file, queue tables, ring depths and
  entry sizes, the references from submission to completion queues, MTU, RSS and LLQ
  configuration are well-formed, no queue holds more entries than its depth, the completion rings
  and the rings of admin completions and events are in step with their phase, and a running moderation timer
  belongs to an unmasked vector.
\<close>

theorem reachable_inv:
  assumes "env_ok Q" and "length mac = 6" and "reachable Q mac large s"
  shows "device_inv s"
  using assms by (intro reachable_device_inv)

text \<open>
  C6. In no reachable state can an event make the device fail an internal assertion, leave an
  array or run a loop forever: the only way to abort it is a request the device declares
  unsupported (or a host information block for an operating system other than the supported ones).
\<close>

theorem reachable_only_guest_aborts:
  assumes "env_ok Q" and "length mac = 6" and "reachable Q mac large s" and "enabled e s"
    and "dev_handle Q e s = Inl a"
  shows "guest_abort a"
  using reachable_device_inv [OF assms(3,1,2)] assms(1,4,5) by (intro handle_abort)

text \<open>
  C14. In every reachable state a doorbell, a write to an unmask register, an incoming frame, a
  link change, an expired timer and a reset are handled to the end: none of them aborts. Apart from
  the reset they leave what the driver has set up (the queues' configuration, MTU, RSS, MAC
  address) untouched.
\<close>

theorem datapath_events_run:
  assumes "env_ok Q" and "length mac = 6" and "reachable Q mac large s" and "enabled e s"
    and "datapath_event e"
  shows "\<exists>s'. dev_handle Q e s = Inr s' \<and> (e \<noteq> SystemReset \<longrightarrow> driver_view s' = driver_view s)"
  using datapath_runs [OF assms(1) reachable_device_inv [OF assms(3,1,2)] assms(4,5)] by blast

lemma doorbell_offset:
  assumes "i < 16"
  shows "ena_reg_write Q s (ENA_REG_SQ_DB_BASE + 4 * i) val = sq_doorbell Q s i val"
    "ena_reg_write Q s (ENA_REG_CQ_UNMASK_BASE + 4 * i) val = Inr (ena_cq_unmask_write Q s i val)"
  using assms by (simp_all add: ena_reg_write_def ena_const)

text \<open>
  The register file as the driver sees it: an offset that is plain storage reads back what
  was written and every other offset of the register file reads as before, and a write to a read-only
  register has no effect at all.
\<close>

theorem reg_write_read:
  assumes "dev_inv s" and "addr < ENA_REG_FILE_SIZE" and "4 dvd addr"
  shows "(reg_plain addr \<longrightarrow> (\<exists>s'. ena_reg_write Q s addr val = Inr s' \<and> ena_reg_read s' addr = val \<and>
      (\<forall>a. 4 dvd a \<and> a \<noteq> addr \<longrightarrow> ena_reg_read s' a = ena_reg_read s a))) \<and>
    (reg_read_only addr \<longrightarrow> ena_reg_write Q s addr val = Inr s)"
proof -
  have w: "ena_reg_write Q s addr val = reg_file_write Q s addr val"
    using assms(2) by (simp add: ena_reg_write_def ena_const)
  have len: "addr div 4 < length (reg s)" using dev_invD(5) [OF assms(1)] assms(2) by (simp add: ena_const)
  have "reg_file_write Q s addr val = Inr (set_REG s addr val)" if "reg_plain addr"
    using that by (auto simp: reg_file_write_def reg_plain_def reg_read_only_def ena_const)
  moreover have "ena_reg_read (set_REG s addr val) addr = val"
    using assms(2) len by (simp add: ena_reg_read_def ena_reg_file_read_def REG_def set_REG_def)
  moreover have "ena_reg_read (set_REG s addr val) a = ena_reg_read s a" if "4 dvd a" "a \<noteq> addr" for a
  proof -
    have "a div 4 \<noteq> addr div 4" using that assms(3) by auto
    then show ?thesis by (simp add: ena_reg_read_def ena_reg_file_read_def REG_def set_REG_def)
  qed
  ultimately show ?thesis by (auto simp: w reg_file_write_def)
qed

subsection \<open>Witnesses\<close>

lemma quiet_env_ok: "env_ok (quiet_qemu mem llq)"
  by (simp add: env_ok_def quiet_pow2_ok quiet_iov_ok quiet_l2_ok)

text \<open>A device whose driver has just given the admin completion ring eight entries.\<close>

definition booted_state :: EnaState where
  "booted_state = set_REG ((set_REG fresh_state ENA_REGS_ACQ_CAPS_OFF 0x400008)\<lparr>acq_tail := 0, acq_phase := True\<rparr>)
     ENA_REGS_ACQ_TAIL_OFF 0"

lemma fresh_reachable: "reachable Q [2, 0, 0, 0, 0, 1] False fresh_state"
  using reachable.init [of Q "[2, 0, 0, 0, 0, 1]" False] by (simp add: fresh_state_def ena_qdev_reset_hold_def)

lemma sample_caps_ok: "ena_check_queue_caps (quiet_qemu mem llq) 0x400008 = Inr ()"
proof -
  have "is_power_of_2 (quiet_qemu mem llq) 8"
    using quiet_pow2_ok [of mem llq] unfolding pow2_ok_def by (auto intro: exI [of _ 3])
  then show ?thesis by (simp add: ena_check_queue_caps_def Let_def ena_const GENMASK_def mask_eq_exp_minus_1)
qed

lemma booted_step:
  "dev_step (quiet_qemu mem llq) fresh_state (RegWrite ENA_REGS_ACQ_CAPS_OFF 0x400008) booted_state"
  using sample_caps_ok
  by (intro dev_step.intros) (simp_all add: ena_reg_write_def reg_file_write_def reg_read_only_def booted_state_def ena_const)

lemma booted_reachable: "reachable (quiet_qemu mem llq) [2, 0, 0, 0, 0, 1] False booted_state"
  by (rule reachable.step [OF fresh_reachable booted_step])

theorem reachable_inv_witness: "device_inv booted_state \<and> acq_depth booted_state = 8"
proof -
  have "device_inv booted_state"
    by (rule reachable_inv [OF quiet_env_ok _ booted_reachable]) simp
  moreover have "reg booted_state ! 10 = 0x400008"
    using dev_invD(5) [OF fresh_inv] by (simp add: booted_state_def set_REG_def ena_const)
  ultimately show ?thesis by (simp add: acq_depth_reg)
qed

theorem reachable_only_guest_aborts_witness:
  "dev_handle (quiet_qemu (\<lambda>_. 0) (\<lambda>_. 0)) (RegWrite ENA_REGS_INTR_MASK_OFF 2) booted_state = Inl (Unsupported U_intr_mask) \<and>
   guest_abort (Unsupported U_intr_mask)"
proof -
  have run: "dev_handle (quiet_qemu (\<lambda>_. 0) (\<lambda>_. 0)) (RegWrite ENA_REGS_INTR_MASK_OFF 2) booted_state =
      Inl (Unsupported U_intr_mask)"
    by (simp add: ena_reg_write_def reg_file_write_def reg_read_only_def reg_plain_def ena_const)
  with reachable_only_guest_aborts [OF quiet_env_ok _ booted_reachable _ run] show ?thesis by simp
qed

theorem datapath_events_run_witness:
  "\<exists>s'. dev_handle (quiet_qemu (\<lambda>_. 0) (\<lambda>_. 0)) (Receive (replicate 60 0)) booted_state = Inr s' \<and>
     driver_view s' = driver_view booted_state"
  using datapath_events_run [OF quiet_env_ok [of "\<lambda>_. 0" "\<lambda>_. 0"] _ booted_reachable, where e = "Receive (replicate 60 0)"]
  by simp

theorem reg_write_read_witness:
  "\<exists>s'. ena_reg_write (quiet_qemu (\<lambda>_. 0) (\<lambda>_. 0)) fresh_state ENA_REGS_AQ_BASE_LO_OFF 0x1000 = Inr s' \<and>
     ena_reg_read s' ENA_REGS_AQ_BASE_LO_OFF = 0x1000 \<and> ena_reg_read s' ENA_REGS_DEV_STS_OFF = 1"
proof -
  have "ena_reg_read fresh_state ENA_REGS_DEV_STS_OFF = 1"
    by (simp add: fresh_state_def ena_reg_read_def ena_reg_file_read_def REG_reset ena_const)
  then show ?thesis
    using reg_write_read [OF fresh_inv, where addr = ENA_REGS_AQ_BASE_LO_OFF and Q = "quiet_qemu (\<lambda>_. 0) (\<lambda>_. 0)" and val = "0x1000"]
    by (auto simp: reg_plain_def ena_const)
qed

end
