(* ===== verification/Ena_Boot.thy ===== *)
theory Ena_Boot
  imports Ena_Device
begin

text \<open>
  The way a driver brings the device up, as a sequence of register writes: the reset handshake, then
  base, depth and entry size of the admin queue, its completion queue and the event queue, and the
  credit for events. The theory composes the register interface (\<open>Ena_Device\<close>) with the reset
  (\<open>Ena_Reset\<close>), the event queue (\<open>Ena_Aenq\<close>) and admin processing (\<open>Ena_Admin\<close>).
\<close>

unbundle bit_operations_syntax

section \<open>The driver's writes\<close>

primrec reg_writes :: "qemu \<Rightarrow> (nat \<times> u32) list \<Rightarrow> EnaState \<Rightarrow> EnaState result" where
  "reg_writes Q [] s = Inr s"
| "reg_writes Q (w # ws) s = bindR (ena_reg_write Q s (fst w) (snd w)) (reg_writes Q ws)"

text \<open>The value of a capability register: entries of 64 bytes and the depth.\<close>

definition queue_caps :: "u16 \<Rightarrow> u32" where
  "queue_caps d = push_bit 16 64 OR ucast d"

definition ring_writes :: "nat \<Rightarrow> nat \<Rightarrow> nat \<Rightarrow> u64 \<Rightarrow> u16 \<Rightarrow> (nat \<times> u32) list" where
  "ring_writes lo hi caps base d = [(lo, ucast base), (hi, ucast (drop_bit 32 base)), (caps, queue_caps d)]"

definition boot_writes :: "u32 \<Rightarrow> u64 \<Rightarrow> u64 \<Rightarrow> u64 \<Rightarrow> u16 \<Rightarrow> (nat \<times> u32) list" where
  "boot_writes reason aq acq aenq d =
     [(ENA_REGS_DEV_CTL_OFF, reason), (ENA_REGS_DEV_CTL_OFF, 0)] @
     ring_writes ENA_REGS_AQ_BASE_LO_OFF ENA_REGS_AQ_BASE_HI_OFF ENA_REGS_AQ_CAPS_OFF aq d @
     ring_writes ENA_REGS_ACQ_BASE_LO_OFF ENA_REGS_ACQ_BASE_HI_OFF ENA_REGS_ACQ_CAPS_OFF acq d @
     ring_writes ENA_REGS_AENQ_BASE_LO_OFF ENA_REGS_AENQ_BASE_HI_OFF ENA_REGS_AENQ_CAPS_OFF aenq d @
     [(ENA_REGS_AENQ_HEAD_DB_OFF, ucast d)]"

section \<open>What each write does\<close>

lemma queue_caps_fields:
  "queue_caps d AND 0xffff = ucast d" "drop_bit 16 (queue_caps d AND 0xffff0000) = 64"
proof -
  have m: "(0xffff :: u32) = mask 16" "(0xffff0000 :: u32) = push_bit 16 (mask 16)"
    by (simp_all add: mask_eq_exp_minus_1)
  define e :: u32 where "e = 2 ^ 6"
  have e: "bit e n \<longleftrightarrow> n = 6" for n by (auto simp: e_def bit_simps simp del: power_numeral)
  have caps: "queue_caps d = push_bit 16 e OR ucast d" by (simp add: queue_caps_def e_def)
  have d: "bit d n \<Longrightarrow> n < 16" for n using bit_imp_le_length [of d n] by simp
  show "queue_caps d AND 0xffff = ucast d"
    unfolding m caps by (rule bit_word_eqI) (auto simp: bit_simps dest: d)
  have "drop_bit 16 (queue_caps d AND 0xffff0000) = e"
    unfolding m caps by (rule bit_word_eqI) (auto simp: bit_simps e dest: d)
  then show "drop_bit 16 (queue_caps d AND 0xffff0000) = 64" by (simp add: e_def)
qed

lemma queue_caps_accepted:
  assumes "pow2_ok Q" and "is_ring_depth d"
  shows "ena_check_queue_caps Q (queue_caps d) = Inr ()"
proof -
  obtain k where "k \<le> 15" "unat d = 2 ^ k" using assms(2) by (auto elim: is_ring_depthE)
  moreover have "unat (ucast d :: u64) = unat d" by transfer simp
  ultimately have "is_power_of_2 Q (ucast d)" using assms(1) by (auto simp: pow2_ok_def)
  moreover have "(ucast (ucast d :: u32) :: u16) = d" by transfer simp
  ultimately show ?thesis
    using queue_caps_fields [of d] by (simp add: ena_check_queue_caps_def Let_def ena_const GENMASK_def mask_eq_exp_minus_1)
qed

lemma reg64_halves: "push_bit 32 (ucast (ucast (drop_bit 32 b) :: u32)) OR ucast (ucast b :: u32) = (b :: u64)"
  by (rule bit_word_eqI) (auto simp: bit_simps)

lemma reg_write_file: "a < ENA_REG_FILE_SIZE \<Longrightarrow> ena_reg_write Q s a v = reg_file_write Q s a v"
  by (simp add: ena_reg_write_def ena_const)

lemma reg_write_plain: "reg_plain a \<Longrightarrow> ena_reg_write Q s a v = Inr (set_REG s a v)"
  by (auto simp: reg_plain_def reg_write_file reg_file_write_def reg_read_only_def ena_const)

lemma reg_write_caps:
  assumes "pow2_ok Q" and "is_ring_depth d"
  shows "ena_reg_write Q s ENA_REGS_AQ_CAPS_OFF (queue_caps d) =
      Inr ((set_REG s ENA_REGS_AQ_CAPS_OFF (queue_caps d))\<lparr>aq_head := 0\<rparr>)"
    "ena_reg_write Q s ENA_REGS_ACQ_CAPS_OFF (queue_caps d) =
      Inr (set_REG ((set_REG s ENA_REGS_ACQ_CAPS_OFF (queue_caps d))\<lparr>acq_tail := 0, acq_phase := True\<rparr>) ENA_REGS_ACQ_TAIL_OFF 0)"
    "ena_reg_write Q s ENA_REGS_AENQ_CAPS_OFF (queue_caps d) =
      Inr (set_REG ((set_REG s ENA_REGS_AENQ_CAPS_OFF (queue_caps d))\<lparr>aenq_tail := 0, aenq_phase := True\<rparr>) ENA_REGS_AENQ_TAIL_OFF 0)"
  using queue_caps_accepted [OF assms]
  by (simp_all add: reg_write_file reg_file_write_def reg_read_only_def ena_const)

lemma reg_writes_inv:
  "env_ok Q \<Longrightarrow> device_inv s \<Longrightarrow> reg_writes Q ws s = Inr s' \<Longrightarrow> device_inv s'"
proof (induction ws arbitrary: s)
  case (Cons w ws)
  then obtain s1 where "ena_reg_write Q s (fst w) (snd w) = Inr s1" "reg_writes Q ws s1 = Inr s'"
    by (auto simp: bindR_eq_Inr)
  with Cons handle_inv [of Q s "RegWrite (fst w) (snd w)" s1] show ?case by auto
qed simp

section \<open>The device after the writes\<close>

lemma boot_run:
  assumes "pow2_ok Q" and "bit reason 0" and "dev_ctl_ok reason" and "is_ring_depth d"
  obtains s0 where "reg_writes Q (boot_writes reason aq acq aenq d) s = Inr s0"
    and "reg64 s0 ENA_REGS_AQ_BASE_HI_OFF ENA_REGS_AQ_BASE_LO_OFF = aq"
    and "reg64 s0 ENA_REGS_ACQ_BASE_HI_OFF ENA_REGS_ACQ_BASE_LO_OFF = acq"
    and "aenq_base s0 = aenq" and "aq_depth s0 = d" and "acq_depth s0 = d" and "aenq_depth s0 = d"
    and "aenq_credit s0 = unat d" and "aq_head s0 = 0" and "acq_tail s0 = 0" and "acq_phase s0"
    and "REG s0 ENA_REGS_INTR_MASK_OFF = 0" and "driver_view s0 = driver_view (ena_dev_reset s)"
proof -
  have ctl: "ena_reg_write Q t ENA_REGS_DEV_CTL_OFF v = ena_dev_ctl_write t v" for t v
    by (simp add: reg_write_file reg_file_write_def reg_read_only_def ena_const)
  note w = ctl reset_writes [OF assms(2,3)] reg_write_caps [OF assms(1,4)]
  have p: "reg_plain ENA_REGS_AQ_BASE_LO_OFF" "reg_plain ENA_REGS_AQ_BASE_HI_OFF" "reg_plain ENA_REGS_ACQ_BASE_LO_OFF"
    "reg_plain ENA_REGS_ACQ_BASE_HI_OFF" "reg_plain ENA_REGS_AENQ_BASE_LO_OFF" "reg_plain ENA_REGS_AENQ_BASE_HI_OFF"
    "reg_plain ENA_REGS_AENQ_HEAD_DB_OFF" by (simp_all add: reg_plain_def)
  define r where "r = (reg (ena_dev_reset s))[4 := ucast aq, 5 := ucast (drop_bit 32 aq), 6 := queue_caps d,
      8 := ucast acq, 9 := ucast (drop_bit 32 acq), 10 := queue_caps d, 12 := 0,
      14 := ucast aenq, 15 := ucast (drop_bit 32 aenq), 13 := queue_caps d, 17 := 0, 16 := ucast d]"
  define s0 where "s0 = (ena_dev_reset s)\<lparr>reg := r, aq_head := 0, acq_tail := 0, acq_phase := True,
     aenq_tail := 0, aenq_phase := True\<rparr>"
  have r: "r ! 4 = ucast aq" "r ! 5 = ucast (drop_bit 32 aq)" "r ! 6 = queue_caps d" "r ! 8 = ucast acq"
    "r ! 9 = ucast (drop_bit 32 acq)" "r ! 10 = queue_caps d" "r ! 13 = queue_caps d" "r ! 14 = ucast aenq"
    "r ! 15 = ucast (drop_bit 32 aenq)" "r ! 16 = ucast d" "r ! 19 = 0"
    by (simp_all add: r_def ena_dev_reset_reg)
  have "reg_writes Q (boot_writes reason aq acq aenq d) s = Inr s0"
    by (simp add: boot_writes_def ring_writes_def w reg_write_plain p)
      (simp add: s0_def r_def set_REG_def ena_const)
  moreover have "(ucast (ucast d :: u32) :: u16) = d" by transfer simp
  ultimately show thesis
    by (intro that [of s0]) (simp_all add: s0_def driver_view_def aq_depth_def acq_depth_def aenq_depth_def aenq_base_def aenq_credit_def
      reg64_def REG_def r reg64_halves queue_caps_fields ena_const GENMASK_def mask_eq_exp_minus_1)
qed

text \<open>The doorbell changes nothing of what the rings are.\<close>

lemma aq_doorbell_sel:
  assumes "device_inv s"
  shows "admin_ready (set_REG s ENA_REGS_AQ_DB_OFF v) = admin_ready s"
    "aq_depth (set_REG s ENA_REGS_AQ_DB_OFF v) = aq_depth s" "acq_depth (set_REG s ENA_REGS_AQ_DB_OFF v) = acq_depth s"
    "REG (set_REG s ENA_REGS_AQ_DB_OFF v) ENA_REGS_INTR_MASK_OFF = REG s ENA_REGS_INTR_MASK_OFF"
    "REG (set_REG s ENA_REGS_AQ_DB_OFF v) ENA_REGS_AQ_DB_OFF = v"
    "device_inv (set_REG s ENA_REGS_AQ_DB_OFF v)"
proof -
  have "length (reg s) = 28" using assms dev_invD(5) by (simp add: device_inv_def)
  then show "REG (set_REG s ENA_REGS_AQ_DB_OFF v) ENA_REGS_AQ_DB_OFF = v"
    by (simp add: REG_set_REG ena_const)
  show "device_inv (set_REG s ENA_REGS_AQ_DB_OFF v)"
    by (rule device_inv_set_REG [OF assms]) (simp add: ENA_REGS_AQ_DB_OFF_def)
qed (simp_all add: admin_ready_def aq_depth_def acq_depth_def reg64_def REG_set_REG ena_const)

text \<open>
  C12. A driver can always bring the device up. From any state the device can be in, the reset
  handshake followed by the set-up of the three admin rings succeeds and leaves the device consistent,
  with credit for a full ring of events. The first doorbell of at most \<open>d\<close> commands then answers all of
  them, in the first slots of the completion ring and with the phase of the first lap: the device's
  position and the tail register show exactly \<open>n\<close>, and the last thing it does is to notify the admin
  vector. Only a command outside the supported contract can end it.
\<close>

theorem boot_admin_queue:
  assumes "env_ok Q" and "device_inv s" and "bit reason 0" and "dev_ctl_ok reason"
    and "is_ring_depth d" and "aq \<noteq> 0" and "acq \<noteq> 0" and "n \<le> unat d"
  shows "\<exists>s0. reg_writes Q (boot_writes reason aq acq aenq d) s = Inr s0 \<and> device_inv s0 \<and>
    aenq_base s0 = aenq \<and> aenq_depth s0 = d \<and> aenq_credit s0 = unat d \<and>
    (case ena_reg_write Q s0 ENA_REGS_AQ_DB_OFF (of_nat n) of
       Inl e \<Rightarrow> guest_abort e
     | Inr s' \<Rightarrow> device_inv s' \<and> aq_head s' = of_nat n \<and> acq_counts d n s' \<and>
         REG s' ENA_REGS_ACQ_TAIL_OFF = of_nat n \<and> (0 < n \<longrightarrow> last (trace s') = MsixNotify 0))"
proof -
  have pow: "pow2_ok Q" using assms(1) by (simp add: env_ok_def)
  obtain s0 where s0: "reg_writes Q (boot_writes reason aq acq aenq d) s = Inr s0"
    "reg64 s0 ENA_REGS_AQ_BASE_HI_OFF ENA_REGS_AQ_BASE_LO_OFF = aq"
    "reg64 s0 ENA_REGS_ACQ_BASE_HI_OFF ENA_REGS_ACQ_BASE_LO_OFF = acq"
    "aenq_base s0 = aenq" "aq_depth s0 = d" "acq_depth s0 = d" "aenq_depth s0 = d"
    "aenq_credit s0 = unat d" "aq_head s0 = 0" "acq_tail s0 = 0" "acq_phase s0" "REG s0 ENA_REGS_INTR_MASK_OFF = 0"
    "driver_view s0 = driver_view (ena_dev_reset s)"
    by (rule boot_run [OF pow assms(3-5)])
  have inv: "device_inv s0" using reg_writes_inv [OF assms(1,2) s0(1)] .
  define s1 where "s1 = set_REG s0 ENA_REGS_AQ_DB_OFF (of_nat n)"
  note db = aq_doorbell_sel [OF inv, of "of_nat n", folded s1_def]
  have n: "n < 2 ^ 16" using assms(8) unsigned_less [of d, where 'a = nat] by simp
  then have u16: "(ucast (of_nat n :: u32) :: u16) = of_nat n" "unat (of_nat n :: u16) = n"
      "(ucast (of_nat n :: u16) :: u32) = of_nat n"
    by (simp_all add: word_unat_eq_iff unsigned_ucast_eq unat_of_nat take_bit_nat_eq_self)
  have "unat d \<noteq> 0" using assms(5) by (auto elim: is_ring_depthE)
  then have s1: "admin_ready s1" "admin_pending s1 = n" "acq_counts d 0 s1"
    using assms(5-7) s0 db(1,5) u16
    by (auto simp: admin_ready_def admin_pending_def acq_counts_def s1_def set_REG_sel)
  have w: "ena_reg_write Q s0 ENA_REGS_AQ_DB_OFF (of_nat n) = ena_admin_process Q s1"
    by (simp add: s1_def reg_write_file reg_file_write_def reg_read_only_def ena_const)
  have "case ena_admin_process Q s1 of Inl e \<Rightarrow> guest_abort e
    | Inr s' \<Rightarrow> aq_head s' = of_nat n \<and> acq_counts d n s' \<and> REG s' ENA_REGS_ACQ_TAIL_OFF = ucast (acq_tail s') \<and>
       (0 < n \<longrightarrow> last (trace s') = MsixNotify 0)"
    using admin_process_pending [OF pow _ _ s1(1), of 0] s1(2,3) db s0 u16 assms(8)
    by (simp add: device_inv_def split: sum.splits)
  moreover have "device_inv s'" if "ena_admin_process Q s1 = Inr s'" for s'
    using handle_inv [OF assms(1) inv, of "RegWrite ENA_REGS_AQ_DB_OFF (of_nat n)" s'] that w by simp
  ultimately show ?thesis
    using s0 inv by (intro exI [of _ s0]) (simp add: w acq_counts_def u16 split: sum.splits)
qed

theorem boot_admin_queue_witness:
  "\<exists>s0. reg_writes (quiet_qemu (\<lambda>_. 0) (\<lambda>_. 0)) (boot_writes 0x10000001 0x1000 0x2000 0x3000 8) booted_state = Inr s0 \<and>
     aenq_credit s0 = 8 \<and>
     (case ena_reg_write (quiet_qemu (\<lambda>_. 0) (\<lambda>_. 0)) s0 ENA_REGS_AQ_DB_OFF 3 of
        Inl e \<Rightarrow> guest_abort e | Inr s' \<Rightarrow> acq_counts 8 3 s' \<and> last (trace s') = MsixNotify 0)"
proof -
  have "device_inv booted_state" by (rule reachable_device_inv [OF booted_reachable quiet_env_ok]) simp
  moreover have "bit (0x10000001 :: u32) 0" "dev_ctl_ok 0x10000001" by (simp_all add: dev_ctl_ok_def ena_const)
  ultimately show ?thesis
    using boot_admin_queue [OF quiet_env_ok, where s = booted_state and reason = "0x10000001" and d = 8 and aq = "0x1000" and
        acq = "0x2000" and aenq = "0x3000" and n = 3, of "\<lambda>_. 0" "\<lambda>_. 0"]
    by (auto split: sum.splits)
qed

end
