(* ===== verification/Ena_Spec.thy ===== *)
theory Ena_Spec
  imports Ena_Boot
begin

text \<open>
  An abstract specification of the IO queues: a table of completion queues, a table of submission
  queues that refer to them, and the entry size of queues in device memory. It is a deterministic
  machine: a request of the driver determines the answer and the next table. The device implements
  it: the commands it reads from the admin ring and the completions it writes are the requests and
  answers of the machine, a reset clears it, and nothing else that happens changes it.
\<close>

section \<open>Refinement\<close>

text \<open>Runs of a labelled step relation.\<close>

inductive steps :: "('s \<Rightarrow> 'e \<Rightarrow> 's \<Rightarrow> bool) \<Rightarrow> 's \<Rightarrow> 'e list \<Rightarrow> 's \<Rightarrow> bool" for R where
  none: "steps R s [] s"
| more: "steps R s es t \<Longrightarrow> R t e u \<Longrightarrow> steps R s (es @ [e]) u"

text \<open>
  A system that shows its environment an observation at each step, and a specification that makes
  a step with that observation.
\<close>

locale observed_refinement =
  fixes cinit :: "'s \<Rightarrow> bool"
    and cstep :: "'s \<Rightarrow> 'e \<Rightarrow> 's \<Rightarrow> bool"
    and cinv :: "'s \<Rightarrow> bool"
    and obs :: "'s \<Rightarrow> 'e \<Rightarrow> 's \<Rightarrow> 'l \<Rightarrow> bool"
    and ainit :: "'a"
    and astep :: "'a \<Rightarrow> 'l \<Rightarrow> 'a \<Rightarrow> bool"
    and abs :: "'s \<Rightarrow> 'a"
  assumes init_inv: "cinit s \<Longrightarrow> cinv s"
    and step_inv: "cinv s \<Longrightarrow> cstep s e s' \<Longrightarrow> cinv s'"
    and init_abs: "cinit s \<Longrightarrow> abs s = ainit"
    and step_abs: "cinv s \<Longrightarrow> cstep s e s' \<Longrightarrow> \<exists>l. obs s e s' l \<and> astep (abs s) l (abs s')"
begin

lemma runs_inv: "steps cstep s es s' \<Longrightarrow> cinv s \<Longrightarrow> cinv s'"
  by (induction rule: steps.induct) (auto intro: step_inv)

lemma runs_refine: "steps cstep s es s' \<Longrightarrow> cinv s \<Longrightarrow> \<exists>ls. length ls = length es \<and> steps astep (abs s) ls (abs s')"
proof (induction rule: steps.induct)
  case (none s)
  then show ?case by (auto intro: steps.none)
next
  case (more s es t e u)
  then obtain ls where ls: "length ls = length es" "steps astep (abs s) ls (abs t)" by blast
  obtain l where "astep (abs t) l (abs u)" using step_abs [OF runs_inv [OF more(1,4)] more(2)] by blast
  with ls show ?case by (intro exI [of _ "ls @ [l]"]) (auto intro: steps.more)
qed

lemma spec_invariant:
  assumes "cinit s" and "steps cstep s es s'" and "P ainit" and "\<And>a l b. P a \<Longrightarrow> astep a l b \<Longrightarrow> P b"
  shows "P (abs s')"
proof -
  obtain ls where "steps astep (abs s) ls (abs s')" using runs_refine [OF assms(2) init_inv [OF assms(1)]] by blast
  moreover have "P (abs s)" using assms(1,3) init_abs by metis
  ultimately show ?thesis by (induction rule: steps.induct) (use assms(4) in auto)
qed

end

section \<open>The specification\<close>

record cq_spec =
  spec_cq_base :: u64
  spec_cq_depth :: nat
  spec_cq_bytes :: nat
  spec_cq_vector :: "u32 option"

datatype ring_place = HostRing u64 | DeviceRing nat

record sq_spec =
  spec_sq_is_tx :: bool
  spec_sq_cq :: nat
  spec_sq_depth :: nat
  spec_sq_place :: ring_place

record qtab =
  qt_cqs :: "nat \<rightharpoonup> cq_spec"
  qt_sqs :: "nat \<rightharpoonup> sq_spec"
  qt_llq :: "nat option"

definition qtab_empty :: qtab where
  "qtab_empty = \<lparr>qt_cqs = Map.empty, qt_sqs = Map.empty, qt_llq = None\<rparr>"

text \<open>What a driver can ask for, and what it can be told. A submission queue without a base lies in device memory.\<close>

datatype request =
    NewCq cq_spec
  | DropCq nat
  | NewSq bool nat nat "u64 option"
  | DropSq nat bool
  | SetLlq nat
  | Malformed
  | OtherCommand

datatype answer = Made nat | Done | Busy | Full | Refused | NoAnswer

definition lowest_free :: "(nat \<rightharpoonup> 'a) \<Rightarrow> nat option" where
  "lowest_free m = find (\<lambda>i. m i = None) [0..<16]"

definition sq_place :: "qtab \<Rightarrow> u64 option \<Rightarrow> ring_place option" where
  "sq_place t base = (case base of Some b \<Rightarrow> Some (HostRing b) | None \<Rightarrow> map_option DeviceRing (qt_llq t))"

fun place_fits :: "ring_place \<Rightarrow> nat \<Rightarrow> bool" where
  "place_fits (HostRing b) d \<longleftrightarrow> True"
| "place_fits (DeviceRing e) d \<longleftrightarrow> d * e \<le> ENA_LLQ_QUEUE_BYTES"

definition qt_new_sq :: "bool \<Rightarrow> nat \<Rightarrow> nat \<Rightarrow> u64 option \<Rightarrow> qtab \<Rightarrow> answer \<times> qtab" where
  "qt_new_sq tx c d base t =
     (case (qt_cqs t c, sq_place t base) of
        (Some q, Some pl) \<Rightarrow>
          if spec_cq_depth q < d \<or> \<not> tx \<and> spec_cq_bytes q < 16 then (Refused, t)
          else (case lowest_free (qt_sqs t) of
              None \<Rightarrow> (Full, t)
            | Some i \<Rightarrow>
                if place_fits pl d
                then (Made i, t\<lparr>qt_sqs := (qt_sqs t)(i \<mapsto>
                  \<lparr>spec_sq_is_tx = tx, spec_sq_cq = c, spec_sq_depth = d, spec_sq_place = pl\<rparr>)\<rparr>)
                else (Refused, t))
      | _ \<Rightarrow> (Refused, t))"

definition cq_in_use :: "qtab \<Rightarrow> nat \<Rightarrow> bool" where
  "cq_in_use t i \<longleftrightarrow> list_ex (\<lambda>j. case qt_sqs t j of None \<Rightarrow> False | Some q \<Rightarrow> spec_sq_cq q = i) [0..<16]"

fun qt_exec :: "request \<Rightarrow> qtab \<Rightarrow> answer \<times> qtab" where
  "qt_exec (NewCq c) t =
     (case lowest_free (qt_cqs t) of None \<Rightarrow> (Full, t) | Some i \<Rightarrow> (Made i, t\<lparr>qt_cqs := (qt_cqs t)(i \<mapsto> c)\<rparr>))"
| "qt_exec (DropCq i) t =
     (if qt_cqs t i = None then (Refused, t) else if cq_in_use t i then (Busy, t)
      else (Done, t\<lparr>qt_cqs := (qt_cqs t)(i := None)\<rparr>))"
| "qt_exec (NewSq tx c d base) t = qt_new_sq tx c d base t"
| "qt_exec (DropSq i tx) t =
     (case qt_sqs t i of None \<Rightarrow> (Refused, t)
      | Some q \<Rightarrow> if spec_sq_is_tx q = tx then (Done, t\<lparr>qt_sqs := (qt_sqs t)(i := None)\<rparr>) else (Refused, t))"
| "qt_exec (SetLlq e) t = (Done, t\<lparr>qt_llq := Some e\<rparr>)"
| "qt_exec Malformed t = (Refused, t)"
| "qt_exec OtherCommand t = (NoAnswer, t)"

text \<open>A sequence of requests with the answers the driver got: the next table, if the answers are right.\<close>

fun qt_serve :: "(request \<times> answer) list \<Rightarrow> qtab \<Rightarrow> qtab option" where
  "qt_serve [] t = Some t"
| "qt_serve ((r, a) # xs) t = (let (b, u) = qt_exec r t in if b = a then qt_serve xs u else None)"

datatype observation = Cleared | Served "(request \<times> answer) list"

fun qt_step :: "qtab \<Rightarrow> observation \<Rightarrow> qtab \<Rightarrow> bool" where
  "qt_step t Cleared u \<longleftrightarrow> u = qtab_empty"
| "qt_step t (Served xs) u \<longleftrightarrow> qt_serve xs t = Some u"

subsection \<open>The tables the specification reaches\<close>

text \<open>Every submission queue feeds a live completion queue that is deep enough for it.\<close>

definition qtab_wf :: "qtab \<Rightarrow> bool" where
  "qtab_wf t \<longleftrightarrow> (\<forall>i c. qt_cqs t i = Some c \<longrightarrow> i < 16) \<and>
     (\<forall>i q. qt_sqs t i = Some q \<longrightarrow> i < 16 \<and>
        (\<exists>c. qt_cqs t (spec_sq_cq q) = Some c \<and> spec_sq_depth q \<le> spec_cq_depth c))"

lemma qtab_wf_empty: "qtab_wf qtab_empty"
  by (simp add: qtab_wf_def qtab_empty_def)

lemma lowest_free_Some: "lowest_free m = Some i \<longleftrightarrow> i < 16 \<and> m i = None \<and> (\<forall>j < i. m j \<noteq> None)"
proof -
  have "find P [0..<n] = Some i \<longleftrightarrow> i < n \<and> P i \<and> (\<forall>j < i. \<not> P j)" for P and n i :: nat
    by (auto simp: find_Some_iff)
  then show ?thesis by (simp add: lowest_free_def)
qed

lemma lowest_free_None: "lowest_free m = None \<longleftrightarrow> (\<forall>j < 16. m j \<noteq> None)"
  by (auto simp: lowest_free_def find_None_iff)

lemma cq_not_in_use: "qtab_wf t \<Longrightarrow> \<not> cq_in_use t i \<Longrightarrow> qt_sqs t j = Some q \<Longrightarrow> spec_sq_cq q \<noteq> i"
  by (force simp: cq_in_use_def qtab_wf_def list_ex_iff split: option.splits)

lemma qt_new_sq_wf: "qtab_wf t \<Longrightarrow> qt_new_sq tx c d base t = (a, u) \<Longrightarrow> qtab_wf u"
  by (auto simp: qt_new_sq_def qtab_wf_def lowest_free_Some split: option.splits if_splits)

lemma qt_exec_wf:
  assumes "qtab_wf t" and "qt_exec r t = (a, u)"
  shows "qtab_wf u"
proof (cases r)
  case (NewCq c)
  with assms show ?thesis by (fastforce simp: qtab_wf_def lowest_free_Some split: option.splits)
next
  case (DropCq i)
  with assms cq_not_in_use [OF assms(1), of i] show ?thesis by (auto simp: qtab_wf_def split: if_splits)
next
  case (NewSq tx c d base)
  with assms show ?thesis by (simp add: qt_new_sq_wf)
next
  case (DropSq i tx)
  with assms show ?thesis by (auto simp: qtab_wf_def split: option.splits if_splits)
qed (use assms in \<open>auto simp: qtab_wf_def\<close>)

lemma qt_serve_wf: "qtab_wf t \<Longrightarrow> qt_serve xs t = Some u \<Longrightarrow> qtab_wf u"
proof (induction xs arbitrary: t)
  case (Cons x xs)
  obtain r a where x: "x = (r, a)" by (cases x)
  obtain b v where e: "qt_exec r t = (b, v)" by (cases "qt_exec r t")
  with Cons x qt_exec_wf [OF Cons.prems(1) e] show ?case by (auto simp: Let_def split: if_splits)
qed simp

lemma qt_step_wf: "qtab_wf t \<Longrightarrow> qt_step t l u \<Longrightarrow> qtab_wf u"
  by (cases l) (auto simp: qtab_wf_empty dest: qt_serve_wf)

section \<open>The abstraction\<close>

definition cq_spec_of :: "EnaCq \<Rightarrow> cq_spec" where
  "cq_spec_of q = \<lparr>spec_cq_base = cq_base q, spec_cq_depth = unat (cq_depth q), spec_cq_bytes = unat (cq_entry_size q),
     spec_cq_vector = (if cq_intr_enabled q then Some (cq_msix_vector q) else None)\<rparr>"

definition sq_spec_of :: "EnaSq \<Rightarrow> sq_spec" where
  "sq_spec_of q = \<lparr>spec_sq_is_tx = sq_is_tx q, spec_sq_cq = unat (sq_cq_idx q), spec_sq_depth = unat (sq_depth q),
     spec_sq_place = (if sq_llq q then DeviceRing (unat (sq_entry_size q)) else HostRing (sq_base q))\<rparr>"

definition slot_map :: "('q \<Rightarrow> bool) \<Rightarrow> ('q \<Rightarrow> 'b) \<Rightarrow> 'q list \<Rightarrow> nat \<rightharpoonup> 'b" where
  "slot_map used f qs i = (if i < length qs \<and> used (qs ! i) then Some (f (qs ! i)) else None)"

definition qtab_of :: "EnaState \<Rightarrow> qtab" where
  "qtab_of s = \<lparr>qt_cqs = slot_map cq_used cq_spec_of (cq s), qt_sqs = slot_map sq_used sq_spec_of (sq s),
     qt_llq = (if llq_enabled s then Some (unat (llq_entry_size s)) else None)\<rparr>"

lemma slot_map_update:
  "i < length qs \<Longrightarrow> slot_map used f (qs[i := q]) = (slot_map used f qs)(i := if used q then Some (f q) else None)"
  by (auto simp: slot_map_def nth_list_update)

lemma slot_map_lowest:
  assumes "length qs = 16"
  shows "lowest_free (slot_map used f qs) =
    (if first_unused used 16 qs = 16 then None else Some (first_unused used 16 qs))"
proof (cases "first_unused used 16 qs = 16")
  case True
  then show ?thesis
    using first_unused_full [OF assms True] assms by (auto simp: lowest_free_None slot_map_def)
next
  case False
  then show ?thesis
    using first_unused_free [OF False assms] assms by (simp add: lowest_free_Some slot_map_def)
qed

lemma slot_map_cong:
  "length qs' = length qs \<Longrightarrow> (\<And>i. i < length qs \<Longrightarrow> used (qs' ! i) = used (qs ! i) \<and> f (qs' ! i) = f (qs ! i)) \<Longrightarrow>
     slot_map used f qs' = slot_map used f qs"
  by (rule ext) (auto simp: slot_map_def)

lemma qtab_of_cong:
  "sq s' = sq s \<Longrightarrow> cq s' = cq s \<Longrightarrow> llq_enabled s' = llq_enabled s \<Longrightarrow> llq_entry_size s' = llq_entry_size s \<Longrightarrow>
     qtab_of s' = qtab_of s"
  by (simp add: qtab_of_def)

lemma qtab_of_simps [simp]:
  "qtab_of (emit e s) = qtab_of s" "qtab_of (set_REG s a v) = qtab_of s" "qtab_of (s\<lparr>aq_head := h\<rparr>) = qtab_of s"
  "qtab_of (s\<lparr>acq_tail := n, acq_phase := p\<rparr>) = qtab_of s" "qtab_of (s\<lparr>aenq_tail := n, aenq_phase := p\<rparr>) = qtab_of s"
  "qtab_of (ena_mmio_readless s req) = qtab_of s"
  by (simp_all add: qtab_of_def set_REG_sel ena_mmio_readless_def Let_def ena_dma_write_def)

lemma spec_of_cfg:
  "sq_used ((cfg_sq q)\<lparr>sq_tail := 0\<rparr>) = sq_used q" "sq_spec_of ((cfg_sq q)\<lparr>sq_tail := 0\<rparr>) = sq_spec_of q"
  "cq_used (cfg_cq c) = cq_used c" "cq_spec_of (cfg_cq c) = cq_spec_of c"
  by (simp_all add: sq_spec_of_def cq_spec_of_def)

lemma slot_map_view:
  assumes "map g qs' = map g qs" and "\<And>q. used (g q) = used q" and "\<And>q. f (g q) = f q"
  shows "slot_map used f qs' = slot_map used f qs"
proof (rule slot_map_cong)
  show len: "length qs' = length qs" using assms(1) by (rule map_eq_imp_length_eq)
  show "used (qs' ! i) = used (qs ! i) \<and> f (qs' ! i) = f (qs ! i)" if "i < length qs" for i
    using that len assms by (metis nth_map)
qed

lemma qtab_of_view:
  assumes "driver_view s' = driver_view s"
  shows "qtab_of s' = qtab_of s"
proof -
  have "map (\<lambda>q. (cfg_sq q)\<lparr>sq_tail := 0\<rparr>) (sq s') = map (\<lambda>q. (cfg_sq q)\<lparr>sq_tail := 0\<rparr>) (sq s)"
    and "map cfg_cq (cq s') = map cfg_cq (cq s)" and "llq_enabled s' = llq_enabled s" "llq_entry_size s' = llq_entry_size s"
    using assms by (simp_all only: driver_view_def prod.inject map_map comp_def)
  then show ?thesis
    using slot_map_view [of "\<lambda>q. (cfg_sq q)\<lparr>sq_tail := 0\<rparr>" "sq s'" "sq s" sq_used sq_spec_of]
      slot_map_view [of cfg_cq "cq s'" "cq s" cq_used cq_spec_of] spec_of_cfg
    by (simp only: qtab_of_def)
qed

lemma qtab_of_reset: "qtab_of (ena_dev_reset s) = qtab_empty"
  by (auto simp: qtab_of_def qtab_empty_def slot_map_def ena_dev_reset_sel zero_cq_def zero_sq_def fun_eq_iff)

section \<open>Requests and answers on the admin ring\<close>

text \<open>The request a 64-byte command makes.\<close>

definition cq_request :: "byte list \<Rightarrow> request" where
  "cq_request cmd = (let c = dec_ena_admin_aq_create_cq_cmd cmd
     in if cq_request_ok c then NewCq (cq_spec_of (new_cq c)) else Malformed)"

definition sq_request :: "byte list \<Rightarrow> request" where
  "sq_request cmd =
     (let c = dec_ena_admin_aq_create_sq_cmd cmd;
          dir = drop_bit ENA_ADMIN_AQ_CREATE_SQ_CMD_SQ_DIRECTION_SHIFT
                  (create_sq_cmd_sq_identity c AND ENA_ADMIN_AQ_CREATE_SQ_CMD_SQ_DIRECTION_MASK);
          placement = create_sq_cmd_sq_caps_2 c AND ENA_ADMIN_AQ_CREATE_SQ_CMD_PLACEMENT_POLICY_MASK;
          completion = drop_bit ENA_ADMIN_AQ_CREATE_SQ_CMD_COMPLETION_POLICY_SHIFT
                         (create_sq_cmd_sq_caps_2 c AND ENA_ADMIN_AQ_CREATE_SQ_CMD_COMPLETION_POLICY_MASK);
          base = ena_mem_addr (create_sq_cmd_sq_ba c)
      in if (dir = ENA_ADMIN_SQ_DIRECTION_TX \<or> dir = ENA_ADMIN_SQ_DIRECTION_RX) \<and>
            (placement = ENA_ADMIN_PLACEMENT_POLICY_HOST \<and> base \<noteq> 0 \<or>
             placement = ENA_ADMIN_PLACEMENT_POLICY_DEV \<and> dir = ENA_ADMIN_SQ_DIRECTION_TX) \<and>
            completion = ENA_ADMIN_COMPLETION_POLICY_DESC \<and>
            create_sq_cmd_sq_caps_3 c AND ENA_ADMIN_AQ_CREATE_SQ_CMD_IS_PHYSICALLY_CONTIGUOUS_MASK \<noteq> 0 \<and>
            valid_depth (create_sq_cmd_sq_depth c) \<and> ena_mem_addr (create_sq_cmd_sq_head_writeback c) = 0
         then NewSq (dir = ENA_ADMIN_SQ_DIRECTION_TX) (unat (create_sq_cmd_cq_idx c)) (unat (create_sq_cmd_sq_depth c))
                (if placement = ENA_ADMIN_PLACEMENT_POLICY_DEV then None else Some base)
         else Malformed)"

definition llq_request :: "byte list \<Rightarrow> request" where
  "llq_request cmd =
     (let u = dec_ena_admin_feature_llq_desc (drop 20 cmd); entry = llq_desc_entry_size_ctrl_enabled u
      in if llq_desc_header_location_ctrl_enabled u = ENA_ADMIN_INLINE_HEADER \<and>
            (entry = ENA_ADMIN_LIST_ENTRY_SIZE_128B \<or> entry = ENA_ADMIN_LIST_ENTRY_SIZE_256B) \<and>
            llq_desc_desc_num_before_header_enabled u = ENA_ADMIN_LLQ_NUM_DESCS_BEFORE_HEADER_2 \<and>
            llq_desc_descriptors_stride_ctrl_enabled u = ENA_ADMIN_MULTIPLE_DESCS_PER_ENTRY
         then SetLlq (if entry = ENA_ADMIN_LIST_ENTRY_SIZE_256B then 256 else 128) else Malformed)"

definition request_of :: "byte list \<Rightarrow> request" where
  "request_of cmd =
     (let opcode = aq_common_desc_opcode (dec_ena_admin_aq_common_desc cmd);
          q = destroy_sq_cmd_sq (dec_ena_admin_aq_destroy_sq_cmd cmd)
      in if opcode = ENA_ADMIN_CREATE_SQ then sq_request cmd
         else if opcode = ENA_ADMIN_DESTROY_SQ
         then DropSq (unat (admin_sq_sq_idx q))
                (drop_bit ENA_ADMIN_SQ_SQ_DIRECTION_SHIFT (admin_sq_sq_identity q AND ENA_ADMIN_SQ_SQ_DIRECTION_MASK) =
                   ENA_ADMIN_SQ_DIRECTION_TX)
         else if opcode = ENA_ADMIN_CREATE_CQ then cq_request cmd
         else if opcode = ENA_ADMIN_DESTROY_CQ
         then DropCq (unat (destroy_cq_cmd_cq_idx (dec_ena_admin_aq_destroy_cq_cmd cmd)))
         else if opcode = ENA_ADMIN_SET_FEATURE \<and>
                 feat_common_feature_id (feat_cmd_feat_common (dec_ena_admin_get_feat_cmd cmd)) = ENA_ADMIN_LLQ
         then llq_request cmd
         else OtherCommand)"

text \<open>The answer a completion gives to a request, read off its status and the index it carries.\<close>

definition status_answer :: "request \<Rightarrow> u8 \<Rightarrow> byte list \<Rightarrow> answer" where
  "status_answer r st resp =
     (if r = OtherCommand then NoAnswer
      else if st = status_code ENA_ADMIN_SUCCESS
      then (case r of
          NewCq c \<Rightarrow> Made (unat (create_cq_resp_cq_idx (dec_ena_admin_acq_create_cq_resp_desc resp)))
        | NewSq tx c d base \<Rightarrow> Made (unat (create_sq_resp_sq_idx (dec_ena_admin_acq_create_sq_resp_desc resp)))
        | _ \<Rightarrow> Done)
      else if st = status_code ENA_ADMIN_RESOURCE_BUSY then Busy
      else if st = status_code ENA_ADMIN_RESOURCE_ALLOCATION_FAILURE then Full else Refused)"

definition answer_of :: "request \<Rightarrow> byte list \<Rightarrow> answer" where
  "answer_of r out = status_answer r (acq_common_desc_status (dec_ena_admin_acq_common_desc out)) out"

lemma status_answer_cong: "drop 8 out = drop 8 resp \<Longrightarrow> status_answer r st out = status_answer r st resp"
  by (auto simp: status_answer_def dec_ena_admin_acq_create_cq_resp_desc_def dec_ena_admin_acq_create_sq_resp_desc_def
      split: request.split)

section \<open>The admin commands\<close>

lemma cq_request_ok_iff:
  assumes "words = create_cq_cmd_cq_caps_2 c AND ENA_ADMIN_AQ_CREATE_CQ_CMD_CQ_ENTRY_SIZE_WORDS_MASK" and "pow2_ok Q"
  shows "cq_request_ok c \<longleftrightarrow>
    \<not> (\<not> ena_valid_depth Q (ucast (create_cq_cmd_cq_depth c)) \<or> words \<noteq> 2 \<and> words \<noteq> 4 \<and> words \<noteq> 8) \<and>
    ena_mem_addr (create_cq_cmd_cq_ba c) \<noteq> 0 \<and>
    \<not> (create_cq_cmd_cq_caps_1 c AND ENA_ADMIN_AQ_CREATE_CQ_CMD_INTERRUPT_MODE_ENABLED_MASK \<noteq> 0 \<and>
       create_cq_cmd_msix_vector c \<noteq> ENA_MSIX_VECTOR_NONE \<and>
       (create_cq_cmd_msix_vector c = ENA_ADMIN_MSIX_VECTOR \<or> of_nat ENA_MSIX_VECTORS \<le> create_cq_cmd_msix_vector c))"
proof -
  have "unat (create_cq_cmd_msix_vector c) < ENA_MSIX_VECTORS \<longleftrightarrow>
      \<not> of_nat ENA_MSIX_VECTORS \<le> create_cq_cmd_msix_vector c"
    by (simp add: ena_const word_le_nat_alt not_le)
  moreover have "words * 4 \<in> {8, 16, 32} \<longleftrightarrow> words = 2 \<or> words = 4 \<or> words = 8"
    using words_times_4 [of words "create_cq_cmd_cq_caps_2 c"] assms(1) by auto
  ultimately show ?thesis
    using ena_valid_depth_iff [OF assms(2), of "create_cq_cmd_cq_depth c"]
    by (simp add: cq_request_ok_def cq_wf_def new_cq_def flip: assms(1)) blast
qed

lemma ena_create_cq_eq:
  assumes "pow2_ok Q"
  shows "ena_create_cq Q s cmd resp =
    (let c = dec_ena_admin_aq_create_cq_cmd cmd; i = first_unused cq_used 16 (cq s)
     in if \<not> cq_request_ok c then Inr (ENA_ADMIN_ILLEGAL_PARAMETER, s, resp)
        else if i = 16 then Inr (ENA_ADMIN_RESOURCE_ALLOCATION_FAILURE, s, resp)
        else Inr (ENA_ADMIN_SUCCESS, s\<lparr>cq := (cq s)[i := new_cq c]\<rparr>,
          put_bytes 0 (enc_ena_admin_acq_create_cq_resp_desc ((dec_ena_admin_acq_create_cq_resp_desc resp)
            \<lparr>create_cq_resp_cq_idx := of_nat i, create_cq_resp_cq_actual_depth := create_cq_cmd_cq_depth c,
             create_cq_resp_numa_node_register_offset := 0, create_cq_resp_cq_head_db_register_offset := 0,
             create_cq_resp_cq_interrupt_unmask_register_offset := of_nat (ENA_REG_CQ_UNMASK_BASE + i * 4)\<rparr>)) resp))"
  unfolding ena_create_cq_def Let_def cq_request_ok_iff [OF refl assms] new_cq_def
  by (auto simp: ENA_MAX_CQ_def ENA_MAX_IO_QUEUES_def)

lemma create_cq_exec:
  assumes "ena_create_cq Q s cmd resp = Inr (st, s', resp')" and "pow2_ok Q" and "dev_inv s" and "length resp = 64"
  shows "qt_exec (cq_request cmd) (qtab_of s) = (status_answer (cq_request cmd) (status_code st) resp', qtab_of s')"
proof -
  let ?c = "dec_ena_admin_aq_create_cq_cmd cmd" and ?i = "first_unused cq_used 16 (cq s)"
  have len: "length (cq s) = 16" using dev_invD(4) [OF assms(3)] by (simp add: ena_const)
  note low = slot_map_lowest [OF len, of cq_used cq_spec_of]
  consider "\<not> cq_request_ok ?c" | "cq_request_ok ?c" "?i = 16" | "cq_request_ok ?c" "?i \<noteq> 16" by blast
  then show ?thesis
  proof cases
    case 3
    have i: "?i < 16" using first_unused_free(1) [OF 3(2) len] .
    obtain r where r: "st = ENA_ADMIN_SUCCESS" "s' = s\<lparr>cq := (cq s)[?i := new_cq ?c]\<rparr>"
        "resp' = put_bytes 0 (enc_ena_admin_acq_create_cq_resp_desc r) resp" "create_cq_resp_cq_idx r = of_nat ?i"
      using assms(1) 3 by (auto simp: ena_create_cq_eq [OF assms(2)] Let_def)
    have "dec_ena_admin_acq_create_cq_resp_desc resp' = r"
      using create_cq_resp.load_store [of 0 resp r] assms(4) r(3) by simp
    with r(4) i have "unat (create_cq_resp_cq_idx (dec_ena_admin_acq_create_cq_resp_desc resp')) = ?i"
      by (simp add: unat_of_nat_small)
    then show ?thesis
      using 3 r(1,2) low i len
      by (simp add: cq_request_def status_answer_def qtab_of_def slot_map_update) (simp add: new_cq_def)
  qed (use assms(1) low in \<open>auto simp: ena_create_cq_eq [OF assms(2)] Let_def cq_request_def status_answer_def qtab_of_def\<close>)
qed

lemma destroy_cq_exec:
  assumes "ena_destroy_cq Q s cmd resp = Inr (st, s', resp')" and "dev_inv s"
    and r: "r = DropCq (unat (destroy_cq_cmd_cq_idx (dec_ena_admin_aq_destroy_cq_cmd cmd)))"
  shows "qt_exec r (qtab_of s) = (status_answer r (status_code st) resp', qtab_of s')"
proof -
  let ?idx = "destroy_cq_cmd_cq_idx (dec_ena_admin_aq_destroy_cq_cmd cmd)"
  have len: "length (cq s) = 16" "length (sq s) = 16" using dev_invD(3,4) [OF assms(2)] by (simp_all add: ena_const)
  have live: "qt_cqs (qtab_of s) (unat ?idx) = None \<longleftrightarrow> ENA_MAX_CQ \<le> unat ?idx \<or> \<not> cq_used (cq s ! unat ?idx)"
    using len by (auto simp: qtab_of_def slot_map_def ena_const)
  have use: "cq_in_use (qtab_of s) (unat ?idx) \<longleftrightarrow>
      list_ex (\<lambda>i. sq_used (sq s ! i) \<and> sq_cq_idx (sq s ! i) = ?idx) [0..<ENA_MAX_SQ]"
    using len by (auto simp: cq_in_use_def qtab_of_def slot_map_def sq_spec_of_def list_ex_iff word_unat_eq_iff ena_const)
  have drop: "qtab_of (s\<lparr>cq := (cq s)[unat ?idx := (cq s ! unat ?idx)\<lparr>cq_used := False\<rparr>]\<rparr>) =
      (qtab_of s)\<lparr>qt_cqs := (qt_cqs (qtab_of s))(unat ?idx := None)\<rparr>" if "unat ?idx < 16"
    using that len by (simp add: qtab_of_def slot_map_update)
  show ?thesis
    using assms(1) live use drop
    by (auto simp: r ena_destroy_cq_def Let_def status_answer_def ena_const split: if_splits)
qed

lemma destroy_sq_exec:
  assumes "ena_destroy_sq Q s cmd resp = Inr (st, s', resp')" and "dev_inv s"
    and q: "q = destroy_sq_cmd_sq (dec_ena_admin_aq_destroy_sq_cmd cmd)"
    and r: "r = DropSq (unat (admin_sq_sq_idx q)) (drop_bit ENA_ADMIN_SQ_SQ_DIRECTION_SHIFT
      (admin_sq_sq_identity q AND ENA_ADMIN_SQ_SQ_DIRECTION_MASK) = ENA_ADMIN_SQ_DIRECTION_TX)"
  shows "qt_exec r (qtab_of s) = (status_answer r (status_code st) resp', qtab_of s')"
proof -
  let ?idx = "unat (admin_sq_sq_idx q)"
  have len: "length (sq s) = 16" using dev_invD(3) [OF assms(2)] by (simp add: ena_const)
  have live: "qt_sqs (qtab_of s) ?idx =
      (if ENA_MAX_SQ \<le> ?idx \<or> \<not> sq_used (sq s ! ?idx) then None else Some (sq_spec_of (sq s ! ?idx)))"
    using len by (auto simp: qtab_of_def slot_map_def ena_const)
  have drop: "qtab_of (s\<lparr>sq := (sq s)[?idx := (sq s ! ?idx)\<lparr>sq_used := False\<rparr>]\<rparr>) =
      (qtab_of s)\<lparr>qt_sqs := (qt_sqs (qtab_of s))(?idx := None)\<rparr>" if "?idx < 16"
    using that len by (simp add: qtab_of_def slot_map_update)
  show ?thesis
    using assms(1) live drop unfolding ena_destroy_sq_def Let_def q [symmetric]
    by (auto simp: r status_answer_def sq_spec_of_def ENA_MAX_SQ_def ENA_MAX_IO_QUEUES_def split: if_splits)
qed

lemma create_sq_malformed:
  assumes "ena_create_sq Q s cmd resp = Inr (st, s', resp')" and "pow2_ok Q" and "sq_request cmd = Malformed"
  shows "s' = s \<and> (st = ENA_ADMIN_ILLEGAL_PARAMETER \<or> st = ENA_ADMIN_UNSUPPORTED_OPCODE)"
  using assms(1,3) ena_valid_depth_iff [OF assms(2)]
  unfolding ena_create_sq_def sq_request_def Let_def by (simp split: if_splits)

definition sq_request_dir :: "ena_admin_aq_create_sq_cmd \<Rightarrow> u8" where
  "sq_request_dir c = drop_bit ENA_ADMIN_AQ_CREATE_SQ_CMD_SQ_DIRECTION_SHIFT
    (create_sq_cmd_sq_identity c AND ENA_ADMIN_AQ_CREATE_SQ_CMD_SQ_DIRECTION_MASK)"

definition sq_request_place :: "ena_admin_aq_create_sq_cmd \<Rightarrow> u8" where
  "sq_request_place c = create_sq_cmd_sq_caps_2 c AND ENA_ADMIN_AQ_CREATE_SQ_CMD_PLACEMENT_POLICY_MASK"

lemma sq_request_fields:
  assumes "sq_request cmd = NewSq tx k d base" and "c = dec_ena_admin_aq_create_sq_cmd cmd"
    and "dir = sq_request_dir c" and "pl = sq_request_place c" and "b = ena_mem_addr (create_sq_cmd_sq_ba c)"
  shows "dir = ENA_ADMIN_SQ_DIRECTION_TX \<or> dir = ENA_ADMIN_SQ_DIRECTION_RX"
    "pl = ENA_ADMIN_PLACEMENT_POLICY_HOST \<and> b \<noteq> 0 \<or> pl = ENA_ADMIN_PLACEMENT_POLICY_DEV \<and> dir = ENA_ADMIN_SQ_DIRECTION_TX"
    "drop_bit ENA_ADMIN_AQ_CREATE_SQ_CMD_COMPLETION_POLICY_SHIFT
       (create_sq_cmd_sq_caps_2 c AND ENA_ADMIN_AQ_CREATE_SQ_CMD_COMPLETION_POLICY_MASK) = ENA_ADMIN_COMPLETION_POLICY_DESC"
    "create_sq_cmd_sq_caps_3 c AND ENA_ADMIN_AQ_CREATE_SQ_CMD_IS_PHYSICALLY_CONTIGUOUS_MASK \<noteq> 0"
    "valid_depth (create_sq_cmd_sq_depth c)" "ena_mem_addr (create_sq_cmd_sq_head_writeback c) = 0"
    "tx = (dir = ENA_ADMIN_SQ_DIRECTION_TX)" "k = unat (create_sq_cmd_cq_idx c)" "d = unat (create_sq_cmd_sq_depth c)"
    "base = None \<longleftrightarrow> pl = ENA_ADMIN_PLACEMENT_POLICY_DEV" "base \<noteq> None \<Longrightarrow> base = Some b"
  using assms(1) unfolding sq_request_def Let_def assms(2) [symmetric] sq_request_dir_def [symmetric] assms(3) [symmetric]
    sq_request_place_def [symmetric] assms(4) [symmetric] assms(5) [symmetric] by (auto split: if_splits)

text \<open>A well-formed request depends on the completion queue it names, the free slots and the device memory.\<close>

lemma create_sq_wellformed:
  assumes "sq_request cmd = NewSq tx k d base" and "pow2_ok Q" and "dev_inv s" and "i = first_unused sq_used 16 (sq s)"
    and "q = cq s ! k" and "c = dec_ena_admin_aq_create_sq_cmd cmd"
  shows "\<exists>r. create_sq_resp_sq_idx r = of_nat i \<and> ena_create_sq Q s cmd resp =
    (if base = None \<and> \<not> llq_enabled s \<or> 16 \<le> k \<or> \<not> cq_used q \<or> unat (cq_depth q) < d \<or> \<not> tx \<and> unat (cq_entry_size q) < 16
     then Inr (ENA_ADMIN_ILLEGAL_PARAMETER, s, resp)
     else if i = 16 then Inr (ENA_ADMIN_RESOURCE_ALLOCATION_FAILURE, s, resp)
     else if base = None \<and> ENA_LLQ_QUEUE_BYTES < d * unat (llq_entry_size s) then Inr (ENA_ADMIN_ILLEGAL_PARAMETER, s, resp)
     else Inr (ENA_ADMIN_SUCCESS, s\<lparr>sq := (sq s)[i := new_sq s c]\<rparr>,
       put_bytes 0 (enc_ena_admin_acq_create_sq_resp_desc r) resp))"
proof -
  define dir pl b where d: "dir = sq_request_dir c" "pl = sq_request_place c" "b = ena_mem_addr (create_sq_cmd_sq_ba c)"
  note defs = d [symmetric, unfolded sq_request_dir_def sq_request_place_def]
  note wf = sq_request_fields [OF assms(1,6) d]
  have hd: "ENA_ADMIN_PLACEMENT_POLICY_HOST \<noteq> ENA_ADMIN_PLACEMENT_POLICY_DEV"
    by (simp add: ENA_ADMIN_PLACEMENT_POLICY_HOST_def ENA_ADMIN_PLACEMENT_POLICY_DEV_def)
  have fits: "of_nat ENA_LLQ_QUEUE_BYTES < (ucast (create_sq_cmd_sq_depth c) * ucast (llq_entry_size s) :: u32) \<longleftrightarrow>
      ENA_LLQ_QUEUE_BYTES < d * unat (llq_entry_size s)" if "llq_enabled s"
    using that assms(3) wf(5,9) llq_fits_32 [of "llq_entry_size s" "create_sq_cmd_sq_depth c"]
    by (simp add: dev_inv_def cfg_inv_def valid_depth_def ENA_MAX_QUEUE_DEPTH_def)
  have depth: "ena_valid_depth Q (ucast (create_sq_cmd_sq_depth c))" using wf(5) ena_valid_depth_iff [OF assms(2)] by simp
  have less: "cq_depth q < create_sq_cmd_sq_depth c \<longleftrightarrow> unat (cq_depth q) < d" by (simp add: wf(9) word_less_nat_alt)
  have max: "ENA_MAX_CQ = 16" "ENA_MAX_SQ = 16" by (simp_all add: ena_const)
  let ?r = "(dec_ena_admin_acq_create_sq_resp_desc resp)
      \<lparr>create_sq_resp_sq_idx := of_nat i, create_sq_resp_sq_doorbell_offset := of_nat (ENA_REG_SQ_DB_BASE + i * 4),
       create_sq_resp_llq_descriptors_offset :=
         (if pl = ENA_ADMIN_PLACEMENT_POLICY_DEV then of_nat (i * ENA_LLQ_QUEUE_BYTES) else 0),
       create_sq_resp_llq_headers_offset := 0\<rparr>"
  have c: "(\<not> tx \<and> dir \<noteq> ENA_ADMIN_SQ_DIRECTION_RX) = False" "(pl \<noteq> ENA_ADMIN_PLACEMENT_POLICY_HOST \<and> base \<noteq> None) = False"
      "(base = None \<and> (\<not> tx \<or> \<not> llq_enabled s)) = (base = None \<and> \<not> llq_enabled s)" "(base \<noteq> None \<and> b = 0) = False"
    using wf(1,2,7,10) hd by auto
  have eq: "ena_create_sq Q s cmd resp =
    (if base = None \<and> \<not> llq_enabled s then Inr (ENA_ADMIN_ILLEGAL_PARAMETER, s, resp)
     else if 16 \<le> k \<or> \<not> cq_used q then Inr (ENA_ADMIN_ILLEGAL_PARAMETER, s, resp)
     else if unat (cq_depth q) < d \<or> \<not> tx \<and> unat (cq_entry_size q) < 16 then Inr (ENA_ADMIN_ILLEGAL_PARAMETER, s, resp)
     else if i = 16 then Inr (ENA_ADMIN_RESOURCE_ALLOCATION_FAILURE, s, resp)
     else if base = None \<and> of_nat ENA_LLQ_QUEUE_BYTES < (ucast (create_sq_cmd_sq_depth c) * ucast (llq_entry_size s) :: u32)
     then Inr (ENA_ADMIN_ILLEGAL_PARAMETER, s, resp)
     else Inr (ENA_ADMIN_SUCCESS, s\<lparr>sq := (sq s)[i := new_sq s c]\<rparr>,
       put_bytes 0 (enc_ena_admin_acq_create_sq_resp_desc ?r) resp))"
    unfolding ena_create_sq_def Let_def assms(6) [symmetric] defs max assms(4) [symmetric] wf(8) [symmetric]
      assms(5) [symmetric] less new_sq_def
    by (simp only: c wf(3,4,6) wf(7) [symmetric] wf(10) [symmetric] depth simp_thms if_False if_True)
  show ?thesis
    unfolding eq using fits by (intro exI [of _ ?r]) (cases base; cases "llq_enabled s"; simp)
qed

lemma qt_new_sq_device:
  assumes "dev_inv s" and "i = first_unused sq_used 16 (sq s)" and "q = cq s ! k"
  shows "qt_new_sq tx k d base (qtab_of s) =
    (if base = None \<and> \<not> llq_enabled s \<or> 16 \<le> k \<or> \<not> cq_used q \<or> unat (cq_depth q) < d \<or> \<not> tx \<and> unat (cq_entry_size q) < 16
     then (Refused, qtab_of s)
     else if i = 16 then (Full, qtab_of s)
     else if base = None \<and> ENA_LLQ_QUEUE_BYTES < d * unat (llq_entry_size s) then (Refused, qtab_of s)
     else (Made i, (qtab_of s)\<lparr>qt_sqs := (qt_sqs (qtab_of s))(i \<mapsto>
       \<lparr>spec_sq_is_tx = tx, spec_sq_cq = k, spec_sq_depth = d, spec_sq_place =
          (case base of Some b \<Rightarrow> HostRing b | None \<Rightarrow> DeviceRing (unat (llq_entry_size s)))\<rparr>)\<rparr>))"
proof -
  have len: "length (sq s) = 16" "length (cq s) = 16" using dev_invD(3,4) [OF assms(1)] by (simp_all add: ena_const)
  have cq: "qt_cqs (qtab_of s) k = (if 16 \<le> k \<or> \<not> cq_used q then None else Some (cq_spec_of q))"
    using len by (auto simp: qtab_of_def slot_map_def assms(3))
  have place: "sq_place (qtab_of s) base = (case base of Some b \<Rightarrow> Some (HostRing b)
      | None \<Rightarrow> if llq_enabled s then Some (DeviceRing (unat (llq_entry_size s))) else None)" for base
    by (simp add: sq_place_def qtab_of_def split: option.split)
  have low: "lowest_free (qt_sqs (qtab_of s)) = (if i = 16 then None else Some i)"
    using slot_map_lowest [OF len(1), of sq_used sq_spec_of] by (simp add: qtab_of_def assms(2))
  have sel: "spec_cq_depth (cq_spec_of q) = unat (cq_depth q)" "spec_cq_bytes (cq_spec_of q) = unat (cq_entry_size q)"
    by (simp_all add: cq_spec_of_def)
  show ?thesis
    by (cases "16 \<le> k \<or> \<not> cq_used q"; cases base; cases "llq_enabled s")
      (auto simp: qt_new_sq_def cq place low not_less sel)
qed

lemma create_sq_exec:
  assumes "ena_create_sq Q s cmd resp = Inr (st, s', resp')" and "pow2_ok Q" and "dev_inv s" and "length resp = 64"
  shows "qt_exec (sq_request cmd) (qtab_of s) = (status_answer (sq_request cmd) (status_code st) resp', qtab_of s')"
proof (cases "sq_request cmd = Malformed")
  case True
  then show ?thesis using create_sq_malformed [OF assms(1,2) True] by (auto simp: status_answer_def)
next
  case False
  then obtain tx k d base where rq: "sq_request cmd = NewSq tx k d base"
    by (auto simp: sq_request_def Let_def split: if_splits)
  let ?c = "dec_ena_admin_aq_create_sq_cmd cmd" and ?i = "first_unused sq_used 16 (sq s)" and ?q = "cq s ! k"
  have len: "length (sq s) = 16" using dev_invD(3) [OF assms(3)] by (simp add: ena_const)
  obtain r where r: "create_sq_resp_sq_idx r = of_nat ?i" "ena_create_sq Q s cmd resp =
    (if base = None \<and> \<not> llq_enabled s \<or> 16 \<le> k \<or> \<not> cq_used ?q \<or> unat (cq_depth ?q) < d \<or> \<not> tx \<and> unat (cq_entry_size ?q) < 16
     then Inr (ENA_ADMIN_ILLEGAL_PARAMETER, s, resp)
     else if ?i = 16 then Inr (ENA_ADMIN_RESOURCE_ALLOCATION_FAILURE, s, resp)
     else if base = None \<and> ENA_LLQ_QUEUE_BYTES < d * unat (llq_entry_size s) then Inr (ENA_ADMIN_ILLEGAL_PARAMETER, s, resp)
     else Inr (ENA_ADMIN_SUCCESS, s\<lparr>sq := (sq s)[?i := new_sq s ?c]\<rparr>,
       put_bytes 0 (enc_ena_admin_acq_create_sq_resp_desc r) resp))"
    using create_sq_wellformed [OF rq assms(2,3) refl refl refl] by blast
  have new: "sq_used (new_sq s ?c)" "sq_spec_of (new_sq s ?c) = \<lparr>spec_sq_is_tx = tx, spec_sq_cq = k, spec_sq_depth = d,
      spec_sq_place = (case base of Some b \<Rightarrow> HostRing b | None \<Rightarrow> DeviceRing (unat (llq_entry_size s)))\<rparr>"
    using rq by (auto simp: sq_request_def new_sq_def sq_spec_of_def Let_def split: if_splits)
  have made: "Made ?i = status_answer (sq_request cmd) (status_code ENA_ADMIN_SUCCESS)
      (put_bytes 0 (enc_ena_admin_acq_create_sq_resp_desc r) resp)" if "?i \<noteq> 16"
    using create_sq_resp.load_store [of 0 resp r] assms(4) r(1) first_unused_free(1) [OF that len]
    by (simp add: status_answer_def rq unat_of_nat_small)
  have tab: "qtab_of (s\<lparr>sq := (sq s)[?i := new_sq s ?c]\<rparr>) =
      (qtab_of s)\<lparr>qt_sqs := (qt_sqs (qtab_of s))(?i \<mapsto> sq_spec_of (new_sq s ?c))\<rparr>" if "?i \<noteq> 16"
    using first_unused_free(1) [OF that len] len new(1) by (simp add: qtab_of_def slot_map_update)
  show ?thesis
    using qt_new_sq_device [OF assms(3) refl refl, of tx k d base] made tab assms(1)
    unfolding r(2) new(2) by (auto simp: rq status_answer_def split: if_splits)
qed

lemma feature_command_exec:
  assumes "ena_set_feature Q s cmd resp = Inr (st, s', resp')"
    and "feat_common_feature_id (feat_cmd_feat_common (dec_ena_admin_get_feat_cmd cmd)) = ENA_ADMIN_LLQ"
  shows "qt_exec (llq_request cmd) (qtab_of s) = (status_answer (llq_request cmd) (status_code st) resp', qtab_of s')"
proof -
  have "set_llq s cmd resp = Inr (st, s', resp')"
    using assms by (auto simp: ena_set_feature_def Let_def ena_const split: if_splits)
  then show ?thesis
    by (auto simp: set_llq_def llq_request_def Let_def status_answer_def qtab_of_def split: if_splits)
      (simp_all add: ena_const)
qed

lemma feature_command_tables:
  "ena_get_feature Q s cmd resp = Inr (st, s', resp') \<Longrightarrow> qtab_of s' = qtab_of s"
  "ena_get_stats Q s cmd resp = Inr (st, s', resp') \<Longrightarrow> qtab_of s' = qtab_of s"
  "ena_set_feature Q s cmd resp = Inr (st, s', resp') \<Longrightarrow>
     feat_common_feature_id (feat_cmd_feat_common (dec_ena_admin_get_feat_cmd cmd)) \<noteq> ENA_ADMIN_LLQ \<Longrightarrow> qtab_of s' = qtab_of s"
proof -
  show "ena_get_feature Q s cmd resp = Inr (st, s', resp') \<Longrightarrow> qtab_of s' = qtab_of s"
    by (auto dest!: ena_get_feature_keeps)
  show "ena_get_stats Q s cmd resp = Inr (st, s', resp') \<Longrightarrow> qtab_of s' = qtab_of s"
    by (auto simp: ena_get_stats_def Let_def split: if_splits)
  show "ena_set_feature Q s cmd resp = Inr (st, s', resp') \<Longrightarrow>
     feat_common_feature_id (feat_cmd_feat_common (dec_ena_admin_get_feat_cmd cmd)) \<noteq> ENA_ADMIN_LLQ \<Longrightarrow> qtab_of s' = qtab_of s"
    by (rule qtab_of_cong; auto simp: set_feature_defs Let_def bindR_eq_Inr split: if_splits
        dest!: ena_aenq_configD(1) dest: aenq_frameD)
qed

lemma exec_refines:
  assumes "pow2_ok Q" and "dev_inv s" and "length resp = 64" and "ena_admin_exec Q s cmd resp = Inr (st, s', resp')"
  shows "qt_exec (request_of cmd) (qtab_of s) = (status_answer (request_of cmd) (status_code st) resp', qtab_of s')"
proof -
  let ?op = "aq_common_desc_opcode (dec_ena_admin_aq_common_desc cmd)"
  let ?id = "feat_common_feature_id (feat_cmd_feat_common (dec_ena_admin_get_feat_cmd cmd))"
  note run = assms(4) [unfolded ena_admin_exec_def Let_def]
  note ops = ENA_ADMIN_CREATE_SQ_def ENA_ADMIN_DESTROY_SQ_def ENA_ADMIN_CREATE_CQ_def ENA_ADMIN_DESTROY_CQ_def
    ENA_ADMIN_GET_FEATURE_def ENA_ADMIN_SET_FEATURE_def ENA_ADMIN_GET_STATS_def
  consider (create_sq) "?op = ENA_ADMIN_CREATE_SQ" | (destroy_sq) "?op = ENA_ADMIN_DESTROY_SQ"
    | (create_cq) "?op = ENA_ADMIN_CREATE_CQ" | (destroy_cq) "?op = ENA_ADMIN_DESTROY_CQ"
    | (llq) "?op = ENA_ADMIN_SET_FEATURE" "?id = ENA_ADMIN_LLQ"
    | (other) "?op \<notin> {ENA_ADMIN_CREATE_SQ, ENA_ADMIN_DESTROY_SQ, ENA_ADMIN_CREATE_CQ, ENA_ADMIN_DESTROY_CQ}"
      "\<not> (?op = ENA_ADMIN_SET_FEATURE \<and> ?id = ENA_ADMIN_LLQ)" by blast
  then show ?thesis
  proof cases
    case create_sq
    then have "ena_create_sq Q s cmd resp = Inr (st, s', resp')" "request_of cmd = sq_request cmd"
      using run by (simp_all add: request_of_def)
    then show ?thesis using create_sq_exec [OF _ assms(1-3)] by simp
  next
    case destroy_sq
    then have "ena_destroy_sq Q s cmd resp = Inr (st, s', resp')" using run by (simp add: ops)
    from destroy_sq_exec [OF this assms(2) refl refl] destroy_sq show ?thesis by (simp add: request_of_def Let_def ops)
  next
    case create_cq
    then have "ena_create_cq Q s cmd resp = Inr (st, s', resp')" "request_of cmd = cq_request cmd"
      using run by (simp_all add: request_of_def Let_def ops)
    then show ?thesis using create_cq_exec [OF _ assms(1-3)] by simp
  next
    case destroy_cq
    then have "ena_destroy_cq Q s cmd resp = Inr (st, s', resp')" using run by (simp add: ops)
    from destroy_cq_exec [OF this assms(2) refl] destroy_cq show ?thesis by (simp add: request_of_def Let_def ops)
  next
    case llq
    then have "ena_set_feature Q s cmd resp = Inr (st, s', resp')" "request_of cmd = llq_request cmd"
      using run by (simp_all add: request_of_def Let_def ops)
    then show ?thesis using feature_command_exec llq(2) by simp
  next
    case other
    then have "request_of cmd = OtherCommand" by (auto simp: request_of_def Let_def)
    moreover have "qtab_of s' = qtab_of s"
      using other run feature_command_tables [of Q s cmd resp st s' resp'] by (auto split: if_splits)
    ultimately show ?thesis by (simp add: status_answer_def)
  qed
qed

lemma admin_round_exchange:
  assumes "pow2_ok Q" and "dev_inv s" and "admin_round Q ab cb ad cd s = Inr s'"
    and "a = ab + ucast (aq_head s mod ad) * 64" and "cmd = map (dma_byte Q (trace s) a 64) [0..<64]"
  shows "\<exists>es out. trace s' = trace s @ DmaRead a 64 # es @ [DmaWrite (cb + ucast (acq_tail s mod cd) * 64) out] \<and>
    unat (acq_common_desc_command (dec_ena_admin_acq_common_desc out)) =
      unat (aq_common_desc_command_id (dec_ena_admin_aq_common_desc cmd)) mod 4096 \<and>
    qt_exec (request_of cmd) (qtab_of s) = (answer_of (request_of cmd) out, qtab_of s') \<and>
    aq_head s' = aq_head s + 1 \<and> acq_tail s' = acq_tail s + 1"
proof -
  obtain s1 status s2 resp where r: "admin_fetch Q ab ad s = (cmd, s1)"
    "ena_admin_exec Q s1 cmd (replicate 64 0) = Inr (status, s2, resp)"
    "s' = acq_advance cd (emit (DmaWrite (cb + ucast (acq_tail s2 mod cd) * 64) (acq_finish_resp s2 cmd status resp)) s2)"
    by (rule admin_roundE [OF assms(3)]) (simp add: admin_fetch_eq assms(4,5))
  have s1: "s1 = (emit (DmaRead a 64) s)\<lparr>aq_head := aq_head s + 1\<rparr>" using r(1) by (simp add: admin_fetch_eq assms(4))
  then have inv: "dev_inv s1" "qtab_of s1 = qtab_of s" using assms(2) by (simp_all add: dev_inv_emit)
  have s2: "acq_tail s2 = acq_tail s" "aq_head s2 = aq_head s + 1" using exec.rings [OF r(2)] by (simp_all add: s1)
  have len: "length resp = 64" using exec.resp_size [OF r(2)] dev_invD(6) [OF inv(1)] by simp
  let ?out = "acq_finish_resp s2 cmd status resp"
  note out = acq_finish_resp_fields [OF len, of s2 cmd status]
  obtain es where es: "trace s2 = trace s @ DmaRead a 64 # es"
    using exec.history [OF r(2)] by (auto simp: admin_step_def ext_by_def s1)
  have "qtab_of s' = qtab_of s2" by (rule qtab_of_cong) (simp_all add: r(3) acq_advance_def Let_def)
  then have "qt_exec (request_of cmd) (qtab_of s) = (answer_of (request_of cmd) ?out, qtab_of s')"
    using exec_refines [OF assms(1) inv(1) _ r(2)] inv(2) status_answer_cong [OF out(2)] out(3)
    by (simp add: answer_of_def)
  then show ?thesis
    using es s2 out(6) by (intro exI [of _ es] exI [of _ ?out]) (simp add: r(3))
qed

section \<open>What the driver observes\<close>

text \<open>
  Commands and completions in the trace: the device reads a command from the next slot of the admin
  queue, does what the command needs, and writes the completion, which names the command, to the next
  slot of the completion queue.
\<close>

inductive exchanges :: "qemu \<Rightarrow> u64 \<Rightarrow> u64 \<Rightarrow> u16 \<Rightarrow> u16 \<Rightarrow> u16 \<Rightarrow> u16 \<Rightarrow> trace \<Rightarrow> (byte list \<times> byte list) list \<Rightarrow> trace \<Rightarrow> bool"
  for Q ab cb ad cd where
  none: "exchanges Q ab cb ad cd h t tr [] tr"
| more: "a = ab + ucast (h mod ad) * 64 \<Longrightarrow> cmd = map (dma_byte Q tr a 64) [0..<64] \<Longrightarrow>
    unat (acq_common_desc_command (dec_ena_admin_acq_common_desc out)) =
      unat (aq_common_desc_command_id (dec_ena_admin_aq_common_desc cmd)) mod 4096 \<Longrightarrow>
    exchanges Q ab cb ad cd (h + 1) (t + 1) (tr @ DmaRead a 64 # es @ [DmaWrite (cb + ucast (t mod cd) * 64) out]) log tr' \<Longrightarrow>
    exchanges Q ab cb ad cd h t tr ((cmd, out) # log) tr'"

definition exchange_answer :: "byte list \<times> byte list \<Rightarrow> request \<times> answer" where
  "exchange_answer x = (request_of (fst x), answer_of (request_of (fst x)) (snd x))"

text \<open>The number of commands a write of the admin doorbell announces.\<close>

definition admin_due :: "EnaState \<Rightarrow> u32 \<Rightarrow> nat" where
  "admin_due s val =
     (let s = set_REG s ENA_REGS_AQ_DB_OFF val
      in if admin_ready s \<and> admin_pending s \<le> unat (aq_depth s) then admin_pending s else 0)"

fun event_resets :: "event \<Rightarrow> bool" where
  "event_resets SystemReset \<longleftrightarrow> True"
| "event_resets (RegWrite addr val) \<longleftrightarrow> addr = ENA_REGS_DEV_CTL_OFF \<and> bit val 0"
| "event_resets _ \<longleftrightarrow> False"

definition admin_exchange :: "qemu \<Rightarrow> EnaState \<Rightarrow> u32 \<Rightarrow> EnaState \<Rightarrow> (byte list \<times> byte list) list \<Rightarrow> bool" where
  "admin_exchange Q s val s' log \<longleftrightarrow> length log = admin_due s val \<and>
     (\<exists>tr. exchanges Q (reg64 s ENA_REGS_AQ_BASE_HI_OFF ENA_REGS_AQ_BASE_LO_OFF)
         (reg64 s ENA_REGS_ACQ_BASE_HI_OFF ENA_REGS_ACQ_BASE_LO_OFF) (aq_depth s) (acq_depth s)
         (aq_head s) (acq_tail s) (trace s) log tr \<and> (trace s' = tr \<or> trace s' = tr @ [MsixNotify 0]))"

text \<open>
  The observation of an event: a reset clears the tables, a write of the admin doorbell shows the
  exchanges it announced, and any other event shows nothing.
\<close>

definition table_obs :: "qemu \<Rightarrow> EnaState \<Rightarrow> event \<Rightarrow> EnaState \<Rightarrow> observation \<Rightarrow> bool" where
  "table_obs Q s e s' l \<longleftrightarrow>
     (if event_resets e then l = Cleared
      else case e of
          RegWrite addr val \<Rightarrow>
            if addr = ENA_REGS_AQ_DB_OFF
            then \<exists>log. admin_exchange Q s val s' log \<and> l = Served (map exchange_answer log)
            else l = Served []
        | _ \<Rightarrow> l = Served [])"

section \<open>The device implements the specification\<close>

lemma admin_loop_exchanges:
  "admin_loop Q ab cb ad cd tail (s, c) = Inr (s', c') \<Longrightarrow> pow2_ok Q \<Longrightarrow> dev_inv s \<Longrightarrow>
     \<exists>log. length log = unat (tail - aq_head s) \<and> exchanges Q ab cb ad cd (aq_head s) (acq_tail s) (trace s) log (trace s') \<and>
       qt_serve (map exchange_answer log) (qtab_of s) = Some (qtab_of s')"
proof (induction Q ab cb ad cd tail "(s, c)" arbitrary: s c rule: admin_loop.induct)
  case (1 Q ab cb ad cd tail s c)
  show ?case
  proof (cases "aq_head s = tail")
    case True
    with 1(2) show ?thesis by (intro exI [of _ "[]"]) (simp add: admin_loop.simps exchanges.none)
  next
    case False
    with 1(2) obtain s1 where s1: "admin_round Q ab cb ad cd s = Inr s1"
        "admin_loop Q ab cb ad cd tail (s1, True) = Inr (s', c')"
      by (subst (asm) admin_loop.simps) (auto simp: bindR_eq_Inr)
    let ?a = "ab + ucast (aq_head s mod ad) * 64"
    let ?cmd = "map (dma_byte Q (trace s) ?a 64) [0..<64]"
    obtain es out where x: "trace s1 = trace s @ DmaRead ?a 64 # es @ [DmaWrite (cb + ucast (acq_tail s mod cd) * 64) out]"
        "unat (acq_common_desc_command (dec_ena_admin_acq_common_desc out)) =
          unat (aq_common_desc_command_id (dec_ena_admin_aq_common_desc ?cmd)) mod 4096"
        "qt_exec (request_of ?cmd) (qtab_of s) = (answer_of (request_of ?cmd) out, qtab_of s1)"
        "aq_head s1 = aq_head s + 1" "acq_tail s1 = acq_tail s + 1"
      using admin_round_exchange [OF 1(3,4) s1(1) refl refl] by blast
    obtain log where log: "length log = unat (tail - aq_head s1)"
        "exchanges Q ab cb ad cd (aq_head s1) (acq_tail s1) (trace s1) log (trace s')"
        "qt_serve (map exchange_answer log) (qtab_of s1) = Some (qtab_of s')"
      using 1(1) [OF False s1 1(3) admin_round_spec(2) [OF s1(1) 1(3,4)]] by blast
    have "exchanges Q ab cb ad cd (aq_head s) (acq_tail s) (trace s) ((?cmd, out) # log) (trace s')"
      using exchanges.more [OF refl refl x(2)] log(2) unfolding x(1,4,5) .
    moreover have "length ((?cmd, out) # log) = unat (tail - aq_head s)"
      using log(1) unat_diff_Suc [OF False] by (simp add: x(4))
    moreover have "qt_serve (map exchange_answer ((?cmd, out) # log)) (qtab_of s) = Some (qtab_of s')"
      using x(3) log(3) by (simp add: exchange_answer_def)
    ultimately show ?thesis by blast
  qed
qed

lemma admin_finish_obs:
  assumes "admin_finish (s, c) = Inr s'"
  shows "qtab_of s' = qtab_of s" "trace s' = trace s \<or> trace s' = trace s @ [MsixNotify 0]"
  using assms by (auto simp: admin_finish_def Let_def set_REG_sel ENA_ADMIN_MSIX_VECTOR_def split: if_splits)

lemma admin_doorbell_refines:
  assumes "pow2_ok Q" and "device_inv s" and "ena_admin_process Q (set_REG s ENA_REGS_AQ_DB_OFF val) = Inr s'"
  shows "\<exists>log. admin_exchange Q s val s' log \<and> qt_serve (map exchange_answer log) (qtab_of s) = Some (qtab_of s')"
proof -
  let ?s = "set_REG s ENA_REGS_AQ_DB_OFF val"
  let ?ab = "reg64 s ENA_REGS_AQ_BASE_HI_OFF ENA_REGS_AQ_BASE_LO_OFF"
  let ?cb = "reg64 s ENA_REGS_ACQ_BASE_HI_OFF ENA_REGS_ACQ_BASE_LO_OFF"
  have inv: "dev_inv ?s"
    using assms(2) by (intro dev_inv_set_REG) (simp_all add: device_inv_def ENA_REGS_AQ_DB_OFF_def)
  have same: "reg64 ?s ENA_REGS_AQ_BASE_HI_OFF ENA_REGS_AQ_BASE_LO_OFF = ?ab"
      "reg64 ?s ENA_REGS_ACQ_BASE_HI_OFF ENA_REGS_ACQ_BASE_LO_OFF = ?cb"
      "aq_depth ?s = aq_depth s" "acq_depth ?s = acq_depth s"
    by (simp_all add: reg64_def aq_depth_def acq_depth_def REG_set_REG ena_const)
  have sel: "aq_head ?s = aq_head s" "acq_tail ?s = acq_tail s" "trace ?s = trace s" by (simp_all add: set_REG_sel)
  show ?thesis
  proof (cases "admin_ready ?s \<and> admin_pending ?s \<le> unat (aq_depth ?s)")
    case False
    then have "s' = ?s" using assms(3) by (simp add: admin_process_eq split: if_splits)
    with False show ?thesis
      by (intro exI [of _ "[]"]) (auto simp: admin_exchange_def admin_due_def Let_def sel intro: exchanges.none)
  next
    case True
    let ?tail = "ucast (REG ?s ENA_REGS_AQ_DB_OFF)"
    obtain s1 c where s1: "admin_loop Q ?ab ?cb (aq_depth s) (acq_depth s) ?tail (?s, False) = Inr (s1, c)"
        "admin_finish (s1, c) = Inr s'"
      using assms(3) True unfolding same [symmetric] by (auto simp: admin_process_eq bindR_eq_Inr)
    obtain log where log: "length log = unat (?tail - aq_head s)"
        "exchanges Q ?ab ?cb (aq_depth s) (acq_depth s) (aq_head s) (acq_tail s) (trace s) log (trace s1)"
        "qt_serve (map exchange_answer log) (qtab_of s) = Some (qtab_of s1)"
      using admin_loop_exchanges [OF s1(1) assms(1) inv] unfolding sel by auto
    moreover have "length log = admin_due s val" using log(1) True by (simp add: admin_due_def Let_def admin_pending_def sel)
    ultimately show ?thesis
      using admin_finish_obs [OF s1(2)] by (intro exI [of _ log]) (auto simp: admin_exchange_def)
  qed
qed

lemma reg_file_write_refines:
  assumes "env_ok Q" and "device_inv s" and "reg_file_write Q s addr val = Inr s'"
  shows "\<exists>l. table_obs Q s (RegWrite addr val) s' l \<and> qt_step (qtab_of s) l (qtab_of s')"
proof -
  have ne: "ENA_REGS_AQ_DB_OFF \<noteq> ENA_REGS_DEV_CTL_OFF" by (simp add: ena_const)
  consider (ctl) "addr = ENA_REGS_DEV_CTL_OFF" | (db) "addr = ENA_REGS_AQ_DB_OFF"
    | (plain) "addr \<noteq> ENA_REGS_DEV_CTL_OFF" "addr \<noteq> ENA_REGS_AQ_DB_OFF" by blast
  then show ?thesis
  proof cases
    case ctl
    then have w: "ena_dev_ctl_write s val = Inr s'"
      using assms(3) by (simp add: reg_file_write_def reg_read_only_def ena_const)
    have "val AND 1 = 0 \<longleftrightarrow> \<not> bit val 0" using and_BIT_eq_0 [of val 0] by (simp add: BIT_def)
    with w have "qtab_of s' = (if bit val 0 then qtab_empty else qtab_of s)"
      by (auto simp: ena_dev_ctl_write_def Let_def qtab_of_reset ENA_REGS_DEV_CTL_DEV_RESET_MASK_def split: if_splits)
    with ctl ne show ?thesis by (cases "bit val 0") (auto simp: table_obs_def)
  next
    case db
    then have "ena_admin_process Q (set_REG s ENA_REGS_AQ_DB_OFF val) = Inr s'"
      using assms(3) by (simp add: reg_file_write_def reg_read_only_def ena_const)
    from admin_doorbell_refines [OF _ assms(2) this] assms(1) db ne show ?thesis
      by (auto simp: table_obs_def env_ok_def)
  next
    case plain
    then have "qtab_of s' = qtab_of s" using assms(3) by (auto simp: reg_file_write_def bindR_eq_Inr split: if_splits)
    with plain show ?thesis by (intro exI [of _ "Served []"]) (simp add: table_obs_def)
  qed
qed

lemma datapath_shows_nothing: "datapath_event e \<Longrightarrow> e \<noteq> SystemReset \<Longrightarrow> table_obs Q s e s' (Served [])"
  by (cases e) (auto simp: table_obs_def ENA_REGS_AQ_DB_OFF_def ENA_REGS_DEV_CTL_OFF_def ENA_REG_SQ_DB_BASE_def
      ENA_REG_CQ_UNMASK_BASE_def ENA_MAX_SQ_def ENA_MAX_CQ_def ENA_MAX_IO_QUEUES_def)

lemma handle_refines:
  assumes "env_ok Q" and "device_inv s" and "enabled e s" and "dev_handle Q e s = Inr s'"
  shows "\<exists>l. table_obs Q s e s' l \<and> qt_step (qtab_of s) l (qtab_of s')"
proof (cases "datapath_event e")
  case True
  show ?thesis
  proof (cases "e = SystemReset")
    case True
    then show ?thesis
      using assms(4) by (intro exI [of _ Cleared]) (auto simp: table_obs_def ena_qdev_reset_hold_def qtab_of_reset)
  next
    case False
    then have "qtab_of s' = qtab_of s" using datapath_runs [OF assms(1-3) True] assms(4) qtab_of_view [of s' s] by auto
    with datapath_shows_nothing [OF True False] show ?thesis by (intro exI [of _ "Served []"]) simp
  qed
next
  case False
  then show ?thesis
    using assms(4) reg_file_write_refines [OF assms(1,2)] by (elim register_write_cases [of e Q s]) (auto split: if_splits)
qed

definition power_on :: "EnaState \<Rightarrow> bool" where
  "power_on s \<longleftrightarrow> (\<exists>mac large. length mac = 6 \<and> s = ena_qdev_reset_hold (ena_realize mac large))"

interpretation io_queues: observed_refinement power_on "\<lambda>s e s'. env_ok Q \<and> dev_step Q s e s'" device_inv "table_obs Q"
    qtab_empty qt_step qtab_of for Q
proof unfold_locales
  fix s e s'
  show "device_inv s" if "power_on s" using that by (auto simp: power_on_def realize_inv)
  show "qtab_of s = qtab_empty" if "power_on s"
    using that by (auto simp: power_on_def ena_qdev_reset_hold_def qtab_of_reset)
  assume "device_inv s" and "env_ok Q \<and> dev_step Q s e s'"
  then show "device_inv s'" and "\<exists>l. table_obs Q s e s' l \<and> qt_step (qtab_of s) l (qtab_of s')"
    by (auto elim!: dev_stepE intro: handle_inv handle_refines)
qed

lemma reachable_steps:
  assumes "reachable Q mac large s" and "env_ok Q"
  shows "\<exists>es. steps (\<lambda>s e s'. env_ok Q \<and> dev_step Q s e s') (ena_qdev_reset_hold (ena_realize mac large)) es s"
  using assms(1) by (induction rule: reachable.induct) (use assms(2) in \<open>blast intro: steps.intros\<close>)+

text \<open>
  C8. The device refines the specification of the queue tables. Every event of a reachable device is a
  step of the specification with what the driver observes: a reset clears the tables; a write of the
  admin doorbell serves exactly the commands it announced, read from the next slots of the admin queue,
  and each is answered in the next slot of the completion queue as the specification answers its
  request; no other event touches the tables. So a queue appears only by a well-formed request and in
  the lowest free slot, which the answer names; a submission queue only on a live completion queue that
  is deep enough; a completion queue disappears only when no submission queue refers to it; and every
  submission queue feeds a live completion queue.
\<close>

theorem queue_table_refines:
  assumes "env_ok Q" and "length mac = 6" and "reachable Q mac large s" and "dev_step Q s e s'"
  shows "(\<exists>l. table_obs Q s e s' l \<and> qt_step (qtab_of s) l (qtab_of s')) \<and> qtab_wf (qtab_of s')"
proof -
  have init: "power_on (ena_qdev_reset_hold (ena_realize mac large))" using assms(2) by (auto simp: power_on_def)
  obtain es where "steps (\<lambda>s e s'. env_ok Q \<and> dev_step Q s e s') (ena_qdev_reset_hold (ena_realize mac large)) es s'"
    using reachable_steps [OF reachable.step [OF assms(3,4)] assms(1)] by blast
  from io_queues.spec_invariant [OF init this, of qtab_wf] qtab_wf_empty qt_step_wf have "qtab_wf (qtab_of s')" by blast
  moreover have "\<exists>l. table_obs Q s e s' l \<and> qt_step (qtab_of s) l (qtab_of s')"
    using assms reachable_device_inv [OF assms(3,1,2)] by (intro io_queues.step_abs) auto
  ultimately show ?thesis by blast
qed

text \<open>A guest whose admin queue at \<open>0x1000\<close> holds the request for a completion queue, and its device after the boot.\<close>

definition cq_cmd_bytes :: "byte list" where
  "cq_cmd_bytes = enc_ena_admin_aq_create_cq_cmd sample_cq_cmd @ replicate 44 0"

abbreviation cq_qemu :: qemu where
  "cq_qemu \<equiv> quiet_qemu (\<lambda>a. cq_cmd_bytes ! (unat (a - 0x1000) mod 64)) (\<lambda>_. 0)"

lemma reg_writes_reachable:
  "reachable Q mac large s \<Longrightarrow> reg_writes Q ws s = Inr s' \<Longrightarrow> reachable Q mac large s'"
proof (induction ws arbitrary: s)
  case (Cons w ws)
  then obtain s1 where s1: "ena_reg_write Q s (fst w) (snd w) = Inr s1" "reg_writes Q ws s1 = Inr s'"
    by (auto simp: bindR_eq_Inr)
  have "dev_step Q s (RegWrite (fst w) (snd w)) s1" by (rule dev_step.step) (simp_all add: s1(1))
  with Cons s1(2) show ?case by (blast intro: reachable.step)
qed simp

inductive_cases exchange_oneE: "exchanges Q ab cb ad cd h t tr (x # log) tr'"

lemma cq_cmd_length: "length cq_cmd_bytes = 64"
  by (simp add: cq_cmd_bytes_def create_cq_cmd.enc_size)

lemma cq_cmd_fetched: "map (dma_byte cq_qemu tr 0x1000 64) [0..<64] = cq_cmd_bytes"
proof (rule nth_equalityI)
  fix i assume "i < length (map (dma_byte cq_qemu tr 0x1000 64) [0..<64])"
  then show "map (dma_byte cq_qemu tr 0x1000 64) [0..<64] ! i = cq_cmd_bytes ! i"
    by (simp add: quiet_qemu_def unat_of_nat_small)
qed (simp add: cq_cmd_length)

lemma cq_cmd_request:
  "aq_common_desc_opcode (dec_ena_admin_aq_common_desc cq_cmd_bytes) = ENA_ADMIN_CREATE_CQ"
  "request_of cq_cmd_bytes = NewCq (cq_spec_of (new_cq sample_cq_cmd))"
proof -
  have dec: "dec_ena_admin_aq_create_cq_cmd cq_cmd_bytes = sample_cq_cmd"
    by (simp add: cq_cmd_bytes_def create_cq_cmd.dec_enc)
  have "dec_ena_admin_aq_common_desc cq_cmd_bytes = create_cq_cmd_aq_common_descriptor sample_cq_cmd"
    unfolding dec [symmetric] by (simp add: dec_ena_admin_aq_create_cq_cmd_def)
  then show op: "aq_common_desc_opcode (dec_ena_admin_aq_common_desc cq_cmd_bytes) = ENA_ADMIN_CREATE_CQ"
    by (simp add: sample_cq_cmd_def ENA_ADMIN_CREATE_CQ_def)
  show "request_of cq_cmd_bytes = NewCq (cq_spec_of (new_cq sample_cq_cmd))"
    unfolding request_of_def op Let_def
    by (simp add: ENA_ADMIN_CREATE_SQ_def ENA_ADMIN_DESTROY_SQ_def ENA_ADMIN_CREATE_CQ_def)
      (simp add: cq_request_def dec sample_cq_ok)
qed

lemma served_one: "qt_step qtab_empty (Served [(NewCq c, a)]) t \<Longrightarrow> a = Made 0 \<and> qt_cqs t 0 = Some c"
proof -
  have "lowest_free (qt_cqs qtab_empty) = Some 0" by (simp add: lowest_free_Some qtab_empty_def)
  then show "qt_step qtab_empty (Served [(NewCq c, a)]) t \<Longrightarrow> a = Made 0 \<and> qt_cqs t 0 = Some c"
    by (auto split: if_splits)
qed

lemma cq_exec_runs:
  "\<exists>r. ena_admin_exec Q s cq_cmd_bytes resp = Inr r"
  using ena_create_cq_total [of Q s cq_cmd_bytes resp]
  by (simp add: ena_admin_exec_def cq_cmd_request(1) ENA_ADMIN_CREATE_SQ_def ENA_ADMIN_DESTROY_SQ_def ENA_ADMIN_CREATE_CQ_def)

lemma cq_doorbell_runs:
  assumes "device_inv s" and "admin_ready s" and "reg64 s ENA_REGS_AQ_BASE_HI_OFF ENA_REGS_AQ_BASE_LO_OFF = 0x1000"
    and "aq_depth s = 8" and "aq_head s = 0"
  obtains s' where "ena_reg_write cq_qemu s ENA_REGS_AQ_DB_OFF 1 = Inr s'" and "admin_due s 1 = 1"
proof -
  let ?s = "set_REG s ENA_REGS_AQ_DB_OFF 1"
  note db = aq_doorbell_sel [OF assms(1), of 1]
  have b: "reg64 ?s ENA_REGS_AQ_BASE_HI_OFF ENA_REGS_AQ_BASE_LO_OFF = 0x1000"
    using assms(3) by (simp add: reg64_def REG_set_REG ena_const)
  have h: "aq_head ?s = 0" using assms(5) by (simp add: set_REG_sel)
  have pend: "admin_pending ?s = 1" by (simp add: admin_pending_def db(5) h)
  obtain s1 where s1: "admin_round cq_qemu 0x1000 (reg64 ?s ENA_REGS_ACQ_BASE_HI_OFF ENA_REGS_ACQ_BASE_LO_OFF) 8 (acq_depth ?s) ?s = Inr s1"
    using cq_exec_runs [of cq_qemu "(emit (DmaRead 0x1000 64) ?s)\<lparr>aq_head := 1\<rparr>" "replicate 64 0"]
    by (auto simp: admin_round_def admin_fetch_eq h cq_cmd_fetched [unfolded])
  then have "admin_loop cq_qemu 0x1000 (reg64 ?s ENA_REGS_ACQ_BASE_HI_OFF ENA_REGS_ACQ_BASE_LO_OFF) 8 (acq_depth ?s) 1 (?s, False) =
      Inr (s1, True)"
    using admin_round_head [OF s1] h by (simp add: admin_loop.simps [of _ _ _ _ _ _ ?s] admin_loop.simps [of _ _ _ _ _ _ s1])
  then have "\<exists>s'. ena_admin_process cq_qemu ?s = Inr s'"
    using db assms(2,4) pend b by (auto simp: admin_process_eq admin_finish_def Let_def)
  then show thesis
    using that db assms(2,4) pend
    by (auto simp: admin_due_def Let_def reg_write_file reg_file_write_def reg_read_only_def ena_const)
qed

theorem queue_table_refines_witness:
  "\<exists>s s'. dev_step cq_qemu s (RegWrite ENA_REGS_AQ_DB_OFF 1) s' \<and> qtab_of s = qtab_empty \<and>
     qt_cqs (qtab_of s') 0 = Some (cq_spec_of (new_cq sample_cq_cmd)) \<and> qtab_wf (qtab_of s')"
proof -
  obtain s where s: "reg_writes cq_qemu (boot_writes 1 0x1000 0x2000 0x3000 8) fresh_state = Inr s"
      "reg64 s ENA_REGS_AQ_BASE_HI_OFF ENA_REGS_AQ_BASE_LO_OFF = 0x1000"
      "reg64 s ENA_REGS_ACQ_BASE_HI_OFF ENA_REGS_ACQ_BASE_LO_OFF = 0x2000" "aq_depth s = 8" "acq_depth s = 8" "aq_head s = 0"
      "driver_view s = driver_view (ena_dev_reset fresh_state)"
    by (rule boot_run [OF quiet_pow2_ok, of 1 8]) (auto simp: dev_ctl_ok_def ena_const)
  have reach: "reachable cq_qemu [2, 0, 0, 0, 0, 1] False s" by (rule reg_writes_reachable [OF fresh_reachable s(1)])
  have empty: "qtab_of s = qtab_empty" using qtab_of_view [OF s(7)] by (simp add: qtab_of_reset)
  have inv: "device_inv s" by (rule reachable_device_inv [OF reach quiet_env_ok]) simp
  have "admin_ready s" using s by (simp add: admin_ready_def)
  from cq_doorbell_runs [OF inv this s(2,4,6)] obtain s' where
    s': "ena_reg_write cq_qemu s ENA_REGS_AQ_DB_OFF 1 = Inr s'" and due: "admin_due s 1 = 1" .
  have step: "dev_step cq_qemu s (RegWrite ENA_REGS_AQ_DB_OFF 1) s'" by (rule dev_step.step) (simp_all add: s')
  from queue_table_refines [OF quiet_env_ok _ reach step] obtain l where
    l: "table_obs cq_qemu s (RegWrite ENA_REGS_AQ_DB_OFF 1) s' l" "qt_step qtab_empty l (qtab_of s')"
    and wf: "qtab_wf (qtab_of s')" by (auto simp: empty)
  obtain log where log: "admin_exchange cq_qemu s 1 s' log" "l = Served (map exchange_answer log)"
    using l(1) by (auto simp: table_obs_def ENA_REGS_AQ_DB_OFF_def ENA_REGS_DEV_CTL_OFF_def)
  then obtain x where x: "log = [x]" using due by (auto simp: admin_exchange_def length_Suc_conv)
  have "fst x = cq_cmd_bytes"
    using log(1) s(2,4,6) unfolding x admin_exchange_def
    by (elim conjE exE exchange_oneE) (simp add: cq_cmd_fetched)
  then have "l = Served [(NewCq (cq_spec_of (new_cq sample_cq_cmd)), snd (exchange_answer x))]"
    using log(2) x by (simp add: exchange_answer_def cq_cmd_request(2))
  with l(2) served_one have "qt_cqs (qtab_of s') 0 = Some (cq_spec_of (new_cq sample_cq_cmd))" by blast
  with step empty wf show ?thesis by blast
qed

end
