(* ===== verification/Ena_Calls.thy ===== *)
theory Ena_Calls
  imports Ena_Device
begin

text \<open>
  What the device does to its surroundings over a whole run: the calls it makes to QEMU are
  well-formed, and the notifications of the IO vectors are paid for by the driver's unmask writes.
\<close>

section \<open>Well-formed calls\<close>

text \<open>
  A frame handed to the network carries the device's own source address, a plain one fits the largest
  MTU with its Ethernet header and VLAN tag; the LLQ memory is read inside its BAR.
\<close>

fun frame_call :: "byte list \<Rightarrow> effect \<Rightarrow> bool" where
  "frame_call mac (SendPacket f) \<longleftrightarrow> own_frame mac f \<and> length f \<le> ENA_MAX_MTU + 18"
| "frame_call mac (NetTxAddRawFragment f) \<longleftrightarrow> own_frame mac f"
| "frame_call mac (LlqRead off n) \<longleftrightarrow> off + n \<le> ENA_MEM_BAR_SIZE"
| "frame_call mac _ \<longleftrightarrow> True"

definition call_wf :: "byte list \<Rightarrow> effect \<Rightarrow> bool" where
  "call_wf mac e \<longleftrightarrow> vec_call e \<and> frame_call mac e"

lemma frame_call_admin: "admin_call e \<Longrightarrow> frame_call mac e"
  by (cases e) simp_all

lemma frame_call_rx: "rx_effect e \<Longrightarrow> frame_call mac e"
  by (cases e) simp_all

lemma frame_call_tx:
  "tx_effect i mac (unat m + 18) e \<Longrightarrow> i < 16 \<Longrightarrow> unat m \<le> ENA_MAX_MTU \<Longrightarrow> frame_call mac e"
  using llq_slice_bar [of i] by (cases e) auto

section \<open>Steps that arm no vector\<close>

definition calm_step :: "EnaState \<Rightarrow> EnaState \<Rightarrow> bool" where
  "calm_step s s' \<longleftrightarrow> macaddr s' = macaddr s \<and> ext_by (frame_call (macaddr s)) s s' \<and> one_shot s s'"

lemma calm_step_refl [simp]: "calm_step s s"
  by (simp add: calm_step_def)

lemma calm_step_trans: "calm_step s t \<Longrightarrow> calm_step t u \<Longrightarrow> calm_step s u"
  by (auto simp: calm_step_def intro: ext_by_trans one_shot_trans)

lemma calm_admin: "admin_step s s' \<Longrightarrow> calm_step s s'"
  by (auto simp: admin_step_def calm_step_def intro: ext_by_mono frame_call_admin one_shot_quiet admin_ext_quiet)

lemma calm_same: "irq s' = irq s \<Longrightarrow> macaddr s' = macaddr s \<Longrightarrow> trace s' = trace s \<Longrightarrow> calm_step s s'"
  by (simp add: calm_step_def ext_by_same one_shot_same)

lemma calm_dp:
  "dp_step s s' \<Longrightarrow> irq_ok s \<Longrightarrow> ext_by (frame_call (macaddr s)) s s' \<Longrightarrow> calm_step s s'"
  using dp_step_config [of s s'] by (simp add: calm_step_def dp_step_def)

lemma calm_rx: "rx_step s s' \<Longrightarrow> irq_ok s \<Longrightarrow> calm_step s s'"
  by (auto simp: rx_step_def intro: calm_dp ext_by_mono frame_call_rx)

lemma calm_reset:
  assumes "irq_ok s"
  shows "calm_step s (ena_dev_reset s)"
proof -
  have "trace (ena_dev_reset s) = trace s @ TimerDel KeepAliveTimer #
      map (\<lambda>i. TimerDel (ModerTimer (irq_vector (irq s ! i)))) [0..<ENA_MSIX_VECTORS]"
    using assms by (intro ena_dev_reset_trace) (simp add: irq_ok_def)
  then have "ext_by (frame_call (macaddr s)) s (ena_dev_reset s)"
    by (simp add: ext_by_def list_all_iff)
  with ena_dev_reset_one_shot [OF assms] show ?thesis
    by (simp add: calm_step_def ena_dev_reset_sel)
qed

lemma calm_set_REG: "calm_step s t \<Longrightarrow> calm_step s (set_REG t a v)"
  by (erule calm_step_trans, rule calm_same) (simp_all add: set_REG_sel)

lemma device_irq_ok: "device_inv s \<Longrightarrow> irq_ok s"
  using dev_invD(2) by (simp add: device_inv_def)

subsection \<open>Register writes\<close>

lemma dev_ctl_calm: "irq_ok s \<Longrightarrow> ena_dev_ctl_write s val = Inr s' \<Longrightarrow> calm_step s s'"
  by (auto simp: ena_dev_ctl_write_def Let_def split: if_splits intro!: calm_set_REG calm_reset)

lemma readless_calm: "calm_step s t \<Longrightarrow> calm_step s (ena_mmio_readless t req)"
  by (erule calm_step_trans, rule calm_admin) (simp add: ena_mmio_readless_def Let_def ena_dma_write_def admin_step_emit)

lemma admin_process_calm: "ena_admin_process Q t = Inr s' \<Longrightarrow> calm_step s t \<Longrightarrow> calm_step s s'"
  using calm_step_trans calm_admin [OF admin_process_calls] by blast

lemma calm_rings:
  "calm_step s t \<Longrightarrow> calm_step s (t\<lparr>aq_head := h\<rparr>)"
  "calm_step s t \<Longrightarrow> calm_step s (t\<lparr>acq_tail := n, acq_phase := p\<rparr>)"
  "calm_step s t \<Longrightarrow> calm_step s (t\<lparr>aenq_tail := n, aenq_phase := p\<rparr>)"
  by (erule calm_step_trans, simp add: calm_same)+

lemma reg_file_write_calm:
  assumes "irq_ok s" and "reg_file_write Q s addr val = Inr s'"
  shows "calm_step s s'"
  using assms
  by (auto simp: reg_file_write_def bindR_eq_Inr split: if_splits dest: dev_ctl_calm elim!: admin_process_calm
      intro!: calm_set_REG readless_calm calm_rings)

subsection \<open>Doorbells, frames and timers\<close>

lemma calm_tx:
  assumes "dev_inv s" and "i < 16" and "tx_step i s s'"
  shows "calm_step s s'"
proof -
  have "unat (mtu s) \<le> ENA_MAX_MTU" using assms(1) by (simp add: dev_inv_def cfg_inv_def)
  then have "ext_by (frame_call (macaddr s)) s s'"
    using assms(2,3) by (auto simp: tx_step_def elim!: ext_by_mono intro: frame_call_tx)
  with assms(1,3) dev_invD(2) show ?thesis by (auto simp: tx_step_def intro: calm_dp)
qed

lemma rx_doorbell_calm:
  assumes "iov_ok Q" and "dev_inv s" and "ena_rx_doorbell Q s i = Inr s'"
  shows "calm_step s s'"
proof -
  let ?t = "emit FlushQueuedPackets s"
  have ok: "irq_ok ?t" and inv: "dev_inv ?t" using assms(2) dev_invD(2) by (simp_all add: dev_inv_emit)
  obtain u where u: "net_incoming Q ?t = Inr u" "rx_step ?t u" using net_incoming_runs [OF assms(1) inv] by blast
  then have "s' = u" using assms(3) by (simp add: ena_rx_doorbell_def split: if_splits)
  moreover have "calm_step s ?t" by (simp add: calm_step_def ext_by_def one_shot_emit)
  ultimately show ?thesis using calm_rx [OF u(2) ok] by (blast intro: calm_step_trans)
qed

lemma sq_doorbell_calm:
  assumes "env_ok Q" and "device_inv s" and "i < 16" and "sq_doorbell Q s i val = Inr s'"
  shows "calm_step s s'"
proof (cases "sq_used (sq s ! i) \<and> \<not> sq_depth (sq s ! i) < ucast val - sq_head (sq s ! i)")
  case False
  then have "sq_doorbell Q s i val = Inr s" by (auto simp: sq_doorbell_def Let_def)
  with assms(4) show ?thesis by simp
next
  case True
  let ?t = "s\<lparr>sq := (sq s)[i := (sq s ! i)\<lparr>sq_tail := ucast val\<rparr>]\<rparr>"
  have dev: "dev_inv ?t" and q: "sq ?t ! i = (sq s ! i)\<lparr>sq_tail := ucast val\<rparr>"
    using assms(2,3) True by (simp_all add: doorbell_tail_inv)
  have st: "calm_step s ?t" by (simp add: calm_same)
  show ?thesis
  proof (cases "sq_is_tx (sq s ! i)")
    case tx: True
    have "ena_tx_doorbell Q ?t i = Inr s'" using assms(4) True tx by (simp add: sq_doorbell_def Let_def)
    then have "tx_step i ?t s'"
      using ena_tx_doorbell_runs [of Q i ?t] dev assms(1,3) True tx q by (auto simp: env_ok_def)
    with st calm_tx [OF dev assms(3)] show ?thesis by (blast intro: calm_step_trans)
  next
    case False
    then have "ena_rx_doorbell Q ?t i = Inr s'" using assms(4) True by (simp add: sq_doorbell_def Let_def)
    with st dev assms(1) show ?thesis by (auto simp: env_ok_def intro: calm_step_trans rx_doorbell_calm)
  qed
qed

lemma keep_alive_calm: "ena_keep_alive Q s = Inr s' \<Longrightarrow> calm_step s s'"
  by (rule ena_keep_alive_frame [of Q s]) (auto intro: calm_admin aenq_admin_step aenq_events_sync)

lemma link_change_calm: "ena_post_link_change Q s = Inr s' \<Longrightarrow> calm_step s s'"
  by (rule ena_post_link_change_frame [of Q s]) (auto intro: calm_admin aenq_admin_step aenq_events_sync)

lemma receive_calm:
  "iov_ok Q \<Longrightarrow> dev_inv s \<Longrightarrow> ena_rx_receive_iov Q s iov = Inr (n, s') \<Longrightarrow> calm_step s s'"
  using ena_rx_receive_iov_runs [of Q s iov] dev_invD(2) [of s] by (auto intro: calm_rx)

lemma moderation_calm:
  assumes "irq_ok s" and "enabled (ModerationFires v) s"
    and s'_def: "s' = ena_irq_moder_timer (emit (TimerFired (ModerTimer (irq_vector (irq s ! v)))) s) v"
  shows "calm_step s s'"
proof -
  have v: "v < 9" using assms(2) by (simp add: vectors9)
  then have vec: "irq_vector (irq s ! v) = of_nat v" using irq_okD(2) [OF assms(1)] by simp
  have arm: "irq_unmasked (irq s ! v)" using irq_okD(3) [OF assms(1) v] assms(2) vec by simp
  let ?t = "emit (TimerFired (ModerTimer (irq_vector (irq s ! v)))) s"
  have "irq_ok ?t" using assms(1) v vec by (auto simp: irq_ok_def vectors9)
  then have "one_shot ?t s'" using v arm by (simp add: s'_def ena_irq_moder_timer_def ena_irq_fire_one_shot)
  moreover have "one_shot s ?t" by (simp add: one_shot_def vec_pot_def)
  moreover have "macaddr s' = macaddr s"
    using irq_frameD(6) [OF irq_frame_fire] by (simp add: s'_def ena_irq_moder_timer_def)
  moreover have "ext_by (frame_call (macaddr s)) s s'"
    by (simp add: s'_def ena_irq_moder_timer_def ena_irq_fire_def Let_def ext_by_def)
  ultimately show ?thesis by (auto simp: calm_step_def intro: one_shot_trans)
qed

text \<open>
  C39. A delayed interrupt arrives: when the moderation delay of a vector expires, the guest is
  notified on it exactly once, the vector is masked with nothing left owed, its timer is disarmed, and
  neither the other vectors nor anything else of the device changes.
\<close>

theorem moderation_delivers:
  assumes "irq_ok s" and "enabled (ModerationFires v) s"
  shows "\<exists>s'. dev_handle Q (ModerationFires v) s = Inr s' \<and>
    msix_count (of_nat v) (trace s') = Suc (msix_count (of_nat v) (trace s)) \<and>
    \<not> irq_unmasked (irq s' ! v) \<and> \<not> irq_owed s' v \<and> \<not> timer_armed (ModerTimer (of_nat v)) (trace s') \<and>
    irq_ok s' \<and> irq_frame s' = irq_frame s \<and>
    (\<forall>w < 9. w \<noteq> v \<longrightarrow> irq s' ! w = irq s ! w \<and> msix_count (of_nat w) (trace s') = msix_count (of_nat w) (trace s))"
proof -
  have v: "v < 9" using assms(2) by (simp add: vectors9)
  then have vec: "irq_vector (irq s ! v) = of_nat v" using irq_okD(2) [OF assms(1)] by simp
  let ?t = "emit (TimerFired (ModerTimer (of_nat v))) s"
  let ?s' = "ena_irq_fire ?t v"
  have ok: "irq_ok ?t" using assms(1) v by (auto simp: irq_ok_def vectors9)
  have "dev_handle Q (ModerationFires v) s = Inr ?s'" by (simp add: vec ena_irq_moder_timer_def)
  moreover have "irq_vector (irq ?s' ! v) = of_nat v" using irq_okD(2) [OF ena_irq_fire_ok [OF ok v] v] .
  then have "\<not> timer_armed (ModerTimer (of_nat v)) (trace ?s')" using fire_result(5) [OF ok v] by (simp add: irq_owed_def)
  moreover have "irq ?s' ! w = irq s ! w \<and> msix_count (of_nat w) (trace ?s') = msix_count (of_nat w) (trace s)"
    if "w < 9" "w \<noteq> v" for w
    using that v vec of_nat_vec_inj [of v w] by (simp add: ena_irq_fire_def Let_def)
  ultimately show ?thesis
    using fire_result [OF ok v] ena_irq_fire_ok [OF ok v] by (intro exI [of _ ?s']) simp
qed

text \<open>A vector whose delay is running.\<close>

definition delayed_state :: EnaState where
  "delayed_state = one_cq_state\<lparr>irq := (irq one_cq_state)[1 := (irq one_cq_state ! 1)\<lparr>irq_unmasked := True\<rparr>],
     trace := [TimerModAnticipate (ModerTimer 1) 5]\<rparr>"

theorem moderation_delivers_witness:
  "\<exists>s'. dev_handle (quiet_qemu (\<lambda>_. 0) (\<lambda>_. 0)) (ModerationFires 1) delayed_state = Inr s' \<and>
     msix_count 1 (trace s') = 1"
proof -
  have one: "irq_ok one_cq_state" "trace one_cq_state = []" "length (irq one_cq_state) = 9"
    using one_cq_irq_ok irq_okD(1) [OF one_cq_irq_ok, of 1] by (simp_all add: one_cq_state_def ena_realize_def)
  have "(of_nat v :: u32) = 1 \<longleftrightarrow> v = 1" if "v < 9" for v using of_nat_vec_inj [OF that, of 1] by simp
  then have "irq_ok delayed_state"
    using one by (auto simp: irq_ok_def delayed_state_def vectors9 nth_list_update timer_armed_def)
  moreover have "enabled (ModerationFires 1) delayed_state"
    using irq_okD(2) [OF one(1), of 1] one by (simp add: delayed_state_def vectors9 timer_armed_def)
  ultimately show ?thesis
    using moderation_delivers [of delayed_state 1 "quiet_qemu (\<lambda>_. 0) (\<lambda>_. 0)"] by (auto simp: delayed_state_def)
qed

section \<open>Every event\<close>

text \<open>The events that re-arm a vector: a write with the unmask bit to an unmask register.\<close>

definition unmask_offset :: "nat \<Rightarrow> bool" where
  "unmask_offset addr \<longleftrightarrow> ENA_REG_CQ_UNMASK_BASE \<le> addr \<and> addr < ENA_REG_CQ_UNMASK_BASE + ENA_MAX_CQ * 4"

fun unmask_event :: "event \<Rightarrow> bool" where
  "unmask_event (RegWrite addr val) \<longleftrightarrow> unmask_offset addr \<and> bit val 30"
| "unmask_event _ \<longleftrightarrow> False"

definition total_pot :: "EnaState \<Rightarrow> nat" where
  "total_pot s = (\<Sum>v \<in> {0<..<9}. vec_pot s v)"

lemma one_shot_total: "one_shot s s' \<Longrightarrow> total_pot s' \<le> total_pot s"
  unfolding total_pot_def by (rule sum_mono) (simp add: one_shot_def)

lemma unmask_total:
  assumes "irq_ok s"
  shows "total_pot (ena_cq_unmask_write Q s c val) \<le> total_pot s + of_bool (bit val 30)"
proof -
  let ?v = "unat (cq_msix_vector (cq s ! c))"
  have "total_pot (ena_cq_unmask_write Q s c val) \<le> (\<Sum>w \<in> {0<..<9}. vec_pot s w + of_bool (bit val 30 \<and> w = ?v))"
    unfolding total_pot_def using ena_cq_unmask_pot [OF assms, of _ Q c val] by (intro sum_mono) simp
  also have "\<dots> = total_pot s + (\<Sum>w \<in> {0<..<9}. of_bool (bit val 30 \<and> w = ?v))"
    by (simp add: total_pot_def sum.distrib)
  also have "(\<Sum>w \<in> {0<..<9::nat}. of_bool (bit val 30 \<and> w = ?v)) \<le> (of_bool (bit val 30) :: nat)"
    by (cases "bit val 30") (simp_all add: of_bool_def sum.delta)
  finally show ?thesis by simp
qed

lemma unmask_calls: "ext_by (frame_call mac) s (ena_cq_unmask_write Q s c val)"
  by (simp add: ena_cq_unmask_write_def irq_deliver_pending_def ena_irq_schedule_def ena_irq_fire_def
      qemu_clock_get_us_def Let_def ext_by_def)

definition event_step :: "event \<Rightarrow> EnaState \<Rightarrow> EnaState \<Rightarrow> bool" where
  "event_step e s s' \<longleftrightarrow> macaddr s' = macaddr s \<and> ext_by (frame_call (macaddr s)) s s' \<and>
     total_pot s' \<le> total_pot s + of_bool (unmask_event e)"

lemma calm_event: "calm_step s s' \<Longrightarrow> event_step e s s'"
  using one_shot_total [of s s'] by (auto simp: calm_step_def event_step_def)

lemma reg_write_event:
  assumes "env_ok Q" and "device_inv s" and "ena_reg_write Q s addr val = Inr s'"
  shows "event_step (RegWrite addr val) s s'"
proof (cases "unmask_offset addr")
  case True
  let ?c = "(addr - ENA_REG_CQ_UNMASK_BASE) div 4"
  have "s' = ena_cq_unmask_write Q s ?c val"
    using True assms(3) by (simp add: ena_reg_write_def unmask_offset_def ena_const split: if_splits)
  then show ?thesis
    using unmask_total [OF device_irq_ok [OF assms(2)], of Q ?c val] True unmask_calls [of "macaddr s" s Q ?c val]
      irq_frameD(6) [OF irq_frame_unmask, of Q s ?c val]
    by (simp add: event_step_def)
next
  case False
  then consider i where "i < 16" "sq_doorbell Q s i val = Inr s'" | "reg_file_write Q s addr val = Inr s'"
    using assms(3) doorbell_index [of addr] by (auto simp: ena_reg_write_def unmask_offset_def split: if_splits)
  then show ?thesis
    using sq_doorbell_calm [OF assms(1,2)] reg_file_write_calm [OF device_irq_ok [OF assms(2)]]
    by cases (blast intro: calm_event)+
qed

lemma handle_event:
  assumes "env_ok Q" and "device_inv s" and "enabled e s" and "dev_handle Q e s = Inr s'"
  shows "event_step e s s'"
proof -
  have inv: "dev_inv s" "iov_ok Q" "irq_ok s"
    using assms(1,2) device_irq_ok by (simp_all add: device_inv_def env_ok_def)
  show ?thesis
  proof (cases e)
    case (RegWrite addr val)
    with assms show ?thesis by (simp add: reg_write_event)
  next
    case (ModerationFires v)
    with assms inv show ?thesis by (intro calm_event moderation_calm) auto
  next
    case KeepAliveFires
    let ?t = "emit (TimerFired KeepAliveTimer) s"
    have "calm_step s ?t" by (intro calm_admin admin_step_emit) simp
    with KeepAliveFires assms(4) show ?thesis by (auto intro: calm_event calm_step_trans keep_alive_calm)
  qed (use assms(4) inv in \<open>auto simp: ena_nc_receive_def ena_nc_receive_iov_def ena_nc_link_status_changed_def
      ena_qdev_reset_hold_def bindR_eq_Inr intro: calm_event receive_calm link_change_calm calm_reset\<close>)
qed

section \<open>Runs\<close>

text \<open>The states of the device together with the events that led to them.\<close>

inductive dev_run :: "qemu \<Rightarrow> byte list \<Rightarrow> bool \<Rightarrow> event list \<Rightarrow> EnaState \<Rightarrow> bool" for Q mac large where
  init: "dev_run Q mac large [] (ena_qdev_reset_hold (ena_realize mac large))"
| step: "dev_run Q mac large es s \<Longrightarrow> dev_step Q s e s' \<Longrightarrow> dev_run Q mac large (es @ [e]) s'"

lemma dev_run_reachable: "dev_run Q mac large es s \<Longrightarrow> reachable Q mac large s"
  by (induction rule: dev_run.induct) (auto intro: reachable.intros)

lemma reachable_dev_run: "reachable Q mac large s \<Longrightarrow> \<exists>es. dev_run Q mac large es s"
  by (induction rule: reachable.induct) (blast intro: dev_run.intros)+

lemma init_trace:
  "trace (ena_qdev_reset_hold (ena_realize mac large)) = TimerDel KeepAliveTimer #
     map (\<lambda>i. TimerDel (ModerTimer (irq_vector (irq (ena_realize mac large) ! i)))) [0..<ENA_MSIX_VECTORS]"
proof -
  have "length (irq (ena_realize mac large)) = ENA_MSIX_VECTORS" using irq_ok_realize by (simp add: irq_ok_def)
  moreover have "trace (ena_realize mac large) = []" by (simp add: ena_realize_def)
  ultimately show ?thesis using ena_dev_reset_trace [of "ena_realize mac large"] by (simp add: ena_qdev_reset_hold_def)
qed

lemma init_pot: "total_pot (ena_qdev_reset_hold (ena_realize mac large)) = 0"
  unfolding ena_qdev_reset_hold_def using ena_dev_reset_one_shot [OF irq_ok_realize, of mac large, THEN one_shot_total]
  by (simp add: total_pot_def vec_pot_def ena_realize_def ena_const)

lemma run_calls:
  assumes "dev_run Q mac large es s" and "env_ok Q" and "length mac = 6"
  shows "macaddr s = mac \<and> list_all (frame_call mac) (trace s) \<and> total_pot s \<le> length (filter unmask_event es)"
  using assms(1)
proof (induction rule: dev_run.induct)
  case init
  then show ?case
    by (simp only: init_trace init_pot) (simp add: ena_qdev_reset_hold_def ena_dev_reset_sel ena_realize_def list_all_iff)
next
  case (step es s e s')
  have "device_inv s" using dev_run_reachable [OF step.hyps(1)] assms(2,3) by (rule reachable_device_inv)
  then have "event_step e s s'" using step.hyps(2) assms(2) by (auto elim!: dev_stepE intro: handle_event)
  with step.IH show ?case by (auto simp: event_step_def ext_by_def)
qed

text \<open>
  C9. Type safety of the calls: in every reachable state, each call the device has ever made to
  QEMU was well-formed. It named an existing interrupt vector, read the LLQ memory inside its BAR, and
  handed over only frames with the device's own source address, plain ones no longer than the
  largest MTU with header and VLAN tag.
\<close>

theorem reachable_calls_wf:
  assumes "env_ok Q" and "length mac = 6" and "reachable Q mac large s"
  shows "list_all (call_wf mac) (trace s)"
proof -
  obtain es where "dev_run Q mac large es s" using reachable_dev_run [OF assms(3)] ..
  from run_calls [OF this assms(1,2)] have "list_all (frame_call mac) (trace s)" by simp
  moreover have "irq_ok s" using assms by (intro device_irq_ok reachable_device_inv)
  then have "list_all vec_call (trace s)" by (simp add: irq_ok_def)
  ultimately show ?thesis by (simp add: list_all_iff call_wf_def)
qed

theorem reachable_calls_wf_witness:
  "list_all (call_wf [2, 0, 0, 0, 0, 1]) (trace booted_state) \<and> trace booted_state \<noteq> []"
proof -
  have "trace booted_state = trace fresh_state" by (simp add: booted_state_def set_REG_sel)
  moreover have "trace fresh_state \<noteq> []"
    using init_trace [of "[2, 0, 0, 0, 0, 1]" False] by (simp add: fresh_state_def ena_qdev_reset_hold_def)
  ultimately show ?thesis
    using reachable_calls_wf [OF quiet_env_ok [of "\<lambda>_. 0" "\<lambda>_. 0"] _ booted_reachable] by simp
qed

text \<open>
  C7. Interrupts are one-shot: over any run of the device, the notifications sent on the IO vectors
  together with the vectors still armed are at most as many as the driver's writes to the unmask
  registers with the unmask bit set. Completions, frames, timers, admin commands and resets never pay
  for a notification.
\<close>

theorem interrupts_one_shot:
  assumes "env_ok Q" and "length mac = 6" and "dev_run Q mac large es s"
  shows "(\<Sum>v \<in> {0<..<9}. msix_count (of_nat v) (trace s) + of_bool (irq_unmasked (irq s ! v))) \<le>
    length (filter unmask_event es)"
  using run_calls [OF assms(3,1,2)] by (simp add: total_pot_def vec_pot_def)

theorem interrupts_one_shot_witness:
  "(\<Sum>v \<in> {0<..<9}. msix_count (of_nat v) (trace booted_state) + of_bool (irq_unmasked (irq booted_state ! v))) = 0"
proof -
  have "dev_run (quiet_qemu (\<lambda>_. 0) (\<lambda>_. 0)) [2, 0, 0, 0, 0, 1] False [] fresh_state"
    using dev_run.init [of "quiet_qemu (\<lambda>_. 0) (\<lambda>_. 0)" "[2, 0, 0, 0, 0, 1]" False]
    by (simp add: fresh_state_def ena_qdev_reset_hold_def)
  from dev_run.step [OF this booted_step] show ?thesis
    using interrupts_one_shot [OF quiet_env_ok, of "[2, 0, 0, 0, 0, 1]"] by (fastforce simp: unmask_offset_def ena_const)
qed

end
