(* ===== verification/Ena_Qdev.thy ===== *)
theory Ena_Qdev
  imports Ena_Calls
begin

text \<open>
  The device as an object of QEMU (\<open>src/hw/ena.c\<close>): the calls that create and delete it, the BARs and
  the class it registers. What these calls do is QEMU's; the model keeps the calls with their arguments
  and tracks the resources that have to be given back explicitly.
\<close>

section \<open>Realize and exit\<close>

definition ENA_PCI_VENDOR_ID :: u16 where [ena_const]: "ENA_PCI_VENDOR_ID = 0x1d0f"
definition ENA_PCI_DEVICE_ID :: u16 where [ena_const]: "ENA_PCI_DEVICE_ID = 0xec20"
definition ENA_REG_BAR :: nat where [ena_const]: "ENA_REG_BAR = 0"
definition ENA_MEM_BAR :: nat where [ena_const]: "ENA_MEM_BAR = 2"
definition ENA_MSIX_BAR :: nat where [ena_const]: "ENA_MSIX_BAR = 4"

datatype bar_flag = PCI_BASE_ADDRESS_SPACE_MEMORY | PCI_BASE_ADDRESS_MEM_TYPE_64 | PCI_BASE_ADDRESS_MEM_PREFETCH

datatype region = regs_mr | llq_mr

datatype qdev_call =
    MemoryRegionInitIo region string nat
  | MemoryRegionInitRam region string nat
  | PciRegisterBar nat "bar_flag list" region
  | MsixInitExclusiveBar nat nat bool
  | MsixVectorUse nat
  | MacaddrDefaultIfUnset
  | NewNic
  | FormatNicInfoStr
  | NetTxPktInit nat
  | NetRxPktInit
  | TimerNewMs timer
  | TimerNewUs timer
  | TimerFree timer
  | NetTxPktUninit
  | NetRxPktUninit
  | DelNic
  | MsixUninitExclusiveBar

text \<open>\<open>msix_ok\<close> is the outcome of \<open>msix_init_exclusive_bar\<close>; a failure ends \<open>ena_realize\<close> at once.\<close>

definition ena_realize_calls :: "bool \<Rightarrow> qdev_call list" where
  "ena_realize_calls msix_ok =
     [MemoryRegionInitIo regs_mr ''ena-regs'' ENA_REG_BAR_SIZE,
      PciRegisterBar ENA_REG_BAR [PCI_BASE_ADDRESS_SPACE_MEMORY, PCI_BASE_ADDRESS_MEM_TYPE_64] regs_mr,
      MemoryRegionInitRam llq_mr ''ena-llq'' ENA_MEM_BAR_SIZE,
      PciRegisterBar ENA_MEM_BAR [PCI_BASE_ADDRESS_SPACE_MEMORY, PCI_BASE_ADDRESS_MEM_TYPE_64,
        PCI_BASE_ADDRESS_MEM_PREFETCH] llq_mr,
      MsixInitExclusiveBar ENA_MSIX_VECTORS ENA_MSIX_BAR msix_ok] @
     (if \<not> msix_ok then []
      else map MsixVectorUse [0..<ENA_MSIX_VECTORS] @
        [MacaddrDefaultIfUnset, NewNic, FormatNicInfoStr, NetTxPktInit ENA_MAX_PKT_DESCS, NetRxPktInit,
         TimerNewMs KeepAliveTimer] @
        map (\<lambda>i. TimerNewUs (ModerTimer (of_nat i))) [0..<ENA_MSIX_VECTORS])"

definition ena_exit :: "EnaState \<Rightarrow> qdev_call list" where
  "ena_exit s =
     map (\<lambda>i. TimerFree (ModerTimer (irq_vector (irq s ! i)))) [0..<ENA_MSIX_VECTORS] @
     [TimerFree KeepAliveTimer, NetTxPktUninit, NetRxPktUninit, DelNic, MsixUninitExclusiveBar]"

section \<open>Registration\<close>

text \<open>The callbacks of the register BAR and of the network client, by the model's operations.\<close>

record reg_ops =
  ops_read :: "EnaState \<Rightarrow> nat \<Rightarrow> u32"
  ops_write :: "qemu \<Rightarrow> EnaState \<Rightarrow> nat \<Rightarrow> u32 \<Rightarrow> EnaState result"
  ops_little_endian :: bool
  ops_min_access_size :: nat
  ops_max_access_size :: nat

definition ena_reg_ops :: reg_ops where
  "ena_reg_ops = \<lparr>ops_read = ena_reg_read, ops_write = ena_reg_write, ops_little_endian = True,
     ops_min_access_size = 4, ops_max_access_size = 4\<rparr>"

record net_client_info =
  nc_can_receive :: "EnaState \<Rightarrow> bool"
  nc_receive :: "qemu \<Rightarrow> EnaState \<Rightarrow> byte list \<Rightarrow> (nat \<times> EnaState) result"
  nc_receive_iov :: "qemu \<Rightarrow> EnaState \<Rightarrow> byte list list \<Rightarrow> (nat \<times> EnaState) result"
  nc_link_status_changed :: "qemu \<Rightarrow> EnaState \<Rightarrow> EnaState result"

definition net_ena_info :: net_client_info where
  "net_ena_info = \<lparr>nc_can_receive = ena_nc_can_receive, nc_receive = ena_nc_receive,
     nc_receive_iov = ena_nc_receive_iov, nc_link_status_changed = ena_nc_link_status_changed\<rparr>"

text \<open>The property \<open>llq-large-header\<close> with its default; the class, whose PCI class code is QEMU's.\<close>

definition ena_properties :: "(string \<times> bool) list" where
  "ena_properties = [(''llq-large-header'', False)]"

record pci_device_class =
  class_realize :: "bool \<Rightarrow> qdev_call list"
  class_exit :: "EnaState \<Rightarrow> qdev_call list"
  class_vendor_id :: u16
  class_device_id :: u16
  class_revision :: u8
  class_class_id :: u16
  class_reset_hold :: "EnaState \<Rightarrow> EnaState"
  class_desc :: string
  class_props :: "(string \<times> bool) list"

definition ena_class_init :: "u16 \<Rightarrow> pci_device_class" where
  "ena_class_init network_ethernet = \<lparr>class_realize = ena_realize_calls, class_exit = ena_exit,
     class_vendor_id = ENA_PCI_VENDOR_ID, class_device_id = ENA_PCI_DEVICE_ID, class_revision = 0,
     class_class_id = network_ethernet, class_reset_hold = ena_qdev_reset_hold,
     class_desc = ''Amazon Elastic Network Adapter'', class_props = ena_properties\<rparr>"

section \<open>Resources\<close>

datatype resource = MsixRes | NicRes | TxPktRes | RxPktRes | TimerRes timer

fun acquires :: "qdev_call \<Rightarrow> resource option" where
  "acquires (MsixInitExclusiveBar n b ok) = (if ok then Some MsixRes else None)"
| "acquires NewNic = Some NicRes"
| "acquires (NetTxPktInit n) = Some TxPktRes"
| "acquires NetRxPktInit = Some RxPktRes"
| "acquires (TimerNewMs t) = Some (TimerRes t)"
| "acquires (TimerNewUs t) = Some (TimerRes t)"
| "acquires _ = None"

fun releases :: "qdev_call \<Rightarrow> resource option" where
  "releases (TimerFree t) = Some (TimerRes t)"
| "releases NetTxPktUninit = Some TxPktRes"
| "releases NetRxPktUninit = Some RxPktRes"
| "releases DelNic = Some NicRes"
| "releases MsixUninitExclusiveBar = Some MsixRes"
| "releases _ = None"

text \<open>Acquiring twice or releasing what is not held is an error.\<close>

definition live_step :: "qdev_call \<Rightarrow> resource set \<Rightarrow> resource set option" where
  "live_step c held =
     (case acquires c of
        Some r \<Rightarrow> if r \<in> held then None else Some (insert r held)
      | None \<Rightarrow> (case releases c of
          Some r \<Rightarrow> if r \<in> held then Some (held - {r}) else None
        | None \<Rightarrow> Some held))"

fun live_run :: "qdev_call list \<Rightarrow> resource set \<Rightarrow> resource set option" where
  "live_run [] held = Some held"
| "live_run (c # cs) held = Option.bind (live_step c held) (live_run cs)"

definition ena_resources :: "resource set" where
  "ena_resources = {MsixRes, NicRes, TxPktRes, RxPktRes, TimerRes KeepAliveTimer} \<union>
     (\<lambda>i. TimerRes (ModerTimer (of_nat i))) ` {..<ENA_MSIX_VECTORS}"

lemma live_run_append: "live_run (cs @ ds) held = Option.bind (live_run cs held) (live_run ds)"
  by (induction cs arbitrary: held) (auto split: Option.bind_split)

lemma live_run_inert: "\<forall>c \<in> set cs. acquires c = None \<and> releases c = None \<Longrightarrow> live_run cs held = Some held"
  by (induction cs) (auto simp: live_step_def)

lemma live_run_acquires:
  "distinct rs \<Longrightarrow> set rs \<inter> held = {} \<Longrightarrow> map acquires cs = map Some rs \<Longrightarrow> live_run cs held = Some (held \<union> set rs)"
proof (induction cs arbitrary: rs held)
  case (Cons c cs)
  then obtain r rs' where rs: "rs = r # rs'" "acquires c = Some r" "map acquires cs = map Some rs'"
    by (auto simp: Cons_eq_map_conv)
  then have "live_run cs (insert r held) = Some (insert r held \<union> set rs')"
    using Cons.prems(1,2) by (intro Cons.IH) auto
  with rs Cons.prems(2) show ?case by (auto simp: live_step_def)
qed simp

lemma live_run_releases:
  "distinct rs \<Longrightarrow> set rs \<subseteq> held \<Longrightarrow> map releases cs = map Some rs \<Longrightarrow> \<forall>c \<in> set cs. acquires c = None \<Longrightarrow>
     live_run cs held = Some (held - set rs)"
proof (induction cs arbitrary: rs held)
  case (Cons c cs)
  then obtain r rs' where rs: "rs = r # rs'" "releases c = Some r" "map releases cs = map Some rs'"
    by (auto simp: Cons_eq_map_conv)
  then have "live_run cs (held - {r}) = Some (held - {r} - set rs')"
    using Cons.prems by (intro Cons.IH) auto
  with rs Cons.prems show ?case by (auto simp: live_step_def)
qed simp

lemma moder_distinct: "distinct (map (\<lambda>i. TimerRes (ModerTimer (of_nat i))) [0..<9])"
  by (auto simp: distinct_map inj_on_def of_nat_vec_inj)

lemma live_run_realize: "live_run (ena_realize_calls True) {} = Some ena_resources"
proof -
  let ?t = "map (\<lambda>i. TimerNewUs (ModerTimer (of_nat i))) [0..<ENA_MSIX_VECTORS]"
  have "live_run (map MsixVectorUse [0..<ENA_MSIX_VECTORS]) held = Some held" for held
    by (rule live_run_inert) auto
  moreover have "live_run ?t held = Some (held \<union> (\<lambda>i. TimerRes (ModerTimer (of_nat i))) ` {..<ENA_MSIX_VECTORS})"
    if "held = {MsixRes, NicRes, TxPktRes, RxPktRes, TimerRes KeepAliveTimer}" for held
  proof -
    have "live_run ?t held = Some (held \<union> set (map (\<lambda>i. TimerRes (ModerTimer (of_nat i))) [0..<9]))"
      using that by (intro live_run_acquires moder_distinct) (auto simp: vectors9)
    then show ?thesis by (simp add: vectors9 atLeast0LessThan)
  qed
  ultimately show ?thesis
    by (simp add: ena_realize_calls_def live_run_append live_step_def ena_resources_def insert_commute)
qed

lemma live_run_exit:
  assumes "irq_ok s"
  shows "live_run (ena_exit s) ena_resources = Some {}"
proof -
  have "map (\<lambda>i. TimerFree (ModerTimer (irq_vector (irq s ! i)))) [0..<ENA_MSIX_VECTORS] =
      map (\<lambda>i. TimerFree (ModerTimer (of_nat i))) [0..<9]"
    using assms by (auto simp: irq_ok_def vectors9)
  moreover have "live_run (map (\<lambda>i. TimerFree (ModerTimer (of_nat i))) [0..<9]) ena_resources =
      Some (ena_resources - set (map (\<lambda>i. TimerRes (ModerTimer (of_nat i))) [0..<9]))"
    by (intro live_run_releases moder_distinct) (auto simp: ena_resources_def vectors9)
  moreover have "ena_resources - set (map (\<lambda>i. TimerRes (ModerTimer (of_nat i))) [0..<9]) =
      {MsixRes, NicRes, TxPktRes, RxPktRes, TimerRes KeepAliveTimer}"
    by (auto simp: ena_resources_def vectors9)
  ultimately show ?thesis by (simp add: ena_exit_def live_run_append live_step_def insert_Diff_if)
qed

text \<open>A timer can only be armed if it was created.\<close>

lemma timer_armed_wf: "list_all vec_call tr \<Longrightarrow> fold (timer_step t) tr a \<Longrightarrow> a \<or> timer_wf t"
proof (induction tr arbitrary: a)
  case (Cons e tr)
  then have "timer_step t e a \<or> timer_wf t" by simp
  with Cons.prems(1) show ?case by (cases e) auto
qed simp

lemma timer_wf_resource: "timer_wf t \<Longrightarrow> TimerRes t \<in> ena_resources"
proof (cases t)
  case (ModerTimer v)
  moreover assume "timer_wf t"
  ultimately have "TimerRes t = TimerRes (ModerTimer (of_nat (unat v)))" "unat v < ENA_MSIX_VECTORS" by simp_all
  then show ?thesis unfolding ena_resources_def by blast
qed (simp add: ena_resources_def)

text \<open>
  C40. The resources of the device are balanced. A failed \<open>ena_realize\<close> leaves nothing to give back;
  a successful one acquires each resource once; \<open>ena_exit\<close>, in whatever state the device has reached,
  releases each of them exactly once and nothing else. In particular no timer that may still be armed
  outlives the device, and no timer is ever armed that was not created.
\<close>

theorem qdev_resources_balanced:
  assumes "env_ok Q" and "length mac = 6" and "reachable Q mac large s"
  shows "live_run (ena_realize_calls False) {} = Some {} \<and> live_run (ena_realize_calls True) {} = Some ena_resources \<and>
    live_run (ena_exit s) ena_resources = Some {} \<and>
    (\<forall>t. timer_armed t (trace s) \<longrightarrow> TimerRes t \<in> ena_resources \<and> TimerFree t \<in> set (ena_exit s))"
proof -
  have ok: "irq_ok s" using assms by (intro device_irq_ok reachable_device_inv)
  have "TimerFree t \<in> set (ena_exit s)" if "TimerRes t \<in> ena_resources" for t
    using that ok by (auto simp: ena_resources_def ena_exit_def irq_ok_def image_iff)
  moreover have "TimerRes t \<in> ena_resources" if "timer_armed t (trace s)" for t
    using timer_armed_wf [of "trace s" t False] that ok by (intro timer_wf_resource) (simp add: irq_ok_def timer_armed_def)
  moreover have "live_run (ena_realize_calls False) {} = Some {}"
    by (simp add: ena_realize_calls_def live_step_def)
  ultimately show ?thesis using live_run_realize live_run_exit [OF ok] by blast
qed

theorem qdev_resources_balanced_witness: "live_run (ena_exit booted_state) ena_resources = Some {}"
  using qdev_resources_balanced [OF quiet_env_ok [of "\<lambda>_. 0" "\<lambda>_. 0"] _ booted_reachable] by simp

section \<open>BAR layout\<close>

text \<open>
  The three windows of the register BAR are disjoint and inside it, the slices of the LLQ memory tile
  their BAR, both sizes are powers of two, and no 64-bit BAR runs into the next one.
\<close>

lemma bar_layout:
  "ENA_REG_FILE_SIZE \<le> ENA_REG_SQ_DB_BASE" "ENA_REG_SQ_DB_BASE + ENA_MAX_SQ * 4 \<le> ENA_REG_CQ_UNMASK_BASE"
  "ENA_REG_CQ_UNMASK_BASE + ENA_MAX_CQ * 4 \<le> ENA_REG_BAR_SIZE" "ENA_REG_BAR_SIZE = 2 ^ 14"
  "ENA_MEM_BAR_SIZE = 2 ^ 21" "ENA_REG_BAR + 1 < ENA_MEM_BAR" "ENA_MEM_BAR + 1 < ENA_MSIX_BAR"
  by (simp_all add: ena_const)

end
