(* ===== verification/Ena_Lifecycle.thy ===== *)
theory Ena_Lifecycle
  imports Ena_Device
begin

text \<open>
  A submission queue from its creation over the admin queue to its destruction: what the answer of
  \<open>CREATE_SQ\<close> tells the driver is enough to work with the queue through the register interface.
\<close>

section \<open>A doorbell the device accepts\<close>

lemma sq_doorbell_accepted:
  assumes env: "env_ok Q" and inv: "device_inv s" and i: "i < 16" and used: "sq_used (sq s ! i)"
    and ok: "\<not> sq_depth (sq s ! i) < ucast val - sq_head (sq s ! i)"
  shows "\<exists>s'. sq_doorbell Q s i val = Inr s' \<and> device_inv s' \<and> driver_view s' = driver_view s \<and>
    sq_used (sq s' ! i) \<and> sq_is_tx (sq s' ! i) = sq_is_tx (sq s ! i) \<and> sq_tail (sq s' ! i) = ucast val \<and>
    sq_posted (sq s' ! i) \<le> unat (ucast val - sq_head (sq s ! i)) \<and>
    (sq_is_tx (sq s ! i) \<longrightarrow> sq_head (sq s' ! i) = ucast val)"
proof -
  let ?q = "(sq s ! i)\<lparr>sq_tail := ucast val\<rparr>"
  let ?t = "s\<lparr>sq := (sq s)[i := ?q]\<rparr>"
  note t = doorbell_tail_inv [OF inv i used ok]
  obtain s' where s': "sq_doorbell Q s i val = Inr s'" "device_inv s'" "driver_view s' = driver_view s"
    using sq_doorbell_runs [OF env inv i] by blast
  have run: "(if sq_is_tx ?q then ena_tx_doorbell Q ?t i else ena_rx_doorbell Q ?t i) = Inr s'"
    using s'(1) used ok by (simp add: sq_doorbell_def Let_def)
  have dp: "dp_step ?t s'" and drained: "sq_is_tx ?q \<Longrightarrow> sq_posted (sq s' ! i) = 0"
    using run ena_tx_doorbell_runs [of Q i ?t] rx_db.runs [of ?t Q i] t i used env
    by (auto simp: tx_step_def env_ok_def split: if_splits)
  note q = dp_step_queue(1-3) [OF t(1) dp i]
  have "sq_posted (sq s' ! i) \<le> sq_posted (sq ?t ! i)" using dp i by (simp add: dp_step_def)
  moreover have "sq_is_tx (sq s ! i) \<Longrightarrow> sq_head (sq s' ! i) = ucast val" using drained q t(2) by (simp add: sq_posted_0)
  ultimately show ?thesis using s' q t(2) used by (simp add: sq_posted_def)
qed

section \<open>Lifecycle\<close>

lemma create_sq_slot:
  assumes "pow2_ok Q" and "dev_inv s" and "length resp = 64"
    and "ena_create_sq Q s cmd resp = Inr (ENA_ADMIN_SUCCESS, s1, resp1)"
    and r: "r = dec_ena_admin_acq_create_sq_resp_desc resp1" and i: "i = unat (create_sq_resp_sq_idx r)"
  shows "i < 16" "unat (create_sq_resp_sq_doorbell_offset r) = ENA_REG_SQ_DB_BASE + 4 * i"
    "sq s1 ! i = new_sq s (dec_ena_admin_aq_create_sq_cmd cmd)" "s1 = s\<lparr>sq := sq s1\<rparr>"
proof -
  let ?c = "dec_ena_admin_aq_create_sq_cmd cmd"
  let ?k = "first_unused sq_used ENA_MAX_SQ (sq s)"
  from assms(4) obtain r' where r': "?k \<noteq> ENA_MAX_SQ" "s1 = s\<lparr>sq := (sq s)[?k := new_sq s ?c]\<rparr>"
      "resp1 = put_bytes 0 (enc_ena_admin_acq_create_sq_resp_desc r') resp" "create_sq_resp_sq_idx r' = of_nat ?k"
      "create_sq_resp_sq_doorbell_offset r' = of_nat (ENA_REG_SQ_DB_BASE + ?k * 4)"
    by (cases rule: ena_create_sqE) auto
  have k: "?k < 16" using first_unused_free [OF r'(1)] assms(2) by (simp add: dev_invD ena_const)
  have "r = r'" using create_sq_resp.load_store [of 0 resp r'] assms(3) r'(3) r by simp
  with r'(4) k i have ik: "i = ?k" by (simp add: unat_of_nat_small)
  with k show "i < 16" by simp
  have "unat (of_nat (ENA_REG_SQ_DB_BASE + ?k * 4) :: u32) = ENA_REG_SQ_DB_BASE + ?k * 4"
    using k by (intro unat_of_nat_small) (simp add: ena_const)
  then show "unat (create_sq_resp_sq_doorbell_offset r) = ENA_REG_SQ_DB_BASE + 4 * i"
    unfolding \<open>r = r'\<close> r'(5) ik by simp
  show "sq s1 ! i = new_sq s ?c" using r'(2) k ik assms(2) by (simp add: dev_invD)
  show "s1 = s\<lparr>sq := sq s1\<rparr>" by (simp add: r'(2))
qed

lemma destroyed_sq_dead:
  assumes "dev_inv s" and "i < 16" and "s' = s\<lparr>sq := (sq s)[i := (sq s ! i)\<lparr>sq_used := False\<rparr>]\<rparr>"
  shows "ena_reg_write Q s' (ENA_REG_SQ_DB_BASE + 4 * i) val = Inr s'"
  using assms dev_invD(3) [OF assms(1)] unfolding doorbell_offset(1) [OF assms(2)]
  by (simp add: sq_doorbell_def Let_def)

text \<open>
  C11. The life of a submission queue. After a successful \<open>CREATE_SQ\<close> the register at the doorbell
  offset of the answer is the doorbell of the created queue: a first value up to the requested depth is
  accepted, a transmit queue is drained up to it and a receive queue offers at most that many
  descriptors, and the rest of the configuration stays as it is. A \<open>DESTROY_SQ\<close> with the index of
  the answer and the direction of the request then succeeds, and from then on the doorbell is dead.
\<close>

theorem sq_lifecycle:
  assumes "env_ok Q" and "device_inv s" and "length resp = 64"
    and "ena_create_sq Q s cmd resp = Inr (ENA_ADMIN_SUCCESS, s1, resp1)"
    and "r = dec_ena_admin_acq_create_sq_resp_desc resp1" and "i = unat (create_sq_resp_sq_idx r)"
    and "off = unat (create_sq_resp_sq_doorbell_offset r)"
    and "c = dec_ena_admin_aq_create_sq_cmd cmd" and "(ucast val :: u16) \<le> create_sq_cmd_sq_depth c"
    and "destroy_sq_cmd_sq d = \<lparr>admin_sq_sq_idx = create_sq_resp_sq_idx r,
      admin_sq_sq_identity = create_sq_cmd_sq_identity c, admin_sq_reserved1 = 0\<rparr>"
  shows "\<exists>s2 s3. ena_reg_write Q s1 off val = Inr s2 \<and> device_inv s2 \<and> driver_view s2 = driver_view s1 \<and>
    sq_tail (sq s2 ! i) = ucast val \<and> sq_posted (sq s2 ! i) \<le> unat (ucast val :: u16) \<and>
    (sq_is_tx (sq s1 ! i) \<longrightarrow> sq_head (sq s2 ! i) = ucast val) \<and>
    ena_destroy_sq Q s2 (enc_ena_admin_aq_destroy_sq_cmd d) resp = Inr (ENA_ADMIN_SUCCESS, s3, resp) \<and>
    (\<forall>v. ena_reg_write Q s3 off v = Inr s3)"
proof -
  have inv: "dev_inv s" "pow2_ok Q" using assms(1,2) by (simp_all add: device_inv_def env_ok_def)
  note slot = create_sq_slot [OF inv(2,1) assms(3-6), folded assms(7,8)]
  have new: "sq_used (sq s1 ! i)" "sq_head (sq s1 ! i) = 0" "sq_depth (sq s1 ! i) = create_sq_cmd_sq_depth c"
    "sq_is_tx (sq s1 ! i) \<longleftrightarrow> drop_bit ENA_ADMIN_AQ_CREATE_SQ_CMD_SQ_DIRECTION_SHIFT
       (create_sq_cmd_sq_identity c AND ENA_ADMIN_AQ_CREATE_SQ_CMD_SQ_DIRECTION_MASK) = ENA_ADMIN_SQ_DIRECTION_TX"
    unfolding slot(3) by (simp_all add: new_sq_def Let_def zero_sq_def)
  have "acq_sync s1" using assms(2) by (subst slot(4)) (simp add: device_inv_def acq_sync_def acq_counts_def acq_depth_reg)
  moreover have "aenq_sync s1"
    using assms(2) by (subst slot(4)) (simp add: device_inv_def aenq_sync_def aenq_counts_def aenq_depth_def REG_def)
  ultimately have dev: "device_inv s1" using create_sq.keeps_inv [OF assms(4) inv(2,1)] by (simp add: device_inv_def)
  have "\<not> sq_depth (sq s1 ! i) < ucast val - sq_head (sq s1 ! i)" using assms(9) new by (simp add: not_less)
  from sq_doorbell_accepted [OF assms(1) dev slot(1) new(1) this]
  obtain s2 where s2: "sq_doorbell Q s1 i val = Inr s2" "device_inv s2" "driver_view s2 = driver_view s1"
      "sq_used (sq s2 ! i)" "sq_is_tx (sq s2 ! i) = sq_is_tx (sq s1 ! i)" "sq_tail (sq s2 ! i) = ucast val"
      "sq_posted (sq s2 ! i) \<le> unat (ucast val :: u16)" "sq_is_tx (sq s1 ! i) \<longrightarrow> sq_head (sq s2 ! i) = ucast val"
    using new(2) by auto
  let ?s3 = "s2\<lparr>sq := (sq s2)[i := (sq s2 ! i)\<lparr>sq_used := False\<rparr>]\<rparr>"
  have "ena_destroy_sq Q s2 (enc_ena_admin_aq_destroy_sq_cmd d) resp = Inr (ENA_ADMIN_SUCCESS, ?s3, resp)"
    using assms(6,10) slot(1) s2(4,5) new(4)
    by (simp add: ena_destroy_sq_def Let_def destroy_sq_cmd.load_buffer) (simp add: ena_const)
  moreover have "ena_reg_write Q s1 off val = Inr s2"
    using s2(1) doorbell_offset(1) [OF slot(1)] by (simp add: slot(2))
  moreover have "ena_reg_write Q ?s3 off v = Inr ?s3" for v
    unfolding slot(2) using s2(2) by (intro destroyed_sq_dead [OF _ slot(1) refl]) (simp add: device_inv_def)
  ultimately show ?thesis using s2 by blast
qed

lemma queue_state_device: "device_inv queue_state"
  using queue_state_inv
  by (simp add: device_inv_def acq_sync_def acq_depth_reg aenq_sync_def aenq_depth_def REG_def queue_state_def fresh_reg
      ena_const)

theorem sq_lifecycle_witness:
  "\<exists>s1 r1 s2. ena_create_sq (quiet_qemu (\<lambda>_. 0) (\<lambda>_. 0)) queue_state
       (enc_ena_admin_aq_create_sq_cmd (sample_sq_cmd 2 0x30000)) (replicate 64 0) = Inr (ENA_ADMIN_SUCCESS, s1, r1) \<and>
     ena_reg_write (quiet_qemu (\<lambda>_. 0) (\<lambda>_. 0)) s1
       (unat (create_sq_resp_sq_doorbell_offset (dec_ena_admin_acq_create_sq_resp_desc r1))) 5 = Inr s2 \<and>
     sq_tail (sq s2 ! unat (create_sq_resp_sq_idx (dec_ena_admin_acq_create_sq_resp_desc r1))) = 5"
proof -
  obtain s1 r1 where run: "ena_create_sq (quiet_qemu (\<lambda>_. 0) (\<lambda>_. 0)) queue_state
      (enc_ena_admin_aq_create_sq_cmd (sample_sq_cmd 2 0x30000)) (replicate 64 0) = Inr (ENA_ADMIN_SUCCESS, s1, r1)"
    using sample_create_sq by blast
  let ?c = "dec_ena_admin_aq_create_sq_cmd (enc_ena_admin_aq_create_sq_cmd (sample_sq_cmd 2 0x30000))"
  let ?r = "dec_ena_admin_acq_create_sq_resp_desc r1"
  let ?d = "(dec_ena_admin_aq_destroy_sq_cmd [])\<lparr>destroy_sq_cmd_sq := \<lparr>admin_sq_sq_idx = create_sq_resp_sq_idx ?r,
      admin_sq_sq_identity = create_sq_cmd_sq_identity ?c, admin_sq_reserved1 = 0\<rparr>\<rparr>"
  have "(ucast (5 :: u32) :: u16) \<le> create_sq_cmd_sq_depth ?c"
    using create_sq_cmd.load_buffer [OF TrueI, of "sample_sq_cmd 2 0x30000"] by (simp add: sample_sq_cmd_def)
  from sq_lifecycle [OF quiet_env_ok queue_state_device _ run refl refl refl refl this, of ?d] run show ?thesis by auto
qed

end
