(* ===== verification/Ena_Rx_Ring.thy ===== *)
theory Ena_Rx_Ring
  imports Ena_Rx
begin

text \<open>
  The receive ring as the driver fills it: collecting descriptors is compared with a plain reading of
  the ring from the head on.
\<close>

section \<open>Reading the ring\<close>

text \<open>The next \<open>n\<close> descriptors from slot \<open>k\<close> behind the head, each with the success of its read.\<close>

fun rx_slots :: "qemu \<Rightarrow> EnaSq \<Rightarrow> nat \<Rightarrow> nat \<Rightarrow> EnaState \<Rightarrow> (ena_eth_io_rx_desc \<times> bool) list \<times> EnaState" where
  "rx_slots Q q k 0 s = ([], s)"
| "rx_slots Q q k (Suc n) s =
     (let (bs, ok, s) = ena_dma_read Q s (rx_ring_addr q k) 16;
          (xs, s) = rx_slots Q q (Suc k) n s
      in ((dec_ena_eth_io_rx_desc bs, ok) # xs, s))"

definition rx_good :: "EnaSq \<Rightarrow> ena_eth_io_rx_desc \<times> bool \<Rightarrow> bool" where
  "rx_good q x \<longleftrightarrow> snd x \<and> ena_rx_desc_valid q (fst x)"

definition rx_room :: "(ena_eth_io_rx_desc \<times> bool) list \<Rightarrow> nat" where
  "rx_room xs = sum_list (map (ena_rx_desc_size \<circ> fst) xs)"

lemma rx_room_simps [simp]: "rx_room [] = 0" "rx_room (x # xs) = ena_rx_desc_size (fst x) + rx_room xs"
  by (simp_all add: rx_room_def)

section \<open>Collecting is reading until the frame is covered\<close>

definition rx_exact :: "qemu \<Rightarrow> nat \<Rightarrow> nat \<Rightarrow> nat \<Rightarrow> ena_eth_io_rx_desc list \<Rightarrow> EnaState \<Rightarrow>
    ena_eth_io_rx_desc list option \<times> EnaState \<Rightarrow> bool" where
  "rx_exact Q i len cap descs s r \<longleftrightarrow>
     (let q = sq s ! i; k = length descs; lim = min (sq_posted q) ENA_MAX_PKT_DESCS
      in case r of
           (Some ds, u) \<Rightarrow> \<exists>xs. rx_slots Q q k (length xs) s = (xs, u) \<and> ds = descs @ map fst xs \<and>
             list_all (rx_good q) xs \<and> rx_covers cap len (map fst xs) \<and> k + length xs \<le> lim
         | (None, u) \<Rightarrow> \<exists>xs. list_all (rx_good q) xs \<and> cap + rx_room xs < len \<and>
             (rx_slots Q q k (length xs) s = (xs, u) \<and> k + length xs = lim \<or>
              k + length xs < lim \<and> (\<exists>x t. rx_slots Q q k (Suc (length xs)) s = (xs @ [x], t) \<and> \<not> rx_good q x \<and>
                 u = rx_consume i (k + length xs + 1) t)))"

lemma rx_exact_more:
  assumes "rx_exact Q i len (cap + ena_rx_desc_size d) (descs @ [d]) (emit (DmaRead a 16) s) r"
    and "cap < len" and "a = rx_ring_addr (sq s ! i) (length descs)" and "dma_ok Q (trace s) a 16"
    and d: "d = dec_ena_eth_io_rx_desc (map (dma_byte Q (trace s) a 16) [0..<16])" and "ena_rx_desc_valid (sq s ! i) d"
  shows "rx_exact Q i len cap descs s r"
proof -
  let ?q = "sq s ! i" and ?t = "emit (DmaRead a 16) s"
  have step: "rx_slots Q ?q (length descs) (Suc n) s =
      (case rx_slots Q ?q (Suc (length descs)) n ?t of (xs, u) \<Rightarrow> ((d, True) # xs, u))" for n
    using assms(3-5) by (simp add: ena_dma_read_def Let_def)
  have good: "rx_good ?q (d, True)" using assms(6) by (simp add: rx_good_def)
  obtain o' u where r: "r = (o', u)" by (cases r)
  show ?thesis
  proof (cases o')
    case (Some ds)
    with assms(1) r obtain xs where "rx_slots Q ?q (Suc (length descs)) (length xs) ?t = (xs, u)"
        "ds = descs @ map fst ((d, True) # xs)" "list_all (rx_good ?q) xs"
        "rx_covers (cap + ena_rx_desc_size d) len (map fst xs)"
        "Suc (length descs) + length xs \<le> min (sq_posted ?q) ENA_MAX_PKT_DESCS"
      by (auto simp: rx_exact_def Let_def)
    with good assms(2) show ?thesis
      unfolding rx_exact_def Let_def r Some prod.case option.case
      by (intro exI [of _ "(d, True) # xs"]) (simp del: rx_slots.simps add: step)
  next
    case None
    with assms(1) r obtain xs where xs: "list_all (rx_good ?q) xs" "cap + ena_rx_desc_size d + rx_room xs < len"
        "rx_slots Q ?q (Suc (length descs)) (length xs) ?t = (xs, u) \<and>
           Suc (length descs) + length xs = min (sq_posted ?q) ENA_MAX_PKT_DESCS \<or>
         Suc (length descs) + length xs < min (sq_posted ?q) ENA_MAX_PKT_DESCS \<and>
           (\<exists>x t. rx_slots Q ?q (Suc (length descs)) (Suc (length xs)) ?t = (xs @ [x], t) \<and> \<not> rx_good ?q x \<and>
              u = rx_consume i (Suc (length descs) + length xs + 1) t)"
      by (auto simp: rx_exact_def Let_def simp del: rx_slots.simps)
    then show ?thesis
      unfolding rx_exact_def Let_def r None prod.case option.case using good
      by (intro exI [of _ "(d, True) # xs"]) (auto simp del: rx_slots.simps simp: step)
  qed
qed

lemma ena_rx_collect_exact:
  "length descs \<le> min (sq_posted (sq s ! i)) ENA_MAX_PKT_DESCS \<Longrightarrow>
     rx_exact Q i len cap descs s (ena_rx_collect Q i len cap descs s)"
proof (induction Q i len cap descs s rule: ena_rx_collect.induct)
  case (1 Q i len cap descs s)
  let ?q = "sq s ! i" and ?n = "length descs"
  let ?a = "rx_ring_addr ?q ?n"
  let ?bs = "map (dma_byte Q (trace s) ?a 16) [0..<16]" and ?s = "emit (DmaRead ?a 16) s"
  let ?d = "dec_ena_eth_io_rx_desc ?bs"
  note unf = ena_rx_collect.simps [of Q i len cap descs s]
  consider (covered) "len \<le> cap" | (stop) "cap < len" "?n = sq_posted ?q \<or> ?n = ENA_MAX_PKT_DESCS"
    | (bad) "cap < len" "?n \<noteq> sq_posted ?q" "?n \<noteq> ENA_MAX_PKT_DESCS"
        "\<not> dma_ok Q (trace s) ?a 16 \<or> \<not> ena_rx_desc_valid ?q ?d"
    | (more) "cap < len" "?n \<noteq> sq_posted ?q" "?n \<noteq> ENA_MAX_PKT_DESCS"
        "dma_ok Q (trace s) ?a 16" "ena_rx_desc_valid ?q ?d"
    by fastforce
  then show ?case
  proof cases
    case covered
    with 1(2) show ?thesis by (subst unf) (auto simp: rx_exact_def Let_def)
  next
    case stop
    then have "ena_rx_collect Q i len cap descs s = (None, s)" by (subst unf) (auto simp: sq_posted_def)
    with stop 1(2) show ?thesis by (auto simp: rx_exact_def Let_def intro!: exI [of _ "[]"])
  next
    case bad
    then have "ena_rx_collect Q i len cap descs s = (None, rx_consume i (?n + 1) ?s)"
      by (subst unf) (simp add: sq_posted_def ena_dma_read_def Let_def rx_consume_def)
    with bad 1(2) show ?thesis
      by (auto simp: rx_exact_def Let_def rx_good_def ena_dma_read_def intro!: exI [of _ "[]"])
  next
    case more
    note eq = ena_rx_collect_more [OF more(1-3) refl more(4) refl more(5)]
    have "rx_exact Q i len (cap + ena_rx_desc_size ?d) (descs @ [?d]) ?s
        (ena_rx_collect Q i len (cap + ena_rx_desc_size ?d) (descs @ [?d]) ?s)"
      using more 1(2) by (intro 1(1)) (auto simp: ena_dma_read_def sq_posted_def)
    then show ?thesis unfolding eq by (rule rx_exact_more [OF _ more(1) refl more(4) refl more(5)])
  qed
qed

lemma ena_rx_collect_complete:
  assumes "rx_slots Q (sq s ! i) (length descs) (length xs) s = (xs, u)" and "list_all (rx_good (sq s ! i)) xs"
    and "rx_covers cap len (map fst xs)" and "length descs + length xs \<le> min (sq_posted (sq s ! i)) ENA_MAX_PKT_DESCS"
  shows "ena_rx_collect Q i len cap descs s = (Some (descs @ map fst xs), u)"
  using assms
proof (induction xs arbitrary: cap descs s)
  case Nil
  then show ?case by (subst ena_rx_collect.simps) simp
next
  case (Cons x xs)
  let ?q = "sq s ! i"
  let ?a = "rx_ring_addr ?q (length descs)"
  let ?d = "dec_ena_eth_io_rx_desc (map (dma_byte Q (trace s) ?a 16) [0..<16])" and ?s = "emit (DmaRead ?a 16) s"
  have x: "x = (?d, dma_ok Q (trace s) ?a 16)" and xs: "rx_slots Q ?q (Suc (length descs)) (length xs) ?s = (xs, u)"
    using Cons.prems(1) by (auto simp: ena_dma_read_def Let_def split: prod.splits)
  have ok: "dma_ok Q (trace s) ?a 16" "ena_rx_desc_valid ?q ?d" using Cons.prems(2) by (simp_all add: x rx_good_def)
  have "cap < len" "length descs \<noteq> sq_posted ?q" "length descs \<noteq> ENA_MAX_PKT_DESCS"
    using Cons.prems(3,4) by auto
  from ena_rx_collect_more [OF this refl ok(1) refl ok(2)]
  have "ena_rx_collect Q i len cap descs s = ena_rx_collect Q i len (cap + ena_rx_desc_size ?d) (descs @ [?d]) ?s" .
  also have "\<dots> = (Some ((descs @ [?d]) @ map fst xs), u)"
    using xs Cons.prems(2-4) by (intro Cons.IH) (simp_all add: x)
  finally show ?case by (simp add: x)
qed

text \<open>
  C13. Collecting descriptors is exactly reading the ring. It succeeds if and only if the first few
  posted slots (at most seventeen), read in order, are readable and valid and just cover the frame,
  and then it returns them and has only read. Otherwise it stopped with the frame uncovered: either
  after all slots it may use, leaving the head where it is, or at the first bad one, and then the head
  moves behind that one, so the queue recovers.
\<close>

theorem rx_collect_exact:
  assumes "q = sq s ! i" and "lim = min (sq_posted q) ENA_MAX_PKT_DESCS"
  shows "(ena_rx_collect Q i len 0 [] s = (Some ds, u) \<longleftrightarrow>
      (\<exists>xs. rx_slots Q q 0 (length xs) s = (xs, u) \<and> ds = map fst xs \<and> list_all (rx_good q) xs \<and>
        rx_covers 0 len ds \<and> length xs \<le> lim)) \<and>
    (ena_rx_collect Q i len 0 [] s = (None, u) \<longrightarrow>
      (\<exists>xs. list_all (rx_good q) xs \<and> rx_room xs < len \<and>
        (rx_slots Q q 0 (length xs) s = (xs, u) \<and> length xs = lim \<or>
         length xs < lim \<and> (\<exists>x t. rx_slots Q q 0 (Suc (length xs)) s = (xs @ [x], t) \<and> \<not> rx_good q x \<and>
           u = rx_consume i (length xs + 1) t))))"
proof -
  have ex: "rx_exact Q i len 0 [] s (ena_rx_collect Q i len 0 [] s)" by (intro ena_rx_collect_exact) simp
  have "\<exists>xs. rx_slots Q q 0 (length xs) s = (xs, u) \<and> ds = map fst xs \<and> list_all (rx_good q) xs \<and>
      rx_covers 0 len ds \<and> length xs \<le> lim" if "ena_rx_collect Q i len 0 [] s = (Some ds, u)"
    using ex that assms by (auto simp: rx_exact_def Let_def)
  moreover have "ena_rx_collect Q i len 0 [] s = (Some ds, u)"
    if "rx_slots Q q 0 (length xs) s = (xs, u)" "ds = map fst xs" "list_all (rx_good q) xs"
      "rx_covers 0 len ds" "length xs \<le> lim" for xs
    using that assms ena_rx_collect_complete [of Q s i "[]" xs u 0 len] by simp
  moreover have "\<exists>xs. list_all (rx_good q) xs \<and> rx_room xs < len \<and>
      (rx_slots Q q 0 (length xs) s = (xs, u) \<and> length xs = lim \<or>
       length xs < lim \<and> (\<exists>x t. rx_slots Q q 0 (Suc (length xs)) s = (xs @ [x], t) \<and> \<not> rx_good q x \<and>
         u = rx_consume i (length xs + 1) t))" if "ena_rx_collect Q i len 0 [] s = (None, u)"
    using ex that assms by (auto simp: rx_exact_def Let_def simp del: rx_slots.simps)
  ultimately show ?thesis by blast
qed

theorem rx_collect_exact_witness:
  "\<exists>xs u. rx_slots rx_qemu (sq rx_state ! 1) 0 (length xs) (rx_state\<lparr>rx_pkt := rx_frame\<rparr>) = (xs, u) \<and>
     map fst xs = [rx_slot 0 0x30000, rx_slot 1 0x40000] \<and> rx_covers 0 20 (map fst xs)"
  using rx_collect_exact [OF refl refl, of rx_qemu 1 20 "rx_state\<lparr>rx_pkt := rx_frame\<rparr>" "[rx_slot 0 0x30000, rx_slot 1 0x40000]"
      "emit (DmaRead 0x20010 16) (emit (DmaRead 0x20000 16) (rx_state\<lparr>rx_pkt := rx_frame\<rparr>))"] rx_state_collect
  by auto

end
