(* ===== verification/Ena_Abi_Ext.thy ===== *)
theory Ena_Abi_Ext
  imports Ena_Admin_Defs Ena_Eth_Io
begin

text \<open>
  The rest of the ABI: the generic 64-byte entries of the admin rings and the unions they overlay, and
  the structures and enumerators of the features the device rejects (ENI and SRD statistics, customer
  metrics, hardware hints, hardware timestamps, PHC, fragment bypass, extra properties), from
  \<open>src/hw/ena_defs/ena_admin_defs.h\<close>, \<open>ena_eth_io_defs.h\<close> and \<open>ena_regs_defs.h\<close>. A driver may send
  every one of them, so their layouts are part of what the device has to answer to.
\<close>

section \<open>Enumerators\<close>

definition ENA_ADMIN_BW_IN_ALLOWANCE_EXCEEDED :: nat where [ena_const]: "ENA_ADMIN_BW_IN_ALLOWANCE_EXCEEDED = 0"
definition ENA_ADMIN_BW_OUT_ALLOWANCE_EXCEEDED :: nat where [ena_const]: "ENA_ADMIN_BW_OUT_ALLOWANCE_EXCEEDED = 1"
definition ENA_ADMIN_PPS_ALLOWANCE_EXCEEDED :: nat where [ena_const]: "ENA_ADMIN_PPS_ALLOWANCE_EXCEEDED = 2"
definition ENA_ADMIN_CONNTRACK_ALLOWANCE_EXCEEDED :: nat where [ena_const]: "ENA_ADMIN_CONNTRACK_ALLOWANCE_EXCEEDED = 3"
definition ENA_ADMIN_LINKLOCAL_ALLOWANCE_EXCEEDED :: nat where [ena_const]: "ENA_ADMIN_LINKLOCAL_ALLOWANCE_EXCEEDED = 4"
definition ENA_ADMIN_CONNTRACK_ALLOWANCE_AVAILABLE :: nat where [ena_const]: "ENA_ADMIN_CONNTRACK_ALLOWANCE_AVAILABLE = 5"

definition ENA_ADMIN_ENI_STATS :: nat where [ena_const]: "ENA_ADMIN_ENI_STATS = 0"
definition ENA_ADMIN_ENA_SRD_INFO :: nat where [ena_const]: "ENA_ADMIN_ENA_SRD_INFO = 1"
definition ENA_ADMIN_CUSTOMER_METRICS :: nat where [ena_const]: "ENA_ADMIN_CUSTOMER_METRICS = 2"
definition ENA_ADMIN_EXTENDED_RESET_REASONS :: nat where [ena_const]: "ENA_ADMIN_EXTENDED_RESET_REASONS = 3"
definition ENA_ADMIN_CDESC_MBZ :: nat where [ena_const]: "ENA_ADMIN_CDESC_MBZ = 4"

definition ENA_ADMIN_SPECIFIC_QUEUE :: u8 where [ena_const]: "ENA_ADMIN_SPECIFIC_QUEUE = 0"
definition ENA_ADMIN_ETH_TRAFFIC :: u8 where [ena_const]: "ENA_ADMIN_ETH_TRAFFIC = 1"

definition ENA_ADMIN_PHC_FEATURE_VERSION_0 :: u8 where [ena_const]: "ENA_ADMIN_PHC_FEATURE_VERSION_0 = 0"

definition ENA_ADMIN_PHC_ERROR_FLAG_TIMESTAMP :: u32 where [ena_const]: "ENA_ADMIN_PHC_ERROR_FLAG_TIMESTAMP = BIT 0"
definition ENA_ADMIN_PHC_ERROR_FLAG_ERROR_BOUND :: u32 where [ena_const]: "ENA_ADMIN_PHC_ERROR_FLAG_ERROR_BOUND = BIT 1"

definition ENA_ADMIN_ENA_SRD_ENABLED :: u64 where [ena_const]: "ENA_ADMIN_ENA_SRD_ENABLED = BIT 0"
definition ENA_ADMIN_ENA_SRD_UDP_ENABLED :: u64 where [ena_const]: "ENA_ADMIN_ENA_SRD_UDP_ENABLED = BIT 1"
definition ENA_ADMIN_ENA_SRD_UDP_ORDERING_BYPASS_ENABLED :: u64 where [ena_const]: "ENA_ADMIN_ENA_SRD_UDP_ORDERING_BYPASS_ENABLED = BIT 2"

definition ENA_ADMIN_FRAG_BYPASS_FEATURE_VERSION_0 :: u8 where [ena_const]: "ENA_ADMIN_FRAG_BYPASS_FEATURE_VERSION_0 = 0"

definition ENA_ADMIN_HW_TIMESTAMP_FEATURE_VERSION_1 :: u8 where [ena_const]: "ENA_ADMIN_HW_TIMESTAMP_FEATURE_VERSION_1 = 1"

definition ENA_ADMIN_HW_TIMESTAMP_TX_SUPPORT_NONE :: u8 where [ena_const]: "ENA_ADMIN_HW_TIMESTAMP_TX_SUPPORT_NONE = 0"
definition ENA_ADMIN_HW_TIMESTAMP_TX_SUPPORT_ALL :: u8 where [ena_const]: "ENA_ADMIN_HW_TIMESTAMP_TX_SUPPORT_ALL = 1"

definition ENA_ADMIN_HW_TIMESTAMP_RX_SUPPORT_NONE :: u8 where [ena_const]: "ENA_ADMIN_HW_TIMESTAMP_RX_SUPPORT_NONE = 0"
definition ENA_ADMIN_HW_TIMESTAMP_RX_SUPPORT_ALL :: u8 where [ena_const]: "ENA_ADMIN_HW_TIMESTAMP_RX_SUPPORT_ALL = 1"

definition ENA_ADMIN_RSS_FEATURE_VERSION_1 :: u8 where [ena_const]: "ENA_ADMIN_RSS_FEATURE_VERSION_1 = 1"

definition ENA_ADMIN_UPDATE_HINTS :: u16 where [ena_const]: "ENA_ADMIN_UPDATE_HINTS = 2"

definition ENA_REGS_RESET_NORMAL :: u32 where [ena_const]: "ENA_REGS_RESET_NORMAL = 0"
definition ENA_REGS_RESET_KEEP_ALIVE_TO :: u32 where [ena_const]: "ENA_REGS_RESET_KEEP_ALIVE_TO = 1"
definition ENA_REGS_RESET_ADMIN_TO :: u32 where [ena_const]: "ENA_REGS_RESET_ADMIN_TO = 2"
definition ENA_REGS_RESET_MISS_TX_CMPL :: u32 where [ena_const]: "ENA_REGS_RESET_MISS_TX_CMPL = 3"
definition ENA_REGS_RESET_INV_RX_REQ_ID :: u32 where [ena_const]: "ENA_REGS_RESET_INV_RX_REQ_ID = 4"
definition ENA_REGS_RESET_INV_TX_REQ_ID :: u32 where [ena_const]: "ENA_REGS_RESET_INV_TX_REQ_ID = 5"
definition ENA_REGS_RESET_TOO_MANY_RX_DESCS :: u32 where [ena_const]: "ENA_REGS_RESET_TOO_MANY_RX_DESCS = 6"
definition ENA_REGS_RESET_INIT_ERR :: u32 where [ena_const]: "ENA_REGS_RESET_INIT_ERR = 7"
definition ENA_REGS_RESET_DRIVER_INVALID_STATE :: u32 where [ena_const]: "ENA_REGS_RESET_DRIVER_INVALID_STATE = 8"
definition ENA_REGS_RESET_OS_TRIGGER :: u32 where [ena_const]: "ENA_REGS_RESET_OS_TRIGGER = 9"
definition ENA_REGS_RESET_OS_NETDEV_WD :: u32 where [ena_const]: "ENA_REGS_RESET_OS_NETDEV_WD = 10"
definition ENA_REGS_RESET_SHUTDOWN :: u32 where [ena_const]: "ENA_REGS_RESET_SHUTDOWN = 11"
definition ENA_REGS_RESET_USER_TRIGGER :: u32 where [ena_const]: "ENA_REGS_RESET_USER_TRIGGER = 12"
definition ENA_REGS_RESET_GENERIC :: u32 where [ena_const]: "ENA_REGS_RESET_GENERIC = 13"
definition ENA_REGS_RESET_MISS_INTERRUPT :: u32 where [ena_const]: "ENA_REGS_RESET_MISS_INTERRUPT = 14"
definition ENA_REGS_RESET_SUSPECTED_POLL_STARVATION :: u32 where [ena_const]: "ENA_REGS_RESET_SUSPECTED_POLL_STARVATION = 15"
definition ENA_REGS_RESET_RX_DESCRIPTOR_MALFORMED :: u32 where [ena_const]: "ENA_REGS_RESET_RX_DESCRIPTOR_MALFORMED = 16"
definition ENA_REGS_RESET_TX_DESCRIPTOR_MALFORMED :: u32 where [ena_const]: "ENA_REGS_RESET_TX_DESCRIPTOR_MALFORMED = 17"
definition ENA_REGS_RESET_MISSING_ADMIN_INTERRUPT :: u32 where [ena_const]: "ENA_REGS_RESET_MISSING_ADMIN_INTERRUPT = 18"
definition ENA_REGS_RESET_DEVICE_REQUEST :: u32 where [ena_const]: "ENA_REGS_RESET_DEVICE_REQUEST = 19"
definition ENA_REGS_RESET_MISS_FIRST_INTERRUPT :: u32 where [ena_const]: "ENA_REGS_RESET_MISS_FIRST_INTERRUPT = 20"

definition ENA_REGS_RESET_LAST :: u32 where [ena_const]: "ENA_REGS_RESET_LAST = 21"
definition ENA_ADMIN_EXTRA_PROPERTIES_STRING_LEN :: nat where [ena_const]: "ENA_ADMIN_EXTRA_PROPERTIES_STRING_LEN = 32"
definition ENA_ADMIN_EXTRA_PROPERTIES_COUNT :: nat where [ena_const]: "ENA_ADMIN_EXTRA_PROPERTIES_COUNT = 32"
definition ENA_ADMIN_CUSTOMER_METRICS_SUPPORT_MASK :: u64 where [ena_const]: "ENA_ADMIN_CUSTOMER_METRICS_SUPPORT_MASK = 0x3F"
definition ENA_ADMIN_CUSTOMER_METRICS_MIN_SUPPORT_MASK :: u64 where [ena_const]: "ENA_ADMIN_CUSTOMER_METRICS_MIN_SUPPORT_MASK = 0x1F"

section \<open>64-bit integers and further arrays\<close>

definition le64 :: "u64 \<Rightarrow> byte list" where
  "le64 v = le32 (ucast v) @ le32 (ucast (drop_bit 32 v))"

definition get_le64 :: "byte list \<Rightarrow> u64" where
  "get_le64 bs = ucast (get_le32 bs) OR push_bit 32 (ucast (get_le32 (drop 4 bs)))"

lemma length_le64 [simp]: "length (le64 v) = 8"
  by (simp add: le64_def)

lemma split64: "(ucast (ucast v :: u32) :: u64) OR push_bit 32 (ucast (ucast (drop_bit 32 v) :: u32)) = v"
  by (rule bit_word_eqI) (auto simp: bit_simps)

lemma get_le64_append [simp]: "get_le64 (le64 v @ r) = v"
  by (simp add: get_le64_def le64_def split64)

text \<open>Arrays of a fixed-size integer, for any of the widths.\<close>

definition get_arr :: "nat \<Rightarrow> (byte list \<Rightarrow> 'a) \<Rightarrow> nat \<Rightarrow> byte list \<Rightarrow> 'a list" where
  "get_arr w g n bs = map (\<lambda>i. g (drop (w * i) bs)) [0..<n]"

lemma get_arr_enc:
  assumes "\<And>v. length (e v) = w" and "\<And>v r. g (e v @ r) = v"
  shows "get_arr w g (length vs) (concat (map e vs) @ r) = vs"
proof (induction vs arbitrary: r)
  case Nil
  then show ?case by (simp add: get_arr_def)
next
  case (Cons v vs)
  have "get_arr w g (length (v # vs)) (concat (map e (v # vs)) @ r) =
      v # map (\<lambda>i. g (drop (w * Suc i) (e v @ concat (map e vs) @ r))) [0..<length vs]"
    by (simp add: get_arr_def upt_conv_Cons map_Suc_upt [symmetric] o_def assms del: upt_Suc)
  also have "\<dots> = v # get_arr w g (length vs) (concat (map e vs) @ r)" by (simp add: get_arr_def assms)
  finally show ?case using Cons.IH by simp
qed

definition get_arr16 :: "nat \<Rightarrow> byte list \<Rightarrow> u16 list" where
  "get_arr16 = get_arr 2 get_le16"

definition get_arr64 :: "nat \<Rightarrow> byte list \<Rightarrow> u64 list" where
  "get_arr64 = get_arr 8 get_le64"

lemma get_arr16_enc: "length vs = n \<Longrightarrow> get_arr16 n (concat (map le16 vs) @ r) = vs"
  using get_arr_enc [of le16 2 get_le16 vs r] by (simp add: get_arr16_def)

lemma get_arr64_enc: "length vs = n \<Longrightarrow> get_arr64 n (concat (map le64 vs) @ r) = vs"
  using get_arr_enc [of le64 8 get_le64 vs r] by (simp add: get_arr64_def)

lemma length_concat_le16 [simp]: "length (concat (map le16 vs)) = 2 * length vs"
  by (induction vs) simp_all

lemma length_concat_le64 [simp]: "length (concat (map le64 vs)) = 8 * length vs"
  by (induction vs) simp_all

lemmas ena_ints = le16_def le32_def get_arr32_enc_eq get_arr16_enc get_arr64_enc

section \<open>Entries of the admin rings\<close>

text \<open>
  The generic entries. In \<open>ena_admin_aq_entry\<close> the words 1 to 3 are a union with the control buffer
  information; the record keeps the words.
\<close>

record ena_admin_aq_entry =
  aq_entry_aq_common_descriptor :: ena_admin_aq_common_desc
  aq_entry_inline_data_w1 :: "u32 list"
  aq_entry_inline_data_w4 :: "u32 list"

definition enc_ena_admin_aq_entry :: "ena_admin_aq_entry \<Rightarrow> byte list" where [ena_codec]:
  "enc_ena_admin_aq_entry x =
     enc_ena_admin_aq_common_desc (aq_entry_aq_common_descriptor x) @
     concat (map le32 (aq_entry_inline_data_w1 x)) @
     concat (map le32 (aq_entry_inline_data_w4 x))"

definition dec_ena_admin_aq_entry :: "byte list \<Rightarrow> ena_admin_aq_entry" where [ena_codec]:
  "dec_ena_admin_aq_entry bs = \<lparr>
     aq_entry_aq_common_descriptor = dec_ena_admin_aq_common_desc (bs),
     aq_entry_inline_data_w1 = get_arr32 3 (drop 4 bs),
     aq_entry_inline_data_w4 = get_arr32 12 (drop 16 bs)\<rparr>"

definition wf_ena_admin_aq_entry :: "ena_admin_aq_entry \<Rightarrow> bool" where [ena_codec]:
  "wf_ena_admin_aq_entry x \<longleftrightarrow> length (aq_entry_inline_data_w1 x) = 3 \<and>
     length (aq_entry_inline_data_w4 x) = 12"

interpretation aq_entry: struct_layout enc_ena_admin_aq_entry dec_ena_admin_aq_entry 64 wf_ena_admin_aq_entry
  by unfold_locales (auto simp: ena_codec ena_ints)

record ena_admin_acq_entry =
  acq_entry_acq_common_descriptor :: ena_admin_acq_common_desc
  acq_entry_response_specific_data :: "u32 list"

definition enc_ena_admin_acq_entry :: "ena_admin_acq_entry \<Rightarrow> byte list" where [ena_codec]:
  "enc_ena_admin_acq_entry x =
     enc_ena_admin_acq_common_desc (acq_entry_acq_common_descriptor x) @
     concat (map le32 (acq_entry_response_specific_data x))"

definition dec_ena_admin_acq_entry :: "byte list \<Rightarrow> ena_admin_acq_entry" where [ena_codec]:
  "dec_ena_admin_acq_entry bs = \<lparr>
     acq_entry_acq_common_descriptor = dec_ena_admin_acq_common_desc (bs),
     acq_entry_response_specific_data = get_arr32 14 (drop 8 bs)\<rparr>"

definition wf_ena_admin_acq_entry :: "ena_admin_acq_entry \<Rightarrow> bool" where [ena_codec]:
  "wf_ena_admin_acq_entry x \<longleftrightarrow> length (acq_entry_response_specific_data x) = 14"

interpretation acq_entry: struct_layout enc_ena_admin_acq_entry dec_ena_admin_acq_entry 64 wf_ena_admin_acq_entry
  by unfold_locales (auto simp: ena_codec ena_ints)

record ena_admin_acq_destroy_sq_resp_desc =
  destroy_sq_resp_acq_common_desc :: ena_admin_acq_common_desc

definition enc_ena_admin_acq_destroy_sq_resp_desc :: "ena_admin_acq_destroy_sq_resp_desc \<Rightarrow> byte list" where [ena_codec]:
  "enc_ena_admin_acq_destroy_sq_resp_desc x =
     enc_ena_admin_acq_common_desc (destroy_sq_resp_acq_common_desc x)"

definition dec_ena_admin_acq_destroy_sq_resp_desc :: "byte list \<Rightarrow> ena_admin_acq_destroy_sq_resp_desc" where [ena_codec]:
  "dec_ena_admin_acq_destroy_sq_resp_desc bs = \<lparr>
     destroy_sq_resp_acq_common_desc = dec_ena_admin_acq_common_desc (bs)\<rparr>"

interpretation destroy_sq_resp: struct_layout enc_ena_admin_acq_destroy_sq_resp_desc dec_ena_admin_acq_destroy_sq_resp_desc 8 "\<lambda>_. True"
  by unfold_locales (simp_all add: ena_codec ena_ints)

record ena_admin_acq_destroy_cq_resp_desc =
  destroy_cq_resp_acq_common_desc :: ena_admin_acq_common_desc

definition enc_ena_admin_acq_destroy_cq_resp_desc :: "ena_admin_acq_destroy_cq_resp_desc \<Rightarrow> byte list" where [ena_codec]:
  "enc_ena_admin_acq_destroy_cq_resp_desc x =
     enc_ena_admin_acq_common_desc (destroy_cq_resp_acq_common_desc x)"

definition dec_ena_admin_acq_destroy_cq_resp_desc :: "byte list \<Rightarrow> ena_admin_acq_destroy_cq_resp_desc" where [ena_codec]:
  "dec_ena_admin_acq_destroy_cq_resp_desc bs = \<lparr>
     destroy_cq_resp_acq_common_desc = dec_ena_admin_acq_common_desc (bs)\<rparr>"

interpretation destroy_cq_resp: struct_layout enc_ena_admin_acq_destroy_cq_resp_desc dec_ena_admin_acq_destroy_cq_resp_desc 8 "\<lambda>_. True"
  by unfold_locales (simp_all add: ena_codec ena_ints)

section \<open>Statistics\<close>

record ena_admin_eni_stats =
  eni_stats_bw_in_allowance_exceeded :: u64
  eni_stats_bw_out_allowance_exceeded :: u64
  eni_stats_pps_allowance_exceeded :: u64
  eni_stats_conntrack_allowance_exceeded :: u64
  eni_stats_linklocal_allowance_exceeded :: u64

definition enc_ena_admin_eni_stats :: "ena_admin_eni_stats \<Rightarrow> byte list" where [ena_codec]:
  "enc_ena_admin_eni_stats x =
     le64 (eni_stats_bw_in_allowance_exceeded x) @
     le64 (eni_stats_bw_out_allowance_exceeded x) @
     le64 (eni_stats_pps_allowance_exceeded x) @
     le64 (eni_stats_conntrack_allowance_exceeded x) @
     le64 (eni_stats_linklocal_allowance_exceeded x)"

definition dec_ena_admin_eni_stats :: "byte list \<Rightarrow> ena_admin_eni_stats" where [ena_codec]:
  "dec_ena_admin_eni_stats bs = \<lparr>
     eni_stats_bw_in_allowance_exceeded = get_le64 (bs),
     eni_stats_bw_out_allowance_exceeded = get_le64 (drop 8 bs),
     eni_stats_pps_allowance_exceeded = get_le64 (drop 16 bs),
     eni_stats_conntrack_allowance_exceeded = get_le64 (drop 24 bs),
     eni_stats_linklocal_allowance_exceeded = get_le64 (drop 32 bs)\<rparr>"

interpretation eni_stats: struct_layout enc_ena_admin_eni_stats dec_ena_admin_eni_stats 40 "\<lambda>_. True"
  by unfold_locales (simp_all add: ena_codec ena_ints)

record ena_admin_ena_srd_stats =
  srd_stats_ena_srd_tx_pkts :: u64
  srd_stats_ena_srd_eligible_tx_pkts :: u64
  srd_stats_ena_srd_rx_pkts :: u64
  srd_stats_ena_srd_resource_utilization :: u64

definition enc_ena_admin_ena_srd_stats :: "ena_admin_ena_srd_stats \<Rightarrow> byte list" where [ena_codec]:
  "enc_ena_admin_ena_srd_stats x =
     le64 (srd_stats_ena_srd_tx_pkts x) @
     le64 (srd_stats_ena_srd_eligible_tx_pkts x) @
     le64 (srd_stats_ena_srd_rx_pkts x) @
     le64 (srd_stats_ena_srd_resource_utilization x)"

definition dec_ena_admin_ena_srd_stats :: "byte list \<Rightarrow> ena_admin_ena_srd_stats" where [ena_codec]:
  "dec_ena_admin_ena_srd_stats bs = \<lparr>
     srd_stats_ena_srd_tx_pkts = get_le64 (bs),
     srd_stats_ena_srd_eligible_tx_pkts = get_le64 (drop 8 bs),
     srd_stats_ena_srd_rx_pkts = get_le64 (drop 16 bs),
     srd_stats_ena_srd_resource_utilization = get_le64 (drop 24 bs)\<rparr>"

interpretation srd_stats: struct_layout enc_ena_admin_ena_srd_stats dec_ena_admin_ena_srd_stats 32 "\<lambda>_. True"
  by unfold_locales (simp_all add: ena_codec ena_ints)

record ena_admin_ena_srd_info =
  srd_info_flags :: u64
  srd_info_ena_srd_stats :: ena_admin_ena_srd_stats

definition enc_ena_admin_ena_srd_info :: "ena_admin_ena_srd_info \<Rightarrow> byte list" where [ena_codec]:
  "enc_ena_admin_ena_srd_info x =
     le64 (srd_info_flags x) @
     enc_ena_admin_ena_srd_stats (srd_info_ena_srd_stats x)"

definition dec_ena_admin_ena_srd_info :: "byte list \<Rightarrow> ena_admin_ena_srd_info" where [ena_codec]:
  "dec_ena_admin_ena_srd_info bs = \<lparr>
     srd_info_flags = get_le64 (bs),
     srd_info_ena_srd_stats = dec_ena_admin_ena_srd_stats (drop 8 bs)\<rparr>"

interpretation srd_info: struct_layout enc_ena_admin_ena_srd_info dec_ena_admin_ena_srd_info 40 "\<lambda>_. True"
  by unfold_locales (simp_all add: ena_codec ena_ints)

record ena_admin_customer_metrics =
  customer_metrics_reported_metrics :: u64

definition enc_ena_admin_customer_metrics :: "ena_admin_customer_metrics \<Rightarrow> byte list" where [ena_codec]:
  "enc_ena_admin_customer_metrics x =
     le64 (customer_metrics_reported_metrics x)"

definition dec_ena_admin_customer_metrics :: "byte list \<Rightarrow> ena_admin_customer_metrics" where [ena_codec]:
  "dec_ena_admin_customer_metrics bs = \<lparr>
     customer_metrics_reported_metrics = get_le64 (bs)\<rparr>"

interpretation customer_metrics: struct_layout enc_ena_admin_customer_metrics dec_ena_admin_customer_metrics 8 "\<lambda>_. True"
  by unfold_locales (simp_all add: ena_codec ena_ints)

text \<open>The union of the statistics responses, kept as its raw words.\<close>

record ena_admin_acq_get_stats_resp =
  get_stats_resp_acq_common_desc :: ena_admin_acq_common_desc
  get_stats_resp_raw :: "u64 list"

definition enc_ena_admin_acq_get_stats_resp :: "ena_admin_acq_get_stats_resp \<Rightarrow> byte list" where [ena_codec]:
  "enc_ena_admin_acq_get_stats_resp x =
     enc_ena_admin_acq_common_desc (get_stats_resp_acq_common_desc x) @
     concat (map le64 (get_stats_resp_raw x))"

definition dec_ena_admin_acq_get_stats_resp :: "byte list \<Rightarrow> ena_admin_acq_get_stats_resp" where [ena_codec]:
  "dec_ena_admin_acq_get_stats_resp bs = \<lparr>
     get_stats_resp_acq_common_desc = dec_ena_admin_acq_common_desc (bs),
     get_stats_resp_raw = get_arr64 7 (drop 8 bs)\<rparr>"

definition wf_ena_admin_acq_get_stats_resp :: "ena_admin_acq_get_stats_resp \<Rightarrow> bool" where [ena_codec]:
  "wf_ena_admin_acq_get_stats_resp x \<longleftrightarrow> length (get_stats_resp_raw x) = 7"

interpretation get_stats_resp: struct_layout enc_ena_admin_acq_get_stats_resp dec_ena_admin_acq_get_stats_resp 64 wf_ena_admin_acq_get_stats_resp
  by unfold_locales (auto simp: ena_codec ena_ints)

section \<open>Features\<close>

record ena_admin_accel_mode_set =
  accel_set_enabled_flags :: u16
  accel_set_reserved :: u16

definition enc_ena_admin_accel_mode_set :: "ena_admin_accel_mode_set \<Rightarrow> byte list" where [ena_codec]:
  "enc_ena_admin_accel_mode_set x =
     le16 (accel_set_enabled_flags x) @
     le16 (accel_set_reserved x)"

definition dec_ena_admin_accel_mode_set :: "byte list \<Rightarrow> ena_admin_accel_mode_set" where [ena_codec]:
  "dec_ena_admin_accel_mode_set bs = \<lparr>
     accel_set_enabled_flags = get_le16 (bs),
     accel_set_reserved = get_le16 (drop 2 bs)\<rparr>"

interpretation accel_set: struct_layout enc_ena_admin_accel_mode_set dec_ena_admin_accel_mode_set 4 "\<lambda>_. True"
  by unfold_locales (simp_all add: ena_codec ena_ints)

text \<open>A union of two raw words with the \<open>get\<close> and \<open>set\<close> views.\<close>

record ena_admin_accel_mode_req =
  accel_req_raw :: "u32 list"

definition enc_ena_admin_accel_mode_req :: "ena_admin_accel_mode_req \<Rightarrow> byte list" where [ena_codec]:
  "enc_ena_admin_accel_mode_req x =
     concat (map le32 (accel_req_raw x))"

definition dec_ena_admin_accel_mode_req :: "byte list \<Rightarrow> ena_admin_accel_mode_req" where [ena_codec]:
  "dec_ena_admin_accel_mode_req bs = \<lparr>
     accel_req_raw = get_arr32 2 (bs)\<rparr>"

definition wf_ena_admin_accel_mode_req :: "ena_admin_accel_mode_req \<Rightarrow> bool" where [ena_codec]:
  "wf_ena_admin_accel_mode_req x \<longleftrightarrow> length (accel_req_raw x) = 2"

interpretation accel_req: struct_layout enc_ena_admin_accel_mode_req dec_ena_admin_accel_mode_req 8 wf_ena_admin_accel_mode_req
  by unfold_locales (auto simp: ena_codec ena_ints)

record ena_admin_feature_hw_ts_desc =
  hw_ts_version :: u8
  hw_ts_tx :: u8
  hw_ts_rx :: u8

definition enc_ena_admin_feature_hw_ts_desc :: "ena_admin_feature_hw_ts_desc \<Rightarrow> byte list" where [ena_codec]:
  "enc_ena_admin_feature_hw_ts_desc x =
     [hw_ts_version x] @
     [hw_ts_tx x] @
     [hw_ts_rx x]"

definition dec_ena_admin_feature_hw_ts_desc :: "byte list \<Rightarrow> ena_admin_feature_hw_ts_desc" where [ena_codec]:
  "dec_ena_admin_feature_hw_ts_desc bs = \<lparr>
     hw_ts_version = get8 (bs),
     hw_ts_tx = get8 (drop 1 bs),
     hw_ts_rx = get8 (drop 2 bs)\<rparr>"

interpretation hw_ts: struct_layout enc_ena_admin_feature_hw_ts_desc dec_ena_admin_feature_hw_ts_desc 3 "\<lambda>_. True"
  by unfold_locales (simp_all add: ena_codec ena_ints)

record ena_admin_feature_frag_bypass_desc =
  frag_bypass_enable :: u8
  frag_bypass_reserved :: "byte list"

definition enc_ena_admin_feature_frag_bypass_desc :: "ena_admin_feature_frag_bypass_desc \<Rightarrow> byte list" where [ena_codec]:
  "enc_ena_admin_feature_frag_bypass_desc x =
     [frag_bypass_enable x] @
     frag_bypass_reserved x"

definition dec_ena_admin_feature_frag_bypass_desc :: "byte list \<Rightarrow> ena_admin_feature_frag_bypass_desc" where [ena_codec]:
  "dec_ena_admin_feature_frag_bypass_desc bs = \<lparr>
     frag_bypass_enable = get8 (bs),
     frag_bypass_reserved = take 3 (drop 1 bs)\<rparr>"

definition wf_ena_admin_feature_frag_bypass_desc :: "ena_admin_feature_frag_bypass_desc \<Rightarrow> bool" where [ena_codec]:
  "wf_ena_admin_feature_frag_bypass_desc x \<longleftrightarrow> length (frag_bypass_reserved x) = 3"

interpretation frag_bypass: struct_layout enc_ena_admin_feature_frag_bypass_desc dec_ena_admin_feature_frag_bypass_desc 4 wf_ena_admin_feature_frag_bypass_desc
  by unfold_locales (auto simp: ena_codec ena_ints)

record ena_admin_get_extra_properties_strings_desc =
  extra_strings_count :: u32

definition enc_ena_admin_get_extra_properties_strings_desc :: "ena_admin_get_extra_properties_strings_desc \<Rightarrow> byte list" where [ena_codec]:
  "enc_ena_admin_get_extra_properties_strings_desc x =
     le32 (extra_strings_count x)"

definition dec_ena_admin_get_extra_properties_strings_desc :: "byte list \<Rightarrow> ena_admin_get_extra_properties_strings_desc" where [ena_codec]:
  "dec_ena_admin_get_extra_properties_strings_desc bs = \<lparr>
     extra_strings_count = get_le32 (bs)\<rparr>"

interpretation extra_strings: struct_layout enc_ena_admin_get_extra_properties_strings_desc dec_ena_admin_get_extra_properties_strings_desc 4 "\<lambda>_. True"
  by unfold_locales (simp_all add: ena_codec ena_ints)

record ena_admin_get_extra_properties_flags_desc =
  extra_flags_flags :: u32

definition enc_ena_admin_get_extra_properties_flags_desc :: "ena_admin_get_extra_properties_flags_desc \<Rightarrow> byte list" where [ena_codec]:
  "enc_ena_admin_get_extra_properties_flags_desc x =
     le32 (extra_flags_flags x)"

definition dec_ena_admin_get_extra_properties_flags_desc :: "byte list \<Rightarrow> ena_admin_get_extra_properties_flags_desc" where [ena_codec]:
  "dec_ena_admin_get_extra_properties_flags_desc bs = \<lparr>
     extra_flags_flags = get_le32 (bs)\<rparr>"

interpretation extra_flags: struct_layout enc_ena_admin_get_extra_properties_flags_desc dec_ena_admin_get_extra_properties_flags_desc 4 "\<lambda>_. True"
  by unfold_locales (simp_all add: ena_codec ena_ints)

record ena_admin_ena_hw_hints =
  hw_hints_mmio_read_timeout :: u16
  hw_hints_driver_watchdog_timeout :: u16
  hw_hints_missing_tx_completion_timeout :: u16
  hw_hints_missed_tx_completion_count_threshold_to_reset :: u16
  hw_hints_admin_completion_tx_timeout :: u16
  hw_hints_netdev_wd_timeout :: u16
  hw_hints_max_tx_sgl_size :: u16
  hw_hints_max_rx_sgl_size :: u16
  hw_hints_reserved :: "u16 list"

definition enc_ena_admin_ena_hw_hints :: "ena_admin_ena_hw_hints \<Rightarrow> byte list" where [ena_codec]:
  "enc_ena_admin_ena_hw_hints x =
     le16 (hw_hints_mmio_read_timeout x) @
     le16 (hw_hints_driver_watchdog_timeout x) @
     le16 (hw_hints_missing_tx_completion_timeout x) @
     le16 (hw_hints_missed_tx_completion_count_threshold_to_reset x) @
     le16 (hw_hints_admin_completion_tx_timeout x) @
     le16 (hw_hints_netdev_wd_timeout x) @
     le16 (hw_hints_max_tx_sgl_size x) @
     le16 (hw_hints_max_rx_sgl_size x) @
     concat (map le16 (hw_hints_reserved x))"

definition dec_ena_admin_ena_hw_hints :: "byte list \<Rightarrow> ena_admin_ena_hw_hints" where [ena_codec]:
  "dec_ena_admin_ena_hw_hints bs = \<lparr>
     hw_hints_mmio_read_timeout = get_le16 (bs),
     hw_hints_driver_watchdog_timeout = get_le16 (drop 2 bs),
     hw_hints_missing_tx_completion_timeout = get_le16 (drop 4 bs),
     hw_hints_missed_tx_completion_count_threshold_to_reset = get_le16 (drop 6 bs),
     hw_hints_admin_completion_tx_timeout = get_le16 (drop 8 bs),
     hw_hints_netdev_wd_timeout = get_le16 (drop 10 bs),
     hw_hints_max_tx_sgl_size = get_le16 (drop 12 bs),
     hw_hints_max_rx_sgl_size = get_le16 (drop 14 bs),
     hw_hints_reserved = get_arr16 8 (drop 16 bs)\<rparr>"

definition wf_ena_admin_ena_hw_hints :: "ena_admin_ena_hw_hints \<Rightarrow> bool" where [ena_codec]:
  "wf_ena_admin_ena_hw_hints x \<longleftrightarrow> length (hw_hints_reserved x) = 8"

interpretation hw_hints: struct_layout enc_ena_admin_ena_hw_hints dec_ena_admin_ena_hw_hints 32 wf_ena_admin_ena_hw_hints
  by unfold_locales (auto simp: ena_codec ena_ints)

record ena_admin_feature_phc_desc =
  phc_desc_version :: u8
  phc_desc_reserved1 :: "byte list"
  phc_desc_doorbell_offset :: u32
  phc_desc_expire_timeout_usec :: u32
  phc_desc_block_timeout_usec :: u32
  phc_desc_output_address :: ena_common_mem_addr
  phc_desc_output_length :: u32

definition enc_ena_admin_feature_phc_desc :: "ena_admin_feature_phc_desc \<Rightarrow> byte list" where [ena_codec]:
  "enc_ena_admin_feature_phc_desc x =
     [phc_desc_version x] @
     phc_desc_reserved1 x @
     le32 (phc_desc_doorbell_offset x) @
     le32 (phc_desc_expire_timeout_usec x) @
     le32 (phc_desc_block_timeout_usec x) @
     enc_ena_common_mem_addr (phc_desc_output_address x) @
     le32 (phc_desc_output_length x)"

definition dec_ena_admin_feature_phc_desc :: "byte list \<Rightarrow> ena_admin_feature_phc_desc" where [ena_codec]:
  "dec_ena_admin_feature_phc_desc bs = \<lparr>
     phc_desc_version = get8 (bs),
     phc_desc_reserved1 = take 3 (drop 1 bs),
     phc_desc_doorbell_offset = get_le32 (drop 4 bs),
     phc_desc_expire_timeout_usec = get_le32 (drop 8 bs),
     phc_desc_block_timeout_usec = get_le32 (drop 12 bs),
     phc_desc_output_address = dec_ena_common_mem_addr (drop 16 bs),
     phc_desc_output_length = get_le32 (drop 24 bs)\<rparr>"

definition wf_ena_admin_feature_phc_desc :: "ena_admin_feature_phc_desc \<Rightarrow> bool" where [ena_codec]:
  "wf_ena_admin_feature_phc_desc x \<longleftrightarrow> length (phc_desc_reserved1 x) = 3"

interpretation phc_desc: struct_layout enc_ena_admin_feature_phc_desc dec_ena_admin_feature_phc_desc 28 wf_ena_admin_feature_phc_desc
  by unfold_locales (auto simp: ena_codec ena_ints)

text \<open>The feature commands and responses, their unions kept as raw words.\<close>

record ena_admin_get_feat_resp =
  get_feat_resp_acq_common_desc :: ena_admin_acq_common_desc
  get_feat_resp_raw :: "u32 list"

definition enc_ena_admin_get_feat_resp :: "ena_admin_get_feat_resp \<Rightarrow> byte list" where [ena_codec]:
  "enc_ena_admin_get_feat_resp x =
     enc_ena_admin_acq_common_desc (get_feat_resp_acq_common_desc x) @
     concat (map le32 (get_feat_resp_raw x))"

definition dec_ena_admin_get_feat_resp :: "byte list \<Rightarrow> ena_admin_get_feat_resp" where [ena_codec]:
  "dec_ena_admin_get_feat_resp bs = \<lparr>
     get_feat_resp_acq_common_desc = dec_ena_admin_acq_common_desc (bs),
     get_feat_resp_raw = get_arr32 14 (drop 8 bs)\<rparr>"

definition wf_ena_admin_get_feat_resp :: "ena_admin_get_feat_resp \<Rightarrow> bool" where [ena_codec]:
  "wf_ena_admin_get_feat_resp x \<longleftrightarrow> length (get_feat_resp_raw x) = 14"

interpretation get_feat_resp: struct_layout enc_ena_admin_get_feat_resp dec_ena_admin_get_feat_resp 64 wf_ena_admin_get_feat_resp
  by unfold_locales (auto simp: ena_codec ena_ints)

record ena_admin_set_feat_cmd =
  set_feat_cmd_aq_common_descriptor :: ena_admin_aq_common_desc
  set_feat_cmd_control_buffer :: ena_admin_ctrl_buff_info
  set_feat_cmd_feat_common :: ena_admin_get_set_feature_common_desc
  set_feat_cmd_raw :: "u32 list"

definition enc_ena_admin_set_feat_cmd :: "ena_admin_set_feat_cmd \<Rightarrow> byte list" where [ena_codec]:
  "enc_ena_admin_set_feat_cmd x =
     enc_ena_admin_aq_common_desc (set_feat_cmd_aq_common_descriptor x) @
     enc_ena_admin_ctrl_buff_info (set_feat_cmd_control_buffer x) @
     enc_ena_admin_get_set_feature_common_desc (set_feat_cmd_feat_common x) @
     concat (map le32 (set_feat_cmd_raw x))"

definition dec_ena_admin_set_feat_cmd :: "byte list \<Rightarrow> ena_admin_set_feat_cmd" where [ena_codec]:
  "dec_ena_admin_set_feat_cmd bs = \<lparr>
     set_feat_cmd_aq_common_descriptor = dec_ena_admin_aq_common_desc (bs),
     set_feat_cmd_control_buffer = dec_ena_admin_ctrl_buff_info (drop 4 bs),
     set_feat_cmd_feat_common = dec_ena_admin_get_set_feature_common_desc (drop 16 bs),
     set_feat_cmd_raw = get_arr32 11 (drop 20 bs)\<rparr>"

definition wf_ena_admin_set_feat_cmd :: "ena_admin_set_feat_cmd \<Rightarrow> bool" where [ena_codec]:
  "wf_ena_admin_set_feat_cmd x \<longleftrightarrow> length (set_feat_cmd_raw x) = 11"

interpretation set_feat_cmd: struct_layout enc_ena_admin_set_feat_cmd dec_ena_admin_set_feat_cmd 64 wf_ena_admin_set_feat_cmd
  by unfold_locales (auto simp: ena_codec ena_ints)

record ena_admin_set_feat_resp =
  set_feat_resp_acq_common_desc :: ena_admin_acq_common_desc
  set_feat_resp_raw :: "u32 list"

definition enc_ena_admin_set_feat_resp :: "ena_admin_set_feat_resp \<Rightarrow> byte list" where [ena_codec]:
  "enc_ena_admin_set_feat_resp x =
     enc_ena_admin_acq_common_desc (set_feat_resp_acq_common_desc x) @
     concat (map le32 (set_feat_resp_raw x))"

definition dec_ena_admin_set_feat_resp :: "byte list \<Rightarrow> ena_admin_set_feat_resp" where [ena_codec]:
  "dec_ena_admin_set_feat_resp bs = \<lparr>
     set_feat_resp_acq_common_desc = dec_ena_admin_acq_common_desc (bs),
     set_feat_resp_raw = get_arr32 14 (drop 8 bs)\<rparr>"

definition wf_ena_admin_set_feat_resp :: "ena_admin_set_feat_resp \<Rightarrow> bool" where [ena_codec]:
  "wf_ena_admin_set_feat_resp x \<longleftrightarrow> length (set_feat_resp_raw x) = 14"

interpretation set_feat_resp: struct_layout enc_ena_admin_set_feat_resp dec_ena_admin_set_feat_resp 64 wf_ena_admin_set_feat_resp
  by unfold_locales (auto simp: ena_codec ena_ints)

section \<open>Events, PHC and extended transmit completions\<close>

record ena_admin_aenq_conf_notifications_desc =
  conf_notifications_aenq_common_desc :: ena_admin_aenq_common_desc
  conf_notifications_notifications_bitmap :: u64
  conf_notifications_reserved :: u64

definition enc_ena_admin_aenq_conf_notifications_desc :: "ena_admin_aenq_conf_notifications_desc \<Rightarrow> byte list" where [ena_codec]:
  "enc_ena_admin_aenq_conf_notifications_desc x =
     enc_ena_admin_aenq_common_desc (conf_notifications_aenq_common_desc x) @
     le64 (conf_notifications_notifications_bitmap x) @
     le64 (conf_notifications_reserved x)"

definition dec_ena_admin_aenq_conf_notifications_desc :: "byte list \<Rightarrow> ena_admin_aenq_conf_notifications_desc" where [ena_codec]:
  "dec_ena_admin_aenq_conf_notifications_desc bs = \<lparr>
     conf_notifications_aenq_common_desc = dec_ena_admin_aenq_common_desc (bs),
     conf_notifications_notifications_bitmap = get_le64 (drop 16 bs),
     conf_notifications_reserved = get_le64 (drop 24 bs)\<rparr>"

definition wf_ena_admin_aenq_conf_notifications_desc :: "ena_admin_aenq_conf_notifications_desc \<Rightarrow> bool" where [ena_codec]:
  "wf_ena_admin_aenq_conf_notifications_desc x \<longleftrightarrow> wf_ena_admin_aenq_common_desc (conf_notifications_aenq_common_desc x)"

interpretation conf_notifications: struct_layout enc_ena_admin_aenq_conf_notifications_desc dec_ena_admin_aenq_conf_notifications_desc 32 wf_ena_admin_aenq_conf_notifications_desc
  by unfold_locales (auto simp: ena_codec ena_ints)

record ena_admin_phc_resp =
  phc_resp_req_id :: u16
  phc_resp_reserved1 :: "byte list"
  phc_resp_timestamp :: u64
  phc_resp_reserved2 :: "byte list"
  phc_resp_error_bound :: u32
  phc_resp_error_flags :: u32
  phc_resp_reserved3 :: "byte list"

definition enc_ena_admin_phc_resp :: "ena_admin_phc_resp \<Rightarrow> byte list" where [ena_codec]:
  "enc_ena_admin_phc_resp x =
     le16 (phc_resp_req_id x) @
     phc_resp_reserved1 x @
     le64 (phc_resp_timestamp x) @
     phc_resp_reserved2 x @
     le32 (phc_resp_error_bound x) @
     le32 (phc_resp_error_flags x) @
     phc_resp_reserved3 x"

definition dec_ena_admin_phc_resp :: "byte list \<Rightarrow> ena_admin_phc_resp" where [ena_codec]:
  "dec_ena_admin_phc_resp bs = \<lparr>
     phc_resp_req_id = get_le16 (bs),
     phc_resp_reserved1 = take 6 (drop 2 bs),
     phc_resp_timestamp = get_le64 (drop 8 bs),
     phc_resp_reserved2 = take 8 (drop 16 bs),
     phc_resp_error_bound = get_le32 (drop 24 bs),
     phc_resp_error_flags = get_le32 (drop 28 bs),
     phc_resp_reserved3 = take 32 (drop 32 bs)\<rparr>"

definition wf_ena_admin_phc_resp :: "ena_admin_phc_resp \<Rightarrow> bool" where [ena_codec]:
  "wf_ena_admin_phc_resp x \<longleftrightarrow> length (phc_resp_reserved1 x) = 6 \<and>
     length (phc_resp_reserved2 x) = 8 \<and>
     length (phc_resp_reserved3 x) = 32"

interpretation phc_resp: struct_layout enc_ena_admin_phc_resp dec_ena_admin_phc_resp 64 wf_ena_admin_phc_resp
  by unfold_locales (auto simp: ena_codec ena_ints)

record ena_eth_io_tx_cdesc_ext =
  tx_cdesc_ext_base :: ena_eth_io_tx_cdesc
  tx_cdesc_ext_timestamp_low :: u32
  tx_cdesc_ext_timestamp_high :: u32

definition enc_ena_eth_io_tx_cdesc_ext :: "ena_eth_io_tx_cdesc_ext \<Rightarrow> byte list" where [ena_codec]:
  "enc_ena_eth_io_tx_cdesc_ext x =
     enc_ena_eth_io_tx_cdesc (tx_cdesc_ext_base x) @
     le32 (tx_cdesc_ext_timestamp_low x) @
     le32 (tx_cdesc_ext_timestamp_high x)"

definition dec_ena_eth_io_tx_cdesc_ext :: "byte list \<Rightarrow> ena_eth_io_tx_cdesc_ext" where [ena_codec]:
  "dec_ena_eth_io_tx_cdesc_ext bs = \<lparr>
     tx_cdesc_ext_base = dec_ena_eth_io_tx_cdesc (bs),
     tx_cdesc_ext_timestamp_low = get_le32 (drop 8 bs),
     tx_cdesc_ext_timestamp_high = get_le32 (drop 12 bs)\<rparr>"

interpretation tx_cdesc_ext: struct_layout enc_ena_eth_io_tx_cdesc_ext dec_ena_eth_io_tx_cdesc_ext 16 "\<lambda>_. True"
  by unfold_locales (simp_all add: ena_codec ena_ints)

section \<open>Overlays\<close>

text \<open>
  The handlers get the generic entries and read them through the structure of their command: the
  header is the same in all of them, and GET\_FEATURE and SET\_FEATURE commands agree in every word.
\<close>

lemma overlay_header:
  "aq_entry_aq_common_descriptor (dec_ena_admin_aq_entry bs) = dec_ena_admin_aq_common_desc bs"
  "create_sq_cmd_aq_common_descriptor (dec_ena_admin_aq_create_sq_cmd bs) = dec_ena_admin_aq_common_desc bs"
  "destroy_sq_cmd_aq_common_descriptor (dec_ena_admin_aq_destroy_sq_cmd bs) = dec_ena_admin_aq_common_desc bs"
  "create_cq_cmd_aq_common_descriptor (dec_ena_admin_aq_create_cq_cmd bs) = dec_ena_admin_aq_common_desc bs"
  "destroy_cq_cmd_aq_common_descriptor (dec_ena_admin_aq_destroy_cq_cmd bs) = dec_ena_admin_aq_common_desc bs"
  "get_stats_cmd_aq_common_descriptor (dec_ena_admin_aq_get_stats_cmd bs) = dec_ena_admin_aq_common_desc bs"
  "feat_cmd_aq_common_descriptor (dec_ena_admin_get_feat_cmd bs) = dec_ena_admin_aq_common_desc bs"
  "set_feat_cmd_aq_common_descriptor (dec_ena_admin_set_feat_cmd bs) = dec_ena_admin_aq_common_desc bs"
  by (simp_all add: dec_ena_admin_aq_entry_def dec_ena_admin_aq_create_sq_cmd_def dec_ena_admin_aq_destroy_sq_cmd_def
      dec_ena_admin_aq_create_cq_cmd_def dec_ena_admin_aq_destroy_cq_cmd_def dec_ena_admin_aq_get_stats_cmd_def
      dec_ena_admin_get_feat_cmd_def dec_ena_admin_set_feat_cmd_def)

lemma overlay_set_get:
  "set_feat_cmd_control_buffer (dec_ena_admin_set_feat_cmd bs) = feat_cmd_control_buffer (dec_ena_admin_get_feat_cmd bs)"
  "set_feat_cmd_feat_common (dec_ena_admin_set_feat_cmd bs) = feat_cmd_feat_common (dec_ena_admin_get_feat_cmd bs)"
  "set_feat_cmd_raw (dec_ena_admin_set_feat_cmd bs) = feat_cmd_raw (dec_ena_admin_get_feat_cmd bs)"
  by (simp_all add: dec_ena_admin_set_feat_cmd_def dec_ena_admin_get_feat_cmd_def)

text \<open>Every response starts with the common completion descriptor and fills one 64-byte entry.\<close>

lemma overlay_response:
  "acq_entry_acq_common_descriptor (dec_ena_admin_acq_entry bs) = dec_ena_admin_acq_common_desc bs"
  "get_feat_resp_acq_common_desc (dec_ena_admin_get_feat_resp bs) = dec_ena_admin_acq_common_desc bs"
  "set_feat_resp_acq_common_desc (dec_ena_admin_set_feat_resp bs) = dec_ena_admin_acq_common_desc bs"
  "get_stats_resp_acq_common_desc (dec_ena_admin_acq_get_stats_resp bs) = dec_ena_admin_acq_common_desc bs"
  "create_sq_resp_acq_common_desc (dec_ena_admin_acq_create_sq_resp_desc bs) = dec_ena_admin_acq_common_desc bs"
  "create_cq_resp_acq_common_desc (dec_ena_admin_acq_create_cq_resp_desc bs) = dec_ena_admin_acq_common_desc bs"
  by (simp_all add: dec_ena_admin_acq_entry_def dec_ena_admin_get_feat_resp_def dec_ena_admin_set_feat_resp_def
      dec_ena_admin_acq_get_stats_resp_def dec_ena_admin_acq_create_sq_resp_desc_def
      dec_ena_admin_acq_create_cq_resp_desc_def)

lemma entry_sizes:
  "wf_ena_admin_aq_entry a \<Longrightarrow> length (enc_ena_admin_aq_entry a) = 64"
  "wf_ena_admin_acq_entry b \<Longrightarrow> length (enc_ena_admin_acq_entry b) = 64"
  "wf_ena_admin_get_feat_resp c \<Longrightarrow> length (enc_ena_admin_get_feat_resp c) = 64"
  "wf_ena_admin_set_feat_cmd d \<Longrightarrow> length (enc_ena_admin_set_feat_cmd d) = 64"
  "wf_ena_admin_acq_get_stats_resp e \<Longrightarrow> length (enc_ena_admin_acq_get_stats_resp e) = 64"
  by (simp_all only: aq_entry.enc_size acq_entry.enc_size get_feat_resp.enc_size set_feat_cmd.enc_size
      get_stats_resp.enc_size)

end
