(* ===== verification/Spec2Isabelle.thy ===== *)
theory Spec2Isabelle
  imports Ena_Spec Ena_Qdev Ena_Boot Ena_Lifecycle Ena_Rx_Ring Ena_Abi_Ext
begin

text \<open>
  A verification development for the QEMU model of the Amazon Elastic Network Adapter
  (\<open>src/hw\<close>): a shallow embedding of the whole device, with its theorems.

  \<^bold>\<open>The program.\<close> A driver in the guest talks to the device through a register file
  and doorbells in BAR0 (\<open>ena.c\<close>), an admin queue with its completion ring (\<open>ena_admin.c\<close>), transmit
  and receive submission queues (\<open>ena_tx.c\<close>, \<open>ena_rx.c\<close>) that share completion queues, MSI-X vectors
  with one-shot unmasking and moderation timers, and a ring of asynchronous events. The admin queue
  creates the submission and completion queues; doorbells start the datapath; the datapath pushes
  completions and raises interrupts. The formats are those of \<open>ena_defs/*.h\<close>.

  \<^bold>\<open>State and effects.\<close> \<open>EnaState\<close> (theory \<open>Ena_State\<close>) is the C structure as a record. QEMU is
  not part of the repository: each call into it is an \<open>effect\<close> appended to \<open>trace\<close>, and its answers are
  functions of the calls so far, in the parameter record \<open>qemu\<close>. Guest memory may thus change between
  two reads. What is relied on is named: \<open>pow2_ok\<close> (\<open>is_power_of_2\<close>), \<open>iov_ok\<close> (\<open>iov_size\<close>,
  \<open>iov_to_buf\<close>), \<open>l2_ok\<close> (an Ethernet header has at least 14 bytes); \<open>env_ok\<close> is their conjunction, and
  \<open>quiet_qemu\<close> an instance that satisfies it. \<open>ena_unsupported\<close>, a failed assertion, an access out of
  bounds and a loop without end are the values of \<open>abort\<close>, so that their absence can be stated.

  \<^bold>\<open>Theories.\<close>
  \<^item> \<open>Ena_Prelude\<close>, \<open>Ena_Bits\<close>: bytes, words, results; the locales \<open>struct_layout\<close> (a structure and its
    little-endian image), \<open>phase_ring\<close> (a ring with a phase bit), \<open>bitfield\<close> and \<open>disjoint_bitfields\<close>.
  \<^item> \<open>Ena_Eth_Io\<close>, \<open>Ena_Admin_Defs\<close>, \<open>Ena_Regs_Defs\<close>: structures, masks and accessors of
    \<open>ena_eth_io_defs.h\<close>, \<open>ena_admin_defs.h\<close>, \<open>ena_common_defs.h\<close>, \<open>ena_regs_defs.h\<close> and the limits of \<open>ena.h\<close>;
    every structure is a \<open>struct_layout\<close>, every accessor pair a \<open>bitfield\<close>. \<open>Ena_Abi_Ext\<close> adds the
    generic ring entries, with lemmas that the commands overlay them, and the structures of the features
    the device refuses.
  \<^item> \<open>Ena_State\<close>, \<open>Ena_Frame\<close>: the state, and what operations leave alone.
  \<^item> \<open>Ena_Cq\<close>: \<open>ena_cq_push\<close>; a completion queue is a \<open>phase_ring\<close>, and the ring the driver polls holds
    the pushed entries.
  \<^item> \<open>Ena_Irq\<close>: \<open>ena_irq_fire\<close> to \<open>ena_cq_unmask_write\<close>; no completion interrupt is lost, an owed one is
    delivered by the next unmask, and only an unmask write raises what a vector may still send.
  \<^item> \<open>Ena_Aenq\<close>: \<open>ena_aenq_post\<close>, link changes, keep-alive; an event is delivered exactly within the
    driver's credit, and the ring stays in step with its phase. \<open>Ena_Reset\<close>: \<open>ena_dev_reset\<close>, the reset
    handshake and readless register reads.
  \<^item> \<open>Ena_Inv\<close>: the invariant \<open>dev_inv\<close> of the state between two callbacks.
  \<^item> \<open>Ena_Admin_Queues\<close>, \<open>Ena_Admin_Features\<close>, \<open>Ena_Admin\<close>: the handlers of \<open>ena_admin.c\<close>, each an
    interpretation of the locale \<open>admin_handler\<close> (the invariant is kept, only documented requests abort),
    and the loop of \<open>ena_admin_process\<close>, which answers every command with one completion.
  \<^item> \<open>Ena_Datapath\<close>: the locale \<open>device_op\<close> for what the datapath guarantees from every state of the
    invariant; \<open>Ena_Rx\<close> and \<open>Ena_Tx\<close> model \<open>ena_rx.c\<close> and \<open>ena_tx.c\<close>, interpret it, and show what the
    driver and the network get: delivery piece by piece, steering, flow control; draining of the
    queue, a parser that accepts exactly the well-formed packets, confinement, frames that are the header
    and the buffers byte by byte, completions.
    \<open>Ena_Rx_Ring\<close> compares \<open>ena_rx_collect\<close> with a plain reading of the ring.
  \<^item> \<open>Ena_Device\<close>: BAR0 decoding, the callbacks, and the step relation \<open>dev_step\<close> over the events
    (register accesses, frames, link changes, timer expiries, resets). The reachable states satisfy
    \<open>device_inv\<close>, and no event aborts the device in them but a request declared unsupported.
  \<^item> \<open>Ena_Calls\<close>: the calls of a whole run. They are well-formed, and the notifications of the IO
    vectors are bounded by the driver's unmask writes, by a potential that no other event raises. A
    moderated interrupt arrives when its timer expires.
  \<^item> \<open>Ena_Boot\<close>: the register writes of a driver that brings the device up, from any state: reset, the
    three admin rings, and the first commands answered.
  \<^item> \<open>Ena_Spec\<close>: an abstract specification of the queue tables as a deterministic machine of requests and
    answers, the locale \<open>observed_refinement\<close>, and its interpretation: the commands the device reads from
    the admin ring and the completions it writes are requests and answers of the machine, a reset clears
    it, and no other event changes it.
  \<^item> \<open>Ena_Lifecycle\<close>: a submission queue from \<open>CREATE_SQ\<close> over its doorbell to \<open>DESTROY_SQ\<close>.
  \<^item> \<open>Ena_Qdev\<close>: the calls of \<open>ena_realize\<close> and \<open>ena_exit\<close>, the registered callbacks and class, the BAR
    layout; the resources acquired are released exactly once.

  \<^bold>\<open>Loops and bounds.\<close> The loops of the sources are total functions: over the frame length
  (\<open>ena_rx_collect\<close>), over the slots of a packet (\<open>tx_parse_loop\<close>), over the distance to the doorbell
  (\<open>admin_loop\<close>). The doorbell loop of a transmit queue, \<open>tx_loop\<close>, has fuel, the number of posted
  entries; it is enough because each round consumes at least one, and running out would be the abort
  \<open>Diverges\<close>, which is shown not to happen. Machine integers are words of their C width; lengths and
  indices that are \<open>size_t\<close>, \<open>int\<close> or \<open>unsigned\<close> in the sources and stay far below their range are
  natural numbers. \<open>ena_tx_frame_protos\<close> and \<open>ena_tx_ip4_csum\<close> access the IP headers at their standard
  offsets.

  \<^bold>\<open>Not modelled.\<close> Logging; what QEMU does behind its calls (memory regions, MSI-X, packet parsing,
  hashing and segmentation), which are parameters or recorded calls; a guest address for DMA or MSI-X
  that points into the BARs of the device itself, which would call it back in the middle of an event; the QOM type registration; the
  prototypes of \<open>ena.h\<close>; the tests under \<open>src/tests\<close>, which are drivers of the device.
\<close>

end
